(* ===== verification/Craxii_Prelude.thy ===== *)
theory Craxii_Prelude
  imports Main "HOL-Library.Word"
begin

text \<open>
  The vocabulary every component theory shares.

  \<^item> A Rust \<open>Result<T, E>\<close> is the sum \<open>'e + 'a\<close> with \<open>Inl\<close> for \<open>Err\<close>; the question-mark
    operator is \<open>and_then\<close>, an early return guarded by a condition is \<open>ensure\<close>.
  \<^item> A run of a fallible step function over a list of requests is \<open>fold_result\<close>: it stops at the
    first error, as the caller does.
  \<^item> The locales \<open>guarded_machine\<close>, \<open>invariant_machine\<close>, \<open>ranked_machine\<close> and
    \<open>versioned_machine\<close> state what a lifecycle state machine promises its callers; each lifecycle
    theory interprets them on its own decision function and so gets the facts about whole runs.
  \<^item> The locale \<open>stable_enum\<close> states the contract of the macros that generate the enums with a
    frozen string literal per variant.
\<close>

named_theorems result_simps
named_theorems phase_simps

section \<open>Results\<close>

type_synonym ('a, 'e) result = "'e + 'a"

definition and_then :: "'e + 'a \<Rightarrow> ('a \<Rightarrow> 'e + 'b) \<Rightarrow> 'e + 'b" where
  "and_then m f = (case m of Inl e \<Rightarrow> Inl e | Inr x \<Rightarrow> f x)"

definition map_ok :: "('a \<Rightarrow> 'b) \<Rightarrow> 'e + 'a \<Rightarrow> 'e + 'b" where
  "map_ok f m = (case m of Inl e \<Rightarrow> Inl e | Inr x \<Rightarrow> Inr (f x))"

definition map_err :: "('e \<Rightarrow> 'f) \<Rightarrow> 'e + 'a \<Rightarrow> 'f + 'a" where
  "map_err f m = (case m of Inl e \<Rightarrow> Inl (f e) | Inr x \<Rightarrow> Inr x)"

definition ensure :: "bool \<Rightarrow> 'e \<Rightarrow> 'e + unit" where
  "ensure b e = (if b then Inr () else Inl e)"

definition ok_or :: "'a option \<Rightarrow> 'e \<Rightarrow> 'e + 'a" where
  "ok_or m e = (case m of None \<Rightarrow> Inl e | Some x \<Rightarrow> Inr x)"

lemma and_then_simps [simp, result_simps]:
  "and_then (Inl e) f = Inl e"
  "and_then (Inr x) f = f x"
  by (simp_all add: and_then_def)

lemma map_ok_simps [simp, result_simps]:
  "map_ok g (Inl e) = Inl e"
  "map_ok g (Inr x) = Inr (g x)"
  by (simp_all add: map_ok_def)

lemma map_err_simps [simp, result_simps]:
  "map_err h (Inl e) = Inl (h e)"
  "map_err h (Inr x) = Inr x"
  by (simp_all add: map_err_def)

lemma ok_or_simps [simp, result_simps]:
  "ok_or None e = Inl e"
  "ok_or (Some x) e = Inr x"
  by (simp_all add: ok_or_def)

lemma ensure_simps [simp, result_simps]:
  "ensure True e = Inr ()"
  "ensure False e = Inl e"
  by (simp_all add: ensure_def)

lemma and_then_Inr_iff:
  "and_then m f = Inr y \<longleftrightarrow> (\<exists>x. m = Inr x \<and> f x = Inr y)"
  by (cases m) auto

lemma and_then_Inl_iff:
  "and_then m f = Inl e \<longleftrightarrow> m = Inl e \<or> (\<exists>x. m = Inr x \<and> f x = Inl e)"
  by (cases m) auto

lemma map_ok_Inr_iff: "map_ok f m = Inr y \<longleftrightarrow> (\<exists>x. m = Inr x \<and> y = f x)"
  by (cases m) auto

lemma map_ok_Inl_iff: "map_ok f m = Inl e \<longleftrightarrow> m = Inl e"
  by (cases m) auto

lemma map_err_Inr_iff: "map_err f m = Inr y \<longleftrightarrow> m = Inr y"
  by (cases m) auto

lemma ensure_Inr_iff: "ensure b e = Inr u \<longleftrightarrow> b"
  by (simp add: ensure_def)

lemma ensure_Inl_iff: "ensure b e = Inl e' \<longleftrightarrow> \<not> b \<and> e' = e"
  by (auto simp: ensure_def)

lemma ok_or_Inr_iff: "ok_or m e = Inr x \<longleftrightarrow> m = Some x"
  by (cases m) auto

lemmas result_iffs =
  and_then_Inr_iff and_then_Inl_iff map_ok_Inr_iff map_ok_Inl_iff map_err_Inr_iff
  ensure_Inr_iff ensure_Inl_iff ok_or_Inr_iff

section \<open>Runs of a fallible step function\<close>

primrec fold_result :: "('s \<Rightarrow> 'r \<Rightarrow> 'e + 's) \<Rightarrow> 's \<Rightarrow> 'r list \<Rightarrow> 'e + 's" where
  "fold_result step s [] = Inr s"
| "fold_result step s (r # rs) = and_then (step s r) (\<lambda>s'. fold_result step s' rs)"

lemma fold_result_append:
  "fold_result step s (rs @ rs') =
     and_then (fold_result step s rs) (\<lambda>s'. fold_result step s' rs')"
proof (induction rs arbitrary: s)
  case Nil
  then show ?case by simp
next
  case (Cons r rs)
  then show ?case by (cases "step s r") simp_all
qed

lemma fold_result_invariant:
  assumes "\<And>s r s'. P s \<Longrightarrow> step s r = Inr s' \<Longrightarrow> P s'"
    and "fold_result step s rs = Inr s'" and "P s"
  shows "P s'"
  using assms(2,3)
proof (induction rs arbitrary: s)
  case Nil
  then show ?case by simp
next
  case (Cons r rs)
  then obtain m where "step s r = Inr m" and "fold_result step m rs = Inr s'"
    by (auto simp: and_then_Inr_iff)
  with Cons show ?case using assms(1) by blast
qed

section \<open>Lifecycle state machines\<close>

text \<open>
  A guarded machine answers each request with an error or the next state; it only ever takes pairs
  of phases that its transition matrix lists, and the matrix lists no pair that leaves a terminal
  phase.
\<close>

locale guarded_machine =
  fixes step :: "'s \<Rightarrow> 'r \<Rightarrow> 'e + 's"
    and phase :: "'s \<Rightarrow> 'p"
    and legal :: "'p \<Rightarrow> 'p \<Rightarrow> bool"
    and terminal :: "'p \<Rightarrow> bool"
  assumes step_legal: "step s r = Inr s' \<Longrightarrow> legal (phase s) (phase s')"
    and terminal_stuck: "terminal p \<Longrightarrow> \<not> legal p q"
begin

lemma terminal_rejects: "terminal (phase s) \<Longrightarrow> \<exists>e. step s r = Inl e"
  using step_legal terminal_stuck by (cases "step s r") blast+

lemma run_from_terminal:
  assumes "terminal (phase s)" and "fold_result step s rs = Inr s'"
  shows "rs = [] \<and> s' = s"
proof (cases rs)
  case Nil
  with assms(2) show ?thesis by simp
next
  case (Cons r rs')
  from terminal_rejects [OF assms(1)] obtain e where "step s r = Inl e" by blast
  with Cons assms(2) show ?thesis by simp
qed

lemma run_follows_matrix:
  "fold_result step s rs = Inr s' \<Longrightarrow> legal\<^sup>*\<^sup>* (phase s) (phase s')"
  by (rule fold_result_invariant [where P = "\<lambda>t. legal\<^sup>*\<^sup>* (phase s) (phase t)"])
    (auto intro: rtranclp.rtrancl_into_rtrancl dest: step_legal)

lemma run_nonterminal_before_last:
  assumes "fold_result step s (rs @ r # rs') = Inr s'"
  shows "\<exists>m. fold_result step s rs = Inr m \<and> \<not> terminal (phase m)"
proof -
  from assms obtain m where m: "fold_result step s rs = Inr m"
    and rest: "fold_result step m (r # rs') = Inr s'"
    by (auto simp: fold_result_append and_then_Inr_iff)
  then show ?thesis using run_from_terminal [of m] by blast
qed

end

locale invariant_machine = guarded_machine step phase legal terminal
  for step :: "'s \<Rightarrow> 'r \<Rightarrow> 'e + 's" and phase :: "'s \<Rightarrow> 'p" and legal and terminal +
  fixes wf :: "'s \<Rightarrow> bool"
  assumes step_wf: "wf s \<Longrightarrow> step s r = Inr s' \<Longrightarrow> wf s'"
begin

lemma run_wf: "wf s \<Longrightarrow> fold_result step s rs = Inr s' \<Longrightarrow> wf s'"
  by (rule fold_result_invariant [where P = wf]) (auto intro: step_wf)

end

locale ranked_machine = guarded_machine step phase legal terminal
  for step :: "'s \<Rightarrow> 'r \<Rightarrow> 'e + 's" and phase :: "'s \<Rightarrow> 'p" and legal and terminal +
  fixes rank :: "'p \<Rightarrow> nat"
  assumes legal_rank: "legal p q \<Longrightarrow> rank q < rank p"
begin

lemma run_length_bounded:
  "fold_result step s rs = Inr s' \<Longrightarrow> length rs + rank (phase s') \<le> rank (phase s)"
proof (induction rs arbitrary: s)
  case Nil
  then show ?case by simp
next
  case (Cons r rs)
  then obtain m where m: "step s r = Inr m" and "fold_result step m rs = Inr s'"
    by (auto simp: and_then_Inr_iff)
  then have "length rs + rank (phase s') \<le> rank (phase m)"
    using Cons.IH by blast
  with legal_rank [OF step_legal [OF m]] show ?case by simp
qed

end

locale versioned_machine = guarded_machine step phase legal terminal
  for step :: "'s \<Rightarrow> 'r \<Rightarrow> 'e + 's" and phase :: "'s \<Rightarrow> 'p" and legal and terminal +
  fixes version :: "'s \<Rightarrow> int"
  assumes step_version: "step s r = Inr s' \<Longrightarrow> version s' = version s + 1"
begin

lemma run_version:
  "fold_result step s rs = Inr s' \<Longrightarrow> version s' = version s + int (length rs)"
proof (induction rs arbitrary: s)
  case Nil
  then show ?case by simp
next
  case (Cons r rs)
  then obtain m where "step s r = Inr m" and "fold_result step m rs = Inr s'"
    by (auto simp: and_then_Inr_iff)
  then show ?case using Cons.IH [of m] step_version [of s r m] by simp
qed

end

section \<open>Enums with frozen literals\<close>

text \<open>
  The macros \<open>stable_string_enum\<close> (domain/error.rs) and \<open>stable_lifecycle_enum\<close>
  (domain/lifecycle.rs) generate, for an enum and one literal per variant, \<open>as_str\<close>, a
  serializer and a deserializer whose visitor compares the input with the literals in declaration
  order. \<open>visit_str\<close> is that visitor.
\<close>

definition visit_str :: "('v \<Rightarrow> string) \<Rightarrow> 'v list \<Rightarrow> string \<Rightarrow> 'v option" where
  "visit_str as_str all_variants value = find (\<lambda>v. as_str v = value) all_variants"

locale stable_enum =
  fixes as_str :: "'v \<Rightarrow> string"
    and all_variants :: "'v list"
  assumes all_listed: "v \<in> set all_variants"
    and literals_distinct: "distinct (map as_str all_variants)"
begin

lemma visit_as_str: "visit_str as_str all_variants (as_str v) = Some v"
proof -
  have inj: "inj_on as_str (set all_variants)"
    using literals_distinct by (simp add: distinct_map)
  obtain i where i: "find (\<lambda>w. as_str w = as_str v) all_variants = Some i"
    using all_listed [of v] by (cases "find (\<lambda>w. as_str w = as_str v) all_variants")
      (auto simp: find_None_iff)
  then have "as_str i = as_str v" by (auto simp: find_Some_iff)
  with inj all_listed have "i = v" by (simp add: inj_on_def)
  with i show ?thesis by (simp add: visit_str_def)
qed

lemma as_str_visit: "visit_str as_str all_variants s = Some v \<Longrightarrow> as_str v = s"
  by (auto simp: visit_str_def find_Some_iff)

lemma visit_iff: "visit_str as_str all_variants s = Some v \<longleftrightarrow> s = as_str v"
  using visit_as_str as_str_visit by auto

end

end
