(* ===== verification/Domain_Error.thy ===== *)
theory Domain_Error
  imports Craxii_Prelude
begin

text \<open>
  The normalized error model of domain/error.rs: the closed enums with frozen literals, the
  allowlisted error codes and safe messages, the structured source status, the local validation
  failures and every constructor of \<open>NormalizedError\<close>. The lemmas show that the literals are
  distinct and round-trip through the deserializer, that only the constructors whose caller chooses
  the certainty can report an unknown outcome, and that the constructors keep category, code and
  message consistent.
\<close>

section \<open>Frozen enums\<close>

datatype ErrorCategory =
    AuthenticationError
  | ClientProtocolError
  | IdempotencyError
  | StorageError
  | StateConflict
  | ContextError
  | ModelSelectionError
  | ProviderError
  | ToolValidationError
  | AuthorityError
  | WorkstationError
  | ArtifactError
  | CancellationError
  | InternalInvariantError

fun error_category_str :: "ErrorCategory \<Rightarrow> string" where
  "error_category_str ErrorCategory.AuthenticationError = ''authentication_error''"
| "error_category_str ErrorCategory.ClientProtocolError = ''client_protocol_error''"
| "error_category_str ErrorCategory.IdempotencyError = ''idempotency_error''"
| "error_category_str ErrorCategory.StorageError = ''storage_error''"
| "error_category_str ErrorCategory.StateConflict = ''state_conflict''"
| "error_category_str ErrorCategory.ContextError = ''context_error''"
| "error_category_str ErrorCategory.ModelSelectionError = ''model_selection_error''"
| "error_category_str ErrorCategory.ProviderError = ''provider_error''"
| "error_category_str ErrorCategory.ToolValidationError = ''tool_validation_error''"
| "error_category_str ErrorCategory.AuthorityError = ''authority_error''"
| "error_category_str ErrorCategory.WorkstationError = ''workstation_error''"
| "error_category_str ErrorCategory.ArtifactError = ''artifact_error''"
| "error_category_str ErrorCategory.CancellationError = ''cancellation_error''"
| "error_category_str ErrorCategory.InternalInvariantError = ''internal_invariant_error''"

definition all_error_categories :: "ErrorCategory list" where
  "all_error_categories =
    [ErrorCategory.AuthenticationError, ErrorCategory.ClientProtocolError,
     ErrorCategory.IdempotencyError, ErrorCategory.StorageError, ErrorCategory.StateConflict,
     ErrorCategory.ContextError, ErrorCategory.ModelSelectionError,
     ErrorCategory.ProviderError, ErrorCategory.ToolValidationError,
     ErrorCategory.AuthorityError, ErrorCategory.WorkstationError, ErrorCategory.ArtifactError,
     ErrorCategory.CancellationError, ErrorCategory.InternalInvariantError]"

datatype Retryability =
    Never
  | Bounded
  | UserAction
  | OperatorAction

fun retryability_str :: "Retryability \<Rightarrow> string" where
  "retryability_str Retryability.Never = ''never''"
| "retryability_str Retryability.Bounded = ''bounded''"
| "retryability_str Retryability.UserAction = ''user_action''"
| "retryability_str Retryability.OperatorAction = ''operator_action''"

definition all_retryabilities :: "Retryability list" where
  "all_retryabilities =
    [Retryability.Never, Retryability.Bounded, Retryability.UserAction,
     Retryability.OperatorAction]"

datatype Certainty =
    Definite
  | OutcomeUnknown

fun certainty_str :: "Certainty \<Rightarrow> string" where
  "certainty_str Certainty.Definite = ''definite''"
| "certainty_str Certainty.OutcomeUnknown = ''outcome_unknown''"

definition all_certainties :: "Certainty list" where
  "all_certainties =
    [Certainty.Definite, Certainty.OutcomeUnknown]"

interpretation error_category: stable_enum error_category_str all_error_categories
proof unfold_locales
  fix v :: ErrorCategory
  show "v \<in> set all_error_categories" by (cases v) (simp_all add: all_error_categories_def)
qed (unfold all_error_categories_def, code_simp)

interpretation retryability: stable_enum retryability_str all_retryabilities
proof unfold_locales
  fix v :: Retryability
  show "v \<in> set all_retryabilities" by (cases v) (simp_all add: all_retryabilities_def)
qed (unfold all_retryabilities_def, code_simp)

interpretation certainty: stable_enum certainty_str all_certainties
proof unfold_locales
  fix v :: Certainty
  show "v \<in> set all_certainties" by (cases v) (simp_all add: all_certainties_def)
qed (unfold all_certainties_def, code_simp)

section \<open>Error codes, safe messages and source status\<close>

datatype ErrorCode = ErrorCode string

fun error_code_str :: "ErrorCode \<Rightarrow> string" where
  "error_code_str (ErrorCode s) = s"

abbreviation DOMAIN_VALIDATION :: ErrorCode where
  "DOMAIN_VALIDATION \<equiv> ErrorCode ''domain_validation''"

abbreviation AUTHENTICATION_ERROR :: ErrorCode where
  "AUTHENTICATION_ERROR \<equiv> ErrorCode ''authentication_error''"

abbreviation CLIENT_PROTOCOL_ERROR :: ErrorCode where
  "CLIENT_PROTOCOL_ERROR \<equiv> ErrorCode ''client_protocol_error''"

abbreviation IDEMPOTENCY_ERROR :: ErrorCode where
  "IDEMPOTENCY_ERROR \<equiv> ErrorCode ''idempotency_error''"

abbreviation STORAGE_ERROR :: ErrorCode where
  "STORAGE_ERROR \<equiv> ErrorCode ''storage_error''"

abbreviation STATE_CONFLICT :: ErrorCode where
  "STATE_CONFLICT \<equiv> ErrorCode ''state_conflict''"

abbreviation CONTEXT_ERROR :: ErrorCode where
  "CONTEXT_ERROR \<equiv> ErrorCode ''context_error''"

abbreviation CONTEXT_LIMIT_EXCEEDED :: ErrorCode where
  "CONTEXT_LIMIT_EXCEEDED \<equiv> ErrorCode ''context_limit_exceeded''"

abbreviation MODEL_SELECTION_ERROR :: ErrorCode where
  "MODEL_SELECTION_ERROR \<equiv> ErrorCode ''model_selection_error''"

abbreviation PROVIDER_ERROR :: ErrorCode where
  "PROVIDER_ERROR \<equiv> ErrorCode ''provider_error''"

abbreviation TOOL_VALIDATION_ERROR :: ErrorCode where
  "TOOL_VALIDATION_ERROR \<equiv> ErrorCode ''tool_validation_error''"

abbreviation AUTHORITY_ERROR :: ErrorCode where
  "AUTHORITY_ERROR \<equiv> ErrorCode ''authority_error''"

abbreviation WORKSTATION_ERROR :: ErrorCode where
  "WORKSTATION_ERROR \<equiv> ErrorCode ''workstation_error''"

abbreviation ARTIFACT_ERROR :: ErrorCode where
  "ARTIFACT_ERROR \<equiv> ErrorCode ''artifact_error''"

abbreviation CANCELLATION_ERROR :: ErrorCode where
  "CANCELLATION_ERROR \<equiv> ErrorCode ''cancellation_error''"

abbreviation INTERNAL_INVARIANT_ERROR :: ErrorCode where
  "INTERNAL_INVARIANT_ERROR \<equiv> ErrorCode ''internal_invariant_error''"

definition all_error_codes :: "ErrorCode list" where
  "all_error_codes =
    [DOMAIN_VALIDATION, AUTHENTICATION_ERROR, CLIENT_PROTOCOL_ERROR, IDEMPOTENCY_ERROR,
     STORAGE_ERROR, STATE_CONFLICT, CONTEXT_ERROR, CONTEXT_LIMIT_EXCEEDED,
     MODEL_SELECTION_ERROR, PROVIDER_ERROR, TOOL_VALIDATION_ERROR, AUTHORITY_ERROR,
     WORKSTATION_ERROR, ARTIFACT_ERROR, CANCELLATION_ERROR, INTERNAL_INVARIANT_ERROR]"

fun for_category :: "ErrorCategory \<Rightarrow> ErrorCode" where
  "for_category ErrorCategory.AuthenticationError = AUTHENTICATION_ERROR"
| "for_category ErrorCategory.ClientProtocolError = CLIENT_PROTOCOL_ERROR"
| "for_category ErrorCategory.IdempotencyError = IDEMPOTENCY_ERROR"
| "for_category ErrorCategory.StorageError = STORAGE_ERROR"
| "for_category ErrorCategory.StateConflict = STATE_CONFLICT"
| "for_category ErrorCategory.ContextError = CONTEXT_ERROR"
| "for_category ErrorCategory.ModelSelectionError = MODEL_SELECTION_ERROR"
| "for_category ErrorCategory.ProviderError = PROVIDER_ERROR"
| "for_category ErrorCategory.ToolValidationError = TOOL_VALIDATION_ERROR"
| "for_category ErrorCategory.AuthorityError = AUTHORITY_ERROR"
| "for_category ErrorCategory.WorkstationError = WORKSTATION_ERROR"
| "for_category ErrorCategory.ArtifactError = ARTIFACT_ERROR"
| "for_category ErrorCategory.CancellationError = CANCELLATION_ERROR"
| "for_category ErrorCategory.InternalInvariantError = INTERNAL_INVARIANT_ERROR"

definition approved :: "string \<Rightarrow> ErrorCode option" where
  "approved value = find (\<lambda>code. error_code_str code = value) all_error_codes"

datatype SafeMessage = SafeMessage string

abbreviation MSG_CLIENT_VALIDATION :: SafeMessage where
  "MSG_CLIENT_VALIDATION \<equiv> SafeMessage ''The supplied value is invalid.''"

abbreviation MSG_AUTHENTICATION :: SafeMessage where
  "MSG_AUTHENTICATION \<equiv> SafeMessage ''Authentication is required.''"

abbreviation MSG_CLIENT_PROTOCOL :: SafeMessage where
  "MSG_CLIENT_PROTOCOL \<equiv> SafeMessage ''The request is invalid.''"

abbreviation MSG_IDEMPOTENCY :: SafeMessage where
  "MSG_IDEMPOTENCY \<equiv> SafeMessage ''The request conflicts with an earlier request.''"

abbreviation MSG_STORAGE :: SafeMessage where
  "MSG_STORAGE \<equiv> SafeMessage ''A storage operation failed.''"

abbreviation MSG_STATE_CONFLICT :: SafeMessage where
  "MSG_STATE_CONFLICT \<equiv> SafeMessage ''The requested operation conflicts with the current state.''"

abbreviation MSG_CONTEXT :: SafeMessage where
  "MSG_CONTEXT \<equiv> SafeMessage ''The requested context cannot be processed.''"

abbreviation MSG_MODEL_SELECTION :: SafeMessage where
  "MSG_MODEL_SELECTION \<equiv> SafeMessage ''No suitable model is currently available.''"

abbreviation MSG_PROVIDER :: SafeMessage where
  "MSG_PROVIDER \<equiv> SafeMessage ''The model provider request failed.''"

abbreviation MSG_TOOL_VALIDATION :: SafeMessage where
  "MSG_TOOL_VALIDATION \<equiv> SafeMessage ''The tool request is invalid.''"

abbreviation MSG_AUTHORITY :: SafeMessage where
  "MSG_AUTHORITY \<equiv> SafeMessage ''The requested operation is not permitted.''"

abbreviation MSG_WORKSTATION :: SafeMessage where
  "MSG_WORKSTATION \<equiv> SafeMessage ''The workstation operation failed.''"

abbreviation MSG_ARTIFACT :: SafeMessage where
  "MSG_ARTIFACT \<equiv> SafeMessage ''The artifact operation failed.''"

abbreviation MSG_CANCELLATION :: SafeMessage where
  "MSG_CANCELLATION \<equiv> SafeMessage ''The operation could not be confirmed as cancelled.''"

abbreviation MSG_INTERNAL_INVARIANT :: SafeMessage where
  "MSG_INTERNAL_INVARIANT \<equiv> SafeMessage ''An internal consistency error occurred.''"

datatype SourceStatusKind = ProviderHttp | OsErrno

record SourceStatus =
  source_kind :: SourceStatusKind
  source_code :: int

definition provider_http :: "int \<Rightarrow> SourceStatus option" where
  "provider_http code =
     (if 100 \<le> code \<and> code \<le> 599 then Some \<lparr>source_kind = ProviderHttp, source_code = code\<rparr>
      else None)"

definition os_errno :: "int \<Rightarrow> SourceStatus option" where
  "os_errno code =
     (if 1 \<le> code then Some \<lparr>source_kind = OsErrno, source_code = code\<rparr> else None)"

text \<open>
  The wire form of a status carries an \<open>i64\<close>; it is narrowed to \<open>u16\<close> or \<open>i32\<close> before the
  constructor's own range check.
\<close>

definition is_u16 :: "int \<Rightarrow> bool" where
  "is_u16 v \<longleftrightarrow> 0 \<le> v \<and> v < 2 ^ 16"

definition is_i32 :: "int \<Rightarrow> bool" where
  "is_i32 v \<longleftrightarrow> - (2 ^ 31) \<le> v \<and> v < 2 ^ 31"

datatype WireStatus = WireProviderHttp int | WireOsErrno int

fun deserialize_status :: "WireStatus \<Rightarrow> SourceStatus option" where
  "deserialize_status (WireProviderHttp code) =
     (if is_u16 code then provider_http code else None)"
| "deserialize_status (WireOsErrno code) =
     (if is_i32 code then os_errno code else None)"

fun serialize_status :: "SourceStatus \<Rightarrow> WireStatus" where
  "serialize_status s =
     (case source_kind s of
        ProviderHttp \<Rightarrow> WireProviderHttp (source_code s)
      | OsErrno \<Rightarrow> WireOsErrno (source_code s))"

section \<open>Local validation failures\<close>

datatype DomainValidationKind =
    InvalidCanonicalUuid
  | InvalidUuidVersionOrVariant
  | InvalidPositiveInteger
  | ArithmeticOverflow
  | ArithmeticUnderflow
  | InvalidCanonicalTimestamp
  | TimestampOutOfRange
  | InvalidDigest
  | InvalidByteCount
  | InvalidText
  | InvalidContent
  | InvalidPrimaryConversation
  | InvalidMessageProvenance
  | InvalidWorkInput
  | InvalidWorkstationGeneration
  | InvalidLogicalPath
  | InvalidBoundedIdentifier
  | InvalidCapabilitySnapshot
  | InvalidEvidenceReference

datatype DomainValidationError = DomainValidationError DomainValidationKind

fun validation_kind :: "DomainValidationError \<Rightarrow> DomainValidationKind" where
  "validation_kind (DomainValidationError k) = k"

text \<open>
  \<open>InternalDetailKind\<close> repeats the validation kinds one for one; the conversion is the match of
  \<open>InternalDetail::from_domain_validation\<close>.
\<close>

datatype InternalDetailKind =
    DetailInvalidCanonicalUuid
  | DetailInvalidUuidVersionOrVariant
  | DetailInvalidPositiveInteger
  | DetailArithmeticOverflow
  | DetailArithmeticUnderflow
  | DetailInvalidCanonicalTimestamp
  | DetailTimestampOutOfRange
  | DetailInvalidDigest
  | DetailInvalidByteCount
  | DetailInvalidText
  | DetailInvalidContent
  | DetailInvalidPrimaryConversation
  | DetailInvalidMessageProvenance
  | DetailInvalidWorkInput
  | DetailInvalidWorkstationGeneration
  | DetailInvalidLogicalPath
  | DetailInvalidBoundedIdentifier
  | DetailInvalidCapabilitySnapshot
  | DetailInvalidEvidenceReference

fun from_domain_validation :: "DomainValidationKind \<Rightarrow> InternalDetailKind" where
  "from_domain_validation InvalidCanonicalUuid = DetailInvalidCanonicalUuid"
| "from_domain_validation InvalidUuidVersionOrVariant = DetailInvalidUuidVersionOrVariant"
| "from_domain_validation InvalidPositiveInteger = DetailInvalidPositiveInteger"
| "from_domain_validation ArithmeticOverflow = DetailArithmeticOverflow"
| "from_domain_validation ArithmeticUnderflow = DetailArithmeticUnderflow"
| "from_domain_validation InvalidCanonicalTimestamp = DetailInvalidCanonicalTimestamp"
| "from_domain_validation TimestampOutOfRange = DetailTimestampOutOfRange"
| "from_domain_validation InvalidDigest = DetailInvalidDigest"
| "from_domain_validation InvalidByteCount = DetailInvalidByteCount"
| "from_domain_validation InvalidText = DetailInvalidText"
| "from_domain_validation InvalidContent = DetailInvalidContent"
| "from_domain_validation InvalidPrimaryConversation = DetailInvalidPrimaryConversation"
| "from_domain_validation InvalidMessageProvenance = DetailInvalidMessageProvenance"
| "from_domain_validation InvalidWorkInput = DetailInvalidWorkInput"
| "from_domain_validation InvalidWorkstationGeneration = DetailInvalidWorkstationGeneration"
| "from_domain_validation InvalidLogicalPath = DetailInvalidLogicalPath"
| "from_domain_validation InvalidBoundedIdentifier = DetailInvalidBoundedIdentifier"
| "from_domain_validation InvalidCapabilitySnapshot = DetailInvalidCapabilitySnapshot"
| "from_domain_validation InvalidEvidenceReference = DetailInvalidEvidenceReference"

section \<open>Normalized errors\<close>

record NormalizedError =
  category :: ErrorCategory
  error_code :: ErrorCode
  retryability :: Retryability
  certainty :: Certainty
  safe_message :: SafeMessage
  source_status :: "SourceStatus option"
  internal_detail :: "InternalDetailKind option"

definition generic_error ::
  "ErrorCategory \<Rightarrow> Retryability \<Rightarrow> Certainty \<Rightarrow> SafeMessage \<Rightarrow> SourceStatus option \<Rightarrow> NormalizedError"
where
  "generic_error cat retry cert msg status =
     \<lparr>category = cat, error_code = for_category cat, retryability = retry, certainty = cert,
      safe_message = msg, source_status = status, internal_detail = None\<rparr>"

definition from_client_validation :: "DomainValidationError \<Rightarrow> NormalizedError" where
  "from_client_validation e =
     \<lparr>category = ClientProtocolError, error_code = DOMAIN_VALIDATION, retryability = Never,
      certainty = Definite, safe_message = MSG_CLIENT_VALIDATION, source_status = None,
      internal_detail = Some (from_domain_validation (validation_kind e))\<rparr>"

definition context_limit_exceeded :: NormalizedError where
  "context_limit_exceeded =
     \<lparr>category = ContextError, error_code = CONTEXT_LIMIT_EXCEEDED, retryability = Never,
      certainty = Definite, safe_message = MSG_CONTEXT, source_status = None,
      internal_detail = None\<rparr>"

definition authentication_error :: NormalizedError where
  "authentication_error =
     generic_error AuthenticationError UserAction Definite MSG_AUTHENTICATION None"

definition client_protocol_error :: NormalizedError where
  "client_protocol_error =
     generic_error ClientProtocolError Never Definite MSG_CLIENT_PROTOCOL None"

definition idempotency_error :: NormalizedError where
  "idempotency_error =
     generic_error IdempotencyError UserAction Definite MSG_IDEMPOTENCY None"

definition storage_error :: "SourceStatus option \<Rightarrow> NormalizedError" where
  "storage_error status =
     generic_error StorageError OperatorAction Definite MSG_STORAGE status"

definition state_conflict_error :: NormalizedError where
  "state_conflict_error =
     generic_error StateConflict Bounded Definite MSG_STATE_CONFLICT None"

definition context_error :: NormalizedError where
  "context_error =
     generic_error ContextError Never Definite MSG_CONTEXT None"

definition model_selection_error :: NormalizedError where
  "model_selection_error =
     generic_error ModelSelectionError OperatorAction Definite MSG_MODEL_SELECTION None"

definition provider_error :: "Certainty \<Rightarrow> SourceStatus option \<Rightarrow> NormalizedError" where
  "provider_error cert status =
     generic_error ProviderError Never cert MSG_PROVIDER status"

definition provider_bounded_error :: "Certainty \<Rightarrow> SourceStatus option \<Rightarrow> NormalizedError" where
  "provider_bounded_error cert status =
     generic_error ProviderError Bounded cert MSG_PROVIDER status"

definition tool_validation_error :: NormalizedError where
  "tool_validation_error =
     generic_error ToolValidationError Never Definite MSG_TOOL_VALIDATION None"

definition authority_error :: NormalizedError where
  "authority_error =
     generic_error AuthorityError Never Definite MSG_AUTHORITY None"

definition workstation_error :: "Certainty \<Rightarrow> SourceStatus option \<Rightarrow> NormalizedError" where
  "workstation_error cert status =
     generic_error WorkstationError Never cert MSG_WORKSTATION status"

definition workstation_classified_error :: "Retryability \<Rightarrow> Certainty \<Rightarrow> SourceStatus option \<Rightarrow> NormalizedError" where
  "workstation_classified_error retry cert status =
     generic_error WorkstationError retry cert MSG_WORKSTATION status"

definition artifact_error :: "Certainty \<Rightarrow> SourceStatus option \<Rightarrow> NormalizedError" where
  "artifact_error cert status =
     generic_error ArtifactError OperatorAction cert MSG_ARTIFACT status"

definition cancellation_error :: "Certainty \<Rightarrow> NormalizedError" where
  "cancellation_error cert =
     generic_error CancellationError Never cert MSG_CANCELLATION None"

definition internal_invariant_error :: NormalizedError where
  "internal_invariant_error =
     generic_error InternalInvariantError OperatorAction Definite MSG_INTERNAL_INVARIANT None"

lemmas error_constructor_defs =
  authentication_error_def client_protocol_error_def idempotency_error_def
  storage_error_def state_conflict_error_def context_error_def model_selection_error_def
  provider_error_def provider_bounded_error_def tool_validation_error_def
  authority_error_def workstation_error_def workstation_classified_error_def
  artifact_error_def cancellation_error_def internal_invariant_error_def
  from_client_validation_def context_limit_exceeded_def generic_error_def

text \<open>
  \<open>PartialEq for NormalizedError\<close>: the trace-only internal detail is left out.
\<close>

definition normalized_error_eq :: "NormalizedError \<Rightarrow> NormalizedError \<Rightarrow> bool" where
  "normalized_error_eq a b \<longleftrightarrow>
     category a = category b \<and> error_code a = error_code b \<and> retryability a = retryability b \<and>
     certainty a = certainty b \<and> safe_message a = safe_message b \<and>
     source_status a = source_status b"

section \<open>Properties\<close>

lemma all_error_codes_distinct: "distinct (map error_code_str all_error_codes)"
  by (unfold all_error_codes_def, code_simp)

lemma approved_iff: "approved s = Some c \<longleftrightarrow> c \<in> set all_error_codes \<and> s = error_code_str c"
proof
  assume "approved s = Some c"
  then show "c \<in> set all_error_codes \<and> s = error_code_str c"
    by (auto simp: approved_def find_Some_iff)
next
  assume c: "c \<in> set all_error_codes \<and> s = error_code_str c"
  then obtain c' where c': "approved s = Some c'"
    by (cases "approved s") (auto simp: approved_def find_None_iff)
  then have "c' \<in> set all_error_codes \<and> error_code_str c' = s"
    by (auto simp: approved_def find_Some_iff)
  with c have "c' = c"
    using all_error_codes_distinct by (auto simp: distinct_map dest: inj_onD)
  with c' show "approved s = Some c" by simp
qed

text \<open>
  The fields of \<open>NormalizedError\<close> are private, so a value of the type comes from one of the public
  constructors.
\<close>

inductive constructed :: "NormalizedError \<Rightarrow> bool" where
  "constructed (from_client_validation e)"
| "constructed authentication_error"
| "constructed client_protocol_error"
| "constructed idempotency_error"
| "constructed (storage_error status)"
| "constructed state_conflict_error"
| "constructed context_error"
| "constructed context_limit_exceeded"
| "constructed model_selection_error"
| "constructed (provider_error cert status)"
| "constructed (provider_bounded_error cert status)"
| "constructed tool_validation_error"
| "constructed authority_error"
| "constructed (workstation_error cert status)"
| "constructed (workstation_classified_error retry cert status)"
| "constructed (artifact_error cert status)"
| "constructed (cancellation_error cert)"
| "constructed internal_invariant_error"

lemma constructed_unknown_is_external:
  "constructed e \<Longrightarrow> certainty e = OutcomeUnknown \<Longrightarrow>
   category e \<in> {ProviderError, WorkstationError, ArtifactError, CancellationError}"
  by (erule constructed.cases) (simp_all add: error_constructor_defs)

lemma constructed_code:
  "constructed e \<Longrightarrow>
   error_code e = for_category (category e) \<or>
   error_code e = DOMAIN_VALIDATION \<and> category e = ClientProtocolError \<or>
   error_code e = CONTEXT_LIMIT_EXCEEDED \<and> category e = ContextError"
  by (erule constructed.cases) (simp_all add: error_constructor_defs)

lemma constructed_detail:
  "constructed e \<Longrightarrow> (internal_detail e \<noteq> None) = (error_code e = DOMAIN_VALIDATION)"
  by (erule constructed.cases) (simp_all add: error_constructor_defs)

lemma constructed_bounded_retry:
  "constructed e \<Longrightarrow> retryability e = Bounded \<Longrightarrow>
   category e \<in> {StateConflict, ProviderError, WorkstationError}"
  by (erule constructed.cases) (simp_all add: error_constructor_defs)

lemma serialize_status_roundtrip:
  assumes "(\<exists>c. is_u16 c \<and> provider_http c = Some s) \<or> (\<exists>c. is_i32 c \<and> os_errno c = Some s)"
  shows "deserialize_status (serialize_status s) = Some s"
  using assms
  by (auto simp: provider_http_def os_errno_def is_i32_def is_u16_def split: if_splits)

lemma deserialize_status_range:
  "deserialize_status w = Some s \<Longrightarrow>
   (source_kind s = ProviderHttp \<and> 100 \<le> source_code s \<and> source_code s \<le> 599) \<or>
   (source_kind s = OsErrno \<and> 1 \<le> source_code s \<and> source_code s < 2 ^ 31)"
  by (cases w) (auto simp: provider_http_def os_errno_def is_i32_def is_u16_def split: if_splits)

end
