(* ===== verification/Scalars.thy ===== *)
theory Scalars
  imports Domain_Error
begin

text \<open>
  The scalar values of the domain: the two macros for positive signed 64-bit values
  (\<open>positive_integer\<close> in domain/sequence.rs and \<open>exact_positive_integer\<close> in domain/entities.rs),
  the UUIDv7 identities of domain/ids.rs, and the checked \<open>i64\<close> arithmetic they use.

  An \<open>i64\<close> or \<open>u64\<close> is an \<open>int\<close> with its range written out; \<open>i64::checked_add\<close> is
  \<open>i64_checked_add\<close>. The \<open>uuid\<close> crate is not part of the sources: a UUID is its 128-bit value, and
  the crate's parser and printer are arguments of \<open>parse_uuid_v7\<close>.
\<close>

section \<open>Signed 64-bit arithmetic\<close>

definition i64_min :: int where "i64_min = - (2 ^ 63)"
definition i64_max :: int where "i64_max = 2 ^ 63 - 1"
definition u64_max :: int where "u64_max = 2 ^ 64 - 1"

definition is_i64 :: "int \<Rightarrow> bool" where
  "is_i64 v \<longleftrightarrow> i64_min \<le> v \<and> v \<le> i64_max"

definition is_u64 :: "int \<Rightarrow> bool" where
  "is_u64 v \<longleftrightarrow> 0 \<le> v \<and> v \<le> u64_max"

definition i64_checked_add :: "int \<Rightarrow> int \<Rightarrow> int option" where
  "i64_checked_add a b = (if is_i64 (a + b) then Some (a + b) else None)"

definition i64_try_from :: "int \<Rightarrow> int option" where
  "i64_try_from v = (if is_i64 v then Some v else None)"

lemmas i64_defs =
  i64_min_def i64_max_def u64_max_def is_i64_def is_u64_def i64_checked_add_def i64_try_from_def

section \<open>The positive-integer macros\<close>

datatype PositiveInteger = PositiveInteger int

type_synonym JournalOffset = PositiveInteger
type_synonym StreamSeq = PositiveInteger
type_synonym ConversationWorkOrdinal = PositiveInteger
type_synonym AgentStepNo = PositiveInteger
type_synonym ToolOrdinal = PositiveInteger
type_synonym AttemptNo = PositiveInteger

fun pi_get :: "PositiveInteger \<Rightarrow> int" where
  "pi_get (PositiveInteger v) = v"

definition pi_try_new :: "int \<Rightarrow> DomainValidationError + PositiveInteger" where
  "pi_try_new value =
     (if 0 < value then Inr (PositiveInteger value)
      else Inl (DomainValidationError InvalidPositiveInteger))"

definition pi_checked_increment :: "PositiveInteger \<Rightarrow> DomainValidationError + PositiveInteger" where
  "pi_checked_increment p =
     (case i64_checked_add (pi_get p) 1 of
        Some v \<Rightarrow> Inr (PositiveInteger v)
      | None \<Rightarrow> Inl (DomainValidationError ArithmeticOverflow))"

definition pi_checked_add :: "PositiveInteger \<Rightarrow> int \<Rightarrow> DomainValidationError + PositiveInteger" where
  "pi_checked_add p amount =
     and_then (ok_or (i64_try_from amount) (DomainValidationError ArithmeticOverflow))
       (\<lambda>a. ok_or (map_option PositiveInteger (i64_checked_add (pi_get p) a))
               (DomainValidationError ArithmeticOverflow))"

definition pi_try_from_u64 :: "int \<Rightarrow> DomainValidationError + PositiveInteger" where
  "pi_try_from_u64 value =
     and_then (ok_or (i64_try_from value) (DomainValidationError InvalidPositiveInteger)) pi_try_new"

datatype ExactPositiveInteger = ExactPositiveInteger int

type_synonym WorkstationGeneration = ExactPositiveInteger
type_synonym ProjectionVersion = ExactPositiveInteger
type_synonym SchemaVersion = ExactPositiveInteger
type_synonym WorkInputOrdinal = ExactPositiveInteger

fun epi_get :: "ExactPositiveInteger \<Rightarrow> int" where
  "epi_get (ExactPositiveInteger v) = v"

text \<open>The macro's error-kind argument is the first argument of the constructor.\<close>

definition epi_try_new ::
  "DomainValidationKind \<Rightarrow> int \<Rightarrow> DomainValidationError + ExactPositiveInteger" where
  "epi_try_new error_kind value =
     (if 0 < value then Inr (ExactPositiveInteger value)
      else Inl (DomainValidationError error_kind))"

definition epi_checked_increment ::
  "ExactPositiveInteger \<Rightarrow> DomainValidationError + ExactPositiveInteger" where
  "epi_checked_increment p =
     (case i64_checked_add (epi_get p) 1 of
        Some v \<Rightarrow> Inr (ExactPositiveInteger v)
      | None \<Rightarrow> Inl (DomainValidationError ArithmeticOverflow))"

definition workstation_generation_try_new ::
  "int \<Rightarrow> DomainValidationError + WorkstationGeneration" where
  "workstation_generation_try_new = epi_try_new InvalidWorkstationGeneration"

definition projection_version_try_new :: "int \<Rightarrow> DomainValidationError + ProjectionVersion" where
  "projection_version_try_new = epi_try_new InvalidPositiveInteger"

definition schema_version_try_new :: "int \<Rightarrow> DomainValidationError + SchemaVersion" where
  "schema_version_try_new = epi_try_new InvalidPositiveInteger"

definition work_input_ordinal_try_new :: "int \<Rightarrow> DomainValidationError + WorkInputOrdinal" where
  "work_input_ordinal_try_new = epi_try_new InvalidWorkInput"

text \<open>The macros derive the order of the wrapped integer.\<close>

instantiation PositiveInteger :: linorder
begin

definition less_eq_PositiveInteger :: "PositiveInteger \<Rightarrow> PositiveInteger \<Rightarrow> bool" where
  "less_eq_PositiveInteger p q \<longleftrightarrow> pi_get p \<le> pi_get q"

definition less_PositiveInteger :: "PositiveInteger \<Rightarrow> PositiveInteger \<Rightarrow> bool" where
  "less_PositiveInteger p q \<longleftrightarrow> pi_get p < pi_get q"

instance
proof
  fix p q r :: PositiveInteger
  show "(p < q) = (p \<le> q \<and> \<not> q \<le> p)"
    by (auto simp: less_eq_PositiveInteger_def less_PositiveInteger_def)
  show "p \<le> p" by (simp add: less_eq_PositiveInteger_def)
  show "p \<le> q \<Longrightarrow> q \<le> r \<Longrightarrow> p \<le> r" by (simp add: less_eq_PositiveInteger_def)
  show "p \<le> q \<Longrightarrow> q \<le> p \<Longrightarrow> p = q"
    by (cases p; cases q) (simp add: less_eq_PositiveInteger_def)
  show "p \<le> q \<or> q \<le> p" by (auto simp: less_eq_PositiveInteger_def)
qed

end

definition pi_wf :: "PositiveInteger \<Rightarrow> bool" where
  "pi_wf p \<longleftrightarrow> 1 \<le> pi_get p \<and> pi_get p \<le> i64_max"

definition epi_wf :: "ExactPositiveInteger \<Rightarrow> bool" where
  "epi_wf p \<longleftrightarrow> 1 \<le> epi_get p \<and> epi_get p \<le> i64_max"

section \<open>What a committed counter promises\<close>

text \<open>
  Both macros promise the same to the code that counts with them: construction keeps the value, the
  next value is exactly one larger, and the only failure is at the upper bound.
\<close>

locale committed_counter =
  fixes get :: "'c \<Rightarrow> int"
    and incr :: "'c \<Rightarrow> DomainValidationError + 'c"
    and wf :: "'c \<Rightarrow> bool"
  assumes get_inj: "get p = get q \<Longrightarrow> p = q"
    and wf_range: "wf p \<longleftrightarrow> 1 \<le> get p \<and> get p \<le> i64_max"
    and incr_ok: "wf p \<Longrightarrow> get p < i64_max \<Longrightarrow> \<exists>q. incr p = Inr q \<and> get q = get p + 1"
    and incr_overflow: "wf p \<Longrightarrow> get p = i64_max \<Longrightarrow>
          incr p = Inl (DomainValidationError ArithmeticOverflow)"
begin

lemma get_eq_iff: "get p = get q \<longleftrightarrow> p = q"
  using get_inj by blast

lemma incr_iff: "wf p \<Longrightarrow> incr p = Inr q \<longleftrightarrow> get q = get p + 1 \<and> get p < i64_max"
proof -
  assume p: "wf p"
  then have le: "get p \<le> i64_max" by (simp add: wf_range)
  show "incr p = Inr q \<longleftrightarrow> get q = get p + 1 \<and> get p < i64_max"
  proof (cases "get p = i64_max")
    case True
    then show ?thesis using incr_overflow [OF p] by simp
  next
    case False
    then obtain r where r: "incr p = Inr r" "get r = get p + 1"
      using incr_ok [OF p] le by auto
    have "Inr r = (Inr q :: DomainValidationError + 'c) \<longleftrightarrow> get q = get r"
      using get_eq_iff [of q r] by auto
    with r False le show ?thesis by simp
  qed
qed

lemma incr_keeps_wf:
  assumes "wf p" and "incr p = Inr q"
  shows "wf q"
proof -
  from assms have "get q = get p + 1" and "get p < i64_max" by (simp_all add: incr_iff)
  moreover from assms(1) have "1 \<le> get p" by (simp add: wf_range)
  ultimately show ?thesis by (simp add: wf_range)
qed

lemma counting_is_contiguous:
  "wf p \<Longrightarrow>
   fold_result (\<lambda>c _. incr c) p us = Inr q \<longleftrightarrow>
     get q = get p + int (length us) \<and> get p + int (length us) \<le> i64_max"
proof (induction us arbitrary: p)
  case Nil
  from Nil have "get p \<le> i64_max" by (simp add: wf_range)
  moreover have "Inr p = (Inr q :: DomainValidationError + 'c) \<longleftrightarrow> get q = get p"
    using get_eq_iff [of q p] by auto
  ultimately show ?case by simp
next
  case (Cons u us)
  show ?case
  proof (cases "get p = i64_max")
    case True
    then show ?thesis using incr_overflow [OF Cons.prems] by simp
  next
    case False
    then obtain r where r: "incr p = Inr r" "get r = get p + 1"
      using incr_ok [OF Cons.prems] Cons.prems by (force simp: wf_range)
    with Cons.IH [OF incr_keeps_wf [OF Cons.prems r(1)]] show ?thesis by (simp add: ac_simps)
  qed
qed

end

interpretation sequence_counter: committed_counter pi_get pi_checked_increment pi_wf
proof unfold_locales
  fix p q :: PositiveInteger
  show "pi_get p = pi_get q \<Longrightarrow> p = q" by (cases p; cases q) simp
qed (auto simp: pi_wf_def pi_checked_increment_def i64_defs)

interpretation version_counter: committed_counter epi_get epi_checked_increment epi_wf
proof unfold_locales
  fix p q :: ExactPositiveInteger
  show "epi_get p = epi_get q \<Longrightarrow> p = q" by (cases p; cases q) simp
qed (auto simp: epi_wf_def epi_checked_increment_def i64_defs)

lemma epi_checked_increment_Inr_iff:
  "epi_checked_increment p = Inr q \<longleftrightarrow>
     is_i64 (epi_get p + 1) \<and> q = ExactPositiveInteger (epi_get p + 1)"
  by (auto simp: epi_checked_increment_def i64_checked_add_def)

lemma pi_checked_increment_Inr_iff:
  "pi_checked_increment p = Inr q \<longleftrightarrow>
     is_i64 (pi_get p + 1) \<and> q = PositiveInteger (pi_get p + 1)"
  by (auto simp: pi_checked_increment_def i64_checked_add_def)

lemma pi_try_new_wf: "is_i64 v \<Longrightarrow> pi_try_new v = Inr p \<Longrightarrow> pi_wf p \<and> pi_get p = v"
  by (auto simp: pi_try_new_def pi_wf_def i64_defs split: if_splits)

lemma pi_checked_add_exact:
  assumes "pi_wf p" and "is_u64 a"
  shows "pi_checked_add p a =
           (if pi_get p + a \<le> i64_max then Inr (PositiveInteger (pi_get p + a))
            else Inl (DomainValidationError ArithmeticOverflow))"
  using assms by (auto simp: pi_checked_add_def pi_wf_def i64_defs)

lemma pi_try_from_u64_exact:
  assumes "is_u64 v"
  shows "pi_try_from_u64 v =
           (if 1 \<le> v \<and> v \<le> i64_max then Inr (PositiveInteger v)
            else Inl (DomainValidationError InvalidPositiveInteger))"
  using assms by (auto simp: pi_try_from_u64_def pi_try_new_def i64_defs)

section \<open>UUIDv7 identities\<close>

type_synonym Uuid = "128 word"

text \<open>
  The version is the high nibble of byte 6 and the RFC 4122 variant is the bit pattern \<open>10\<close> at the
  top of byte 8, counting bytes from the most significant end.
\<close>

definition get_version_num :: "Uuid \<Rightarrow> nat" where
  "get_version_num u = unat (drop_bit 76 u) mod 16"

definition is_rfc4122 :: "Uuid \<Rightarrow> bool" where
  "is_rfc4122 u \<longleftrightarrow> unat (drop_bit 62 u) mod 4 = 2"

definition is_uuid_v7 :: "Uuid \<Rightarrow> bool" where
  "is_uuid_v7 u \<longleftrightarrow> u \<noteq> 0 \<and> is_rfc4122 u \<and> get_version_num u = 7"

definition parse_uuid_v7 ::
  "(string \<Rightarrow> Uuid option) \<Rightarrow> (Uuid \<Rightarrow> string) \<Rightarrow> string \<Rightarrow> DomainValidationError + Uuid" where
  "parse_uuid_v7 parse_str hyphenated input =
     (if length input \<noteq> 36 then Inl (DomainValidationError InvalidCanonicalUuid)
      else and_then (ok_or (parse_str input) (DomainValidationError InvalidCanonicalUuid)) (\<lambda>parsed.
        if hyphenated parsed \<noteq> input then Inl (DomainValidationError InvalidCanonicalUuid)
        else if parsed = 0 \<or> \<not> is_rfc4122 parsed \<or> get_version_num parsed \<noteq> 7
        then Inl (DomainValidationError InvalidUuidVersionOrVariant)
        else Inr parsed))"

datatype WorkId = WorkId Uuid
datatype RuntimeInstanceId = RuntimeInstanceId Uuid
datatype ModelInvocationId = ModelInvocationId Uuid
datatype LogicalInvocationId = LogicalInvocationId Uuid
datatype ContextManifestId = ContextManifestId Uuid
datatype ToolExecutionId = ToolExecutionId Uuid
datatype ExecutionId = ExecutionId Uuid
datatype ConversationId = ConversationId Uuid
datatype MessageId = MessageId Uuid
datatype CorrelationId = CorrelationId Uuid

fun correlation_for_work :: "WorkId \<Rightarrow> CorrelationId" where
  "correlation_for_work (WorkId u) = CorrelationId u"

lemma parse_uuid_v7_sound:
  "parse_uuid_v7 parse_str hyphenated s = Inr u \<Longrightarrow> is_uuid_v7 u \<and> hyphenated u = s"
  by (auto simp: parse_uuid_v7_def is_uuid_v7_def result_iffs split: if_splits)

lemma parse_uuid_v7_accepts_canonical:
  assumes "parse_str (hyphenated u) = Some u" and "length (hyphenated u) = 36" and "is_uuid_v7 u"
  shows "parse_uuid_v7 parse_str hyphenated (hyphenated u) = Inr u"
  using assms by (simp add: parse_uuid_v7_def is_uuid_v7_def)

end
