(* ===== verification/Lifecycle_Types.thy ===== *)
theory Lifecycle_Types
  imports Scalars
begin

text \<open>
  The vocabulary of domain/lifecycle.rs: the closed lifecycle enums with their frozen durable
  literals, the classifications of states and tool results, and the transition errors. Every enum
  generated by \<open>stable_lifecycle_enum\<close> interprets \<open>stable_enum\<close>, so its literals are distinct and
  the deserializer inverts \<open>as_str\<close>.
\<close>

section \<open>Lifecycle states\<close>

datatype WorkState =
    Queued | Running | WaitingOnModel | WaitingOnTool | CancelRequested | Completed |
    Failed | Cancelled | Interrupted

fun work_state_str :: "WorkState \<Rightarrow> string" where
  "work_state_str WorkState.Queued = ''queued''"
| "work_state_str WorkState.Running = ''running''"
| "work_state_str WorkState.WaitingOnModel = ''waiting_on_model''"
| "work_state_str WorkState.WaitingOnTool = ''waiting_on_tool''"
| "work_state_str WorkState.CancelRequested = ''cancel_requested''"
| "work_state_str WorkState.Completed = ''completed''"
| "work_state_str WorkState.Failed = ''failed''"
| "work_state_str WorkState.Cancelled = ''cancelled''"
| "work_state_str WorkState.Interrupted = ''interrupted''"

definition all_work_states :: "WorkState list" where
  "all_work_states =
    [WorkState.Queued, WorkState.Running, WorkState.WaitingOnModel, WorkState.WaitingOnTool,
     WorkState.CancelRequested, WorkState.Completed, WorkState.Failed, WorkState.Cancelled,
     WorkState.Interrupted]"

interpretation work_state: stable_enum work_state_str all_work_states
proof unfold_locales
  fix v :: WorkState
  show "v \<in> set all_work_states" by (cases v) (simp_all add: all_work_states_def)
qed (unfold all_work_states_def, code_simp)

fun work_is_terminal :: "WorkState \<Rightarrow> bool" where
  "work_is_terminal WorkState.Completed = True"
| "work_is_terminal WorkState.Failed = True"
| "work_is_terminal WorkState.Cancelled = True"
| "work_is_terminal WorkState.Interrupted = True"
| "work_is_terminal _ = False"

fun work_is_active :: "WorkState \<Rightarrow> bool" where
  "work_is_active WorkState.Running = True"
| "work_is_active WorkState.WaitingOnModel = True"
| "work_is_active WorkState.WaitingOnTool = True"
| "work_is_active WorkState.CancelRequested = True"
| "work_is_active _ = False"

datatype ModelInvocationState =
    Requesting | Streaming | Completed | Failed | CancelledLocally |
    ProviderOutcomeUnknown

fun model_invocation_state_str :: "ModelInvocationState \<Rightarrow> string" where
  "model_invocation_state_str ModelInvocationState.Requesting = ''requesting''"
| "model_invocation_state_str ModelInvocationState.Streaming = ''streaming''"
| "model_invocation_state_str ModelInvocationState.Completed = ''completed''"
| "model_invocation_state_str ModelInvocationState.Failed = ''failed''"
| "model_invocation_state_str ModelInvocationState.CancelledLocally = ''cancelled_locally''"
| "model_invocation_state_str ModelInvocationState.ProviderOutcomeUnknown = ''provider_outcome_unknown''"

definition all_model_invocation_states :: "ModelInvocationState list" where
  "all_model_invocation_states =
    [ModelInvocationState.Requesting, ModelInvocationState.Streaming,
     ModelInvocationState.Completed, ModelInvocationState.Failed,
     ModelInvocationState.CancelledLocally, ModelInvocationState.ProviderOutcomeUnknown]"

interpretation model_invocation_state: stable_enum model_invocation_state_str all_model_invocation_states
proof unfold_locales
  fix v :: ModelInvocationState
  show "v \<in> set all_model_invocation_states" by (cases v) (simp_all add: all_model_invocation_states_def)
qed (unfold all_model_invocation_states_def, code_simp)

fun model_is_terminal :: "ModelInvocationState \<Rightarrow> bool" where
  "model_is_terminal ModelInvocationState.Completed = True"
| "model_is_terminal ModelInvocationState.Failed = True"
| "model_is_terminal ModelInvocationState.CancelledLocally = True"
| "model_is_terminal ModelInvocationState.ProviderOutcomeUnknown = True"
| "model_is_terminal _ = False"

datatype ToolExecutionState =
    Requested | Dispatching | Completed | InterruptedBeforeDispatch | OutcomeUnknown

fun tool_execution_state_str :: "ToolExecutionState \<Rightarrow> string" where
  "tool_execution_state_str ToolExecutionState.Requested = ''requested''"
| "tool_execution_state_str ToolExecutionState.Dispatching = ''dispatching''"
| "tool_execution_state_str ToolExecutionState.Completed = ''completed''"
| "tool_execution_state_str ToolExecutionState.InterruptedBeforeDispatch = ''interrupted_before_dispatch''"
| "tool_execution_state_str ToolExecutionState.OutcomeUnknown = ''outcome_unknown''"

definition all_tool_execution_states :: "ToolExecutionState list" where
  "all_tool_execution_states =
    [ToolExecutionState.Requested, ToolExecutionState.Dispatching,
     ToolExecutionState.Completed, ToolExecutionState.InterruptedBeforeDispatch,
     ToolExecutionState.OutcomeUnknown]"

interpretation tool_execution_state: stable_enum tool_execution_state_str all_tool_execution_states
proof unfold_locales
  fix v :: ToolExecutionState
  show "v \<in> set all_tool_execution_states" by (cases v) (simp_all add: all_tool_execution_states_def)
qed (unfold all_tool_execution_states_def, code_simp)

fun tool_is_terminal :: "ToolExecutionState \<Rightarrow> bool" where
  "tool_is_terminal ToolExecutionState.Completed = True"
| "tool_is_terminal ToolExecutionState.InterruptedBeforeDispatch = True"
| "tool_is_terminal ToolExecutionState.OutcomeUnknown = True"
| "tool_is_terminal _ = False"

section \<open>Reasons, limits and result classes\<close>

datatype WorkCompletionReason =
    Answered | Refused

fun work_completion_reason_str :: "WorkCompletionReason \<Rightarrow> string" where
  "work_completion_reason_str WorkCompletionReason.Answered = ''answered''"
| "work_completion_reason_str WorkCompletionReason.Refused = ''refused''"

definition all_work_completion_reasons :: "WorkCompletionReason list" where
  "all_work_completion_reasons =
    [WorkCompletionReason.Answered, WorkCompletionReason.Refused]"

interpretation work_completion_reason: stable_enum work_completion_reason_str all_work_completion_reasons
proof unfold_locales
  fix v :: WorkCompletionReason
  show "v \<in> set all_work_completion_reasons" by (cases v) (simp_all add: all_work_completion_reasons_def)
qed (unfold all_work_completion_reasons_def, code_simp)

datatype WorkCancellationReason =
    UserRequest | GracefulShutdown

fun work_cancellation_reason_str :: "WorkCancellationReason \<Rightarrow> string" where
  "work_cancellation_reason_str WorkCancellationReason.UserRequest = ''user_request''"
| "work_cancellation_reason_str WorkCancellationReason.GracefulShutdown = ''graceful_shutdown''"

definition all_work_cancellation_reasons :: "WorkCancellationReason list" where
  "all_work_cancellation_reasons =
    [WorkCancellationReason.UserRequest, WorkCancellationReason.GracefulShutdown]"

interpretation work_cancellation_reason: stable_enum work_cancellation_reason_str all_work_cancellation_reasons
proof unfold_locales
  fix v :: WorkCancellationReason
  show "v \<in> set all_work_cancellation_reasons" by (cases v) (simp_all add: all_work_cancellation_reasons_def)
qed (unfold all_work_cancellation_reasons_def, code_simp)

datatype WorkInterruptionReason =
    RuntimeOwnershipLost | ProviderOutcomeUnknown | ToolInterruptedBeforeDispatch |
    ToolOutcomeUnknown | CleanupUnconfirmed

fun work_interruption_reason_str :: "WorkInterruptionReason \<Rightarrow> string" where
  "work_interruption_reason_str WorkInterruptionReason.RuntimeOwnershipLost = ''runtime_ownership_lost''"
| "work_interruption_reason_str WorkInterruptionReason.ProviderOutcomeUnknown = ''provider_outcome_unknown''"
| "work_interruption_reason_str WorkInterruptionReason.ToolInterruptedBeforeDispatch = ''tool_interrupted_before_dispatch''"
| "work_interruption_reason_str WorkInterruptionReason.ToolOutcomeUnknown = ''tool_outcome_unknown''"
| "work_interruption_reason_str WorkInterruptionReason.CleanupUnconfirmed = ''cleanup_unconfirmed''"

definition all_work_interruption_reasons :: "WorkInterruptionReason list" where
  "all_work_interruption_reasons =
    [WorkInterruptionReason.RuntimeOwnershipLost,
     WorkInterruptionReason.ProviderOutcomeUnknown,
     WorkInterruptionReason.ToolInterruptedBeforeDispatch,
     WorkInterruptionReason.ToolOutcomeUnknown, WorkInterruptionReason.CleanupUnconfirmed]"

interpretation work_interruption_reason: stable_enum work_interruption_reason_str all_work_interruption_reasons
proof unfold_locales
  fix v :: WorkInterruptionReason
  show "v \<in> set all_work_interruption_reasons" by (cases v) (simp_all add: all_work_interruption_reasons_def)
qed (unfold all_work_interruption_reasons_def, code_simp)

datatype LifecycleLimit =
    Context | ModelAttempts | AgentLoopSteps | ToolCalls | ModelOutputItems |
    ToolArgumentBytes | ModelInvocationTime | TotalWorkTime

fun lifecycle_limit_str :: "LifecycleLimit \<Rightarrow> string" where
  "lifecycle_limit_str LifecycleLimit.Context = ''context''"
| "lifecycle_limit_str LifecycleLimit.ModelAttempts = ''model_attempts''"
| "lifecycle_limit_str LifecycleLimit.AgentLoopSteps = ''agent_loop_steps''"
| "lifecycle_limit_str LifecycleLimit.ToolCalls = ''tool_calls''"
| "lifecycle_limit_str LifecycleLimit.ModelOutputItems = ''model_output_items''"
| "lifecycle_limit_str LifecycleLimit.ToolArgumentBytes = ''tool_argument_bytes''"
| "lifecycle_limit_str LifecycleLimit.ModelInvocationTime = ''model_invocation_time''"
| "lifecycle_limit_str LifecycleLimit.TotalWorkTime = ''total_work_time''"

definition all_lifecycle_limits :: "LifecycleLimit list" where
  "all_lifecycle_limits =
    [LifecycleLimit.Context, LifecycleLimit.ModelAttempts, LifecycleLimit.AgentLoopSteps,
     LifecycleLimit.ToolCalls, LifecycleLimit.ModelOutputItems,
     LifecycleLimit.ToolArgumentBytes, LifecycleLimit.ModelInvocationTime,
     LifecycleLimit.TotalWorkTime]"

interpretation lifecycle_limit: stable_enum lifecycle_limit_str all_lifecycle_limits
proof unfold_locales
  fix v :: LifecycleLimit
  show "v \<in> set all_lifecycle_limits" by (cases v) (simp_all add: all_lifecycle_limits_def)
qed (unfold all_lifecycle_limits_def, code_simp)

datatype ToolResultClass =
    Success | ValidationRejection | UnknownTool | AuthorityDenial | FileError |
    ProcessExit | SignalTermination | Timeout | Cancellation | SpawnFailure |
    CleanupFailure

fun tool_result_class_str :: "ToolResultClass \<Rightarrow> string" where
  "tool_result_class_str ToolResultClass.Success = ''success''"
| "tool_result_class_str ToolResultClass.ValidationRejection = ''validation_rejection''"
| "tool_result_class_str ToolResultClass.UnknownTool = ''unknown_tool''"
| "tool_result_class_str ToolResultClass.AuthorityDenial = ''authority_denial''"
| "tool_result_class_str ToolResultClass.FileError = ''file_error''"
| "tool_result_class_str ToolResultClass.ProcessExit = ''process_exit''"
| "tool_result_class_str ToolResultClass.SignalTermination = ''signal_termination''"
| "tool_result_class_str ToolResultClass.Timeout = ''timeout''"
| "tool_result_class_str ToolResultClass.Cancellation = ''cancellation''"
| "tool_result_class_str ToolResultClass.SpawnFailure = ''spawn_failure''"
| "tool_result_class_str ToolResultClass.CleanupFailure = ''cleanup_failure''"

definition all_tool_result_classs :: "ToolResultClass list" where
  "all_tool_result_classs =
    [ToolResultClass.Success, ToolResultClass.ValidationRejection, ToolResultClass.UnknownTool,
     ToolResultClass.AuthorityDenial, ToolResultClass.FileError, ToolResultClass.ProcessExit,
     ToolResultClass.SignalTermination, ToolResultClass.Timeout, ToolResultClass.Cancellation,
     ToolResultClass.SpawnFailure, ToolResultClass.CleanupFailure]"

interpretation tool_result_class: stable_enum tool_result_class_str all_tool_result_classs
proof unfold_locales
  fix v :: ToolResultClass
  show "v \<in> set all_tool_result_classs" by (cases v) (simp_all add: all_tool_result_classs_def)
qed (unfold all_tool_result_classs_def, code_simp)

fun allowed_before_dispatch :: "ToolResultClass \<Rightarrow> bool" where
  "allowed_before_dispatch ToolResultClass.ValidationRejection = True"
| "allowed_before_dispatch ToolResultClass.UnknownTool = True"
| "allowed_before_dispatch ToolResultClass.AuthorityDenial = True"
| "allowed_before_dispatch ToolResultClass.FileError = True"
| "allowed_before_dispatch ToolResultClass.Cancellation = True"
| "allowed_before_dispatch _ = False"

fun requires_confirmed_cleanup :: "ToolResultClass \<Rightarrow> bool" where
  "requires_confirmed_cleanup ToolResultClass.ProcessExit = True"
| "requires_confirmed_cleanup ToolResultClass.SignalTermination = True"
| "requires_confirmed_cleanup ToolResultClass.Timeout = True"
| "requires_confirmed_cleanup ToolResultClass.Cancellation = True"
| "requires_confirmed_cleanup ToolResultClass.CleanupFailure = True"
| "requires_confirmed_cleanup _ = False"

datatype CleanupStatus =
    NotRequired | Confirmed | Unconfirmed

fun cleanup_status_str :: "CleanupStatus \<Rightarrow> string" where
  "cleanup_status_str CleanupStatus.NotRequired = ''not_required''"
| "cleanup_status_str CleanupStatus.Confirmed = ''confirmed''"
| "cleanup_status_str CleanupStatus.Unconfirmed = ''unconfirmed''"

definition all_cleanup_statuss :: "CleanupStatus list" where
  "all_cleanup_statuss =
    [CleanupStatus.NotRequired, CleanupStatus.Confirmed, CleanupStatus.Unconfirmed]"

interpretation cleanup_status: stable_enum cleanup_status_str all_cleanup_statuss
proof unfold_locales
  fix v :: CleanupStatus
  show "v \<in> set all_cleanup_statuss" by (cases v) (simp_all add: all_cleanup_statuss_def)
qed (unfold all_cleanup_statuss_def, code_simp)

datatype WorkEventKind =
    WorkStarted | WorkWaitingOnModel | WorkWaitingOnTool | WorkResumed |
    WorkCancelRequested | WorkCompleted | WorkFailed | WorkCancelled | WorkInterrupted

fun work_event_kind_str :: "WorkEventKind \<Rightarrow> string" where
  "work_event_kind_str WorkEventKind.WorkStarted = ''work_started''"
| "work_event_kind_str WorkEventKind.WorkWaitingOnModel = ''work_waiting_on_model''"
| "work_event_kind_str WorkEventKind.WorkWaitingOnTool = ''work_waiting_on_tool''"
| "work_event_kind_str WorkEventKind.WorkResumed = ''work_resumed''"
| "work_event_kind_str WorkEventKind.WorkCancelRequested = ''work_cancel_requested''"
| "work_event_kind_str WorkEventKind.WorkCompleted = ''work_completed''"
| "work_event_kind_str WorkEventKind.WorkFailed = ''work_failed''"
| "work_event_kind_str WorkEventKind.WorkCancelled = ''work_cancelled''"
| "work_event_kind_str WorkEventKind.WorkInterrupted = ''work_interrupted''"

definition all_work_event_kinds :: "WorkEventKind list" where
  "all_work_event_kinds =
    [WorkEventKind.WorkStarted, WorkEventKind.WorkWaitingOnModel,
     WorkEventKind.WorkWaitingOnTool, WorkEventKind.WorkResumed,
     WorkEventKind.WorkCancelRequested, WorkEventKind.WorkCompleted, WorkEventKind.WorkFailed,
     WorkEventKind.WorkCancelled, WorkEventKind.WorkInterrupted]"

interpretation work_event_kind: stable_enum work_event_kind_str all_work_event_kinds
proof unfold_locales
  fix v :: WorkEventKind
  show "v \<in> set all_work_event_kinds" by (cases v) (simp_all add: all_work_event_kinds_def)
qed (unfold all_work_event_kinds_def, code_simp)

datatype ModelOutputFailure =
    Incomplete | ProviderFailed | Empty | UnknownCorrectnessBearingItem |
    ContradictoryRefusal

fun model_output_failure_str :: "ModelOutputFailure \<Rightarrow> string" where
  "model_output_failure_str ModelOutputFailure.Incomplete = ''incomplete''"
| "model_output_failure_str ModelOutputFailure.ProviderFailed = ''provider_failed''"
| "model_output_failure_str ModelOutputFailure.Empty = ''empty''"
| "model_output_failure_str ModelOutputFailure.UnknownCorrectnessBearingItem = ''unknown_correctness_bearing_item''"
| "model_output_failure_str ModelOutputFailure.ContradictoryRefusal = ''contradictory_refusal''"

definition all_model_output_failures :: "ModelOutputFailure list" where
  "all_model_output_failures =
    [ModelOutputFailure.Incomplete, ModelOutputFailure.ProviderFailed,
     ModelOutputFailure.Empty, ModelOutputFailure.UnknownCorrectnessBearingItem,
     ModelOutputFailure.ContradictoryRefusal]"

interpretation model_output_failure: stable_enum model_output_failure_str all_model_output_failures
proof unfold_locales
  fix v :: ModelOutputFailure
  show "v \<in> set all_model_output_failures" by (cases v) (simp_all add: all_model_output_failures_def)
qed (unfold all_model_output_failures_def, code_simp)

section \<open>Transition errors\<close>

datatype LifecycleConflictKind =
    StaleState | StaleVersion | StaleOwner | WrongCurrentAttempt | IllegalTransition |
    DuplicateTerminalDecision | DuplicateAttemptIdentity | DuplicateAttemptNumber

fun lifecycle_conflict_kind_str :: "LifecycleConflictKind \<Rightarrow> string" where
  "lifecycle_conflict_kind_str LifecycleConflictKind.StaleState = ''stale_state''"
| "lifecycle_conflict_kind_str LifecycleConflictKind.StaleVersion = ''stale_version''"
| "lifecycle_conflict_kind_str LifecycleConflictKind.StaleOwner = ''stale_owner''"
| "lifecycle_conflict_kind_str LifecycleConflictKind.WrongCurrentAttempt = ''wrong_current_attempt''"
| "lifecycle_conflict_kind_str LifecycleConflictKind.IllegalTransition = ''illegal_transition''"
| "lifecycle_conflict_kind_str LifecycleConflictKind.DuplicateTerminalDecision = ''duplicate_terminal_decision''"
| "lifecycle_conflict_kind_str LifecycleConflictKind.DuplicateAttemptIdentity = ''duplicate_attempt_identity''"
| "lifecycle_conflict_kind_str LifecycleConflictKind.DuplicateAttemptNumber = ''duplicate_attempt_number''"

definition all_lifecycle_conflict_kinds :: "LifecycleConflictKind list" where
  "all_lifecycle_conflict_kinds =
    [LifecycleConflictKind.StaleState, LifecycleConflictKind.StaleVersion,
     LifecycleConflictKind.StaleOwner, LifecycleConflictKind.WrongCurrentAttempt,
     LifecycleConflictKind.IllegalTransition, LifecycleConflictKind.DuplicateTerminalDecision,
     LifecycleConflictKind.DuplicateAttemptIdentity,
     LifecycleConflictKind.DuplicateAttemptNumber]"

interpretation lifecycle_conflict_kind: stable_enum lifecycle_conflict_kind_str all_lifecycle_conflict_kinds
proof unfold_locales
  fix v :: LifecycleConflictKind
  show "v \<in> set all_lifecycle_conflict_kinds" by (cases v) (simp_all add: all_lifecycle_conflict_kinds_def)
qed (unfold all_lifecycle_conflict_kinds_def, code_simp)

datatype LifecycleInvariantKind =
    InvalidStateShape | MissingRequiredEvidence | VersionOverflow |
    UnclassifiableRecovery | ContradictoryProjection | ImpossibleTerminalShape

fun lifecycle_invariant_kind_str :: "LifecycleInvariantKind \<Rightarrow> string" where
  "lifecycle_invariant_kind_str LifecycleInvariantKind.InvalidStateShape = ''invalid_state_shape''"
| "lifecycle_invariant_kind_str LifecycleInvariantKind.MissingRequiredEvidence = ''missing_required_evidence''"
| "lifecycle_invariant_kind_str LifecycleInvariantKind.VersionOverflow = ''version_overflow''"
| "lifecycle_invariant_kind_str LifecycleInvariantKind.UnclassifiableRecovery = ''unclassifiable_recovery''"
| "lifecycle_invariant_kind_str LifecycleInvariantKind.ContradictoryProjection = ''contradictory_projection''"
| "lifecycle_invariant_kind_str LifecycleInvariantKind.ImpossibleTerminalShape = ''impossible_terminal_shape''"

definition all_lifecycle_invariant_kinds :: "LifecycleInvariantKind list" where
  "all_lifecycle_invariant_kinds =
    [LifecycleInvariantKind.InvalidStateShape, LifecycleInvariantKind.MissingRequiredEvidence,
     LifecycleInvariantKind.VersionOverflow, LifecycleInvariantKind.UnclassifiableRecovery,
     LifecycleInvariantKind.ContradictoryProjection,
     LifecycleInvariantKind.ImpossibleTerminalShape]"

interpretation lifecycle_invariant_kind: stable_enum lifecycle_invariant_kind_str all_lifecycle_invariant_kinds
proof unfold_locales
  fix v :: LifecycleInvariantKind
  show "v \<in> set all_lifecycle_invariant_kinds" by (cases v) (simp_all add: all_lifecycle_invariant_kinds_def)
qed (unfold all_lifecycle_invariant_kinds_def, code_simp)

datatype LifecycleTransitionError =
    Conflict LifecycleConflictKind
  | Invariant LifecycleInvariantKind

fun conflict_kind :: "LifecycleTransitionError \<Rightarrow> LifecycleConflictKind option" where
  "conflict_kind (Conflict kind) = Some kind"
| "conflict_kind (Invariant _) = None"

fun invariant_kind :: "LifecycleTransitionError \<Rightarrow> LifecycleInvariantKind option" where
  "invariant_kind (Conflict _) = None"
| "invariant_kind (Invariant kind) = Some kind"

fun to_normalized_error :: "LifecycleTransitionError \<Rightarrow> NormalizedError" where
  "to_normalized_error (Conflict _) = state_conflict_error"
| "to_normalized_error (Invariant _) = internal_invariant_error"

lemma work_active_not_terminal: "work_is_active s \<Longrightarrow> \<not> work_is_terminal s"
  by (cases s) simp_all

lemma work_phase_cases: "s = WorkState.Queued \<or> work_is_active s \<or> work_is_terminal s"
  by (cases s) simp_all

lemma to_normalized_error_definite: "certainty (to_normalized_error e) = Definite"
  by (cases e) (simp_all add: error_constructor_defs)

end
