(* ===== verification/Lifecycle_Work.thy ===== *)
theory Lifecycle_Work
  imports Lifecycle_Types
begin

text \<open>
  The work-item state machine of domain/lifecycle.rs: the projection
  \<open>WorkLifecycleSnapshot\<close>, its shape validation, the optimistic guard, the transition requests and
  \<open>decide_work_transition\<close>. The theory interprets the machine locales on the decision function, and
  shows which requests a well-formed projection accepts, what an accepted request does to each
  field, and what holds along whole runs.
\<close>

section \<open>The work projection\<close>

datatype CurrentWorkAttempt =
    AttemptNone
  | AttemptModel ModelInvocationId
  | AttemptTool ToolExecutionId

datatype WorkFailureReason =
    Definite_failure NormalizedError
  | ProviderExhausted
  | InvalidModelOutput ModelOutputFailure
  | Limit LifecycleLimit

datatype WorkTerminalReason =
    Completion WorkCompletionReason
  | Failure WorkFailureReason
  | Cancellation_reason WorkCancellationReason
  | Interruption WorkInterruptionReason

record WorkLifecycleSnapshot =
  wl_work_id :: WorkId
  wl_state :: WorkState
  wl_version :: ProjectionVersion
  wl_owner :: "RuntimeInstanceId option"
  wl_attempt :: CurrentWorkAttempt
  wl_cancellation :: "WorkCancellationReason option"
  wl_terminal :: "WorkTerminalReason option"

text \<open>
  \<open>initial\<close> unwraps \<open>ProjectionVersion::try_new(1)\<close>, which cannot fail.
\<close>

definition work_initial :: "WorkId \<Rightarrow> WorkLifecycleSnapshot" where
  "work_initial work_id =
     \<lparr>wl_work_id = work_id, wl_state = WorkState.Queued, wl_version = ExactPositiveInteger 1,
      wl_owner = None, wl_attempt = AttemptNone, wl_cancellation = None, wl_terminal = None\<rparr>"

fun work_shape_ok ::
  "WorkState \<Rightarrow> RuntimeInstanceId option \<Rightarrow> CurrentWorkAttempt \<Rightarrow> WorkCancellationReason option \<Rightarrow>
   WorkTerminalReason option \<Rightarrow> bool" where
  "work_shape_ok WorkState.Queued owner attempt cancellation terminal \<longleftrightarrow>
     owner = None \<and> attempt = AttemptNone \<and> cancellation = None \<and> terminal = None"
| "work_shape_ok WorkState.Running owner attempt cancellation terminal \<longleftrightarrow>
     owner \<noteq> None \<and> attempt = AttemptNone \<and> cancellation = None \<and> terminal = None"
| "work_shape_ok WorkState.WaitingOnModel owner attempt cancellation terminal \<longleftrightarrow>
     owner \<noteq> None \<and> (case attempt of AttemptModel _ \<Rightarrow> True | _ \<Rightarrow> False) \<and>
     cancellation = None \<and> terminal = None"
| "work_shape_ok WorkState.WaitingOnTool owner attempt cancellation terminal \<longleftrightarrow>
     owner \<noteq> None \<and> (case attempt of AttemptTool _ \<Rightarrow> True | _ \<Rightarrow> False) \<and>
     cancellation = None \<and> terminal = None"
| "work_shape_ok WorkState.CancelRequested owner attempt cancellation terminal \<longleftrightarrow>
     owner \<noteq> None \<and> cancellation \<noteq> None \<and> terminal = None"
| "work_shape_ok WorkState.Completed owner attempt cancellation terminal \<longleftrightarrow>
     owner = None \<and> attempt = AttemptNone \<and> cancellation = None \<and>
     (case terminal of Some (Completion _) \<Rightarrow> True | _ \<Rightarrow> False)"
| "work_shape_ok WorkState.Failed owner attempt cancellation terminal \<longleftrightarrow>
     owner = None \<and> attempt = AttemptNone \<and> cancellation = None \<and>
     (case terminal of Some (Failure _) \<Rightarrow> True | _ \<Rightarrow> False)"
| "work_shape_ok WorkState.Cancelled owner attempt cancellation terminal \<longleftrightarrow>
     owner = None \<and> attempt = AttemptNone \<and> cancellation = None \<and>
     (case terminal of Some (Cancellation_reason _) \<Rightarrow> True | _ \<Rightarrow> False)"
| "work_shape_ok WorkState.Interrupted owner attempt cancellation terminal \<longleftrightarrow>
     owner = None \<and> attempt = AttemptNone \<and> cancellation = None \<and>
     (case terminal of Some (Interruption _) \<Rightarrow> True | _ \<Rightarrow> False)"

definition validate_work_shape ::
  "WorkState \<Rightarrow> RuntimeInstanceId option \<Rightarrow> CurrentWorkAttempt \<Rightarrow> WorkCancellationReason option \<Rightarrow>
   WorkTerminalReason option \<Rightarrow> LifecycleTransitionError + unit" where
  "validate_work_shape state owner attempt cancellation terminal =
     (if work_shape_ok state owner attempt cancellation terminal then Inr ()
      else if work_is_terminal state
      then Inl (Invariant LifecycleInvariantKind.ImpossibleTerminalShape)
      else Inl (Invariant LifecycleInvariantKind.InvalidStateShape))"

abbreviation validate_snapshot :: "WorkLifecycleSnapshot \<Rightarrow> LifecycleTransitionError + unit" where
  "validate_snapshot s \<equiv>
     validate_work_shape (wl_state s) (wl_owner s) (wl_attempt s) (wl_cancellation s) (wl_terminal s)"

text \<open>
  \<open>WorkLifecycleSnapshotInput\<close> has the fields of the snapshot, so rehydration takes a candidate
  record and returns it only when its shape is legal.
\<close>

definition work_try_new ::
  "WorkLifecycleSnapshot \<Rightarrow> LifecycleTransitionError + WorkLifecycleSnapshot" where
  "work_try_new input = and_then (validate_snapshot input) (\<lambda>_. Inr input)"

definition work_wf :: "WorkLifecycleSnapshot \<Rightarrow> bool" where
  "work_wf s \<longleftrightarrow>
     work_shape_ok (wl_state s) (wl_owner s) (wl_attempt s) (wl_cancellation s) (wl_terminal s) \<and>
     epi_wf (wl_version s)"

section \<open>Guards, evidence and requests\<close>

record WorkTransitionGuard =
  expected_state :: WorkState
  expected_version :: ProjectionVersion
  expected_owner :: "RuntimeInstanceId option"
  expected_current_attempt :: CurrentWorkAttempt

definition for_snapshot :: "WorkLifecycleSnapshot \<Rightarrow> WorkTransitionGuard" where
  "for_snapshot s =
     \<lparr>expected_state = wl_state s, expected_version = wl_version s,
      expected_owner = wl_owner s, expected_current_attempt = wl_attempt s\<rparr>"

record WorkCompletionEvidence =
  assistant_message_in_owning_transaction :: bool
  terminal_model_invocation_completed :: bool
  cancellation_has_not_won :: bool

definition SATISFIED :: WorkCompletionEvidence where
  "SATISFIED =
     \<lparr>assistant_message_in_owning_transaction = True,
      terminal_model_invocation_completed = True, cancellation_has_not_won = True\<rparr>"

definition is_satisfied :: "WorkCompletionEvidence \<Rightarrow> bool" where
  "is_satisfied e \<longleftrightarrow>
     assistant_message_in_owning_transaction e \<and> terminal_model_invocation_completed e \<and>
     cancellation_has_not_won e"

datatype WorkTransitionRequest =
    Start RuntimeInstanceId
  | WaitForModel ModelInvocationId
  | ResumeFromModel ModelInvocationId
  | WaitForTool ToolExecutionId
  | ResumeFromTool ToolExecutionId
  | RequestCancellation WorkCancellationReason
  | Complete WorkCompletionReason WorkCompletionEvidence
  | Fail WorkFailureReason CleanupStatus
  | Cancel WorkCancellationReason CleanupStatus
  | Interrupt WorkInterruptionReason

fun target_state :: "WorkTransitionRequest \<Rightarrow> WorkState" where
  "target_state (Start _) = WorkState.Running"
| "target_state (ResumeFromModel _) = WorkState.Running"
| "target_state (ResumeFromTool _) = WorkState.Running"
| "target_state (WaitForModel _) = WorkState.WaitingOnModel"
| "target_state (WaitForTool _) = WorkState.WaitingOnTool"
| "target_state (RequestCancellation _) = WorkState.CancelRequested"
| "target_state (Complete _ _) = WorkState.Completed"
| "target_state (Fail _ _) = WorkState.Failed"
| "target_state (Cancel _ _) = WorkState.Cancelled"
| "target_state (Interrupt _) = WorkState.Interrupted"

definition is_terminal_decision :: "WorkTransitionRequest \<Rightarrow> bool" where
  "is_terminal_decision request = work_is_terminal (target_state request)"

datatype FinalAnswerEffect =
    InsertImmutableAssistantMessage
  | AppendAssistantMessageCommittedEvent
  | SetWorkCompleted
  | AppendWorkCompletedEvent
  | ClearOwnerAndCurrentAttempt

definition final_answer_required_effects :: "FinalAnswerEffect list" where
  "final_answer_required_effects =
     [InsertImmutableAssistantMessage, AppendAssistantMessageCommittedEvent, SetWorkCompleted,
      AppendWorkCompletedEvent, ClearOwnerAndCurrentAttempt]"

datatype WorkRequiredEffect =
    ClaimRuntimeOwnership
  | CommitModelIntent
  | CommitToolRequestOrDispatchIntent
  | CommitObservedModelTerminal
  | CommitObservedToolTerminal
  | CommitCancellationRequest
  | CommitFinalAnswer
  | CommitFailureEvidence
  | CommitConfirmedCancellation
  | CommitInterruptionEvidence

record WorkTransitionDecision =
  wd_next :: WorkLifecycleSnapshot
  wd_event_kind :: WorkEventKind
  wd_required_effect :: WorkRequiredEffect

section \<open>Deciding a transition\<close>

definition check_guard ::
  "WorkLifecycleSnapshot \<Rightarrow> WorkTransitionGuard \<Rightarrow> LifecycleTransitionError + unit" where
  "check_guard current guard =
     (if expected_state guard \<noteq> wl_state current
      then Inl (Conflict LifecycleConflictKind.StaleState)
      else if expected_version guard \<noteq> wl_version current
      then Inl (Conflict LifecycleConflictKind.StaleVersion)
      else if expected_owner guard \<noteq> wl_owner current
      then Inl (Conflict LifecycleConflictKind.StaleOwner)
      else if expected_current_attempt guard \<noteq> wl_attempt current
      then Inl (Conflict LifecycleConflictKind.WrongCurrentAttempt)
      else Inr ())"

fun is_legal_work_pair :: "WorkState \<Rightarrow> WorkState \<Rightarrow> bool" where
  "is_legal_work_pair WorkState.Queued WorkState.Running = True"
| "is_legal_work_pair WorkState.Queued WorkState.Cancelled = True"
| "is_legal_work_pair WorkState.Running WorkState.WaitingOnModel = True"
| "is_legal_work_pair WorkState.WaitingOnModel WorkState.Running = True"
| "is_legal_work_pair WorkState.WaitingOnModel WorkState.Failed = True"
| "is_legal_work_pair WorkState.Running WorkState.WaitingOnTool = True"
| "is_legal_work_pair WorkState.WaitingOnTool WorkState.Running = True"
| "is_legal_work_pair WorkState.Running WorkState.CancelRequested = True"
| "is_legal_work_pair WorkState.WaitingOnModel WorkState.CancelRequested = True"
| "is_legal_work_pair WorkState.WaitingOnTool WorkState.CancelRequested = True"
| "is_legal_work_pair WorkState.Running WorkState.Completed = True"
| "is_legal_work_pair WorkState.Running WorkState.Failed = True"
| "is_legal_work_pair WorkState.Running WorkState.Interrupted = True"
| "is_legal_work_pair WorkState.WaitingOnModel WorkState.Interrupted = True"
| "is_legal_work_pair WorkState.WaitingOnTool WorkState.Interrupted = True"
| "is_legal_work_pair WorkState.CancelRequested WorkState.Cancelled = True"
| "is_legal_work_pair WorkState.CancelRequested WorkState.Interrupted = True"
| "is_legal_work_pair _ _ = False"

type_synonym WorkTransitionFields =
  "RuntimeInstanceId option \<times> CurrentWorkAttempt \<times> WorkCancellationReason option \<times>
   WorkTerminalReason option \<times> WorkEventKind \<times> WorkRequiredEffect"

text \<open>The guard of the \<open>Fail\<close> arm: a definite failure must carry a definite error.\<close>

fun indefinite_failure :: "WorkFailureReason \<Rightarrow> bool" where
  "indefinite_failure (Definite_failure e) = (certainty e \<noteq> Definite)"
| "indefinite_failure _ = False"

fun transition_fields ::
  "WorkLifecycleSnapshot \<Rightarrow> WorkTransitionRequest \<Rightarrow> LifecycleTransitionError + WorkTransitionFields"
where
  "transition_fields current (Start runtime_owner) =
     Inr (Some runtime_owner, AttemptNone, None, None, WorkStarted, ClaimRuntimeOwnership)"
| "transition_fields current (WaitForModel model_id) =
     Inr (wl_owner current, AttemptModel model_id, None, None, WorkWaitingOnModel, CommitModelIntent)"
| "transition_fields current (ResumeFromModel model_id) =
     (if wl_attempt current \<noteq> AttemptModel model_id
      then Inl (Conflict LifecycleConflictKind.WrongCurrentAttempt)
      else Inr (wl_owner current, AttemptNone, None, None, WorkResumed, CommitObservedModelTerminal))"
| "transition_fields current (WaitForTool tool_id) =
     Inr (wl_owner current, AttemptTool tool_id, None, None, WorkWaitingOnTool,
          CommitToolRequestOrDispatchIntent)"
| "transition_fields current (ResumeFromTool tool_id) =
     (if wl_attempt current \<noteq> AttemptTool tool_id
      then Inl (Conflict LifecycleConflictKind.WrongCurrentAttempt)
      else Inr (wl_owner current, AttemptNone, None, None, WorkResumed, CommitObservedToolTerminal))"
| "transition_fields current (RequestCancellation reason) =
     Inr (wl_owner current, wl_attempt current, Some reason, None, WorkCancelRequested,
          CommitCancellationRequest)"
| "transition_fields current (Complete reason evidence) =
     (if \<not> is_satisfied evidence
      then Inl (Invariant LifecycleInvariantKind.MissingRequiredEvidence)
      else Inr (None, AttemptNone, None, Some (Completion reason), WorkCompleted, CommitFinalAnswer))"
| "transition_fields current (Fail reason cleanup_status) =
     (if cleanup_status = CleanupStatus.Unconfirmed \<or> indefinite_failure reason
      then Inl (Invariant LifecycleInvariantKind.MissingRequiredEvidence)
      else Inr (None, AttemptNone, None, Some (Failure reason), WorkFailed, CommitFailureEvidence))"
| "transition_fields current (Cancel reason cleanup_status) =
     (if cleanup_status = CleanupStatus.Unconfirmed \<or>
         (wl_state current = WorkState.Queued \<and> cleanup_status \<noteq> CleanupStatus.NotRequired) \<or>
         (wl_state current = WorkState.CancelRequested \<and> wl_cancellation current \<noteq> Some reason)
      then Inl (Invariant LifecycleInvariantKind.MissingRequiredEvidence)
      else Inr (None, AttemptNone, None, Some (Cancellation_reason reason), WorkCancelled,
                CommitConfirmedCancellation))"
| "transition_fields current (Interrupt reason) =
     Inr (None, AttemptNone, None, Some (Interruption reason), WorkInterrupted,
          CommitInterruptionEvidence)"

definition decide_work_transition ::
  "WorkLifecycleSnapshot \<Rightarrow> WorkTransitionGuard \<Rightarrow> WorkTransitionRequest \<Rightarrow>
   LifecycleTransitionError + WorkTransitionDecision" where
  "decide_work_transition current guard request =
     and_then (validate_snapshot current) (\<lambda>_.
     and_then (check_guard current guard) (\<lambda>_.
     if work_is_terminal (wl_state current)
     then Inl (Conflict (if is_terminal_decision request
                         then LifecycleConflictKind.DuplicateTerminalDecision
                         else LifecycleConflictKind.IllegalTransition))
     else let target = target_state request in
       if wl_state current = target \<or> \<not> is_legal_work_pair (wl_state current) target
       then Inl (Conflict LifecycleConflictKind.IllegalTransition)
       else
         and_then (map_err (\<lambda>_. Invariant LifecycleInvariantKind.VersionOverflow)
                     (epi_checked_increment (wl_version current))) (\<lambda>next_version.
         and_then (transition_fields current request)
           (\<lambda>(owner, attempt, cancellation, terminal, event_kind, required_effect).
         and_then (validate_work_shape target owner attempt cancellation terminal) (\<lambda>_.
         Inr \<lparr>wd_next = \<lparr>wl_work_id = wl_work_id current, wl_state = target,
                         wl_version = next_version, wl_owner = owner, wl_attempt = attempt,
                         wl_cancellation = cancellation, wl_terminal = terminal\<rparr>,
              wd_event_kind = event_kind, wd_required_effect = required_effect\<rparr>)))))"

section \<open>The transition matrix\<close>

lemma work_terminal_stuck: "work_is_terminal p \<Longrightarrow> \<not> is_legal_work_pair p q"
  by (cases p; cases q) simp_all

lemma legal_work_pair_irrefl: "\<not> is_legal_work_pair p p"
  by (cases p) simp_all

lemma legal_from_cancel_requested:
  "is_legal_work_pair WorkState.CancelRequested q \<longleftrightarrow>
     q = WorkState.Cancelled \<or> q = WorkState.Interrupted"
  by (cases q) simp_all

lemma legal_to_completed:
  "is_legal_work_pair p WorkState.Completed \<longleftrightarrow> p = WorkState.Running"
  by (cases p) simp_all

lemma legal_to_cancelled:
  "is_legal_work_pair p WorkState.Cancelled \<longleftrightarrow> p = WorkState.Queued \<or> p = WorkState.CancelRequested"
  by (cases p) simp_all

lemma never_back_to_queued: "\<not> is_legal_work_pair p WorkState.Queued"
  by (cases p) simp_all

section \<open>What an accepted request does\<close>

lemma validate_work_shape_iff:
  "validate_work_shape st ow at ca te = Inr u \<longleftrightarrow> work_shape_ok st ow at ca te"
  by (simp add: validate_work_shape_def)

lemma check_guard_iff: "check_guard s g = Inr u \<longleftrightarrow> g = for_snapshot s"
  by (cases g) (auto simp: check_guard_def for_snapshot_def)

lemma check_guard_err: "check_guard s g = Inl e \<Longrightarrow> \<exists>k. e = Conflict k"
  by (auto simp: check_guard_def split: if_splits)

lemma decide_work_transition_InrE:
  assumes "decide_work_transition s g r = Inr d"
  obtains v ow at ca te ev ef where
    "work_shape_ok (wl_state s) (wl_owner s) (wl_attempt s) (wl_cancellation s) (wl_terminal s)"
    "g = for_snapshot s" "\<not> work_is_terminal (wl_state s)"
    "is_legal_work_pair (wl_state s) (target_state r)"
    "epi_checked_increment (wl_version s) = Inr v"
    "transition_fields s r = Inr (ow, at, ca, te, ev, ef)"
    "work_shape_ok (target_state r) ow at ca te"
    "d = \<lparr>wd_next = \<lparr>wl_work_id = wl_work_id s, wl_state = target_state r, wl_version = v,
                      wl_owner = ow, wl_attempt = at, wl_cancellation = ca, wl_terminal = te\<rparr>,
          wd_event_kind = ev, wd_required_effect = ef\<rparr>"
  using assms
  by (auto simp: decide_work_transition_def Let_def result_iffs validate_work_shape_iff
      check_guard_iff split: if_splits)

lemma decide_work_transition_next:
  assumes "decide_work_transition s g r = Inr d"
  shows "wl_work_id (wd_next d) = wl_work_id s"
    and "wl_state (wd_next d) = target_state r"
    and "is_legal_work_pair (wl_state s) (wl_state (wd_next d))"
    and "epi_get (wl_version (wd_next d)) = epi_get (wl_version s) + 1"
    and "work_wf s \<Longrightarrow> work_wf (wd_next d)"
    and "g = for_snapshot s"
proof -
  from assms obtain v ow at ca te ev ef where d:
    "g = for_snapshot s" "is_legal_work_pair (wl_state s) (target_state r)"
    "epi_checked_increment (wl_version s) = Inr v" "work_shape_ok (target_state r) ow at ca te"
    "d = \<lparr>wd_next = \<lparr>wl_work_id = wl_work_id s, wl_state = target_state r, wl_version = v,
                      wl_owner = ow, wl_attempt = at, wl_cancellation = ca, wl_terminal = te\<rparr>,
          wd_event_kind = ev, wd_required_effect = ef\<rparr>"
    by (rule decide_work_transition_InrE)
  show "g = for_snapshot s" by (rule d(1))
  show "wl_work_id (wd_next d) = wl_work_id s" "wl_state (wd_next d) = target_state r"
    by (simp_all add: d(5))
  show "is_legal_work_pair (wl_state s) (wl_state (wd_next d))"
    using d(2) by (simp add: d(5))
  show "epi_get (wl_version (wd_next d)) = epi_get (wl_version s) + 1"
    using d(3) by (simp add: d(5) epi_checked_increment_Inr_iff)
  show "work_wf s \<Longrightarrow> work_wf (wd_next d)"
    using d(3,4) version_counter.incr_keeps_wf [of "wl_version s" v] by (simp add: work_wf_def d(5))
qed

text \<open>
  The evidence each request needs beyond a legal pair of states, stated without the fields it
  produces.
\<close>

fun request_admissible :: "WorkLifecycleSnapshot \<Rightarrow> WorkTransitionRequest \<Rightarrow> bool" where
  "request_admissible s (ResumeFromModel m) = (wl_attempt s = AttemptModel m)"
| "request_admissible s (ResumeFromTool t) = (wl_attempt s = AttemptTool t)"
| "request_admissible s (Complete _ evidence) = is_satisfied evidence"
| "request_admissible s (Fail reason cleanup) =
     (cleanup \<noteq> CleanupStatus.Unconfirmed \<and> \<not> indefinite_failure reason)"
| "request_admissible s (Cancel reason cleanup) =
     (cleanup \<noteq> CleanupStatus.Unconfirmed \<and>
      (wl_state s = WorkState.Queued \<longrightarrow> cleanup = CleanupStatus.NotRequired) \<and>
      (wl_state s = WorkState.CancelRequested \<longrightarrow> wl_cancellation s = Some reason))"
| "request_admissible s _ = True"

lemma transition_fields_admissible:
  "(\<exists>fs. transition_fields s r = Inr fs) \<longleftrightarrow> request_admissible s r"
  by (cases r) auto

lemma transition_fields_shape:
  assumes "work_shape_ok (wl_state s) (wl_owner s) (wl_attempt s) (wl_cancellation s) (wl_terminal s)"
    and "is_legal_work_pair (wl_state s) (target_state r)"
    and "transition_fields s r = Inr (ow, at, ca, te, ev, ef)"
  shows "work_shape_ok (target_state r) ow at ca te"
  using assms by (cases r; cases "wl_state s") (auto split: if_splits simp del: not_None_eq)

lemma decide_work_transition_ok_iff:
  assumes "work_wf s"
  shows "(\<exists>d. decide_work_transition s g r = Inr d) \<longleftrightarrow>
     g = for_snapshot s \<and> is_legal_work_pair (wl_state s) (target_state r) \<and>
     epi_get (wl_version s) < i64_max \<and> request_admissible s r"
proof
  assume "\<exists>d. decide_work_transition s g r = Inr d"
  then obtain d where "decide_work_transition s g r = Inr d" by blast
  then obtain v ow at ca te ev ef where "g = for_snapshot s"
    and "is_legal_work_pair (wl_state s) (target_state r)"
    and "epi_checked_increment (wl_version s) = Inr v"
    and "transition_fields s r = Inr (ow, at, ca, te, ev, ef)"
    by (rule decide_work_transition_InrE)
  moreover from this(4) have "request_admissible s r"
    using transition_fields_admissible [of s r] by blast
  ultimately show "g = for_snapshot s \<and> is_legal_work_pair (wl_state s) (target_state r) \<and>
     epi_get (wl_version s) < i64_max \<and> request_admissible s r"
    using assms by (simp add: work_wf_def version_counter.incr_iff)
next
  assume r: "g = for_snapshot s \<and> is_legal_work_pair (wl_state s) (target_state r) \<and>
     epi_get (wl_version s) < i64_max \<and> request_admissible s r"
  then obtain ow at ca te ev ef where f: "transition_fields s r = Inr (ow, at, ca, te, ev, ef)"
    using transition_fields_admissible [of s r] by (metis prod_cases6)
  have shape: "work_shape_ok (wl_state s) (wl_owner s) (wl_attempt s) (wl_cancellation s) (wl_terminal s)"
    using assms by (simp add: work_wf_def)
  have "work_shape_ok (target_state r) ow at ca te"
    using transition_fields_shape [OF shape _ f] r by blast
  moreover obtain v where "epi_checked_increment (wl_version s) = Inr v"
    using version_counter.incr_ok [of "wl_version s"] assms r by (auto simp: work_wf_def)
  moreover have "\<not> work_is_terminal (wl_state s)" "wl_state s \<noteq> target_state r"
    using r work_terminal_stuck legal_work_pair_irrefl by (blast, metis)
  ultimately show "\<exists>d. decide_work_transition s g r = Inr d"
    using r shape f check_guard_iff [of s g]
    by (simp add: decide_work_transition_def Let_def validate_work_shape_def)
qed

section \<open>Runs\<close>

definition work_step ::
  "WorkLifecycleSnapshot \<Rightarrow> WorkTransitionGuard \<times> WorkTransitionRequest \<Rightarrow>
   LifecycleTransitionError + WorkLifecycleSnapshot" where
  "work_step s gr = map_ok wd_next (decide_work_transition s (fst gr) (snd gr))"

lemma work_step_Inr_iff:
  "work_step s gr = Inr s' \<longleftrightarrow>
     (\<exists>d. decide_work_transition s (fst gr) (snd gr) = Inr d \<and> s' = wd_next d)"
  by (simp add: work_step_def map_ok_Inr_iff)

interpretation work: invariant_machine work_step wl_state is_legal_work_pair work_is_terminal work_wf
  by unfold_locales
    (auto simp: work_step_Inr_iff work_terminal_stuck dest: decide_work_transition_next)

interpretation work_version: versioned_machine work_step wl_state is_legal_work_pair work_is_terminal
  "\<lambda>s. epi_get (wl_version s)"
  by unfold_locales (auto simp: work_step_Inr_iff dest: decide_work_transition_next(4))

lemma work_initial_wf: "work_wf (work_initial w)"
  by (simp add: work_initial_def work_wf_def epi_wf_def i64_max_def)

lemma work_run_keeps_id:
  "fold_result work_step s rs = Inr s' \<Longrightarrow> wl_work_id s' = wl_work_id s"
  by (rule fold_result_invariant [where P = "\<lambda>t. wl_work_id t = wl_work_id s"])
    (auto simp: work_step_Inr_iff dest: decide_work_transition_next(1))

lemma stale_guard_rejected:
  assumes "work_wf s" and "wl_state s = wl_state s0 \<Longrightarrow> wl_version s \<noteq> wl_version s0"
  shows "\<exists>k. decide_work_transition s (for_snapshot s0) r = Inl (Conflict k) \<and>
             (k = LifecycleConflictKind.StaleState \<or> k = LifecycleConflictKind.StaleVersion)"
  using assms
  by (cases "wl_state s = wl_state s0")
    (auto simp: decide_work_transition_def validate_work_shape_def work_wf_def check_guard_def
      for_snapshot_def)

lemma cancel_requested_outcomes:
  "is_legal_work_pair\<^sup>*\<^sup>* p q \<Longrightarrow> p = WorkState.CancelRequested \<Longrightarrow>
   q \<in> {WorkState.CancelRequested, WorkState.Cancelled, WorkState.Interrupted}"
proof (induction rule: rtranclp.induct)
  case (rtrancl_refl p)
  then show ?case by simp
next
  case (rtrancl_into_rtrancl p q r)
  then have "q \<in> {WorkState.CancelRequested, WorkState.Cancelled, WorkState.Interrupted}" by blast
  with \<open>is_legal_work_pair q r\<close> show ?case
    using work_terminal_stuck by (auto simp: legal_from_cancel_requested)
qed

section \<open>Properties of the work lifecycle\<close>

lemma cancel_requested_step:
  assumes "decide_work_transition s g r = Inr d" and "wl_state s = WorkState.CancelRequested"
    and "wl_cancellation s = Some c"
  shows "wl_state (wd_next d) = WorkState.Interrupted \<or>
         wl_state (wd_next d) = WorkState.Cancelled \<and>
         wl_terminal (wd_next d) = Some (Cancellation_reason c)"
  using assms(1)
proof (rule decide_work_transition_InrE)
  fix v ow at ca te ev ef
  assume "is_legal_work_pair (wl_state s) (target_state r)"
    and "transition_fields s r = Inr (ow, at, ca, te, ev, ef)"
    and "d = \<lparr>wd_next = \<lparr>wl_work_id = wl_work_id s, wl_state = target_state r, wl_version = v,
                      wl_owner = ow, wl_attempt = at, wl_cancellation = ca, wl_terminal = te\<rparr>,
          wd_event_kind = ev, wd_required_effect = ef\<rparr>"
  with assms(2,3) show ?thesis
    by (cases r) (auto split: if_splits)
qed

lemma completed_step:
  assumes "decide_work_transition s g r = Inr d" and "wl_state (wd_next d) = WorkState.Completed"
  shows "\<exists>reason evidence. r = Complete reason evidence \<and> is_satisfied evidence \<and>
           wl_state s = WorkState.Running \<and> wl_terminal (wd_next d) = Some (Completion reason) \<and>
           wl_owner (wd_next d) = None \<and> wl_attempt (wd_next d) = AttemptNone \<and>
           wd_required_effect d = CommitFinalAnswer"
  using assms(1)
proof (rule decide_work_transition_InrE)
  fix v ow at ca te ev ef
  assume legal: "is_legal_work_pair (wl_state s) (target_state r)"
    and f: "transition_fields s r = Inr (ow, at, ca, te, ev, ef)"
    and d: "d = \<lparr>wd_next = \<lparr>wl_work_id = wl_work_id s, wl_state = target_state r, wl_version = v,
                      wl_owner = ow, wl_attempt = at, wl_cancellation = ca, wl_terminal = te\<rparr>,
          wd_event_kind = ev, wd_required_effect = ef\<rparr>"
  from d assms(2) have t: "target_state r = WorkState.Completed" by simp
  with legal have "wl_state s = WorkState.Running" by (simp add: legal_to_completed)
  with t f d show ?thesis by (cases r) (auto split: if_splits)
qed

text \<open>
  C1. On a well-formed projection, a request is accepted exactly when the guard is the projection's
  own, the pair of states is in the transition matrix, the version has a successor and the request
  carries its evidence; what is then decided is a well-formed projection of the same work item in
  the requested state, one version on.
\<close>

theorem work_transition_contract:
  assumes "work_wf s"
  shows "((\<exists>d. decide_work_transition s g r = Inr d) \<longleftrightarrow>
           g = for_snapshot s \<and> is_legal_work_pair (wl_state s) (target_state r) \<and>
           epi_get (wl_version s) < i64_max \<and> request_admissible s r) \<and>
         (\<forall>d. decide_work_transition s g r = Inr d \<longrightarrow>
           work_wf (wd_next d) \<and> wl_work_id (wd_next d) = wl_work_id s \<and>
           wl_state (wd_next d) = target_state r \<and>
           epi_get (wl_version (wd_next d)) = epi_get (wl_version s) + 1)"
  using decide_work_transition_ok_iff [OF assms, of g r] decide_work_transition_next [of s g r] assms
  by blast

definition sample_work :: WorkLifecycleSnapshot where
  "sample_work =
     \<lparr>wl_work_id = WorkId 1, wl_state = WorkState.WaitingOnModel, wl_version = ExactPositiveInteger 3,
      wl_owner = Some (RuntimeInstanceId 2), wl_attempt = AttemptModel (ModelInvocationId 4),
      wl_cancellation = None, wl_terminal = None\<rparr>"

lemma sample_work_wf: "work_wf sample_work"
  by (simp add: sample_work_def work_wf_def epi_wf_def i64_max_def)

theorem work_transition_contract_witness:
  "\<exists>d. decide_work_transition sample_work (for_snapshot sample_work)
          (ResumeFromModel (ModelInvocationId 4)) = Inr d \<and>
        wl_state (wd_next d) = WorkState.Running \<and> epi_get (wl_version (wd_next d)) = 4"
proof -
  note contract = work_transition_contract
    [OF sample_work_wf, of "for_snapshot sample_work" "ResumeFromModel (ModelInvocationId 4)"]
  obtain d where "decide_work_transition sample_work (for_snapshot sample_work)
      (ResumeFromModel (ModelInvocationId 4)) = Inr d"
    using contract by (auto simp: sample_work_def i64_max_def)
  with contract show ?thesis by (auto simp: sample_work_def)
qed

definition work_successors :: "WorkState \<Rightarrow> WorkState set" where
  "work_successors p =
     (case p of
        WorkState.Queued \<Rightarrow> {WorkState.Running, WorkState.Cancelled}
      | WorkState.Running \<Rightarrow>
          {WorkState.WaitingOnModel, WorkState.WaitingOnTool, WorkState.CancelRequested,
           WorkState.Completed, WorkState.Failed, WorkState.Interrupted}
      | WorkState.WaitingOnModel \<Rightarrow>
          {WorkState.Running, WorkState.CancelRequested, WorkState.Failed, WorkState.Interrupted}
      | WorkState.WaitingOnTool \<Rightarrow> {WorkState.Running, WorkState.CancelRequested, WorkState.Interrupted}
      | WorkState.CancelRequested \<Rightarrow> {WorkState.Cancelled, WorkState.Interrupted}
      | _ \<Rightarrow> {})"

lemma legal_work_pair_iff: "is_legal_work_pair p q \<longleftrightarrow> q \<in> work_successors p"
  by (cases p; cases q) (simp_all add: work_successors_def)

text \<open>
  C2. Every run of accepted transitions from the initial projection stays well-formed, keeps the
  work identity and counts its version up by one per transition. Every single step of it starts in a
  state that is not terminal, is asked with the guard of the projection it starts from, and goes to
  the state its request names, which is one of the listed successors of the state it leaves.
\<close>

theorem work_run_from_initial:
  assumes "fold_result work_step (work_initial w) rs = Inr s"
  shows "work_wf s \<and> wl_work_id s = w \<and> epi_get (wl_version s) = 1 + int (length rs) \<and>
         (\<forall>xs g r ys. rs = xs @ (g, r) # ys \<longrightarrow>
            (\<exists>m m'. fold_result work_step (work_initial w) xs = Inr m \<and> work_step m (g, r) = Inr m' \<and>
                 \<not> work_is_terminal (wl_state m) \<and> g = for_snapshot m \<and> wl_state m' = target_state r \<and>
                 wl_state m' \<in> work_successors (wl_state m)))"
proof (intro conjI allI impI)
  show "work_wf s" by (rule work.run_wf [OF work_initial_wf assms])
  show "wl_work_id s = w" using work_run_keeps_id [OF assms] by (simp add: work_initial_def)
  show "epi_get (wl_version s) = 1 + int (length rs)"
    using work_version.run_version [OF assms] by (simp add: work_initial_def)
next
  fix xs g r ys
  assume "rs = xs @ (g, r) # ys"
  with assms obtain m m' where m: "fold_result work_step (work_initial w) xs = Inr m"
    and step: "work_step m (g, r) = Inr m'"
    by (auto simp: fold_result_append and_then_Inr_iff)
  from step obtain d where d: "decide_work_transition m g r = Inr d" "m' = wd_next d"
    by (auto simp: work_step_Inr_iff)
  have "\<not> work_is_terminal (wl_state m)" using step work.terminal_rejects [of m "(g, r)"] by auto
  moreover have "g = for_snapshot m" "wl_state m' = target_state r"
      "wl_state m' \<in> work_successors (wl_state m)"
    using decide_work_transition_next [OF d(1)] d(2) by (auto simp: legal_work_pair_iff)
  ultimately show "\<exists>m m'. fold_result work_step (work_initial w) xs = Inr m \<and> work_step m (g, r) = Inr m' \<and>
      \<not> work_is_terminal (wl_state m) \<and> g = for_snapshot m \<and> wl_state m' = target_state r \<and>
      wl_state m' \<in> work_successors (wl_state m)"
    using m step by blast
qed

definition started_sample :: WorkLifecycleSnapshot where
  "started_sample = (work_initial (WorkId 1))
     \<lparr>wl_state := WorkState.Running, wl_version := ExactPositiveInteger 2,
      wl_owner := Some (RuntimeInstanceId 2)\<rparr>"

lemma started_sample_step:
  "work_step (work_initial (WorkId 1))
     (for_snapshot (work_initial (WorkId 1)), Start (RuntimeInstanceId 2)) = Inr started_sample"
  by (simp add: work_step_def decide_work_transition_def work_initial_def started_sample_def
      validate_work_shape_def check_guard_def for_snapshot_def epi_checked_increment_def i64_defs)

theorem work_run_from_initial_witness:
  "work_wf started_sample \<and> epi_get (wl_version started_sample) = 2"
  using work_run_from_initial [of "WorkId 1"
      "[(for_snapshot (work_initial (WorkId 1)), Start (RuntimeInstanceId 2))]" started_sample]
  by (simp add: started_sample_step)

text \<open>
  C3. No lost update: a guard taken from a projection is refused as stale by every projection that
  any nonempty run of accepted transitions reaches from it, whatever the request.
\<close>

theorem stale_guard_never_accepted:
  assumes "work_wf s" and "fold_result work_step s (r # rs) = Inr s'"
  shows "\<exists>k. decide_work_transition s' (for_snapshot s) req = Inl (Conflict k) \<and>
             (k = LifecycleConflictKind.StaleState \<or> k = LifecycleConflictKind.StaleVersion)"
proof (rule stale_guard_rejected)
  show "work_wf s'" by (rule work.run_wf [OF assms])
  show "wl_version s' \<noteq> wl_version s"
    using work_version.run_version [OF assms(2)] by auto
qed

theorem stale_guard_never_accepted_witness:
  "\<exists>k. decide_work_transition started_sample (for_snapshot (work_initial (WorkId 1)))
         (Cancel WorkCancellationReason.UserRequest CleanupStatus.NotRequired) = Inl (Conflict k)"
  using stale_guard_never_accepted [OF work_initial_wf, of "WorkId 1"
      "(for_snapshot (work_initial (WorkId 1)), Start (RuntimeInstanceId 2))" "[]" started_sample]
  by (auto simp: started_sample_step)

text \<open>
  C4. Once cancellation is requested it wins: every run from a \<open>cancel_requested\<close> projection ends
  there, in \<open>interrupted\<close>, or in \<open>cancelled\<close> with exactly the recorded reason; it never ends in
  \<open>completed\<close> or \<open>failed\<close>.
\<close>

theorem requested_cancellation_wins:
  assumes "wl_state s = WorkState.CancelRequested" and "wl_cancellation s = Some c"
    and "fold_result work_step s rs = Inr s'"
  shows "wl_state s' = WorkState.CancelRequested \<and> wl_cancellation s' = Some c \<or>
         wl_state s' = WorkState.Interrupted \<or>
         wl_state s' = WorkState.Cancelled \<and> wl_terminal s' = Some (Cancellation_reason c)"
    (is "?P s'")
proof (rule fold_result_invariant [where P = ?P, OF _ assms(3)])
  fix t r t'
  assume P: "?P t" and step: "work_step t r = Inr t'"
  from step have "\<not> work_is_terminal (wl_state t)"
    using work.terminal_rejects [of t r] by auto
  with P have t: "wl_state t = WorkState.CancelRequested" "wl_cancellation t = Some c" by auto
  from step obtain d where "decide_work_transition t (fst r) (snd r) = Inr d" and "t' = wd_next d"
    by (auto simp: work_step_Inr_iff)
  with cancel_requested_step [OF _ t] show "?P t'" by blast
qed (use assms in blast)

definition cancelling_sample :: WorkLifecycleSnapshot where
  "cancelling_sample = sample_work
     \<lparr>wl_state := WorkState.CancelRequested,
      wl_cancellation := Some WorkCancellationReason.UserRequest\<rparr>"

theorem requested_cancellation_wins_witness:
  "\<exists>s'. fold_result work_step cancelling_sample
          [(for_snapshot cancelling_sample,
            Cancel WorkCancellationReason.UserRequest CleanupStatus.Confirmed)] = Inr s' \<and>
        (wl_state s' = WorkState.CancelRequested \<or> wl_state s' = WorkState.Interrupted \<or>
         wl_terminal s' = Some (Cancellation_reason WorkCancellationReason.UserRequest))"
proof -
  obtain s' where run: "fold_result work_step cancelling_sample
      [(for_snapshot cancelling_sample,
        Cancel WorkCancellationReason.UserRequest CleanupStatus.Confirmed)] = Inr s'"
    by (simp add: work_step_def decide_work_transition_def cancelling_sample_def sample_work_def
        validate_work_shape_def check_guard_def for_snapshot_def epi_checked_increment_def i64_defs)
  with requested_cancellation_wins [OF _ _ run, of WorkCancellationReason.UserRequest]
  show ?thesis by (auto simp: cancelling_sample_def)
qed

text \<open>
  C5. A work item becomes \<open>completed\<close> only by a \<open>Complete\<close> request on a running projection with all
  three pieces of evidence; the decision then clears the owner and the attempt, records the reason
  and requires the atomic final-answer effects.
\<close>

theorem completion_needs_evidence:
  assumes "fold_result work_step (work_initial w) rs = Inr s"
    and "wl_state s = WorkState.Completed"
  shows "\<exists>rs' m reason evidence d. fold_result work_step (work_initial w) rs' = Inr m \<and>
           rs = rs' @ [(for_snapshot m, Complete reason evidence)] \<and> is_satisfied evidence \<and>
           wl_state m = WorkState.Running \<and>
           decide_work_transition m (for_snapshot m) (Complete reason evidence) = Inr d \<and>
           wd_required_effect d = CommitFinalAnswer \<and> s = wd_next d \<and>
           wl_terminal s = Some (Completion reason) \<and> wl_owner s = None \<and> wl_attempt s = AttemptNone"
proof (cases rs rule: rev_cases)
  case Nil
  with assms show ?thesis by (auto simp: work_initial_def)
next
  case (snoc rs' gr)
  with assms(1) obtain m where m: "fold_result work_step (work_initial w) rs' = Inr m"
    and "work_step m gr = Inr s"
    by (auto simp: fold_result_append and_then_Inr_iff)
  then obtain d where d: "decide_work_transition m (fst gr) (snd gr) = Inr d" "s = wd_next d"
    by (auto simp: work_step_Inr_iff)
  moreover from d have "fst gr = for_snapshot m" by (blast dest: decide_work_transition_next(6))
  moreover obtain reason evidence where "snd gr = Complete reason evidence" "is_satisfied evidence"
    "wl_state m = WorkState.Running" "wl_terminal s = Some (Completion reason)"
    "wl_owner s = None" "wl_attempt s = AttemptNone" "wd_required_effect d = CommitFinalAnswer"
    using completed_step [OF d(1)] assms(2) d(2) by blast
  ultimately show ?thesis using m snoc by (cases gr) auto
qed

definition completed_sample :: WorkLifecycleSnapshot where
  "completed_sample = started_sample
     \<lparr>wl_state := WorkState.Completed, wl_version := ExactPositiveInteger 3, wl_owner := None,
      wl_terminal := Some (Completion WorkCompletionReason.Answered)\<rparr>"

lemma completed_sample_step:
  "work_step started_sample
     (for_snapshot started_sample, Complete WorkCompletionReason.Answered SATISFIED) =
   Inr completed_sample"
  by (simp add: work_step_def decide_work_transition_def work_initial_def started_sample_def
      completed_sample_def validate_work_shape_def check_guard_def for_snapshot_def SATISFIED_def
      is_satisfied_def epi_checked_increment_def i64_defs)

theorem completion_needs_evidence_witness:
  "\<exists>m evidence. wl_state m = WorkState.Running \<and> is_satisfied evidence \<and>
     fold_result work_step (work_initial (WorkId 1))
       [(for_snapshot (work_initial (WorkId 1)), Start (RuntimeInstanceId 2))] = Inr m"
proof -
  have "fold_result work_step (work_initial (WorkId 1))
      [(for_snapshot (work_initial (WorkId 1)), Start (RuntimeInstanceId 2)),
       (for_snapshot started_sample, Complete WorkCompletionReason.Answered SATISFIED)] =
    Inr completed_sample"
    by (simp add: started_sample_step completed_sample_step)
  moreover have "wl_state completed_sample = WorkState.Completed"
    by (simp add: completed_sample_def)
  ultimately show ?thesis
    using completion_needs_evidence [of "WorkId 1"
        "[(for_snapshot (work_initial (WorkId 1)), Start (RuntimeInstanceId 2)),
          (for_snapshot started_sample, Complete WorkCompletionReason.Answered SATISFIED)]"
        completed_sample]
    by auto
qed

text \<open>
  The matrix alone does not separate a first start from a resumption: a \<open>Start\<close> request is accepted
  while a model attempt is outstanding, drops that attempt and hands the work to another owner.
\<close>

lemma start_accepted_while_waiting:
  "\<exists>d. decide_work_transition sample_work (for_snapshot sample_work) (Start (RuntimeInstanceId 9)) = Inr d
      \<and> wl_owner (wd_next d) = Some (RuntimeInstanceId 9) \<and> wl_attempt (wd_next d) = AttemptNone
      \<and> wd_event_kind d = WorkStarted"
  by (simp add: decide_work_transition_def sample_work_def validate_work_shape_def check_guard_def
      for_snapshot_def epi_checked_increment_def i64_defs)

end
