(* ===== verification/Evidence.thy ===== *)
theory Evidence
  imports Scalars
begin

text \<open>
  Immutable evidence references of domain/evidence.rs: the grammars of the bounded ASCII
  identifiers, the positive reference integers, model capabilities, the provider-model reference
  and the model-attempt reference that the lifecycle carries. A Rust string is its list of UTF-8
  bytes.
\<close>

section \<open>Bounded identifiers\<close>

definition is_ascii_lowercase :: "char \<Rightarrow> bool" where
  "is_ascii_lowercase c \<longleftrightarrow> 97 \<le> (of_char c :: nat) \<and> (of_char c :: nat) \<le> 122"

definition is_ascii_digit :: "char \<Rightarrow> bool" where
  "is_ascii_digit c \<longleftrightarrow> 48 \<le> (of_char c :: nat) \<and> (of_char c :: nat) \<le> 57"

definition is_ascii_graphic :: "char \<Rightarrow> bool" where
  "is_ascii_graphic c \<longleftrightarrow> 33 \<le> (of_char c :: nat) \<and> (of_char c :: nat) \<le> 126"

definition is_ascii_byte :: "char \<Rightarrow> bool" where
  "is_ascii_byte c \<longleftrightarrow> (of_char c :: nat) < 128"

definition lower_reference :: "string \<Rightarrow> nat \<Rightarrow> bool" where
  "lower_reference bytes max_len \<longleftrightarrow>
     bytes \<noteq> [] \<and> length bytes \<le> max_len \<and> list_all is_ascii_byte bytes \<and>
     (is_ascii_lowercase (hd bytes) \<or> is_ascii_digit (hd bytes)) \<and>
     list_all (\<lambda>b. is_ascii_lowercase b \<or> is_ascii_digit b \<or> b \<in> {CHR ''.'', CHR ''_'', CHR ''-''})
       (tl bytes)"

definition reason_code :: "string \<Rightarrow> nat \<Rightarrow> bool" where
  "reason_code bytes max_len \<longleftrightarrow>
     bytes \<noteq> [] \<and> length bytes \<le> max_len \<and> list_all is_ascii_byte bytes \<and>
     is_ascii_lowercase (hd bytes) \<and>
     list_all (\<lambda>b. is_ascii_lowercase b \<or> is_ascii_digit b \<or> b = CHR ''_'') (tl bytes)"

definition visible_ascii :: "string \<Rightarrow> nat \<Rightarrow> bool" where
  "visible_ascii bytes max_len \<longleftrightarrow>
     bytes \<noteq> [] \<and> length bytes \<le> max_len \<and> list_all is_ascii_graphic bytes"

text \<open>The constructor the \<open>bounded_reference\<close> macro generates; validator and bound are its arguments.\<close>

definition bounded_reference_try_new ::
  "(string \<Rightarrow> nat \<Rightarrow> bool) \<Rightarrow> nat \<Rightarrow> string \<Rightarrow> DomainValidationError + string" where
  "bounded_reference_try_new validator max_len value =
     (if \<not> validator value max_len then Inl (DomainValidationError InvalidBoundedIdentifier)
      else Inr value)"

definition provider_id_try_new :: "string \<Rightarrow> DomainValidationError + string" where
  "provider_id_try_new = bounded_reference_try_new lower_reference 64"

definition model_target_id_try_new :: "string \<Rightarrow> DomainValidationError + string" where
  "model_target_id_try_new = bounded_reference_try_new lower_reference 64"

definition tool_name_try_new :: "string \<Rightarrow> DomainValidationError + string" where
  "tool_name_try_new = bounded_reference_try_new lower_reference 64"

definition tool_version_try_new :: "string \<Rightarrow> DomainValidationError + string" where
  "tool_version_try_new = bounded_reference_try_new visible_ascii 64"

definition authority_reason_code_try_new :: "string \<Rightarrow> DomainValidationError + string" where
  "authority_reason_code_try_new = bounded_reference_try_new reason_code 64"

section \<open>Positive reference integers and capabilities\<close>

datatype PositiveReferenceInteger = PositiveReferenceInteger int

type_synonym TargetConfigurationVersion = PositiveReferenceInteger
type_synonym TokenCount = PositiveReferenceInteger

fun pri_get :: "PositiveReferenceInteger \<Rightarrow> int" where
  "pri_get (PositiveReferenceInteger v) = v"

definition pri_try_new :: "int \<Rightarrow> DomainValidationError + PositiveReferenceInteger" where
  "pri_try_new value =
     (if 0 < value then Inr (PositiveReferenceInteger value)
      else Inl (DomainValidationError InvalidEvidenceReference))"

record ModelCapabilitySnapshot =
  cap_text_input :: bool
  cap_text_output :: bool
  cap_custom_tool_calling :: bool
  cap_streaming :: bool
  cap_ordered_output_items :: bool
  cap_structured_output :: bool
  cap_reasoning_continuation :: bool
  cap_context_window_tokens :: TokenCount
  cap_max_output_tokens :: TokenCount

record ProviderModelReference =
  pm_model_target_id :: string
  pm_provider_id :: string
  pm_provider_model_id :: string
  pm_target_configuration_version :: TargetConfigurationVersion
  pm_capabilities :: ModelCapabilitySnapshot

record ModelAttemptReference =
  ma_logical_invocation_id :: LogicalInvocationId
  ma_model_invocation_id :: ModelInvocationId
  ma_work_id :: WorkId
  ma_runtime_instance_id :: RuntimeInstanceId
  ma_context_manifest_id :: ContextManifestId
  ma_agent_step_no :: AgentStepNo
  ma_attempt_no :: AttemptNo
  ma_provider_model :: ProviderModelReference
  ma_retry_of :: "ModelInvocationId option"

lemma lowercase_or_digit_graphic:
  "is_ascii_lowercase c \<or> is_ascii_digit c \<Longrightarrow> is_ascii_graphic c"
  by (auto simp: is_ascii_lowercase_def is_ascii_digit_def is_ascii_graphic_def)

lemma lower_reference_is_visible: "lower_reference s n \<Longrightarrow> visible_ascii s n"
proof -
  assume l: "lower_reference s n"
  then obtain c cs where s: "s = c # cs" by (cases s) (auto simp: lower_reference_def)
  have "is_ascii_graphic b"
    if "is_ascii_lowercase b \<or> is_ascii_digit b \<or> b \<in> {CHR ''.'', CHR ''_'', CHR ''-''}" for b
    using that lowercase_or_digit_graphic [of b] by (auto simp: is_ascii_graphic_def)
  with l show ?thesis
    by (auto simp: lower_reference_def visible_ascii_def list_all_iff s)
qed

lemma reason_code_is_lower_reference: "reason_code s n \<Longrightarrow> lower_reference s n"
  by (auto simp: reason_code_def lower_reference_def list_all_iff)

lemma bounded_reference_preserves:
  "bounded_reference_try_new validator n s = Inr t \<longleftrightarrow> validator s n \<and> t = s"
  by (auto simp: bounded_reference_try_new_def)

end
