(* ===== verification/Lifecycle_Attempts.thy ===== *)
theory Lifecycle_Attempts
  imports Lifecycle_Types Evidence
begin

text \<open>
  The attempt state machines of domain/lifecycle.rs: model invocations (with the retry linkage of
  \<open>decide_next_model_attempt\<close>) and tool executions, over the attempt references of
  domain/evidence.rs. Both machines are interpreted as ranked machines: an attempt takes at most two
  transitions and no request is accepted after a terminal one.
\<close>

section \<open>Model invocations\<close>

record ModelInvocationLifecycle =
  ml_reference :: ModelAttemptReference
  ml_state :: ModelInvocationState

definition validate_model_reference_shape ::
  "ModelAttemptReference \<Rightarrow> LifecycleTransitionError + unit" where
  "validate_model_reference_shape reference =
     (let is_first = (pi_get (ma_attempt_no reference) = 1) in
      if is_first = (ma_retry_of reference = None) then Inr ()
      else Inl (Invariant LifecycleInvariantKind.InvalidStateShape))"

definition model_start ::
  "ModelAttemptReference \<Rightarrow> LifecycleTransitionError + ModelInvocationLifecycle" where
  "model_start reference =
     and_then (validate_model_reference_shape reference)
       (\<lambda>_. Inr \<lparr>ml_reference = reference, ml_state = ModelInvocationState.Requesting\<rparr>)"

definition model_try_new ::
  "ModelAttemptReference \<Rightarrow> ModelInvocationState \<Rightarrow>
   LifecycleTransitionError + ModelInvocationLifecycle" where
  "model_try_new reference state =
     and_then (validate_model_reference_shape reference)
       (\<lambda>_. Inr \<lparr>ml_reference = reference, ml_state = state\<rparr>)"

text \<open>Each flag is the evidence field of the variant.\<close>

datatype ModelTransitionRequest =
    ObserveFirstProviderDelta
  | CompleteModel bool
  | FailModel bool
  | CancelLocally bool
  | MarkProviderOutcomeUnknown

fun model_target_state :: "ModelTransitionRequest \<Rightarrow> ModelInvocationState" where
  "model_target_state ObserveFirstProviderDelta = ModelInvocationState.Streaming"
| "model_target_state (CompleteModel _) = ModelInvocationState.Completed"
| "model_target_state (FailModel _) = ModelInvocationState.Failed"
| "model_target_state (CancelLocally _) = ModelInvocationState.CancelledLocally"
| "model_target_state MarkProviderOutcomeUnknown = ModelInvocationState.ProviderOutcomeUnknown"

datatype ModelLifecycleEffect =
    FirstValidProviderDeltaObserved
  | CompleteNormalizedResponseDurablyObserved
  | DefiniteTerminalFailureObserved
  | LocalWaitCancellationConfirmed
  | ProviderOutcomeClassifiedUnknown

record ModelTransitionDecision =
  md_next :: ModelInvocationLifecycle
  md_effect :: ModelLifecycleEffect

fun is_legal_model_pair :: "ModelInvocationState \<Rightarrow> ModelInvocationState \<Rightarrow> bool" where
  "is_legal_model_pair ModelInvocationState.Requesting ModelInvocationState.Streaming = True"
| "is_legal_model_pair ModelInvocationState.Requesting ModelInvocationState.Completed = True"
| "is_legal_model_pair ModelInvocationState.Streaming ModelInvocationState.Completed = True"
| "is_legal_model_pair ModelInvocationState.Requesting ModelInvocationState.Failed = True"
| "is_legal_model_pair ModelInvocationState.Streaming ModelInvocationState.Failed = True"
| "is_legal_model_pair ModelInvocationState.Requesting ModelInvocationState.CancelledLocally = True"
| "is_legal_model_pair ModelInvocationState.Streaming ModelInvocationState.CancelledLocally = True"
| "is_legal_model_pair ModelInvocationState.Requesting ModelInvocationState.ProviderOutcomeUnknown = True"
| "is_legal_model_pair ModelInvocationState.Streaming ModelInvocationState.ProviderOutcomeUnknown = True"
| "is_legal_model_pair _ _ = False"

fun model_effect :: "ModelTransitionRequest \<Rightarrow> LifecycleTransitionError + ModelLifecycleEffect" where
  "model_effect ObserveFirstProviderDelta = Inr FirstValidProviderDeltaObserved"
| "model_effect (CompleteModel normalized_response_durably_observed) =
     (if \<not> normalized_response_durably_observed
      then Inl (Invariant LifecycleInvariantKind.MissingRequiredEvidence)
      else Inr CompleteNormalizedResponseDurablyObserved)"
| "model_effect (FailModel definite_terminal_failure_observed) =
     (if \<not> definite_terminal_failure_observed
      then Inl (Invariant LifecycleInvariantKind.MissingRequiredEvidence)
      else Inr DefiniteTerminalFailureObserved)"
| "model_effect (CancelLocally local_wait_cancellation_confirmed) =
     (if \<not> local_wait_cancellation_confirmed
      then Inl (Invariant LifecycleInvariantKind.MissingRequiredEvidence)
      else Inr LocalWaitCancellationConfirmed)"
| "model_effect MarkProviderOutcomeUnknown = Inr ProviderOutcomeClassifiedUnknown"

definition decide_model_transition ::
  "ModelInvocationLifecycle \<Rightarrow> ModelTransitionRequest \<Rightarrow>
   LifecycleTransitionError + ModelTransitionDecision" where
  "decide_model_transition current request =
     (if model_is_terminal (ml_state current)
      then Inl (Conflict LifecycleConflictKind.IllegalTransition)
      else let target = model_target_state request in
        if ml_state current = target \<or> \<not> is_legal_model_pair (ml_state current) target
        then Inl (Conflict LifecycleConflictKind.IllegalTransition)
        else and_then (model_effect request) (\<lambda>effect.
          Inr \<lparr>md_next = \<lparr>ml_reference = ml_reference current, ml_state = target\<rparr>,
               md_effect = effect\<rparr>))"

datatype FirstProviderDeltaDecision =
    Transition ModelTransitionDecision
  | AlreadyStreamingNoOp

definition decide_first_provider_delta ::
  "ModelInvocationLifecycle \<Rightarrow> LifecycleTransitionError + FirstProviderDeltaDecision" where
  "decide_first_provider_delta current =
     (case ml_state current of
        ModelInvocationState.Requesting \<Rightarrow>
          map_ok Transition (decide_model_transition current ObserveFirstProviderDelta)
      | ModelInvocationState.Streaming \<Rightarrow> Inr AlreadyStreamingNoOp
      | _ \<Rightarrow> Inl (Conflict LifecycleConflictKind.IllegalTransition))"

definition decide_next_model_attempt ::
  "ModelInvocationLifecycle \<Rightarrow> ModelAttemptReference \<Rightarrow> ModelInvocationLifecycle list \<Rightarrow>
   LifecycleTransitionError + ModelInvocationLifecycle" where
  "decide_next_model_attempt predecessor candidate existing_attempts =
     (if \<not> model_is_terminal (ml_state predecessor)
      then Inl (Conflict LifecycleConflictKind.IllegalTransition)
      else if ma_model_invocation_id candidate = ma_model_invocation_id (ml_reference predecessor) \<or>
        list_ex (\<lambda>attempt. ma_model_invocation_id (ml_reference attempt) =
                           ma_model_invocation_id candidate) existing_attempts
      then Inl (Conflict LifecycleConflictKind.DuplicateAttemptIdentity)
      else if list_ex (\<lambda>attempt.
            ma_logical_invocation_id (ml_reference attempt) = ma_logical_invocation_id candidate \<and>
            ma_work_id (ml_reference attempt) = ma_work_id candidate \<and>
            ma_attempt_no (ml_reference attempt) = ma_attempt_no candidate) existing_attempts \<or>
        ma_attempt_no candidate = ma_attempt_no (ml_reference predecessor)
      then Inl (Conflict LifecycleConflictKind.DuplicateAttemptNumber)
      else let previous = ml_reference predecessor in
        and_then (map_err (\<lambda>_. Invariant LifecycleInvariantKind.VersionOverflow)
                    (pi_checked_increment (ma_attempt_no previous))) (\<lambda>expected_attempt.
        if \<not> (ma_logical_invocation_id candidate = ma_logical_invocation_id previous \<and>
              ma_work_id candidate = ma_work_id previous \<and>
              ma_context_manifest_id candidate = ma_context_manifest_id previous \<and>
              ma_agent_step_no candidate = ma_agent_step_no previous \<and>
              ma_attempt_no candidate = expected_attempt \<and>
              ma_retry_of candidate = Some (ma_model_invocation_id previous))
        then Inl (Conflict LifecycleConflictKind.IllegalTransition)
        else model_start candidate))"

section \<open>Tool executions\<close>

record ToolLifecycleReference =
  tr_tool_execution_id :: ToolExecutionId
  tr_execution_id :: ExecutionId
  tr_work_id :: WorkId
  tr_runtime_instance_id :: RuntimeInstanceId
  tr_source_model_invocation_id :: ModelInvocationId
  tr_agent_step_no :: AgentStepNo
  tr_tool_ordinal :: ToolOrdinal

record ToolExecutionLifecycle =
  tl_reference :: ToolLifecycleReference
  tl_state :: ToolExecutionState

definition tool_requested :: "ToolLifecycleReference \<Rightarrow> ToolExecutionLifecycle" where
  "tool_requested reference =
     \<lparr>tl_reference = reference, tl_state = ToolExecutionState.Requested\<rparr>"

datatype ToolTransitionRequest =
    BeginDispatch
  | CompleteTool ToolResultClass CleanupStatus
  | InterruptBeforeDispatch
  | MarkOutcomeUnknown

datatype ToolLifecycleEffect =
    DispatchIntentMustCommitBeforeAction
  | TerminalResult ToolResultClass CleanupStatus
  | ExternalSideEffectDefinitelyAbsent
  | DispatchOutcomeOrCleanupUnknown

record ToolTransitionDecision =
  td_next :: ToolExecutionLifecycle
  td_effect :: ToolLifecycleEffect

fun is_legal_tool_pair :: "ToolExecutionState \<Rightarrow> ToolExecutionState \<Rightarrow> bool" where
  "is_legal_tool_pair ToolExecutionState.Requested ToolExecutionState.Dispatching = True"
| "is_legal_tool_pair ToolExecutionState.Requested ToolExecutionState.Completed = True"
| "is_legal_tool_pair ToolExecutionState.Requested ToolExecutionState.InterruptedBeforeDispatch = True"
| "is_legal_tool_pair ToolExecutionState.Dispatching ToolExecutionState.Completed = True"
| "is_legal_tool_pair ToolExecutionState.Dispatching ToolExecutionState.OutcomeUnknown = True"
| "is_legal_tool_pair _ _ = False"

fun tool_target ::
  "ToolExecutionLifecycle \<Rightarrow> ToolTransitionRequest \<Rightarrow>
   LifecycleTransitionError + ToolExecutionState \<times> ToolLifecycleEffect" where
  "tool_target current BeginDispatch =
     Inr (ToolExecutionState.Dispatching, DispatchIntentMustCommitBeforeAction)"
| "tool_target current InterruptBeforeDispatch =
     Inr (ToolExecutionState.InterruptedBeforeDispatch, ExternalSideEffectDefinitelyAbsent)"
| "tool_target current MarkOutcomeUnknown =
     Inr (ToolExecutionState.OutcomeUnknown, DispatchOutcomeOrCleanupUnknown)"
| "tool_target current (CompleteTool result cleanup_status) =
     (if tl_state current = ToolExecutionState.Requested then
        (if \<not> allowed_before_dispatch result \<or> cleanup_status \<noteq> CleanupStatus.NotRequired
         then Inl (Invariant LifecycleInvariantKind.MissingRequiredEvidence)
         else Inr (ToolExecutionState.Completed, TerminalResult result cleanup_status))
      else if cleanup_status = CleanupStatus.Unconfirmed
      then Inr (ToolExecutionState.OutcomeUnknown, DispatchOutcomeOrCleanupUnknown)
      else if requires_confirmed_cleanup result \<and> cleanup_status \<noteq> CleanupStatus.Confirmed
      then Inl (Invariant LifecycleInvariantKind.MissingRequiredEvidence)
      else Inr (ToolExecutionState.Completed, TerminalResult result cleanup_status))"

definition decide_tool_transition ::
  "ToolExecutionLifecycle \<Rightarrow> ToolTransitionRequest \<Rightarrow>
   LifecycleTransitionError + ToolTransitionDecision" where
  "decide_tool_transition current request =
     (if tool_is_terminal (tl_state current)
      then Inl (Conflict LifecycleConflictKind.IllegalTransition)
      else and_then (tool_target current request) (\<lambda>(target, effect).
        if tl_state current = target \<or> \<not> is_legal_tool_pair (tl_state current) target
        then Inl (Conflict LifecycleConflictKind.IllegalTransition)
        else Inr \<lparr>td_next = \<lparr>tl_reference = tl_reference current, tl_state = target\<rparr>,
                  td_effect = effect\<rparr>))"

section \<open>Machines\<close>

fun model_rank :: "ModelInvocationState \<Rightarrow> nat" where
  "model_rank ModelInvocationState.Requesting = 2"
| "model_rank ModelInvocationState.Streaming = 1"
| "model_rank _ = 0"

fun tool_rank :: "ToolExecutionState \<Rightarrow> nat" where
  "tool_rank ToolExecutionState.Requested = 2"
| "tool_rank ToolExecutionState.Dispatching = 1"
| "tool_rank _ = 0"

definition model_step ::
  "ModelInvocationLifecycle \<Rightarrow> ModelTransitionRequest \<Rightarrow>
   LifecycleTransitionError + ModelInvocationLifecycle" where
  "model_step s r = map_ok md_next (decide_model_transition s r)"

definition tool_step ::
  "ToolExecutionLifecycle \<Rightarrow> ToolTransitionRequest \<Rightarrow>
   LifecycleTransitionError + ToolExecutionLifecycle" where
  "tool_step s r = map_ok td_next (decide_tool_transition s r)"

lemma decide_model_transition_Inr_iff:
  "decide_model_transition s r = Inr d \<longleftrightarrow>
     is_legal_model_pair (ml_state s) (model_target_state r) \<and>
     (\<exists>e. model_effect r = Inr e \<and>
          d = \<lparr>md_next = \<lparr>ml_reference = ml_reference s, ml_state = model_target_state r\<rparr>,
               md_effect = e\<rparr>)"
  by (cases "ml_state s"; cases r) (auto simp: decide_model_transition_def Let_def result_iffs)

lemma decide_tool_transition_Inr_iff:
  "decide_tool_transition s r = Inr d \<longleftrightarrow>
     (\<exists>t e. tool_target s r = Inr (t, e) \<and> is_legal_tool_pair (tl_state s) t \<and>
            d = \<lparr>td_next = \<lparr>tl_reference = tl_reference s, tl_state = t\<rparr>, td_effect = e\<rparr>)"
proof -
  have "is_legal_tool_pair (tl_state s) t \<Longrightarrow> \<not> tool_is_terminal (tl_state s) \<and> tl_state s \<noteq> t" for t
    by (cases "tl_state s"; cases t) simp_all
  then show ?thesis
    by (auto simp: decide_tool_transition_def result_iffs split: if_splits)
qed

interpretation model_attempt:
  ranked_machine model_step ml_state is_legal_model_pair model_is_terminal model_rank
proof unfold_locales
  fix s r s'
  show "model_step s r = Inr s' \<Longrightarrow> is_legal_model_pair (ml_state s) (ml_state s')"
    by (auto simp: model_step_def map_ok_Inr_iff decide_model_transition_Inr_iff)
next
  fix p q
  show "model_is_terminal p \<Longrightarrow> \<not> is_legal_model_pair p q" by (cases p; cases q) simp_all
  show "is_legal_model_pair p q \<Longrightarrow> model_rank q < model_rank p" by (cases p; cases q) simp_all
qed

interpretation tool_attempt:
  ranked_machine tool_step tl_state is_legal_tool_pair tool_is_terminal tool_rank
proof unfold_locales
  fix s r s'
  show "tool_step s r = Inr s' \<Longrightarrow> is_legal_tool_pair (tl_state s) (tl_state s')"
    by (auto simp: tool_step_def map_ok_Inr_iff decide_tool_transition_Inr_iff)
next
  fix p q
  show "tool_is_terminal p \<Longrightarrow> \<not> is_legal_tool_pair p q" by (cases p; cases q) simp_all
  show "is_legal_tool_pair p q \<Longrightarrow> tool_rank q < tool_rank p" by (cases p; cases q) simp_all
qed

lemma validate_model_reference_shape_iff:
  "validate_model_reference_shape r = Inr u \<longleftrightarrow>
     (pi_get (ma_attempt_no r) = 1) = (ma_retry_of r = None)"
  by (simp add: validate_model_reference_shape_def Let_def)

lemma model_start_iff:
  "model_start r = Inr l \<longleftrightarrow>
     (pi_get (ma_attempt_no r) = 1) = (ma_retry_of r = None) \<and>
     l = \<lparr>ml_reference = r, ml_state = ModelInvocationState.Requesting\<rparr>"
  by (auto simp: model_start_def result_iffs validate_model_reference_shape_iff)

lemma decide_next_model_attempt_InrD:
  assumes "decide_next_model_attempt p c ls = Inr l"
  shows "model_is_terminal (ml_state p)"
    and "l = \<lparr>ml_reference = c, ml_state = ModelInvocationState.Requesting\<rparr>"
    and "\<forall>a \<in> set ls. ma_model_invocation_id (ml_reference a) \<noteq> ma_model_invocation_id c"
    and "pi_checked_increment (ma_attempt_no (ml_reference p)) = Inr (ma_attempt_no c)"
    and "ma_logical_invocation_id c = ma_logical_invocation_id (ml_reference p)"
    and "ma_work_id c = ma_work_id (ml_reference p)"
    and "ma_context_manifest_id c = ma_context_manifest_id (ml_reference p)"
    and "ma_retry_of c = Some (ma_model_invocation_id (ml_reference p))"
  using assms
  by (auto simp: decide_next_model_attempt_def Let_def result_iffs model_start_iff list_ex_iff
      split: if_splits)

section \<open>Retry chains\<close>

text \<open>
  The attempts of one logical invocation, newest first: a first attempt is started, the newest one
  progresses, and a retry is decided against all attempts so far.
\<close>

inductive attempt_chain :: "ModelInvocationLifecycle list \<Rightarrow> bool" where
  first: "model_start r = Inr l \<Longrightarrow> ma_attempt_no r = PositiveInteger 1 \<Longrightarrow> attempt_chain [l]"
| progress: "attempt_chain (l # ls) \<Longrightarrow> model_step l req = Inr l' \<Longrightarrow> attempt_chain (l' # ls)"
| retry: "attempt_chain (l # ls) \<Longrightarrow> decide_next_model_attempt l c (l # ls) = Inr l' \<Longrightarrow>
          attempt_chain (l' # l # ls)"

fun chain_links :: "ModelInvocationLifecycle list \<Rightarrow> bool" where
  "chain_links (a # b # ls) \<longleftrightarrow>
     ma_retry_of (ml_reference a) = Some (ma_model_invocation_id (ml_reference b)) \<and>
     ma_logical_invocation_id (ml_reference a) = ma_logical_invocation_id (ml_reference b) \<and>
     ma_work_id (ml_reference a) = ma_work_id (ml_reference b) \<and>
     ma_context_manifest_id (ml_reference a) = ma_context_manifest_id (ml_reference b) \<and>
     model_is_terminal (ml_state b) \<and> chain_links (b # ls)"
| "chain_links _ \<longleftrightarrow> True"

lemma model_step_reference: "model_step l r = Inr l' \<Longrightarrow> ml_reference l' = ml_reference l"
  by (auto simp: model_step_def map_ok_Inr_iff decide_model_transition_Inr_iff)

lemma chain_links_head:
  "ml_reference l' = ml_reference l \<Longrightarrow> chain_links (l # ls) \<Longrightarrow> chain_links (l' # ls)"
  by (cases ls) auto

text \<open>
  C6. A retry chain has pairwise distinct invocation identities and consecutive attempt numbers,
  each retry names its predecessor as \<open>retry_of\<close>, stays in the same logical invocation, work item
  and context manifest, and every attempt but the newest is terminal.
\<close>

theorem attempt_chain_linked:
  assumes "attempt_chain ls"
  shows "distinct (map (\<lambda>l. ma_model_invocation_id (ml_reference l)) ls) \<and>
         map (\<lambda>l. pi_get (ma_attempt_no (ml_reference l))) ls = rev [1..int (length ls)] \<and>
         chain_links ls"
  using assms
proof (induction rule: attempt_chain.induct)
  case (first r l)
  then show ?case by (auto simp: model_start_iff)
next
  case (progress l ls req l')
  then show ?case
    using model_step_reference [OF progress(2)] chain_links_head [of l' l ls] by simp
next
  case (retry l ls c l')
  note d = decide_next_model_attempt_InrD [OF retry(2)]
  have "pi_get (ma_attempt_no (ml_reference l)) = int (length (l # ls))"
    using retry.IH by (simp add: upto_rec2 [of 1])
  moreover have "pi_get (ma_attempt_no c) = pi_get (ma_attempt_no (ml_reference l)) + 1"
    using d(4) by (simp add: pi_checked_increment_Inr_iff)
  moreover have "ma_model_invocation_id c \<notin> (\<lambda>l. ma_model_invocation_id (ml_reference l)) ` set (l # ls)"
    using d(3) by auto
  ultimately show ?case
    using retry.IH d(1,2,5,6,7,8) by (simp add: upto_rec2 [of 1])
qed

definition sample_reference :: ModelAttemptReference where
  "sample_reference =
     \<lparr>ma_logical_invocation_id = LogicalInvocationId 1, ma_model_invocation_id = ModelInvocationId 2,
      ma_work_id = WorkId 3, ma_runtime_instance_id = RuntimeInstanceId 4,
      ma_context_manifest_id = ContextManifestId 5, ma_agent_step_no = PositiveInteger 1,
      ma_attempt_no = PositiveInteger 1,
      ma_provider_model = \<lparr>pm_model_target_id = ''primary'', pm_provider_id = ''openai'',
        pm_provider_model_id = ''m'', pm_target_configuration_version = PositiveReferenceInteger 1,
        pm_capabilities = \<lparr>cap_text_input = True, cap_text_output = True,
          cap_custom_tool_calling = True, cap_streaming = True, cap_ordered_output_items = True,
          cap_structured_output = False, cap_reasoning_continuation = False,
          cap_context_window_tokens = PositiveReferenceInteger 1000,
          cap_max_output_tokens = PositiveReferenceInteger 100\<rparr>\<rparr>,
      ma_retry_of = None\<rparr>"

definition sample_retry :: ModelAttemptReference where
  "sample_retry = sample_reference
     \<lparr>ma_model_invocation_id := ModelInvocationId 6, ma_attempt_no := PositiveInteger 2,
      ma_retry_of := Some (ModelInvocationId 2)\<rparr>"

lemma sample_chain:
  "attempt_chain
     [\<lparr>ml_reference = sample_retry, ml_state = ModelInvocationState.Requesting\<rparr>,
      \<lparr>ml_reference = sample_reference, ml_state = ModelInvocationState.Failed\<rparr>]"
proof -
  have "attempt_chain [\<lparr>ml_reference = sample_reference, ml_state = ModelInvocationState.Requesting\<rparr>]"
    by (rule attempt_chain.first [of sample_reference])
      (simp_all add: model_start_iff sample_reference_def)
  then have "attempt_chain [\<lparr>ml_reference = sample_reference, ml_state = ModelInvocationState.Failed\<rparr>]"
    by (rule attempt_chain.progress [where req = "FailModel True"])
      (simp add: model_step_def decide_model_transition_def)
  then show ?thesis
    by (rule attempt_chain.retry [where c = sample_retry])
      (simp add: decide_next_model_attempt_def sample_retry_def sample_reference_def
        pi_checked_increment_def i64_defs model_start_def validate_model_reference_shape_def)
qed

theorem attempt_chain_linked_witness:
  "chain_links
     [\<lparr>ml_reference = sample_retry, ml_state = ModelInvocationState.Requesting\<rparr>,
      \<lparr>ml_reference = sample_reference, ml_state = ModelInvocationState.Failed\<rparr>]"
  using attempt_chain_linked [OF sample_chain] by blast

section \<open>Tool runs\<close>

text \<open>
  C7. A tool execution takes at most two transitions and keeps its identity. It ends interrupted
  before dispatch only if dispatch never began, and with an unknown outcome only after dispatch
  began; a completed execution never has unconfirmed cleanup, and after dispatch a result class
  that needs confirmed cleanup has it.
\<close>

theorem tool_run_summary:
  assumes "fold_result tool_step (tool_requested ref) rs = Inr s"
  shows "length rs \<le> 2 \<and> tl_reference s = ref \<and>
         (tl_state s = ToolExecutionState.InterruptedBeforeDispatch \<longrightarrow> rs = [InterruptBeforeDispatch]) \<and>
         (tl_state s = ToolExecutionState.OutcomeUnknown \<longrightarrow> (\<exists>r. rs = [BeginDispatch, r])) \<and>
         (tl_state s = ToolExecutionState.Completed \<longrightarrow>
            (\<exists>c k. last rs = CompleteTool c k \<and> k \<noteq> CleanupStatus.Unconfirmed \<and>
               (rs = [CompleteTool c k] \<and> allowed_before_dispatch c \<and> k = CleanupStatus.NotRequired \<or>
                rs = [BeginDispatch, CompleteTool c k] \<and>
                (requires_confirmed_cleanup c \<longrightarrow> k = CleanupStatus.Confirmed))))"
proof -
  have "length rs \<le> 2"
    using tool_attempt.run_length_bounded [OF assms] by (simp add: tool_requested_def)
  then consider "rs = []" | r where "rs = [r]" | r r' where "rs = [r, r']"
    by (cases rs; cases "tl rs"; cases "tl (tl rs)") auto
  then show ?thesis
  proof cases
    case 1
    with assms show ?thesis by (auto simp: tool_requested_def)
  next
    case 2
    with assms show ?thesis
      by (cases r) (auto simp: tool_requested_def tool_step_def result_iffs
          decide_tool_transition_Inr_iff split: if_splits)
  next
    case 3
    with assms obtain m where m: "tool_step (tool_requested ref) r = Inr m" "tool_step m r' = Inr s"
      by (auto simp: and_then_Inr_iff)
    then have "\<not> tool_is_terminal (tl_state m)" using tool_attempt.terminal_rejects [of m r'] by auto
    with m(1) have "r = BeginDispatch" and
      "m = \<lparr>tl_reference = ref, tl_state = ToolExecutionState.Dispatching\<rparr>"
      by (cases r; auto simp: tool_requested_def tool_step_def result_iffs
          decide_tool_transition_Inr_iff split: if_splits)+
    with m(2) 3 show ?thesis
      by (cases r') (auto simp: tool_step_def result_iffs decide_tool_transition_Inr_iff
          split: if_splits)
  qed
qed

definition sample_tool :: ToolLifecycleReference where
  "sample_tool =
     \<lparr>tr_tool_execution_id = ToolExecutionId 1, tr_execution_id = ExecutionId 2, tr_work_id = WorkId 3,
      tr_runtime_instance_id = RuntimeInstanceId 4, tr_source_model_invocation_id = ModelInvocationId 5,
      tr_agent_step_no = PositiveInteger 1, tr_tool_ordinal = PositiveInteger 1\<rparr>"

theorem tool_run_summary_witness:
  "\<exists>s. fold_result tool_step (tool_requested sample_tool)
         [BeginDispatch, CompleteTool ToolResultClass.ProcessExit CleanupStatus.Unconfirmed] = Inr s \<and>
       tl_reference s = sample_tool \<and> tl_state s = ToolExecutionState.OutcomeUnknown"
proof -
  have run: "fold_result tool_step (tool_requested sample_tool)
         [BeginDispatch, CompleteTool ToolResultClass.ProcessExit CleanupStatus.Unconfirmed] =
       Inr \<lparr>tl_reference = sample_tool, tl_state = ToolExecutionState.OutcomeUnknown\<rparr>"
    by (simp add: tool_requested_def tool_step_def decide_tool_transition_def)
  with tool_run_summary [OF run] show ?thesis by simp
qed

end
