(* ===== verification/Lifecycle_Control.thy ===== *)
theory Lifecycle_Control
  imports Lifecycle_Work Lifecycle_Attempts
begin

text \<open>
  The control decisions of domain/lifecycle.rs: cancellation at the checkpoints, the progression
  check, the paired child and work outcomes of model and tool cancellation, the first-observation
  latch, limit exhaustion and graceful shutdown.
\<close>

section \<open>Cancellation\<close>

datatype CancellationCheckpoint =
    BeforeModel | AfterProvider | BeforeToolRequested | BeforeToolDispatch |
    BeforeWorkstationAction | WhileExternalWait | BeforeNextIteration | BeforeFinalCommit

fun cancellation_checkpoint_str :: "CancellationCheckpoint \<Rightarrow> string" where
  "cancellation_checkpoint_str CancellationCheckpoint.BeforeModel = ''before_model''"
| "cancellation_checkpoint_str CancellationCheckpoint.AfterProvider = ''after_provider''"
| "cancellation_checkpoint_str CancellationCheckpoint.BeforeToolRequested = ''before_tool_requested''"
| "cancellation_checkpoint_str CancellationCheckpoint.BeforeToolDispatch = ''before_tool_dispatch''"
| "cancellation_checkpoint_str CancellationCheckpoint.BeforeWorkstationAction = ''before_workstation_action''"
| "cancellation_checkpoint_str CancellationCheckpoint.WhileExternalWait = ''while_external_wait''"
| "cancellation_checkpoint_str CancellationCheckpoint.BeforeNextIteration = ''before_next_iteration''"
| "cancellation_checkpoint_str CancellationCheckpoint.BeforeFinalCommit = ''before_final_commit''"

definition all_cancellation_checkpoints :: "CancellationCheckpoint list" where
  "all_cancellation_checkpoints =
    [CancellationCheckpoint.BeforeModel, CancellationCheckpoint.AfterProvider,
     CancellationCheckpoint.BeforeToolRequested, CancellationCheckpoint.BeforeToolDispatch,
     CancellationCheckpoint.BeforeWorkstationAction, CancellationCheckpoint.WhileExternalWait,
     CancellationCheckpoint.BeforeNextIteration, CancellationCheckpoint.BeforeFinalCommit]"

interpretation cancellation_checkpoint: stable_enum cancellation_checkpoint_str all_cancellation_checkpoints
proof unfold_locales
  fix v :: CancellationCheckpoint
  show "v \<in> set all_cancellation_checkpoints" by (cases v) (simp_all add: all_cancellation_checkpoints_def)
qed (unfold all_cancellation_checkpoints_def, code_simp)

datatype CancellationDecision =
    DirectCancelled CancellationCheckpoint WorkTransitionDecision
  | CancellationRequested CancellationCheckpoint WorkTransitionDecision
  | AlreadyRequestedNoOp CancellationCheckpoint
  | AlreadyTerminalNoOp CancellationCheckpoint WorkState

fun cancellation_transition :: "CancellationDecision \<Rightarrow> WorkTransitionDecision option" where
  "cancellation_transition (DirectCancelled _ transition) = Some transition"
| "cancellation_transition (CancellationRequested _ transition) = Some transition"
| "cancellation_transition (AlreadyRequestedNoOp _) = None"
| "cancellation_transition (AlreadyTerminalNoOp _ _) = None"

definition decide_cancellation ::
  "WorkLifecycleSnapshot \<Rightarrow> CancellationCheckpoint \<Rightarrow> WorkCancellationReason \<Rightarrow>
   LifecycleTransitionError + CancellationDecision" where
  "decide_cancellation current checkpoint reason =
     (if wl_state current = WorkState.Queued then
        map_ok (DirectCancelled checkpoint)
          (decide_work_transition current (for_snapshot current)
             (Cancel reason CleanupStatus.NotRequired))
      else if wl_state current \<in> {WorkState.Running, WorkState.WaitingOnModel, WorkState.WaitingOnTool}
      then
        map_ok (CancellationRequested checkpoint)
          (decide_work_transition current (for_snapshot current) (RequestCancellation reason))
      else if wl_state current = WorkState.CancelRequested
      then Inr (AlreadyRequestedNoOp checkpoint)
      else if work_is_terminal (wl_state current)
      then Inr (AlreadyTerminalNoOp checkpoint (wl_state current))
      else Inl (Invariant LifecycleInvariantKind.ContradictoryProjection))"

datatype WorkProgressionAction = StartModel | DispatchTool | ContinueAgentLoop | CommitFinalAnswerAction

fun progression_state :: "WorkProgressionAction \<Rightarrow> WorkState" where
  "progression_state StartModel = WorkState.Running"
| "progression_state ContinueAgentLoop = WorkState.Running"
| "progression_state CommitFinalAnswerAction = WorkState.Running"
| "progression_state DispatchTool = WorkState.WaitingOnTool"

definition ensure_work_progression_allowed ::
  "WorkLifecycleSnapshot \<Rightarrow> WorkProgressionAction \<Rightarrow> LifecycleTransitionError + unit" where
  "ensure_work_progression_allowed current action =
     (if wl_state current = progression_state action then Inr ()
      else Inl (Conflict LifecycleConflictKind.IllegalTransition))"

datatype CancellationChildOutcome = WorkMayCancel | WorkMustInterrupt WorkInterruptionReason

datatype ModelCancellationEvidence = ConfirmedLocalWaitCancellation | ProviderContinuityLost

record ModelCancellationDecision =
  mc_model :: ModelTransitionDecision
  mc_work :: CancellationChildOutcome

definition decide_model_cancellation ::
  "ModelInvocationLifecycle \<Rightarrow> ModelCancellationEvidence \<Rightarrow>
   LifecycleTransitionError + ModelCancellationDecision" where
  "decide_model_cancellation current evidence =
     (let (request, work) =
        (case evidence of
           ConfirmedLocalWaitCancellation \<Rightarrow> (CancelLocally True, WorkMayCancel)
         | ProviderContinuityLost \<Rightarrow>
             (MarkProviderOutcomeUnknown,
              WorkMustInterrupt WorkInterruptionReason.ProviderOutcomeUnknown))
      in map_ok (\<lambda>model. \<lparr>mc_model = model, mc_work = work\<rparr>)
           (decide_model_transition current request))"

datatype ToolCancellationContext = LiveRuntime | RecoveredOldRuntime

record ToolCancellationDecision =
  tc_tool :: ToolTransitionDecision
  tc_work :: CancellationChildOutcome

fun tool_cancellation_request ::
  "ToolExecutionState \<Rightarrow> ToolCancellationContext \<Rightarrow> CleanupStatus \<Rightarrow>
   LifecycleTransitionError + ToolTransitionRequest \<times> CancellationChildOutcome" where
  "tool_cancellation_request ToolExecutionState.Requested RecoveredOldRuntime CleanupStatus.NotRequired =
     Inr (InterruptBeforeDispatch,
          WorkMustInterrupt WorkInterruptionReason.ToolInterruptedBeforeDispatch)"
| "tool_cancellation_request ToolExecutionState.Requested LiveRuntime CleanupStatus.NotRequired =
     Inr (CompleteTool ToolResultClass.Cancellation CleanupStatus.NotRequired, WorkMayCancel)"
| "tool_cancellation_request ToolExecutionState.Dispatching _ CleanupStatus.Confirmed =
     Inr (CompleteTool ToolResultClass.Cancellation CleanupStatus.Confirmed, WorkMayCancel)"
| "tool_cancellation_request ToolExecutionState.Dispatching _ CleanupStatus.Unconfirmed =
     Inr (MarkOutcomeUnknown, WorkMustInterrupt WorkInterruptionReason.CleanupUnconfirmed)"
| "tool_cancellation_request _ _ _ =
     Inl (Invariant LifecycleInvariantKind.MissingRequiredEvidence)"

definition decide_tool_cancellation ::
  "ToolExecutionLifecycle \<Rightarrow> ToolCancellationContext \<Rightarrow> CleanupStatus \<Rightarrow>
   LifecycleTransitionError + ToolCancellationDecision" where
  "decide_tool_cancellation current context cleanup_status =
     and_then (tool_cancellation_request (tl_state current) context cleanup_status)
       (\<lambda>(request, work).
         map_ok (\<lambda>tool. \<lparr>tc_tool = tool, tc_work = work\<rparr>) (decide_tool_transition current request))"

section \<open>The control latch\<close>

datatype ExecutionControlEvent =
    ProcessExit | Timeout | Cancellation

fun execution_control_event_str :: "ExecutionControlEvent \<Rightarrow> string" where
  "execution_control_event_str ExecutionControlEvent.ProcessExit = ''process_exit''"
| "execution_control_event_str ExecutionControlEvent.Timeout = ''timeout''"
| "execution_control_event_str ExecutionControlEvent.Cancellation = ''cancellation''"

definition all_execution_control_events :: "ExecutionControlEvent list" where
  "all_execution_control_events =
    [ExecutionControlEvent.ProcessExit, ExecutionControlEvent.Timeout,
     ExecutionControlEvent.Cancellation]"

interpretation execution_control_event: stable_enum execution_control_event_str all_execution_control_events
proof unfold_locales
  fix v :: ExecutionControlEvent
  show "v \<in> set all_execution_control_events" by (cases v) (simp_all add: all_execution_control_events_def)
qed (unfold all_execution_control_events_def, code_simp)

record ExecutionControlLatch =
  latch_winner :: "ExecutionControlEvent option"

definition latch_new :: ExecutionControlLatch where
  "latch_new = \<lparr>latch_winner = None\<rparr>"

record ExecutionControlLatchDecision =
  ld_next :: ExecutionControlLatch
  ld_winner :: ExecutionControlEvent
  ld_newly_latched :: bool

definition observe_event ::
  "ExecutionControlLatch \<Rightarrow> ExecutionControlEvent \<Rightarrow> ExecutionControlLatchDecision" where
  "observe_event latch event =
     (case latch_winner latch of
        Some winner \<Rightarrow> \<lparr>ld_next = latch, ld_winner = winner, ld_newly_latched = False\<rparr>
      | None \<Rightarrow> \<lparr>ld_next = \<lparr>latch_winner = Some event\<rparr>, ld_winner = event, ld_newly_latched = True\<rparr>)"

fun latched_result :: "ExecutionControlEvent \<Rightarrow> ToolResultClass" where
  "latched_result ExecutionControlEvent.ProcessExit = ToolResultClass.ProcessExit"
| "latched_result ExecutionControlEvent.Timeout = ToolResultClass.Timeout"
| "latched_result ExecutionControlEvent.Cancellation = ToolResultClass.Cancellation"

definition decide_latched_tool_terminal ::
  "ToolExecutionLifecycle \<Rightarrow> ExecutionControlLatch \<Rightarrow> CleanupStatus \<Rightarrow>
   LifecycleTransitionError + ToolTransitionDecision" where
  "decide_latched_tool_terminal current latch cleanup_status =
     (case latch_winner latch of
        Some event \<Rightarrow>
          decide_tool_transition current (CompleteTool (latched_result event) cleanup_status)
      | None \<Rightarrow> Inl (Invariant LifecycleInvariantKind.MissingRequiredEvidence))"

section \<open>Limits and graceful shutdown\<close>

datatype LimitOutcome = FailLimit LifecycleLimit | InterruptLimit WorkInterruptionReason

fun decide_limit_outcome :: "LifecycleLimit \<Rightarrow> CleanupStatus \<Rightarrow> LimitOutcome" where
  "decide_limit_outcome limit CleanupStatus.Unconfirmed =
     InterruptLimit WorkInterruptionReason.CleanupUnconfirmed"
| "decide_limit_outcome limit CleanupStatus.NotRequired = FailLimit limit"
| "decide_limit_outcome limit CleanupStatus.Confirmed = FailLimit limit"

datatype GracefulShutdownDecision =
    RetainQueued
  | RequestShutdownCancellation CancellationDecision
  | FinalizeShutdownCancellation WorkTransitionDecision
  | InterruptShutdown WorkTransitionDecision
  | AlreadyTerminal WorkState

definition decide_graceful_shutdown ::
  "WorkLifecycleSnapshot \<Rightarrow> CleanupStatus \<Rightarrow>
   LifecycleTransitionError + GracefulShutdownDecision" where
  "decide_graceful_shutdown current cleanup_status =
     (if wl_state current = WorkState.Queued then Inr RetainQueued
      else if wl_state current \<in> {WorkState.Running, WorkState.WaitingOnModel, WorkState.WaitingOnTool}
      then
        map_ok RequestShutdownCancellation
          (decide_cancellation current CancellationCheckpoint.WhileExternalWait
             WorkCancellationReason.GracefulShutdown)
      else if wl_state current = WorkState.CancelRequested \<and> cleanup_status \<noteq> CleanupStatus.Unconfirmed
      then
        and_then (ok_or (wl_cancellation current) (Invariant LifecycleInvariantKind.InvalidStateShape))
          (\<lambda>reason. map_ok FinalizeShutdownCancellation
             (decide_work_transition current (for_snapshot current) (Cancel reason cleanup_status)))
      else if wl_state current = WorkState.CancelRequested
      then
        map_ok InterruptShutdown
          (decide_work_transition current (for_snapshot current)
             (Interrupt WorkInterruptionReason.CleanupUnconfirmed))
      else if work_is_terminal (wl_state current) then Inr (AlreadyTerminal (wl_state current))
      else Inl (Invariant LifecycleInvariantKind.ContradictoryProjection))"

section \<open>Properties of the control decisions\<close>

lemma accepted_transition:
  assumes "work_wf s" and "is_legal_work_pair (wl_state s) (target_state r)"
    and "epi_get (wl_version s) < i64_max" and "request_admissible s r"
  shows "\<exists>d. decide_work_transition s (for_snapshot s) r = Inr d \<and> work_wf (wd_next d) \<and>
             wl_state (wd_next d) = target_state r \<and>
             epi_get (wl_version (wd_next d)) = epi_get (wl_version s) + 1"
proof -
  obtain d where d: "decide_work_transition s (for_snapshot s) r = Inr d"
    using decide_work_transition_ok_iff [OF assms(1), of "for_snapshot s" r] assms by blast
  with decide_work_transition_next [OF d] assms(1) show ?thesis by blast
qed

lemma cancel_requested_has_reason:
  "work_wf s \<Longrightarrow> wl_state s = WorkState.CancelRequested \<Longrightarrow> \<exists>c. wl_cancellation s = Some c"
  by (auto simp: work_wf_def)

lemma decide_cancellation_noop:
  "wl_state s = WorkState.CancelRequested \<or> work_is_terminal (wl_state s) \<Longrightarrow>
   \<exists>d. decide_cancellation s cp reason = Inr d \<and> cancellation_transition d = None"
  by (cases "wl_state s") (simp_all add: decide_cancellation_def)

lemma exhausted_transition:
  assumes "work_wf s" and "is_legal_work_pair (wl_state s) (target_state r)" and "epi_get (wl_version s) = i64_max"
  shows "decide_work_transition s (for_snapshot s) r = Inl (Invariant LifecycleInvariantKind.VersionOverflow)"
proof -
  have "\<not> work_is_terminal (wl_state s)" "wl_state s \<noteq> target_state r"
    using assms(2) work_terminal_stuck legal_work_pair_irrefl by (blast, metis)
  moreover have "check_guard s (for_snapshot s) = Inr ()" by (simp add: check_guard_iff)
  moreover have "\<exists>e. epi_checked_increment (wl_version s) = Inl e"
    using assms(3) by (simp add: epi_checked_increment_def i64_defs)
  ultimately show ?thesis
    using assms(1,2) by (auto simp: decide_work_transition_def work_wf_def validate_work_shape_def Let_def)
qed

text \<open>
  Cancelling a well-formed projection is decided for every state: it fails only with a version
  overflow, exactly for queued or active work at the last version. Otherwise queued work is cancelled
  at once, active work moves to \<open>cancel_requested\<close>, work in \<open>cancel_requested\<close> or a terminal state is
  left alone, and cancelling again after the decision is committed is a no-op, at any checkpoint and
  for any reason.
\<close>

theorem cancellation_total_and_idempotent:
  assumes "work_wf s"
  shows "case decide_cancellation s cp reason of
      Inl e \<Rightarrow> e = Invariant LifecycleInvariantKind.VersionOverflow \<and> epi_get (wl_version s) = i64_max \<and>
        wl_state s \<noteq> WorkState.CancelRequested \<and> \<not> work_is_terminal (wl_state s)
    | Inr d \<Rightarrow>
        (case cancellation_transition d of
           None \<Rightarrow> wl_state s = WorkState.CancelRequested \<or> work_is_terminal (wl_state s)
         | Some t \<Rightarrow>
             epi_get (wl_version s) < i64_max \<and> work_wf (wd_next t) \<and>
             wl_state (wd_next t) =
               (if wl_state s = WorkState.Queued then WorkState.Cancelled
                else WorkState.CancelRequested) \<and>
             (\<exists>d'. decide_cancellation (wd_next t) cp' reason' = Inr d' \<and>
                   cancellation_transition d' = None))"
proof -
  let ?r = "if wl_state s = WorkState.Queued then Cancel reason CleanupStatus.NotRequired
            else RequestCancellation reason"
  consider (noop) "wl_state s = WorkState.CancelRequested \<or> work_is_terminal (wl_state s)"
    | (acts) "wl_state s \<in> {WorkState.Queued, WorkState.Running, WorkState.WaitingOnModel, WorkState.WaitingOnTool}"
    by (cases "wl_state s") simp_all
  then show ?thesis
  proof cases
    case noop
    then obtain d where "decide_cancellation s cp reason = Inr d" "cancellation_transition d = None"
      using decide_cancellation_noop by blast
    with noop show ?thesis by simp
  next
    case acts
    have version: "epi_get (wl_version s) \<le> i64_max" using assms by (simp add: work_wf_def epi_wf_def)
    have legal: "is_legal_work_pair (wl_state s) (target_state ?r)" "request_admissible s ?r" using acts by auto
    show ?thesis
    proof (cases "epi_get (wl_version s) < i64_max")
      case True
      from accepted_transition [OF assms legal(1) True legal(2)] obtain t
        where t: "decide_work_transition s (for_snapshot s) ?r = Inr t" "work_wf (wd_next t)"
          "wl_state (wd_next t) = target_state ?r" by blast
      have again: "\<exists>d'. decide_cancellation (wd_next t) cp' reason' = Inr d' \<and> cancellation_transition d' = None"
        using t(3) by (intro decide_cancellation_noop) (simp split: if_splits)
      show ?thesis using acts t again True by (auto simp: decide_cancellation_def split: if_splits)
    next
      case False
      then have "decide_work_transition s (for_snapshot s) ?r =
          Inl (Invariant LifecycleInvariantKind.VersionOverflow)"
        using exhausted_transition [OF assms legal(1)] version by simp
      with acts False version show ?thesis by (auto simp: decide_cancellation_def split: if_splits)
    qed
  qed
qed

text \<open>
  C9. A cancelled child lets its work item be cancelled only when the child's end is definite: the
  model wait was cancelled locally, or the tool completed with a cancellation result; in every other
  accepted case the work must be interrupted, and the child is in an uncertain or never-dispatched
  terminal state.
\<close>

theorem child_cancellation_sound:
  "(\<forall>td. decide_tool_cancellation t ctx k = Inr td \<longrightarrow>
      tool_is_terminal (tl_state (td_next (tc_tool td))) \<and>
      (tc_work td = WorkMayCancel \<longleftrightarrow>
         (\<exists>k'. td_effect (tc_tool td) = TerminalResult ToolResultClass.Cancellation k' \<and>
               k' \<noteq> CleanupStatus.Unconfirmed)) \<and>
      (tc_work td \<noteq> WorkMayCancel \<longleftrightarrow>
         tl_state (td_next (tc_tool td)) \<in>
           {ToolExecutionState.InterruptedBeforeDispatch, ToolExecutionState.OutcomeUnknown})) \<and>
   (\<forall>md. decide_model_cancellation m ev = Inr md \<longrightarrow>
      (mc_work md = WorkMayCancel \<longleftrightarrow>
         ml_state (md_next (mc_model md)) = ModelInvocationState.CancelledLocally) \<and>
      (mc_work md \<noteq> WorkMayCancel \<longleftrightarrow>
         ml_state (md_next (mc_model md)) = ModelInvocationState.ProviderOutcomeUnknown))"
proof (intro conjI allI impI)
  fix td
  assume "decide_tool_cancellation t ctx k = Inr td"
  then obtain req work d where r: "tool_cancellation_request (tl_state t) ctx k = Inr (req, work)"
    and d: "decide_tool_transition t req = Inr d" and td: "td = \<lparr>tc_tool = d, tc_work = work\<rparr>"
    by (auto simp: decide_tool_cancellation_def result_iffs)
  have cases: "(tl_state (td_next d) = ToolExecutionState.Completed \<and> work = WorkMayCancel \<and>
        (\<exists>k'. td_effect d = TerminalResult ToolResultClass.Cancellation k' \<and>
               k' \<noteq> CleanupStatus.Unconfirmed)) \<or>
      (tl_state (td_next d) \<in>
           {ToolExecutionState.InterruptedBeforeDispatch, ToolExecutionState.OutcomeUnknown} \<and>
       work \<noteq> WorkMayCancel \<and>
       td_effect d \<in> {ExternalSideEffectDefinitelyAbsent, DispatchOutcomeOrCleanupUnknown})"
    using r d
    by (cases "tl_state t"; cases ctx; cases k)
      (auto simp: decide_tool_transition_Inr_iff split: if_splits)
  show "tool_is_terminal (tl_state (td_next (tc_tool td)))" using cases td by auto
  show "tc_work td = WorkMayCancel \<longleftrightarrow>
         (\<exists>k'. td_effect (tc_tool td) = TerminalResult ToolResultClass.Cancellation k' \<and>
               k' \<noteq> CleanupStatus.Unconfirmed)" using cases td by auto
  show "tc_work td \<noteq> WorkMayCancel \<longleftrightarrow>
         tl_state (td_next (tc_tool td)) \<in>
           {ToolExecutionState.InterruptedBeforeDispatch, ToolExecutionState.OutcomeUnknown}"
    using cases td by auto
next
  fix md
  assume "decide_model_cancellation m ev = Inr md"
  then show "mc_work md = WorkMayCancel \<longleftrightarrow>
         ml_state (md_next (mc_model md)) = ModelInvocationState.CancelledLocally"
    and "mc_work md \<noteq> WorkMayCancel \<longleftrightarrow>
         ml_state (md_next (mc_model md)) = ModelInvocationState.ProviderOutcomeUnknown"
    by (cases ev; auto simp: decide_model_cancellation_def result_iffs decide_model_transition_Inr_iff)+
qed

theorem child_cancellation_sound_witness:
  "\<exists>td. decide_tool_cancellation
          \<lparr>tl_reference = sample_tool, tl_state = ToolExecutionState.Dispatching\<rparr>
          LiveRuntime CleanupStatus.Unconfirmed = Inr td \<and> tc_work td \<noteq> WorkMayCancel \<and>
        tool_is_terminal (tl_state (td_next (tc_tool td)))"
proof -
  let ?t = "\<lparr>tl_reference = sample_tool, tl_state = ToolExecutionState.Dispatching\<rparr>"
  obtain td where td: "decide_tool_cancellation ?t LiveRuntime CleanupStatus.Unconfirmed = Inr td"
    "tc_work td = WorkMustInterrupt WorkInterruptionReason.CleanupUnconfirmed"
    by (simp add: decide_tool_cancellation_def decide_tool_transition_def)
  from td(1) have "tool_is_terminal (tl_state (td_next (tc_tool td)))"
    using child_cancellation_sound [of ?t LiveRuntime CleanupStatus.Unconfirmed] by blast
  with td show ?thesis by auto
qed

lemma newly_latched_iff: "ld_newly_latched (observe_event l e) \<longleftrightarrow> latch_winner l = None"
  by (simp add: observe_event_def split: option.splits)

lemma observe_run_winner:
  "latch_winner (foldl (\<lambda>l e. ld_next (observe_event l e)) l es) =
     (case latch_winner l of Some w \<Rightarrow> Some w | None \<Rightarrow> (case es of [] \<Rightarrow> None | e # _ \<Rightarrow> Some e))"
  by (induction es arbitrary: l) (auto simp: observe_event_def split: option.splits list.splits)

text \<open>
  The first observed control event decides: after any sequence of observations, the terminal
  classification is the one of the first event, and exactly one observation is reported as newly
  latched.
\<close>

theorem latch_first_event_wins:
  "decide_latched_tool_terminal t
     (foldl (\<lambda>l e. ld_next (observe_event l e)) latch_new (e # es)) k =
   decide_tool_transition t (CompleteTool (latched_result e) k) \<and>
   map (\<lambda>i. ld_newly_latched (observe_event
        (foldl (\<lambda>l e. ld_next (observe_event l e)) latch_new (take i (e # es))) ((e # es) ! i)))
     [0..<length (e # es)] = True # replicate (length es) False"
proof (rule conjI)
  let ?run = "foldl (\<lambda>l e. ld_next (observe_event l e))"
  show "decide_latched_tool_terminal t (?run latch_new (e # es)) k =
      decide_tool_transition t (CompleteTool (latched_result e) k)"
    using observe_run_winner [of latch_new "e # es"]
    by (simp add: decide_latched_tool_terminal_def latch_new_def)
  have later: "ld_newly_latched (observe_event (?run latch_new (take (Suc i) (e # es))) x) = False" for i x
    using observe_run_winner [of latch_new "take (Suc i) (e # es)"]
    by (simp add: newly_latched_iff latch_new_def)
  have zero: "ld_newly_latched (observe_event (?run latch_new (take 0 (e # es))) ((e # es) ! 0))"
    by (simp add: observe_event_def latch_new_def)
  show "map (\<lambda>i. ld_newly_latched (observe_event (?run latch_new (take i (e # es))) ((e # es) ! i)))
      [0..<length (e # es)] = True # replicate (length es) False"
  proof (rule nth_equalityI)
    fix i
    assume "i < length (map (\<lambda>i. ld_newly_latched
        (observe_event (?run latch_new (take i (e # es))) ((e # es) ! i))) [0..<length (e # es)])"
    then show "map (\<lambda>i. ld_newly_latched (observe_event (?run latch_new (take i (e # es)))
        ((e # es) ! i))) [0..<length (e # es)] ! i = (True # replicate (length es) False) ! i"
      using zero later by (cases i) (simp_all del: upt_Suc take_Suc_Cons foldl_Cons)
  qed simp
qed

text \<open>
  What a shutdown pass leaves behind: the projection after committing its decision.
\<close>

fun shutdown_next :: "WorkLifecycleSnapshot \<Rightarrow> GracefulShutdownDecision \<Rightarrow> WorkLifecycleSnapshot" where
  "shutdown_next s (RequestShutdownCancellation d) =
     (case cancellation_transition d of Some t \<Rightarrow> wd_next t | None \<Rightarrow> s)"
| "shutdown_next s (FinalizeShutdownCancellation t) = wd_next t"
| "shutdown_next s (InterruptShutdown t) = wd_next t"
| "shutdown_next s _ = s"

definition shutdown_pass ::
  "CleanupStatus \<Rightarrow> WorkLifecycleSnapshot \<Rightarrow> LifecycleTransitionError + WorkLifecycleSnapshot" where
  "shutdown_pass k s = map_ok (shutdown_next s) (decide_graceful_shutdown s k)"

lemma shutdown_pass_from_cancel_requested:
  assumes "work_wf s" and "wl_state s = WorkState.CancelRequested" and "epi_get (wl_version s) < i64_max"
  shows "\<exists>s'. shutdown_pass k s = Inr s' \<and> wl_state s' =
           (if k = CleanupStatus.Unconfirmed then WorkState.Interrupted else WorkState.Cancelled)"
proof (cases "k = CleanupStatus.Unconfirmed")
  case True
  with assms obtain d where "decide_work_transition s (for_snapshot s)
      (Interrupt WorkInterruptionReason.CleanupUnconfirmed) = Inr d"
      "wl_state (wd_next d) = WorkState.Interrupted"
    using accepted_transition [of s "Interrupt WorkInterruptionReason.CleanupUnconfirmed"] by auto
  with True assms show ?thesis by (simp add: shutdown_pass_def decide_graceful_shutdown_def)
next
  case False
  obtain c where c: "wl_cancellation s = Some c"
    using cancel_requested_has_reason [OF assms(1,2)] by blast
  with False assms obtain d where "decide_work_transition s (for_snapshot s) (Cancel c k) = Inr d"
      "wl_state (wd_next d) = WorkState.Cancelled"
    using accepted_transition [of s "Cancel c k"] by auto
  with False c assms show ?thesis by (simp add: shutdown_pass_def decide_graceful_shutdown_def)
qed

lemma shutdown_pass_from_active:
  assumes "work_wf s" and "epi_get (wl_version s) < i64_max"
    and "wl_state s \<in> {WorkState.Running, WorkState.WaitingOnModel, WorkState.WaitingOnTool}"
  shows "\<exists>s'. shutdown_pass k s = Inr s' \<and> work_wf s' \<and> wl_state s' = WorkState.CancelRequested \<and>
              epi_get (wl_version s') = epi_get (wl_version s) + 1"
proof -
  let ?r = "RequestCancellation WorkCancellationReason.GracefulShutdown"
  from assms obtain t where "decide_work_transition s (for_snapshot s) ?r = Inr t"
      "work_wf (wd_next t)" "wl_state (wd_next t) = WorkState.CancelRequested"
      "epi_get (wl_version (wd_next t)) = epi_get (wl_version s) + 1"
    using accepted_transition [of s ?r] by auto
  with assms(3) show ?thesis
    by (auto simp: shutdown_pass_def decide_graceful_shutdown_def decide_cancellation_def)
qed

lemma shutdown_pass_idle:
  "wl_state s = WorkState.Queued \<or> work_is_terminal (wl_state s) \<Longrightarrow> shutdown_pass k s = Inr s"
  by (cases "wl_state s") (simp_all add: shutdown_pass_def decide_graceful_shutdown_def)

lemma shutdown_pass_exhausted:
  assumes "work_wf s" and "epi_get (wl_version s) = i64_max"
    and "wl_state s \<noteq> WorkState.Queued" and "\<not> work_is_terminal (wl_state s)"
  shows "\<not> (\<exists>s'. shutdown_pass k s = Inr s')"
proof (cases "wl_state s = WorkState.CancelRequested")
  case True
  with assms obtain c where "wl_cancellation s = Some c" using cancel_requested_has_reason by blast
  with True show ?thesis
    using exhausted_transition [OF assms(1) _ assms(2), of "Cancel c k"]
      exhausted_transition [OF assms(1) _ assms(2), of "Interrupt WorkInterruptionReason.CleanupUnconfirmed"]
    by (auto simp: shutdown_pass_def decide_graceful_shutdown_def result_iffs)
next
  case False
  with assms(3,4) have st: "wl_state s \<in> {WorkState.Running, WorkState.WaitingOnModel, WorkState.WaitingOnTool}"
    by (cases "wl_state s") simp_all
  then show ?thesis
    using exhausted_transition [OF assms(1) _ assms(2), of "RequestCancellation WorkCancellationReason.GracefulShutdown"]
    by (auto simp: shutdown_pass_def decide_graceful_shutdown_def decide_cancellation_def result_iffs)
qed

text \<open>The transitions shutdown still has to make before a work item is settled.\<close>

definition shutdown_steps :: "WorkLifecycleSnapshot \<Rightarrow> int" where
  "shutdown_steps s =
     (if wl_state s = WorkState.Queued \<or> work_is_terminal (wl_state s) then 0
      else if wl_state s = WorkState.CancelRequested then 1 else 2)"

text \<open>
  C11. Two graceful-shutdown passes settle a well-formed work item exactly when its version still has room
  for the transitions it needs: none for queued work, which is retained unchanged, and for terminal
  work, which is left alone; one for requested and two for active work, which ends \<open>cancelled\<close>, or
  \<open>interrupted\<close> when its cleanup is unconfirmed.
\<close>

theorem graceful_shutdown_settles:
  assumes "work_wf s"
  shows "((\<exists>s1 s2. shutdown_pass k s = Inr s1 \<and> shutdown_pass k s1 = Inr s2) \<longleftrightarrow>
           epi_get (wl_version s) + shutdown_steps s \<le> i64_max) \<and>
         (\<forall>s1 s2. shutdown_pass k s = Inr s1 \<and> shutdown_pass k s1 = Inr s2 \<longrightarrow>
           (if shutdown_steps s = 0 then s2 = s
            else wl_state s2 = (if k = CleanupStatus.Unconfirmed then WorkState.Interrupted
                                else WorkState.Cancelled)))"
proof -
  have version: "epi_get (wl_version s) \<le> i64_max" using assms by (simp add: work_wf_def epi_wf_def)
  consider (idle) "wl_state s = WorkState.Queued \<or> work_is_terminal (wl_state s)"
    | (requested) "wl_state s = WorkState.CancelRequested"
    | (active) "wl_state s \<in> {WorkState.Running, WorkState.WaitingOnModel, WorkState.WaitingOnTool}"
    by (cases "wl_state s") simp_all
  then show ?thesis
  proof cases
    case idle
    with version shutdown_pass_idle [OF idle] show ?thesis by (simp add: shutdown_steps_def)
  next
    case requested
    then have needed: "shutdown_steps s = 1" by (simp add: shutdown_steps_def)
    show ?thesis
    proof (cases "epi_get (wl_version s) < i64_max")
      case True
      with assms requested obtain s' where s': "shutdown_pass k s = Inr s'" "wl_state s' =
          (if k = CleanupStatus.Unconfirmed then WorkState.Interrupted else WorkState.Cancelled)"
        using shutdown_pass_from_cancel_requested [of s k] by auto
      then have "shutdown_pass k s' = Inr s'" by (intro shutdown_pass_idle) simp
      with s' needed True show ?thesis by simp
    next
      case False
      with version requested needed show ?thesis using shutdown_pass_exhausted [OF assms, of k] by auto
    qed
  next
    case active
    then have needed: "shutdown_steps s = 2" by (auto simp: shutdown_steps_def)
    show ?thesis
    proof (cases "epi_get (wl_version s) < i64_max")
      case True
      with assms active obtain s' where s': "shutdown_pass k s = Inr s'" "work_wf s'"
          "wl_state s' = WorkState.CancelRequested" "epi_get (wl_version s') = epi_get (wl_version s) + 1"
        using shutdown_pass_from_active [of s k] by auto
      show ?thesis
      proof (cases "epi_get (wl_version s') < i64_max")
        case True
        with s' needed show ?thesis using shutdown_pass_from_cancel_requested [of s' k] by auto
      next
        case False
        then have "epi_get (wl_version s') = i64_max" using s'(2) by (simp add: work_wf_def epi_wf_def)
        with s' needed show ?thesis using shutdown_pass_exhausted [OF s'(2), of k] by auto
      qed
    next
      case False
      then have "epi_get (wl_version s) = i64_max" using version by simp
      with active needed show ?thesis using shutdown_pass_exhausted [OF assms, of k] by auto
    qed
  qed
qed

theorem graceful_shutdown_settles_witness:
  "\<exists>s1 s2. shutdown_pass CleanupStatus.Confirmed sample_work = Inr s1 \<and>
           shutdown_pass CleanupStatus.Confirmed s1 = Inr s2 \<and> wl_state s2 = WorkState.Cancelled"
proof -
  have steps: "shutdown_steps sample_work = 2" "epi_get (wl_version sample_work) + 2 \<le> i64_max"
    by (simp_all add: shutdown_steps_def sample_work_def i64_max_def)
  with graceful_shutdown_settles [OF sample_work_wf, of CleanupStatus.Confirmed] show ?thesis by fastforce
qed

end
