(* ===== verification/Lifecycle_Recovery.thy ===== *)
theory Lifecycle_Recovery
  imports Lifecycle_Work
begin

text \<open>
  Startup recovery of domain/lifecycle.rs: the pure classification of the work a former runtime left
  behind, by the work projection and the durable evidence of its current child attempt.
\<close>

section \<open>Inputs and classifications\<close>

text \<open>
  The boolean of a child attempt is \<open>committed_response_consistent\<close> or
  \<open>committed_result_consistent\<close>.
\<close>

datatype RecoveryAttempt =
    RecoveryNone
  | RecoveryModel ModelInvocationId ModelInvocationState bool
  | RecoveryTool ToolExecutionId ToolExecutionState bool

record RecoveryInput =
  ri_work :: WorkLifecycleSnapshot
  ri_current_runtime_id :: RuntimeInstanceId
  ri_attempt :: RecoveryAttempt
  ri_cleanup_status :: CleanupStatus

datatype RecoveryClassification =
    RetainQueued | AlreadyTerminal | InterruptActiveWork |
    MarkModelProviderOutcomeUnknownAndInterrupt |
    MarkToolInterruptedBeforeDispatchAndInterrupt | MarkToolOutcomeUnknownAndInterrupt |
    ReconcileCommittedToolResultWithoutExecution | FinalizeCancellation

fun recovery_classification_str :: "RecoveryClassification \<Rightarrow> string" where
  "recovery_classification_str RecoveryClassification.RetainQueued = ''retain_queued''"
| "recovery_classification_str RecoveryClassification.AlreadyTerminal = ''already_terminal''"
| "recovery_classification_str RecoveryClassification.InterruptActiveWork = ''interrupt_active_work''"
| "recovery_classification_str RecoveryClassification.MarkModelProviderOutcomeUnknownAndInterrupt = ''mark_model_provider_outcome_unknown_and_interrupt''"
| "recovery_classification_str RecoveryClassification.MarkToolInterruptedBeforeDispatchAndInterrupt = ''mark_tool_interrupted_before_dispatch_and_interrupt''"
| "recovery_classification_str RecoveryClassification.MarkToolOutcomeUnknownAndInterrupt = ''mark_tool_outcome_unknown_and_interrupt''"
| "recovery_classification_str RecoveryClassification.ReconcileCommittedToolResultWithoutExecution = ''reconcile_committed_tool_result_without_execution''"
| "recovery_classification_str RecoveryClassification.FinalizeCancellation = ''finalize_cancellation''"

definition all_recovery_classifications :: "RecoveryClassification list" where
  "all_recovery_classifications =
    [RecoveryClassification.RetainQueued, RecoveryClassification.AlreadyTerminal,
     RecoveryClassification.InterruptActiveWork,
     RecoveryClassification.MarkModelProviderOutcomeUnknownAndInterrupt,
     RecoveryClassification.MarkToolInterruptedBeforeDispatchAndInterrupt,
     RecoveryClassification.MarkToolOutcomeUnknownAndInterrupt,
     RecoveryClassification.ReconcileCommittedToolResultWithoutExecution,
     RecoveryClassification.FinalizeCancellation]"

interpretation recovery_classification: stable_enum recovery_classification_str all_recovery_classifications
proof unfold_locales
  fix v :: RecoveryClassification
  show "v \<in> set all_recovery_classifications" by (cases v) (simp_all add: all_recovery_classifications_def)
qed (unfold all_recovery_classifications_def, code_simp)

datatype SyntheticStatusRequirement =
    NoStatus | RuntimeOwnershipLost | ProviderOutcomeUnknown |
    ToolInterruptedBeforeDispatch | ToolOutcomeUnknown | CleanupUnconfirmed

fun synthetic_status_requirement_str :: "SyntheticStatusRequirement \<Rightarrow> string" where
  "synthetic_status_requirement_str SyntheticStatusRequirement.NoStatus = ''none''"
| "synthetic_status_requirement_str SyntheticStatusRequirement.RuntimeOwnershipLost = ''runtime_ownership_lost''"
| "synthetic_status_requirement_str SyntheticStatusRequirement.ProviderOutcomeUnknown = ''provider_outcome_unknown''"
| "synthetic_status_requirement_str SyntheticStatusRequirement.ToolInterruptedBeforeDispatch = ''tool_interrupted_before_dispatch''"
| "synthetic_status_requirement_str SyntheticStatusRequirement.ToolOutcomeUnknown = ''tool_outcome_unknown''"
| "synthetic_status_requirement_str SyntheticStatusRequirement.CleanupUnconfirmed = ''cleanup_unconfirmed''"

definition all_synthetic_status_requirements :: "SyntheticStatusRequirement list" where
  "all_synthetic_status_requirements =
    [SyntheticStatusRequirement.NoStatus, SyntheticStatusRequirement.RuntimeOwnershipLost,
     SyntheticStatusRequirement.ProviderOutcomeUnknown,
     SyntheticStatusRequirement.ToolInterruptedBeforeDispatch,
     SyntheticStatusRequirement.ToolOutcomeUnknown,
     SyntheticStatusRequirement.CleanupUnconfirmed]"

interpretation synthetic_status_requirement: stable_enum synthetic_status_requirement_str all_synthetic_status_requirements
proof unfold_locales
  fix v :: SyntheticStatusRequirement
  show "v \<in> set all_synthetic_status_requirements" by (cases v) (simp_all add: all_synthetic_status_requirements_def)
qed (unfold all_synthetic_status_requirements_def, code_simp)

record RecoveryDecision =
  rd_classification :: RecoveryClassification
  rd_synthetic_status :: SyntheticStatusRequirement

abbreviation recovery ::
  "RecoveryClassification \<Rightarrow> SyntheticStatusRequirement \<Rightarrow> LifecycleTransitionError + RecoveryDecision"
where
  "recovery c s \<equiv> Inr \<lparr>rd_classification = c, rd_synthetic_status = s\<rparr>"

definition contradictory_recovery :: "LifecycleTransitionError + RecoveryDecision" where
  "contradictory_recovery = Inl (Invariant LifecycleInvariantKind.ContradictoryProjection)"

section \<open>Classification\<close>

fun model_recovery ::
  "ModelInvocationState \<Rightarrow> bool \<Rightarrow> LifecycleTransitionError + RecoveryDecision" where
  "model_recovery ModelInvocationState.Requesting _ =
     recovery MarkModelProviderOutcomeUnknownAndInterrupt SyntheticStatusRequirement.ProviderOutcomeUnknown"
| "model_recovery ModelInvocationState.Streaming _ =
     recovery MarkModelProviderOutcomeUnknownAndInterrupt SyntheticStatusRequirement.ProviderOutcomeUnknown"
| "model_recovery ModelInvocationState.Completed consistent =
     (if consistent then recovery InterruptActiveWork SyntheticStatusRequirement.RuntimeOwnershipLost
      else contradictory_recovery)"
| "model_recovery ModelInvocationState.ProviderOutcomeUnknown _ =
     recovery InterruptActiveWork SyntheticStatusRequirement.ProviderOutcomeUnknown"
| "model_recovery ModelInvocationState.Failed _ =
     recovery InterruptActiveWork SyntheticStatusRequirement.RuntimeOwnershipLost"
| "model_recovery ModelInvocationState.CancelledLocally _ =
     recovery InterruptActiveWork SyntheticStatusRequirement.RuntimeOwnershipLost"

definition classify_model_recovery ::
  "RecoveryInput \<Rightarrow> LifecycleTransitionError + RecoveryDecision" where
  "classify_model_recovery input =
     (case wl_attempt (ri_work input) of
        AttemptModel current_id \<Rightarrow>
          (case ri_attempt input of
             RecoveryModel model_id state consistent \<Rightarrow>
               if current_id \<noteq> model_id
               then Inl (Conflict LifecycleConflictKind.WrongCurrentAttempt)
               else if state \<noteq> ModelInvocationState.Completed \<and> consistent
               then contradictory_recovery
               else model_recovery state consistent
           | _ \<Rightarrow> contradictory_recovery)
      | _ \<Rightarrow> contradictory_recovery)"

fun tool_recovery ::
  "ToolExecutionState \<Rightarrow> bool \<Rightarrow> LifecycleTransitionError + RecoveryDecision" where
  "tool_recovery ToolExecutionState.Requested _ =
     recovery MarkToolInterruptedBeforeDispatchAndInterrupt
       SyntheticStatusRequirement.ToolInterruptedBeforeDispatch"
| "tool_recovery ToolExecutionState.Dispatching _ =
     recovery MarkToolOutcomeUnknownAndInterrupt SyntheticStatusRequirement.ToolOutcomeUnknown"
| "tool_recovery ToolExecutionState.Completed consistent =
     (if consistent
      then recovery ReconcileCommittedToolResultWithoutExecution SyntheticStatusRequirement.NoStatus
      else contradictory_recovery)"
| "tool_recovery ToolExecutionState.InterruptedBeforeDispatch _ =
     recovery InterruptActiveWork SyntheticStatusRequirement.ToolInterruptedBeforeDispatch"
| "tool_recovery ToolExecutionState.OutcomeUnknown _ =
     recovery InterruptActiveWork SyntheticStatusRequirement.ToolOutcomeUnknown"

definition classify_tool_recovery ::
  "RecoveryInput \<Rightarrow> LifecycleTransitionError + RecoveryDecision" where
  "classify_tool_recovery input =
     (case wl_attempt (ri_work input) of
        AttemptTool current_id \<Rightarrow>
          (case ri_attempt input of
             RecoveryTool tool_id state consistent \<Rightarrow>
               if current_id \<noteq> tool_id
               then Inl (Conflict LifecycleConflictKind.WrongCurrentAttempt)
               else if state \<noteq> ToolExecutionState.Completed \<and> consistent
               then contradictory_recovery
               else tool_recovery state consistent
           | _ \<Rightarrow> contradictory_recovery)
      | _ \<Rightarrow> contradictory_recovery)"

definition cancel_model_recovery ::
  "ModelInvocationState \<Rightarrow> bool \<Rightarrow> CleanupStatus \<Rightarrow> LifecycleTransitionError + RecoveryDecision" where
  "cancel_model_recovery state consistent cleanup =
     (if state \<in> {ModelInvocationState.Requesting, ModelInvocationState.Streaming} \<and> \<not> consistent
      then recovery MarkModelProviderOutcomeUnknownAndInterrupt
             SyntheticStatusRequirement.ProviderOutcomeUnknown
      else if state = ModelInvocationState.Completed \<and> \<not> consistent then contradictory_recovery
      else if state \<noteq> ModelInvocationState.Completed \<and> consistent then contradictory_recovery
      else if state = ModelInvocationState.ProviderOutcomeUnknown
      then recovery InterruptActiveWork SyntheticStatusRequirement.ProviderOutcomeUnknown
      else if cleanup = CleanupStatus.Unconfirmed
      then recovery InterruptActiveWork SyntheticStatusRequirement.CleanupUnconfirmed
      else recovery FinalizeCancellation SyntheticStatusRequirement.NoStatus)"

definition cancel_tool_recovery ::
  "ToolExecutionState \<Rightarrow> bool \<Rightarrow> CleanupStatus \<Rightarrow> LifecycleTransitionError + RecoveryDecision" where
  "cancel_tool_recovery state consistent cleanup =
     (if state \<noteq> ToolExecutionState.Completed \<and> consistent then contradictory_recovery
      else case state of
        ToolExecutionState.Requested \<Rightarrow>
          recovery MarkToolInterruptedBeforeDispatchAndInterrupt
            SyntheticStatusRequirement.ToolInterruptedBeforeDispatch
      | ToolExecutionState.Dispatching \<Rightarrow>
          recovery MarkToolOutcomeUnknownAndInterrupt SyntheticStatusRequirement.ToolOutcomeUnknown
      | ToolExecutionState.OutcomeUnknown \<Rightarrow>
          recovery InterruptActiveWork SyntheticStatusRequirement.ToolOutcomeUnknown
      | ToolExecutionState.InterruptedBeforeDispatch \<Rightarrow>
          recovery InterruptActiveWork SyntheticStatusRequirement.ToolInterruptedBeforeDispatch
      | ToolExecutionState.Completed \<Rightarrow>
          (if \<not> consistent then contradictory_recovery
           else if cleanup \<noteq> CleanupStatus.Unconfirmed
           then recovery FinalizeCancellation SyntheticStatusRequirement.NoStatus
           else recovery InterruptActiveWork SyntheticStatusRequirement.CleanupUnconfirmed))"

fun cancel_recovery ::
  "CurrentWorkAttempt \<Rightarrow> RecoveryAttempt \<Rightarrow> CleanupStatus \<Rightarrow>
   LifecycleTransitionError + RecoveryDecision" where
  "cancel_recovery AttemptNone RecoveryNone cleanup =
     (if cleanup = CleanupStatus.Unconfirmed
      then recovery InterruptActiveWork SyntheticStatusRequirement.CleanupUnconfirmed
      else recovery FinalizeCancellation SyntheticStatusRequirement.NoStatus)"
| "cancel_recovery (AttemptModel current_id) (RecoveryModel model_id state consistent) cleanup =
     (if current_id = model_id then cancel_model_recovery state consistent cleanup
      else Inl (Conflict LifecycleConflictKind.WrongCurrentAttempt))"
| "cancel_recovery (AttemptTool current_id) (RecoveryTool tool_id state consistent) cleanup =
     (if current_id = tool_id then cancel_tool_recovery state consistent cleanup
      else Inl (Conflict LifecycleConflictKind.WrongCurrentAttempt))"
| "cancel_recovery _ _ cleanup = contradictory_recovery"

definition classify_cancel_recovery ::
  "RecoveryInput \<Rightarrow> LifecycleTransitionError + RecoveryDecision" where
  "classify_cancel_recovery input =
     cancel_recovery (wl_attempt (ri_work input)) (ri_attempt input) (ri_cleanup_status input)"

fun running_attempt_ok :: "RecoveryAttempt \<Rightarrow> bool" where
  "running_attempt_ok RecoveryNone = True"
| "running_attempt_ok (RecoveryModel _ ModelInvocationState.Completed True) = True"
| "running_attempt_ok _ = False"

definition classify_recovery :: "RecoveryInput \<Rightarrow> LifecycleTransitionError + RecoveryDecision" where
  "classify_recovery input =
     and_then (validate_snapshot (ri_work input)) (\<lambda>_.
     if wl_owner (ri_work input) = Some (ri_current_runtime_id input)
     then Inl (Conflict LifecycleConflictKind.StaleOwner)
     else if wl_state (ri_work input) = WorkState.Queued then
       (if ri_attempt input \<noteq> RecoveryNone then contradictory_recovery
        else recovery RecoveryClassification.RetainQueued SyntheticStatusRequirement.NoStatus)
     else if work_is_terminal (wl_state (ri_work input)) then
       (if ri_attempt input \<noteq> RecoveryNone then contradictory_recovery
        else recovery RecoveryClassification.AlreadyTerminal SyntheticStatusRequirement.NoStatus)
     else case wl_state (ri_work input) of
       WorkState.Running \<Rightarrow>
         (if running_attempt_ok (ri_attempt input)
          then recovery InterruptActiveWork SyntheticStatusRequirement.RuntimeOwnershipLost
          else contradictory_recovery)
     | WorkState.WaitingOnModel \<Rightarrow> classify_model_recovery input
     | WorkState.WaitingOnTool \<Rightarrow> classify_tool_recovery input
     | WorkState.CancelRequested \<Rightarrow> classify_cancel_recovery input
     | _ \<Rightarrow> Inl (Invariant LifecycleInvariantKind.UnclassifiableRecovery))"

section \<open>Which evidence is classifiable\<close>

text \<open>
  The child evidence that is consistent with the work projection: it is about the projection's
  current attempt, and a committed response or result is reported exactly for a completed child.
\<close>

fun child_matches :: "CurrentWorkAttempt \<Rightarrow> RecoveryAttempt \<Rightarrow> bool" where
  "child_matches AttemptNone RecoveryNone = True"
| "child_matches (AttemptModel i) (RecoveryModel j state consistent) =
     (i = j \<and> consistent = (state = ModelInvocationState.Completed))"
| "child_matches (AttemptTool i) (RecoveryTool j state consistent) =
     (i = j \<and> consistent = (state = ToolExecutionState.Completed))"
| "child_matches _ _ = False"

definition recovery_consistent :: "WorkLifecycleSnapshot \<Rightarrow> RecoveryAttempt \<Rightarrow> bool" where
  "recovery_consistent work attempt \<longleftrightarrow>
     child_matches (wl_attempt work) attempt \<or>
     wl_state work = WorkState.Running \<and>
       (\<exists>i. attempt = RecoveryModel i ModelInvocationState.Completed True)"

text \<open>The children whose external effect may have happened without a durable outcome.\<close>

fun outcome_uncertain :: "RecoveryAttempt \<Rightarrow> bool" where
  "outcome_uncertain (RecoveryModel _ state _) =
     (state \<in> {ModelInvocationState.Requesting, ModelInvocationState.Streaming,
                ModelInvocationState.ProviderOutcomeUnknown})"
| "outcome_uncertain (RecoveryTool _ state _) =
     (state \<in> {ToolExecutionState.Dispatching, ToolExecutionState.OutcomeUnknown})"
| "outcome_uncertain RecoveryNone = False"

lemmas recovery_defs =
  classify_recovery_def classify_model_recovery_def classify_tool_recovery_def
  classify_cancel_recovery_def cancel_model_recovery_def cancel_tool_recovery_def
  contradictory_recovery_def

lemma classify_recovery_total_model:
  "wl_state (ri_work i) = WorkState.WaitingOnModel \<Longrightarrow> wl_attempt (ri_work i) = AttemptModel m \<Longrightarrow>
   (\<exists>d. classify_model_recovery i = Inr d) \<longleftrightarrow> child_matches (AttemptModel m) (ri_attempt i)"
  by (cases "ri_attempt i"; cases "case ri_attempt i of RecoveryModel _ st _ \<Rightarrow> st | _ \<Rightarrow> ModelInvocationState.Failed")
    (auto simp: classify_model_recovery_def contradictory_recovery_def)

lemma classify_recovery_total_tool:
  "wl_attempt (ri_work i) = AttemptTool t \<Longrightarrow>
   (\<exists>d. classify_tool_recovery i = Inr d) \<longleftrightarrow> child_matches (AttemptTool t) (ri_attempt i)"
  by (cases "ri_attempt i"; cases "case ri_attempt i of RecoveryTool _ st _ \<Rightarrow> st | _ \<Rightarrow> ToolExecutionState.Requested")
    (auto simp: classify_tool_recovery_def contradictory_recovery_def)

lemma cancel_model_recovery_ok:
  "(\<exists>d. cancel_model_recovery st c k = Inr d) \<longleftrightarrow> c = (st = ModelInvocationState.Completed)"
  by (cases st) (auto simp: cancel_model_recovery_def contradictory_recovery_def)

lemma cancel_tool_recovery_ok:
  "(\<exists>d. cancel_tool_recovery st c k = Inr d) \<longleftrightarrow> c = (st = ToolExecutionState.Completed)"
  by (cases st) (auto simp: cancel_tool_recovery_def contradictory_recovery_def)

lemma cancel_recovery_ok: "(\<exists>d. cancel_recovery a r k = Inr d) \<longleftrightarrow> child_matches a r"
  using cancel_model_recovery_ok cancel_tool_recovery_ok
  by (cases a; cases r) (auto simp: contradictory_recovery_def)

section \<open>Properties of recovery\<close>

lemma running_attempt_ok_iff:
  "running_attempt_ok a \<longleftrightarrow>
     child_matches AttemptNone a \<or> (\<exists>i. a = RecoveryModel i ModelInvocationState.Completed True)"
proof (cases a)
  case (RecoveryModel i st c)
  then show ?thesis by (cases st; cases c) simp_all
qed simp_all

lemma child_matches_none: "child_matches AttemptNone a \<longleftrightarrow> a = RecoveryNone"
  by (cases a) simp_all

text \<open>
  C12. Recovery classifies a well-formed work projection of a former runtime exactly when the child
  evidence is consistent with it; a projection owned by the running instance is refused.
\<close>

theorem recovery_classifies_consistent_input:
  assumes "work_wf (ri_work i)"
  shows "(\<exists>d. classify_recovery i = Inr d) \<longleftrightarrow>
           wl_owner (ri_work i) \<noteq> Some (ri_current_runtime_id i) \<and>
           recovery_consistent (ri_work i) (ri_attempt i)"
proof -
  let ?w = "ri_work i"
  have shape: "work_shape_ok (wl_state ?w) (wl_owner ?w) (wl_attempt ?w) (wl_cancellation ?w) (wl_terminal ?w)"
    using assms by (simp add: work_wf_def)
  then have valid: "validate_snapshot ?w = Inr ()" by (simp add: validate_work_shape_def)
  show ?thesis
  proof (cases "wl_state ?w")
    case Running
    with shape valid show ?thesis
      by (auto simp: classify_recovery_def contradictory_recovery_def recovery_consistent_def
          running_attempt_ok_iff)
  next
    case WaitingOnModel
    with shape obtain m where m: "wl_attempt ?w = AttemptModel m"
      by (auto split: CurrentWorkAttempt.splits)
    show ?thesis
      using valid WaitingOnModel m classify_recovery_total_model [OF WaitingOnModel m]
      by (simp add: classify_recovery_def recovery_consistent_def)
  next
    case WaitingOnTool
    with shape obtain t where t: "wl_attempt ?w = AttemptTool t"
      by (auto split: CurrentWorkAttempt.splits)
    show ?thesis
      using valid WaitingOnTool t classify_recovery_total_tool [OF t]
      by (simp add: classify_recovery_def recovery_consistent_def)
  next
    case CancelRequested
    with valid show ?thesis
      using cancel_recovery_ok
      by (simp add: classify_recovery_def classify_cancel_recovery_def recovery_consistent_def)
  qed (use shape valid in \<open>simp_all add: classify_recovery_def contradictory_recovery_def
        recovery_consistent_def child_matches_none\<close>)
qed

definition sample_recovery :: RecoveryInput where
  "sample_recovery =
     \<lparr>ri_work = sample_work, ri_current_runtime_id = RuntimeInstanceId 7,
      ri_attempt = RecoveryModel (ModelInvocationId 4) ModelInvocationState.Streaming False,
      ri_cleanup_status = CleanupStatus.NotRequired\<rparr>"

theorem recovery_classifies_consistent_input_witness:
  "\<exists>d. classify_recovery sample_recovery = Inr d"
  using recovery_classifies_consistent_input [of sample_recovery] sample_work_wf
  by (simp add: sample_recovery_def sample_work_def recovery_consistent_def)

text \<open>
  C13. Recovery never hides an uncertain outcome: when the child may have acted without a durable
  outcome, the work is interrupted, never reconciled or finalized as cancelled, and the model is
  told so by a status that names the uncertainty. A recovery without such a status is one that
  retains queued work, finds it terminal, reconciles a committed result or finalizes a cancellation.
\<close>

theorem recovery_reports_uncertainty:
  assumes "classify_recovery i = Inr d"
  shows "(outcome_uncertain (ri_attempt i) \<longrightarrow>
            rd_classification d \<in> {InterruptActiveWork, MarkModelProviderOutcomeUnknownAndInterrupt,
              MarkToolOutcomeUnknownAndInterrupt} \<and>
            rd_synthetic_status d \<in> {SyntheticStatusRequirement.ProviderOutcomeUnknown,
              SyntheticStatusRequirement.ToolOutcomeUnknown}) \<and>
         (rd_synthetic_status d = SyntheticStatusRequirement.NoStatus \<longleftrightarrow>
            rd_classification d \<in> {RecoveryClassification.RetainQueued,
              RecoveryClassification.AlreadyTerminal, ReconcileCommittedToolResultWithoutExecution,
              FinalizeCancellation})"
proof (cases "ri_attempt i")
  case RecoveryNone
  with assms show ?thesis
    by (cases "wl_attempt (ri_work i)")
      (auto simp: recovery_defs result_iffs split: if_splits WorkState.splits CurrentWorkAttempt.splits)
next
  case (RecoveryModel m st c)
  with assms show ?thesis
    by (cases "wl_attempt (ri_work i)"; cases st; cases c)
      (auto simp: recovery_defs result_iffs split: if_splits WorkState.splits)
next
  case (RecoveryTool t st c)
  with assms show ?thesis
    by (cases "wl_attempt (ri_work i)"; cases st; cases c)
      (auto simp: recovery_defs result_iffs split: if_splits WorkState.splits)
qed

theorem recovery_reports_uncertainty_witness:
  "\<exists>d. classify_recovery sample_recovery = Inr d \<and>
       rd_synthetic_status d \<noteq> SyntheticStatusRequirement.NoStatus"
proof -
  obtain d where d: "classify_recovery sample_recovery = Inr d"
    by (simp add: recovery_defs sample_recovery_def sample_work_def validate_work_shape_def)
  with recovery_reports_uncertainty [OF d] show ?thesis
    by (auto simp: sample_recovery_def)
qed

end
