(* ===== verification/Lifecycle_Terminal.thy ===== *)
theory Lifecycle_Terminal
  imports Lifecycle_Work
begin

text \<open>
  The end of a model turn in domain/lifecycle.rs: classification of the normalized output facts,
  conversion of a final answer into guarded work completion, and the static recovery meaning of the
  reserved failpoints.
\<close>

section \<open>Model terminal decision\<close>

datatype ModelResponseStatus =
    Complete | Incomplete | Failed

fun model_response_status_str :: "ModelResponseStatus \<Rightarrow> string" where
  "model_response_status_str ModelResponseStatus.Complete = ''complete''"
| "model_response_status_str ModelResponseStatus.Incomplete = ''incomplete''"
| "model_response_status_str ModelResponseStatus.Failed = ''failed''"

definition all_model_response_statuss :: "ModelResponseStatus list" where
  "all_model_response_statuss =
    [ModelResponseStatus.Complete, ModelResponseStatus.Incomplete, ModelResponseStatus.Failed]"

interpretation model_response_status: stable_enum model_response_status_str all_model_response_statuss
proof unfold_locales
  fix v :: ModelResponseStatus
  show "v \<in> set all_model_response_statuss" by (cases v) (simp_all add: all_model_response_statuss_def)
qed (unfold all_model_response_statuss_def, code_simp)

record ModelOutputFacts =
  has_text :: bool
  has_structured_output :: bool
  has_refusal :: bool
  has_tool_calls :: bool
  has_unknown_correctness_bearing_item :: bool

record ModelTerminalFacts =
  mt_response_status :: ModelResponseStatus
  mt_output :: ModelOutputFacts
  mt_cancellation_won :: bool
  mt_exhausted_limit :: "LifecycleLimit option"

datatype TerminalDecision =
    AnsweredDecision
  | RefusedDecision
  | ContinueWithTools
  | FailureDecision ModelOutputFailure
  | LimitReached LifecycleLimit
  | CancelWins

definition output_terminal :: "ModelOutputFacts \<Rightarrow> TerminalDecision" where
  "output_terminal output =
     (if has_unknown_correctness_bearing_item output
      then FailureDecision ModelOutputFailure.UnknownCorrectnessBearingItem
      else if has_refusal output \<and>
        (has_text output \<or> has_structured_output output \<or> has_tool_calls output)
      then FailureDecision ModelOutputFailure.ContradictoryRefusal
      else if has_refusal output then RefusedDecision
      else if has_tool_calls output then ContinueWithTools
      else if has_text output \<or> has_structured_output output then AnsweredDecision
      else FailureDecision ModelOutputFailure.Empty)"

definition decide_model_terminal :: "ModelTerminalFacts \<Rightarrow> TerminalDecision" where
  "decide_model_terminal facts =
     (if mt_cancellation_won facts then CancelWins
      else case mt_exhausted_limit facts of
        Some limit \<Rightarrow> LimitReached limit
      | None \<Rightarrow>
          (case mt_response_status facts of
             ModelResponseStatus.Incomplete \<Rightarrow> FailureDecision ModelOutputFailure.Incomplete
           | ModelResponseStatus.Failed \<Rightarrow> FailureDecision ModelOutputFailure.ProviderFailed
           | ModelResponseStatus.Complete \<Rightarrow> output_terminal (mt_output facts)))"

definition decide_final_answer ::
  "WorkLifecycleSnapshot \<Rightarrow> TerminalDecision \<Rightarrow> WorkCompletionEvidence \<Rightarrow>
   LifecycleTransitionError + WorkTransitionDecision option" where
  "decide_final_answer current terminal evidence =
     (let complete = (\<lambda>reason. map_ok Some
            (decide_work_transition current (for_snapshot current)
               (WorkTransitionRequest.Complete reason evidence)))
      in case terminal of
           AnsweredDecision \<Rightarrow> complete WorkCompletionReason.Answered
         | RefusedDecision \<Rightarrow> complete WorkCompletionReason.Refused
         | CancelWins \<Rightarrow> Inl (Conflict LifecycleConflictKind.IllegalTransition)
         | _ \<Rightarrow> Inr None)"

section \<open>Failpoints\<close>

datatype LifecycleFailpoint =
    AfterMessageTransactionCommit | AfterWorkClaimCommit | AfterContextManifestCommit |
    AfterModelIntentCommit | AfterFirstProviderDelta | AfterModelResponseCommit |
    AfterToolRequestedCommit | AfterToolDispatchIntentCommit | AfterToolProcessSpawn |
    AfterToolProcessExitBeforeOutcomeCommit | AfterArtifactRenameBeforeDbCommit |
    AfterAssistantMessageCommit | AfterCancelRequestedCommit | DuringGracefulShutdown

fun lifecycle_failpoint_str :: "LifecycleFailpoint \<Rightarrow> string" where
  "lifecycle_failpoint_str LifecycleFailpoint.AfterMessageTransactionCommit = ''after_message_transaction_commit''"
| "lifecycle_failpoint_str LifecycleFailpoint.AfterWorkClaimCommit = ''after_work_claim_commit''"
| "lifecycle_failpoint_str LifecycleFailpoint.AfterContextManifestCommit = ''after_context_manifest_commit''"
| "lifecycle_failpoint_str LifecycleFailpoint.AfterModelIntentCommit = ''after_model_intent_commit''"
| "lifecycle_failpoint_str LifecycleFailpoint.AfterFirstProviderDelta = ''after_first_provider_delta''"
| "lifecycle_failpoint_str LifecycleFailpoint.AfterModelResponseCommit = ''after_model_response_commit''"
| "lifecycle_failpoint_str LifecycleFailpoint.AfterToolRequestedCommit = ''after_tool_requested_commit''"
| "lifecycle_failpoint_str LifecycleFailpoint.AfterToolDispatchIntentCommit = ''after_tool_dispatch_intent_commit''"
| "lifecycle_failpoint_str LifecycleFailpoint.AfterToolProcessSpawn = ''after_tool_process_spawn''"
| "lifecycle_failpoint_str LifecycleFailpoint.AfterToolProcessExitBeforeOutcomeCommit = ''after_tool_process_exit_before_outcome_commit''"
| "lifecycle_failpoint_str LifecycleFailpoint.AfterArtifactRenameBeforeDbCommit = ''after_artifact_rename_before_db_commit''"
| "lifecycle_failpoint_str LifecycleFailpoint.AfterAssistantMessageCommit = ''after_assistant_message_commit''"
| "lifecycle_failpoint_str LifecycleFailpoint.AfterCancelRequestedCommit = ''after_cancel_requested_commit''"
| "lifecycle_failpoint_str LifecycleFailpoint.DuringGracefulShutdown = ''during_graceful_shutdown''"

definition all_lifecycle_failpoints :: "LifecycleFailpoint list" where
  "all_lifecycle_failpoints =
    [LifecycleFailpoint.AfterMessageTransactionCommit, LifecycleFailpoint.AfterWorkClaimCommit,
     LifecycleFailpoint.AfterContextManifestCommit, LifecycleFailpoint.AfterModelIntentCommit,
     LifecycleFailpoint.AfterFirstProviderDelta, LifecycleFailpoint.AfterModelResponseCommit,
     LifecycleFailpoint.AfterToolRequestedCommit,
     LifecycleFailpoint.AfterToolDispatchIntentCommit,
     LifecycleFailpoint.AfterToolProcessSpawn,
     LifecycleFailpoint.AfterToolProcessExitBeforeOutcomeCommit,
     LifecycleFailpoint.AfterArtifactRenameBeforeDbCommit,
     LifecycleFailpoint.AfterAssistantMessageCommit,
     LifecycleFailpoint.AfterCancelRequestedCommit, LifecycleFailpoint.DuringGracefulShutdown]"

interpretation lifecycle_failpoint: stable_enum lifecycle_failpoint_str all_lifecycle_failpoints
proof unfold_locales
  fix v :: LifecycleFailpoint
  show "v \<in> set all_lifecycle_failpoints" by (cases v) (simp_all add: all_lifecycle_failpoints_def)
qed (unfold all_lifecycle_failpoints_def, code_simp)

datatype FailpointRecoveryExpectation =
    RetainQueued | InterruptActiveWork | MarkModelProviderOutcomeUnknownAndInterrupt |
    MarkToolInterruptedBeforeDispatchAndInterrupt | MarkToolOutcomeUnknownAndInterrupt |
    AtomicModelAttemptBoundary | AtomicFinalAnswerBoundary

fun failpoint_recovery_expectation_str :: "FailpointRecoveryExpectation \<Rightarrow> string" where
  "failpoint_recovery_expectation_str FailpointRecoveryExpectation.RetainQueued = ''retain_queued''"
| "failpoint_recovery_expectation_str FailpointRecoveryExpectation.InterruptActiveWork = ''interrupt_active_work''"
| "failpoint_recovery_expectation_str FailpointRecoveryExpectation.MarkModelProviderOutcomeUnknownAndInterrupt = ''mark_model_provider_outcome_unknown_and_interrupt''"
| "failpoint_recovery_expectation_str FailpointRecoveryExpectation.MarkToolInterruptedBeforeDispatchAndInterrupt = ''mark_tool_interrupted_before_dispatch_and_interrupt''"
| "failpoint_recovery_expectation_str FailpointRecoveryExpectation.MarkToolOutcomeUnknownAndInterrupt = ''mark_tool_outcome_unknown_and_interrupt''"
| "failpoint_recovery_expectation_str FailpointRecoveryExpectation.AtomicModelAttemptBoundary = ''interrupt_or_model_outcome_unknown_by_resolved_atomic_hook''"
| "failpoint_recovery_expectation_str FailpointRecoveryExpectation.AtomicFinalAnswerBoundary = ''interrupt_or_already_terminal_by_resolved_atomic_hook''"

definition all_failpoint_recovery_expectations :: "FailpointRecoveryExpectation list" where
  "all_failpoint_recovery_expectations =
    [FailpointRecoveryExpectation.RetainQueued,
     FailpointRecoveryExpectation.InterruptActiveWork,
     FailpointRecoveryExpectation.MarkModelProviderOutcomeUnknownAndInterrupt,
     FailpointRecoveryExpectation.MarkToolInterruptedBeforeDispatchAndInterrupt,
     FailpointRecoveryExpectation.MarkToolOutcomeUnknownAndInterrupt,
     FailpointRecoveryExpectation.AtomicModelAttemptBoundary,
     FailpointRecoveryExpectation.AtomicFinalAnswerBoundary]"

interpretation failpoint_recovery_expectation: stable_enum failpoint_recovery_expectation_str all_failpoint_recovery_expectations
proof unfold_locales
  fix v :: FailpointRecoveryExpectation
  show "v \<in> set all_failpoint_recovery_expectations" by (cases v) (simp_all add: all_failpoint_recovery_expectations_def)
qed (unfold all_failpoint_recovery_expectations_def, code_simp)

datatype FailpointPhysicalInterpretation =
    Exact | ContextManifestAtomicAlias | ModelIntentAtomicAlias |
    AssistantMessageAtomicAlias

fun failpoint_physical_interpretation_str :: "FailpointPhysicalInterpretation \<Rightarrow> string" where
  "failpoint_physical_interpretation_str FailpointPhysicalInterpretation.Exact = ''exact''"
| "failpoint_physical_interpretation_str FailpointPhysicalInterpretation.ContextManifestAtomicAlias = ''context_manifest_atomic_alias''"
| "failpoint_physical_interpretation_str FailpointPhysicalInterpretation.ModelIntentAtomicAlias = ''model_intent_atomic_alias''"
| "failpoint_physical_interpretation_str FailpointPhysicalInterpretation.AssistantMessageAtomicAlias = ''assistant_message_atomic_alias''"

definition all_failpoint_physical_interpretations :: "FailpointPhysicalInterpretation list" where
  "all_failpoint_physical_interpretations =
    [FailpointPhysicalInterpretation.Exact,
     FailpointPhysicalInterpretation.ContextManifestAtomicAlias,
     FailpointPhysicalInterpretation.ModelIntentAtomicAlias,
     FailpointPhysicalInterpretation.AssistantMessageAtomicAlias]"

interpretation failpoint_physical_interpretation: stable_enum failpoint_physical_interpretation_str all_failpoint_physical_interpretations
proof unfold_locales
  fix v :: FailpointPhysicalInterpretation
  show "v \<in> set all_failpoint_physical_interpretations" by (cases v) (simp_all add: all_failpoint_physical_interpretations_def)
qed (unfold all_failpoint_physical_interpretations_def, code_simp)

record FailpointSemanticExpectation =
  fp_failpoint :: LifecycleFailpoint
  fp_recovery :: FailpointRecoveryExpectation
  fp_physical_interpretation :: FailpointPhysicalInterpretation

fun failpoint_row ::
  "LifecycleFailpoint \<Rightarrow> FailpointRecoveryExpectation \<times> FailpointPhysicalInterpretation" where
  "failpoint_row AfterMessageTransactionCommit = (FailpointRecoveryExpectation.RetainQueued, Exact)"
| "failpoint_row AfterWorkClaimCommit = (FailpointRecoveryExpectation.InterruptActiveWork, Exact)"
| "failpoint_row AfterContextManifestCommit = (AtomicModelAttemptBoundary, ContextManifestAtomicAlias)"
| "failpoint_row AfterModelIntentCommit = (AtomicModelAttemptBoundary, ModelIntentAtomicAlias)"
| "failpoint_row AfterFirstProviderDelta =
     (FailpointRecoveryExpectation.MarkModelProviderOutcomeUnknownAndInterrupt, Exact)"
| "failpoint_row AfterModelResponseCommit = (FailpointRecoveryExpectation.InterruptActiveWork, Exact)"
| "failpoint_row AfterToolRequestedCommit =
     (FailpointRecoveryExpectation.MarkToolInterruptedBeforeDispatchAndInterrupt, Exact)"
| "failpoint_row AfterToolDispatchIntentCommit =
     (FailpointRecoveryExpectation.MarkToolOutcomeUnknownAndInterrupt, Exact)"
| "failpoint_row AfterToolProcessSpawn =
     (FailpointRecoveryExpectation.MarkToolOutcomeUnknownAndInterrupt, Exact)"
| "failpoint_row AfterToolProcessExitBeforeOutcomeCommit =
     (FailpointRecoveryExpectation.MarkToolOutcomeUnknownAndInterrupt, Exact)"
| "failpoint_row AfterArtifactRenameBeforeDbCommit =
     (FailpointRecoveryExpectation.MarkToolOutcomeUnknownAndInterrupt, Exact)"
| "failpoint_row AfterAssistantMessageCommit =
     (AtomicFinalAnswerBoundary, AssistantMessageAtomicAlias)"
| "failpoint_row AfterCancelRequestedCommit = (FailpointRecoveryExpectation.InterruptActiveWork, Exact)"
| "failpoint_row DuringGracefulShutdown = (FailpointRecoveryExpectation.InterruptActiveWork, Exact)"

definition failpoint_semantic_expectation ::
  "LifecycleFailpoint \<Rightarrow> FailpointSemanticExpectation" where
  "failpoint_semantic_expectation failpoint =
     \<lparr>fp_failpoint = failpoint, fp_recovery = fst (failpoint_row failpoint),
      fp_physical_interpretation = snd (failpoint_row failpoint)\<rparr>"

section \<open>Properties of the final answer\<close>

lemma decide_model_terminal_final:
  "decide_model_terminal f \<in> {AnsweredDecision, RefusedDecision} \<Longrightarrow>
   \<not> mt_cancellation_won f \<and> mt_exhausted_limit f = None \<and>
   mt_response_status f = ModelResponseStatus.Complete \<and>
   \<not> has_unknown_correctness_bearing_item (mt_output f) \<and> \<not> has_tool_calls (mt_output f)"
  by (auto simp: decide_model_terminal_def output_terminal_def
      split: option.splits ModelResponseStatus.splits if_splits)

text \<open>
  C14. A final answer is committed only for a complete response with no cancellation, no exhausted
  limit, no unknown item and no tool call, on a running projection with satisfied evidence; the work
  is then completed as refused exactly when the output is a refusal, and a refusal carries no other
  output.
\<close>

theorem final_answer_conditions:
  assumes "decide_final_answer s (decide_model_terminal f) evidence = Inr (Some d)"
  shows "\<not> mt_cancellation_won f \<and> mt_exhausted_limit f = None \<and>
         mt_response_status f = ModelResponseStatus.Complete \<and>
         \<not> has_unknown_correctness_bearing_item (mt_output f) \<and> \<not> has_tool_calls (mt_output f) \<and>
         is_satisfied evidence \<and> wl_state s = WorkState.Running \<and>
         wl_terminal (wd_next d) = Some (Completion
           (if has_refusal (mt_output f) then WorkCompletionReason.Refused
            else WorkCompletionReason.Answered)) \<and>
         (has_refusal (mt_output f) \<longleftrightarrow>
            \<not> has_text (mt_output f) \<and> \<not> has_structured_output (mt_output f))"
proof -
  from assms have fin: "decide_model_terminal f \<in> {AnsweredDecision, RefusedDecision}"
    by (cases "decide_model_terminal f") (auto simp: decide_final_answer_def)
  note facts = decide_model_terminal_final [OF fin]
  then have t: "decide_model_terminal f = output_terminal (mt_output f)"
    by (simp add: decide_model_terminal_def)
  define reason where "reason = (if has_refusal (mt_output f) then WorkCompletionReason.Refused
            else WorkCompletionReason.Answered)"
  have refusal: "has_refusal (mt_output f) \<longleftrightarrow>
      \<not> has_text (mt_output f) \<and> \<not> has_structured_output (mt_output f)"
    and dec: "decide_model_terminal f =
      (if has_refusal (mt_output f) then RefusedDecision else AnsweredDecision)"
    using fin facts by (auto simp: t output_terminal_def split: if_splits)
  have d: "decide_work_transition s (for_snapshot s)
      (WorkTransitionRequest.Complete reason evidence) = Inr d"
    using assms dec
    by (auto simp: decide_final_answer_def Let_def reason_def map_ok_Inr_iff split: if_splits)
  then have "wl_state (wd_next d) = WorkState.Completed"
    by (simp add: decide_work_transition_next(2))
  with completed_step [OF d] have "is_satisfied evidence" "wl_state s = WorkState.Running"
    "wl_terminal (wd_next d) = Some (Completion reason)" by auto
  with facts refusal show ?thesis by (simp add: reason_def)
qed

definition answer_facts :: ModelTerminalFacts where
  "answer_facts =
     \<lparr>mt_response_status = ModelResponseStatus.Complete,
      mt_output = \<lparr>has_text = True, has_structured_output = False, has_refusal = False,
                   has_tool_calls = False, has_unknown_correctness_bearing_item = False\<rparr>,
      mt_cancellation_won = False, mt_exhausted_limit = None\<rparr>"

theorem final_answer_conditions_witness:
  "\<exists>d. decide_final_answer started_sample (decide_model_terminal answer_facts) SATISFIED =
         Inr (Some d) \<and>
       wl_terminal (wd_next d) = Some (Completion WorkCompletionReason.Answered)"
proof -
  obtain d where d: "decide_final_answer started_sample (decide_model_terminal answer_facts)
      SATISFIED = Inr (Some d)"
    using completed_sample_step
    by (auto simp: decide_final_answer_def decide_model_terminal_def output_terminal_def
        answer_facts_def work_step_def map_ok_Inr_iff)
  from final_answer_conditions [OF d] d show ?thesis by (simp add: answer_facts_def)
qed

end
