(* ===== verification/Runtime_Instance.thy ===== *)
theory Runtime_Instance
  imports Evidence
begin

text \<open>
  The process-lifetime state of one backend boot, domain/runtime.rs. The code uses only the order of
  timestamps, so an instant is its count of microseconds; the remaining start evidence is carried
  unchanged.
\<close>

type_synonym UtcTimestamp = int

datatype CraxiiId = CraxiiId Uuid
datatype WorkstationId = WorkstationId Uuid

record RuntimeStartEvidence =
  rs_runtime_instance_id :: RuntimeInstanceId
  rs_craxii_id :: CraxiiId
  rs_workstation_id :: WorkstationId
  rs_workstation_generation :: WorkstationGeneration
  rs_linux_boot_id :: "string option"
  rs_diagnostic_pid :: "PositiveReferenceInteger option"
  rs_package_version :: string
  rs_git_revision :: string
  rs_schema_version :: SchemaVersion
  rs_started_at :: UtcTimestamp

datatype RuntimeState = Running | Stopping | Stopped

datatype RuntimeStopReason = GracefulShutdown | StartupFailure

fun runtime_state_str :: "RuntimeState \<Rightarrow> string" where
  "runtime_state_str RuntimeState.Running = ''running''"
| "runtime_state_str RuntimeState.Stopping = ''stopping''"
| "runtime_state_str RuntimeState.Stopped = ''stopped''"

fun runtime_stop_reason_str :: "RuntimeStopReason \<Rightarrow> string" where
  "runtime_stop_reason_str RuntimeStopReason.GracefulShutdown = ''graceful_shutdown''"
| "runtime_stop_reason_str RuntimeStopReason.StartupFailure = ''startup_failure''"

record RuntimeInstance =
  rt_start :: RuntimeStartEvidence
  rt_state :: RuntimeState
  rt_last_heartbeat_at :: UtcTimestamp
  rt_stopped_at :: "UtcTimestamp option"
  rt_stop_reason :: "RuntimeStopReason option"

datatype RuntimeLifecycleError = RuntimeLifecycleError

definition runtime_start :: "RuntimeStartEvidence \<Rightarrow> RuntimeInstance" where
  "runtime_start evidence =
     \<lparr>rt_start = evidence, rt_state = RuntimeState.Running,
      rt_last_heartbeat_at = rs_started_at evidence, rt_stopped_at = None, rt_stop_reason = None\<rparr>"

fun runtime_shape ::
  "RuntimeState \<Rightarrow> UtcTimestamp option \<Rightarrow> RuntimeStopReason option \<Rightarrow> bool" where
  "runtime_shape RuntimeState.Running stopped_at reason = (stopped_at = None \<and> reason = None)"
| "runtime_shape RuntimeState.Stopping stopped_at reason =
     (stopped_at = None \<and> reason = Some RuntimeStopReason.GracefulShutdown)"
| "runtime_shape RuntimeState.Stopped stopped_at reason = (stopped_at \<noteq> None \<and> reason \<noteq> None)"

definition try_from_persisted ::
  "RuntimeStartEvidence \<Rightarrow> RuntimeState \<Rightarrow> UtcTimestamp \<Rightarrow> UtcTimestamp option \<Rightarrow>
   RuntimeStopReason option \<Rightarrow> RuntimeLifecycleError + RuntimeInstance" where
  "try_from_persisted start state last_heartbeat_at stopped_at stop_reason =
     (let valid = (rs_started_at start \<le> last_heartbeat_at \<and>
                   runtime_shape state stopped_at stop_reason \<and>
                   (case stopped_at of None \<Rightarrow> True | Some at \<Rightarrow> rs_started_at start \<le> at))
      in if \<not> valid then Inl RuntimeLifecycleError
         else Inr \<lparr>rt_start = start, rt_state = state, rt_last_heartbeat_at = last_heartbeat_at,
                   rt_stopped_at = stopped_at, rt_stop_reason = stop_reason\<rparr>)"

definition begin_stopping :: "RuntimeInstance \<Rightarrow> RuntimeLifecycleError + RuntimeInstance" where
  "begin_stopping r =
     (if rt_state r \<noteq> RuntimeState.Running then Inl RuntimeLifecycleError
      else Inr (r\<lparr>rt_state := RuntimeState.Stopping,
                  rt_stop_reason := Some RuntimeStopReason.GracefulShutdown\<rparr>))"

definition finish_graceful ::
  "RuntimeInstance \<Rightarrow> UtcTimestamp \<Rightarrow> RuntimeLifecycleError + RuntimeInstance" where
  "finish_graceful r at =
     (if rt_state r \<noteq> RuntimeState.Stopping \<or> at < rs_started_at (rt_start r)
      then Inl RuntimeLifecycleError
      else Inr (r\<lparr>rt_state := RuntimeState.Stopped, rt_stopped_at := Some at,
                  rt_stop_reason := Some RuntimeStopReason.GracefulShutdown\<rparr>))"

definition finish_startup_failure ::
  "RuntimeInstance \<Rightarrow> UtcTimestamp \<Rightarrow> RuntimeLifecycleError + RuntimeInstance" where
  "finish_startup_failure r at =
     (if rt_state r \<notin> {RuntimeState.Running, RuntimeState.Stopping} \<or> at < rs_started_at (rt_start r)
      then Inl RuntimeLifecycleError
      else Inr (r\<lparr>rt_state := RuntimeState.Stopped, rt_stopped_at := Some at,
                  rt_stop_reason := Some RuntimeStopReason.StartupFailure\<rparr>))"

text \<open>The boolean says whether the heartbeat was recorded.\<close>

definition observe_heartbeat ::
  "RuntimeInstance \<Rightarrow> UtcTimestamp \<Rightarrow> RuntimeLifecycleError + bool \<times> RuntimeInstance" where
  "observe_heartbeat r at =
     (if rt_state r \<noteq> RuntimeState.Running then Inl RuntimeLifecycleError
      else if at \<le> rt_last_heartbeat_at r then Inr (False, r)
      else Inr (True, r\<lparr>rt_last_heartbeat_at := at\<rparr>))"

section \<open>Runs\<close>

datatype RuntimeOp =
    BeginStopping
  | FinishGraceful UtcTimestamp
  | FinishStartupFailure UtcTimestamp
  | ObserveHeartbeat UtcTimestamp

fun runtime_step :: "RuntimeInstance \<Rightarrow> RuntimeOp \<Rightarrow> RuntimeLifecycleError + RuntimeInstance" where
  "runtime_step r BeginStopping = begin_stopping r"
| "runtime_step r (FinishGraceful at) = finish_graceful r at"
| "runtime_step r (FinishStartupFailure at) = finish_startup_failure r at"
| "runtime_step r (ObserveHeartbeat at) = map_ok snd (observe_heartbeat r at)"

fun legal_runtime_pair :: "RuntimeState \<Rightarrow> RuntimeState \<Rightarrow> bool" where
  "legal_runtime_pair RuntimeState.Running _ = True"
| "legal_runtime_pair RuntimeState.Stopping RuntimeState.Stopped = True"
| "legal_runtime_pair _ _ = False"

text \<open>The rows the validating constructor accepts.\<close>

definition runtime_wf :: "RuntimeInstance \<Rightarrow> bool" where
  "runtime_wf r \<longleftrightarrow>
     try_from_persisted (rt_start r) (rt_state r) (rt_last_heartbeat_at r) (rt_stopped_at r)
       (rt_stop_reason r) = Inr r"

lemma runtime_wf_iff:
  "runtime_wf r \<longleftrightarrow>
     rs_started_at (rt_start r) \<le> rt_last_heartbeat_at r \<and>
     runtime_shape (rt_state r) (rt_stopped_at r) (rt_stop_reason r) \<and>
     (case rt_stopped_at r of None \<Rightarrow> True | Some at \<Rightarrow> rs_started_at (rt_start r) \<le> at)"
  by (cases r; cases "rt_stopped_at r") (simp_all add: runtime_wf_def try_from_persisted_def Let_def)

lemmas runtime_op_defs =
  begin_stopping_def finish_graceful_def finish_startup_failure_def observe_heartbeat_def

interpretation runtime_machine:
  invariant_machine runtime_step rt_state legal_runtime_pair "\<lambda>p. p = RuntimeState.Stopped" runtime_wf
proof unfold_locales
  fix r :: RuntimeInstance and op r'
  assume step: "runtime_step r op = Inr r'"
  then show "legal_runtime_pair (rt_state r) (rt_state r')"
    by (cases op; cases "rt_state r") (auto simp: runtime_op_defs result_iffs split: if_splits)
next
  fix r :: RuntimeInstance and op r'
  assume "runtime_wf r" and "runtime_step r op = Inr r'"
  then show "runtime_wf r'"
    by (cases op; cases "rt_state r")
      (auto simp: runtime_op_defs result_iffs runtime_wf_iff split: if_splits)
qed simp

lemma runtime_start_wf: "runtime_wf (runtime_start ev)"
  by (simp add: runtime_wf_iff runtime_start_def)

text \<open>
  C15. Every run of the process-lifetime operations from a fresh start leaves a row that the
  validating constructor reads back as itself, with the same start evidence and a heartbeat that
  never goes backwards; no operation succeeds on a stopped instance.
\<close>

theorem runtime_run_persistable:
  assumes "fold_result runtime_step (runtime_start ev) ops = Inr r"
  shows "try_from_persisted (rt_start r) (rt_state r) (rt_last_heartbeat_at r) (rt_stopped_at r)
           (rt_stop_reason r) = Inr r \<and>
         rt_start r = ev \<and>
         (\<forall>op r'. runtime_step r op = Inr r' \<longrightarrow>
            rt_state r \<noteq> RuntimeState.Stopped \<and> rt_last_heartbeat_at r \<le> rt_last_heartbeat_at r')"
proof (intro conjI allI impI)
  show "try_from_persisted (rt_start r) (rt_state r) (rt_last_heartbeat_at r) (rt_stopped_at r)
           (rt_stop_reason r) = Inr r"
    using runtime_machine.run_wf [OF runtime_start_wf assms] by (simp add: runtime_wf_def)
  have keep: "rt_start s' = rt_start s" if "runtime_step s op = Inr s'" for s op s'
    using that by (cases op) (auto simp: runtime_op_defs result_iffs split: if_splits)
  show "rt_start r = ev"
    by (rule fold_result_invariant [where P = "\<lambda>s. rt_start s = ev", OF _ assms])
      (auto simp: keep runtime_start_def)
next
  fix op r'
  assume step: "runtime_step r op = Inr r'"
  then show "rt_state r \<noteq> RuntimeState.Stopped"
    using runtime_machine.terminal_rejects [of r op] by auto
  from step show "rt_last_heartbeat_at r \<le> rt_last_heartbeat_at r'"
    by (cases op) (auto simp: runtime_op_defs result_iffs split: if_splits)
qed

definition sample_start :: RuntimeStartEvidence where
  "sample_start =
     \<lparr>rs_runtime_instance_id = RuntimeInstanceId 1, rs_craxii_id = CraxiiId 2,
      rs_workstation_id = WorkstationId 3, rs_workstation_generation = ExactPositiveInteger 1,
      rs_linux_boot_id = None, rs_diagnostic_pid = None, rs_package_version = ''0.1.0'',
      rs_git_revision = ''abc'', rs_schema_version = ExactPositiveInteger 1, rs_started_at = 100\<rparr>"

theorem runtime_run_persistable_witness:
  "\<exists>r. fold_result runtime_step (runtime_start sample_start)
         [ObserveHeartbeat 150, BeginStopping, FinishGraceful 140] = Inr r \<and>
       rt_start r = sample_start \<and> rt_last_heartbeat_at r = 150"
proof -
  obtain r where r: "fold_result runtime_step (runtime_start sample_start)
      [ObserveHeartbeat 150, BeginStopping, FinishGraceful 140] = Inr r" "rt_last_heartbeat_at r = 150"
    by (simp add: runtime_start_def sample_start_def runtime_op_defs)
  with runtime_run_persistable [OF r(1)] show ?thesis by blast
qed

end
