(* ===== verification/Logical_Path.thy ===== *)
theory Logical_Path
  imports Scalars
begin

text \<open>
  Lexical POSIX path identity, domain/path.rs: \<open>str::split\<close> on the separator, the segment loop and
  the canonical rendering. A path is its UTF-8 bytes; the separator, the dot and the two forbidden
  characters are ASCII, so splitting by characters and by bytes agree.
\<close>

definition MAX_LOGICAL_PATH_BYTES :: nat where
  "MAX_LOGICAL_PATH_BYTES = 4096"

datatype LogicalPathKind = WorkspaceRelative | Absolute

record LogicalPathReference =
  lp_kind :: LogicalPathKind
  lp_canonical :: string

abbreviation slash :: char where "slash \<equiv> CHR ''/''"

abbreviation invalid_path :: DomainValidationError where
  "invalid_path \<equiv> DomainValidationError InvalidLogicalPath"

text \<open>\<open>str::split\<close>: the pieces between separators; the empty string has one empty piece.\<close>

fun split_on :: "char \<Rightarrow> string \<Rightarrow> string list" where
  "split_on sep [] = [[]]"
| "split_on sep (c # cs) =
     (if c = sep then [] # split_on sep cs
      else case split_on sep cs of
        [] \<Rightarrow> [[c]]
      | piece # pieces \<Rightarrow> (c # piece) # pieces)"

fun join_with :: "string \<Rightarrow> string list \<Rightarrow> string" where
  "join_with sep [] = []"
| "join_with sep [piece] = piece"
| "join_with sep (piece # pieces) = piece @ sep @ join_with sep pieces"

text \<open>
  One iteration of the segment loop; the stack of segments is a list with its top at the end.
  \<open>Vec::pop\<close> on an empty stack leaves it empty.
\<close>

definition push_segment ::
  "LogicalPathKind \<Rightarrow> string list \<Rightarrow> string \<Rightarrow> DomainValidationError + string list" where
  "push_segment kind segments segment =
     (if segment = '''' \<or> segment = ''.'' then Inr segments
      else if segment = ''..'' then
        (if segments = [] \<and> kind = WorkspaceRelative then Inl invalid_path
         else Inr (butlast segments))
      else Inr (segments @ [segment]))"

definition render_segments ::
  "LogicalPathKind \<Rightarrow> string list \<Rightarrow> DomainValidationError + string" where
  "render_segments kind segments =
     (case kind of
        WorkspaceRelative \<Rightarrow>
          (if segments = [] then Inl invalid_path else Inr (join_with ''/'' segments))
      | Absolute \<Rightarrow>
          Inr (if segments = [] then ''/'' else ''/'' @ join_with ''/'' segments))"

definition parse_path ::
  "LogicalPathKind \<Rightarrow> string \<Rightarrow> DomainValidationError + LogicalPathReference" where
  "parse_path kind input =
     (if CHR 0x00 \<in> set input \<or> CHR 0x5C \<in> set input then Inl invalid_path
      else if (kind = Absolute) \<noteq> (input \<noteq> [] \<and> hd input = slash) then Inl invalid_path
      else
        and_then (fold_result (push_segment kind) [] (split_on slash input)) (\<lambda>segments.
        and_then (render_segments kind segments) (\<lambda>canonical.
        if length canonical > MAX_LOGICAL_PATH_BYTES then Inl invalid_path
        else Inr \<lparr>lp_kind = kind, lp_canonical = canonical\<rparr>)))"

definition workspace_relative :: "string \<Rightarrow> DomainValidationError + LogicalPathReference" where
  "workspace_relative input = parse_path WorkspaceRelative input"

definition absolute_path :: "string \<Rightarrow> DomainValidationError + LogicalPathReference" where
  "absolute_path input = parse_path Absolute input"

section \<open>Splitting and joining\<close>

definition plain_segment :: "string \<Rightarrow> bool" where
  "plain_segment s \<longleftrightarrow>
     s \<noteq> '''' \<and> s \<noteq> ''.'' \<and> s \<noteq> ''..'' \<and> slash \<notin> set s \<and> CHR 0x00 \<notin> set s \<and> CHR 0x5C \<notin> set s"

lemma split_on_nonempty: "split_on sep s \<noteq> []"
  by (induction s) (auto split: list.splits)

lemma split_on_pieces: "p \<in> set (split_on sep s) \<Longrightarrow> sep \<notin> set p \<and> set p \<subseteq> set s"
proof (induction s arbitrary: p)
  case Nil
  then show ?case by simp
next
  case (Cons c s)
  show ?case
  proof (cases "c = sep")
    case True
    with Cons show ?thesis by force
  next
    case False
    obtain q qs where q: "split_on sep s = q # qs"
      using split_on_nonempty [of sep s] by (cases "split_on sep s") auto
    with False Cons.prems have "p = c # q \<or> p \<in> set qs" by simp
    then show ?thesis
      using Cons.IH [of q] Cons.IH [of p] False q by auto
  qed
qed

lemma split_on_no_sep: "sep \<notin> set s \<Longrightarrow> split_on sep s = [s]"
  by (induction s) auto

lemma split_on_sep_append: "sep \<notin> set p \<Longrightarrow> split_on sep (p @ sep # s) = p # split_on sep s"
  by (induction p) auto

lemma split_join:
  "ps \<noteq> [] \<Longrightarrow> (\<forall>p \<in> set ps. sep \<notin> set p) \<Longrightarrow> split_on sep (join_with [sep] ps) = ps"
proof (induction ps)
  case (Cons p ps)
  then show ?case by (cases ps) (simp_all add: split_on_no_sep split_on_sep_append)
qed simp

lemma join_chars: "set (join_with sep ps) \<subseteq> set sep \<union> \<Union> (set ` set ps)"
  by (induction sep ps rule: join_with.induct) auto

lemma join_head_plain:
  assumes "ps \<noteq> []" and "plain_segment (hd ps)"
  shows "join_with sep ps \<noteq> []" and "hd (join_with sep ps) \<noteq> slash"
proof -
  from assms obtain c cs rest where "ps = (c # cs) # rest" and "c \<noteq> slash"
    by (cases ps; cases "hd ps") (auto simp: plain_segment_def)
  then show "join_with sep ps \<noteq> []" and "hd (join_with sep ps) \<noteq> slash"
    by (cases rest; simp)+
qed

section \<open>The segment loop\<close>

lemma segment_loop_plain:
  assumes "fold_result (push_segment kind) acc pieces = Inr segs"
    and "\<forall>s \<in> set acc. plain_segment s"
    and "\<forall>p \<in> set pieces. slash \<notin> set p \<and> CHR 0x00 \<notin> set p \<and> CHR 0x5C \<notin> set p"
  shows "\<forall>s \<in> set segs. plain_segment s"
  using assms
proof (induction pieces arbitrary: acc)
  case Nil
  then show ?case by simp
next
  case (Cons p pieces)
  then obtain m where m: "push_segment kind acc p = Inr m"
    and rest: "fold_result (push_segment kind) m pieces = Inr segs"
    by (auto simp: and_then_Inr_iff)
  from m Cons.prems(2,3) have "\<forall>s \<in> set m. plain_segment s"
    by (auto simp: push_segment_def plain_segment_def dest: in_set_butlastD split: if_splits)
  with Cons.IH [OF rest] Cons.prems(3) show ?case by simp
qed

lemma segment_loop_on_plain:
  "\<forall>s \<in> set segs. plain_segment s \<Longrightarrow>
   fold_result (push_segment kind) acc segs = Inr (acc @ segs)"
  by (induction segs arbitrary: acc) (auto simp: push_segment_def plain_segment_def)

definition canonical_of :: "LogicalPathKind \<Rightarrow> string list \<Rightarrow> string" where
  "canonical_of kind segs =
     (case kind of WorkspaceRelative \<Rightarrow> join_with ''/'' segs | Absolute \<Rightarrow> ''/'' @ join_with ''/'' segs)"

lemma render_segments_iff:
  "render_segments kind segs = Inr c \<longleftrightarrow>
     c = canonical_of kind segs \<and> (kind = WorkspaceRelative \<longrightarrow> segs \<noteq> [])"
  by (cases kind) (auto simp: render_segments_def canonical_of_def)

lemma canonical_splits_back:
  assumes "\<forall>s \<in> set segs. plain_segment s" and "kind = WorkspaceRelative \<longrightarrow> segs \<noteq> []"
  shows "fold_result (push_segment kind) [] (split_on slash (canonical_of kind segs)) = Inr segs"
proof (cases "segs = []")
  case True
  with assms(2) show ?thesis by (cases kind) (simp_all add: canonical_of_def push_segment_def)
next
  case False
  have "\<forall>s \<in> set segs. slash \<notin> set s" using assms(1) by (simp add: plain_segment_def)
  with False have "split_on slash (join_with ''/'' segs) = segs" by (rule split_join)
  then show ?thesis
    using segment_loop_on_plain [OF assms(1)]
    by (cases kind) (simp_all add: canonical_of_def push_segment_def)
qed

lemma canonical_chars:
  assumes "\<forall>s \<in> set segs. plain_segment s"
  shows "CHR 0x00 \<notin> set (canonical_of kind segs)" and "CHR 0x5C \<notin> set (canonical_of kind segs)"
proof -
  have "set (canonical_of kind segs) \<subseteq> {slash} \<union> \<Union> (set ` set segs)"
    using join_chars [of "''/''" segs] by (cases kind) (auto simp: canonical_of_def)
  moreover have "\<forall>s \<in> set segs. CHR 0x00 \<notin> set s \<and> CHR 0x5C \<notin> set s"
    using assms by (simp add: plain_segment_def)
  ultimately show "CHR 0x00 \<notin> set (canonical_of kind segs)"
    and "CHR 0x5C \<notin> set (canonical_of kind segs)" by auto
qed

lemma canonical_kind:
  assumes "\<forall>s \<in> set segs. plain_segment s" and "kind = WorkspaceRelative \<longrightarrow> segs \<noteq> []"
  shows "(kind = Absolute) = (canonical_of kind segs \<noteq> [] \<and> hd (canonical_of kind segs) = slash)"
  using assms join_head_plain [of segs "''/''"]
  by (cases kind; cases segs) (auto simp: canonical_of_def)

text \<open>
  C16. A parsed path is in canonical form: its text is the separator-joined list of plain segments
  (none empty, \<open>.\<close> or \<open>..\<close>, none with a separator, NUL or backslash), so it cannot climb out of
  the workspace; a workspace-relative path is nonempty, the byte bound holds, and parsing the
  canonical text again returns the same reference.
\<close>

theorem parsed_path_canonical:
  assumes "parse_path kind input = Inr r"
  shows "\<exists>segs. (\<forall>s \<in> set segs. plain_segment s) \<and>
           (kind = WorkspaceRelative \<longrightarrow> segs \<noteq> []) \<and>
           r = \<lparr>lp_kind = kind, lp_canonical = canonical_of kind segs\<rparr> \<and>
           length (lp_canonical r) \<le> MAX_LOGICAL_PATH_BYTES \<and>
           parse_path kind (lp_canonical r) = Inr r"
proof -
  from assms obtain segs where chars: "CHR 0x00 \<notin> set input" "CHR 0x5C \<notin> set input"
    and loop: "fold_result (push_segment kind) [] (split_on slash input) = Inr segs"
    and ne: "kind = WorkspaceRelative \<longrightarrow> segs \<noteq> []"
    and len: "length (canonical_of kind segs) \<le> MAX_LOGICAL_PATH_BYTES"
    and r: "r = \<lparr>lp_kind = kind, lp_canonical = canonical_of kind segs\<rparr>"
    by (auto simp: parse_path_def result_iffs render_segments_iff not_less split: if_splits)
  have "\<forall>p \<in> set (split_on slash input). slash \<notin> set p \<and> CHR 0x00 \<notin> set p \<and> CHR 0x5C \<notin> set p"
    using split_on_pieces chars by blast
  then have plain: "\<forall>s \<in> set segs. plain_segment s"
    using segment_loop_plain [OF loop] by simp
  have "render_segments kind segs = Inr (canonical_of kind segs)"
    using ne by (simp add: render_segments_iff)
  then have "parse_path kind (canonical_of kind segs) = Inr r"
    using canonical_chars [OF plain, of kind] canonical_kind [OF plain ne]
      canonical_splits_back [OF plain ne] len r
    by (simp add: parse_path_def not_less)
  with plain ne r len show ?thesis by auto
qed

theorem parsed_path_canonical_witness:
  "\<exists>r. parse_path WorkspaceRelative ''a/./b/../c'' = Inr r \<and> lp_canonical r = ''a/c'' \<and>
       parse_path WorkspaceRelative (lp_canonical r) = Inr r"
proof -
  have p: "parse_path WorkspaceRelative ''a/./b/../c'' =
      Inr \<lparr>lp_kind = WorkspaceRelative, lp_canonical = ''a/c''\<rparr>"
    by (simp add: parse_path_def push_segment_def render_segments_def MAX_LOGICAL_PATH_BYTES_def)
  with parsed_path_canonical [OF p] show ?thesis by auto
qed

end
