(* ===== verification/Canonical_Encoding.thy ===== *)
theory Canonical_Encoding
  imports Lifecycle_Types
begin

unbundle bit_operations_syntax

text \<open>
  The storage-neutral encodings of the domain: SHA-256 digest text (domain/digest.rs), versioned
  message content and its canonical bytes (domain/content.rs), and the command identity encoding
  (domain/command.rs). Byte strings are \<open>string\<close>s; the hash function and the UUID printer are not
  part of the sources and are arguments. The locale \<open>prefix_code\<close> is the contract of a
  self-delimiting frame: concatenated frames determine the list of framed values.
\<close>

section \<open>Self-delimiting frames\<close>

locale prefix_code =
  fixes enc :: "'a \<Rightarrow> 'b list"
    and ok :: "'a \<Rightarrow> bool"
  assumes self_delimiting: "ok x \<Longrightarrow> ok y \<Longrightarrow> enc x @ r = enc y @ s \<Longrightarrow> x = y \<and> r = s"
    and nonempty: "ok x \<Longrightarrow> enc x \<noteq> []"
begin

lemma concat_enc_inj:
  "list_all ok xs \<Longrightarrow> list_all ok ys \<Longrightarrow> concat (map enc xs) = concat (map enc ys) \<Longrightarrow> xs = ys"
proof (induction xs arbitrary: ys)
  case Nil
  then show ?case using nonempty by (cases ys) auto
next
  case (Cons x xs)
  then obtain y ys' where ys: "ys = y # ys'" using nonempty by (cases ys) auto
  with Cons.prems have "x = y \<and> concat (map enc xs) = concat (map enc ys')"
    by (intro self_delimiting) auto
  with Cons ys show ?case by simp
qed

end

text \<open>\<open>to_be_bytes\<close> of an unsigned integer of \<open>n\<close> bytes.\<close>

fun be_bytes :: "nat \<Rightarrow> nat \<Rightarrow> string" where
  "be_bytes 0 v = []"
| "be_bytes (Suc n) v = be_bytes n (v div 256) @ [char_of (v mod 256)]"

lemma length_be_bytes [simp]: "length (be_bytes n v) = n"
  by (induction n arbitrary: v) simp_all

lemma be_bytes_inj: "v < 256 ^ n \<Longrightarrow> w < 256 ^ n \<Longrightarrow> be_bytes n v = be_bytes n w \<Longrightarrow> v = w"
proof (induction n arbitrary: v w)
  case (Suc n)
  from Suc.prems(1) have "v div 256 < 256 ^ n" by (simp add: less_mult_imp_div_less mult.commute)
  moreover from Suc.prems(2) have "w div 256 < 256 ^ n"
    by (simp add: less_mult_imp_div_less mult.commute)
  ultimately have "v div 256 = w div 256" using Suc.IH Suc.prems(3) by simp
  moreover have "v mod 256 = w mod 256"
  proof -
    have "(char_of (v mod 256) :: char) = char_of (w mod 256)" using Suc.prems(3) by simp
    then have "of_char (char_of (v mod 256) :: char) = (of_char (char_of (w mod 256) :: char) :: nat)"
      by simp
    then show ?thesis by (simp add: of_char_of)
  qed
  ultimately show ?case by (metis div_mult_mod_eq)
qed simp

section \<open>Digests\<close>

type_synonym Sha256Digest = "8 word list"

definition nibble :: "char \<Rightarrow> 8 word option" where
  "nibble byte =
     (let b = (of_char byte :: nat) in
      if 48 \<le> b \<and> b \<le> 57 then Some (of_nat (b - 48))
      else if 97 \<le> b \<and> b \<le> 102 then Some (of_nat (b - 97 + 10))
      else None)"

fun parse_pairs :: "string \<Rightarrow> DomainValidationError + Sha256Digest" where
  "parse_pairs (h # l # rest) =
     and_then (ok_or (nibble h) (DomainValidationError InvalidDigest)) (\<lambda>high.
     and_then (ok_or (nibble l) (DomainValidationError InvalidDigest)) (\<lambda>low.
     and_then (parse_pairs rest) (\<lambda>bytes. Inr ((push_bit 4 high OR low) # bytes))))"
| "parse_pairs _ = Inr []"

definition digest_parse_canonical :: "string \<Rightarrow> DomainValidationError + Sha256Digest" where
  "digest_parse_canonical input =
     (if length input \<noteq> 64 then Inl (DomainValidationError InvalidDigest) else parse_pairs input)"

definition hex_digit :: "nat \<Rightarrow> char" where
  "hex_digit n = char_of (if n < 10 then 48 + n else 87 + n)"

definition digest_to_string :: "Sha256Digest \<Rightarrow> string" where
  "digest_to_string bytes =
     concat (map (\<lambda>b. [hex_digit (unat b div 16), hex_digit (unat b mod 16)]) bytes)"

lemma nibble_hex_digit: "n < 16 \<Longrightarrow> nibble (hex_digit n) = Some (of_nat n)"
  by (simp add: nibble_def hex_digit_def of_char_of Let_def)

lemma unat_of_nibble: "n < 16 \<Longrightarrow> unat (of_nat n :: 8 word) = n"
  by (simp add: unsigned_of_nat take_bit_eq_mod)

lemma nibble_SomeD:
  assumes "nibble c = Some v"
  shows "unat v < 16" and "hex_digit (unat v) = c"
proof -
  define b where "b = (of_char c :: nat)"
  have c: "char_of b = c" by (simp add: b_def)
  have "\<exists>n < 16. v = of_nat n \<and> hex_digit n = c"
  proof (cases "48 \<le> b \<and> b \<le> 57")
    case True
    then have "b - 48 < 10" by arith
    with True show ?thesis
      using assms c by (intro exI [of _ "b - 48"])
        (simp add: nibble_def Let_def b_def [symmetric] hex_digit_def del: of_nat_diff)
  next
    case False
    with assms have r: "97 \<le> b \<and> b \<le> 102"
      by (simp add: nibble_def Let_def b_def [symmetric] split: if_splits)
    with False assms have "v = of_nat (b - 97 + 10)"
      by (simp add: nibble_def Let_def b_def [symmetric] del: of_nat_add of_nat_diff)
    moreover from r have n: "b - 97 + 10 < 16" "\<not> b - 97 + 10 < 10" "87 + (b - 97 + 10) = b" by arith+
    then have "hex_digit (b - 97 + 10) = c" unfolding hex_digit_def by (simp only: c if_False)
    ultimately show ?thesis using n(1) by blast
  qed
  then obtain n where "n < 16" "v = of_nat n" "hex_digit n = c" by blast
  then show "unat v < 16" and "hex_digit (unat v) = c" by (simp_all add: unat_of_nibble)
qed

lemma word8_of_nibbles: "push_bit 4 (of_nat (unat w div 16)) OR of_nat (unat w mod 16) = (w :: 8 word)"
proof -
  have "unat (drop_bit 4 w) = unat w div 16" and "unat (take_bit 4 w) = unat w mod 16"
    by (simp_all add: drop_bit_eq_div take_bit_eq_mod unat_div unat_mod)
  then have "of_nat (unat w div 16) = (of_nat (unat (drop_bit 4 w)) :: 8 word)"
    and "of_nat (unat w mod 16) = (of_nat (unat (take_bit 4 w)) :: 8 word)"
    by simp_all
  then have "of_nat (unat w div 16) = drop_bit 4 w" and "of_nat (unat w mod 16) = take_bit 4 w"
    by simp_all
  moreover have "push_bit 4 (drop_bit 4 w) OR take_bit 4 w = w"
    by (rule bit_eqI) (auto simp: bit_simps)
  ultimately show ?thesis by simp
qed

lemma parse_pairs_to_string: "parse_pairs (digest_to_string bs) = Inr bs"
proof (induction bs)
  case (Cons b bs)
  have "unat b < 256" using unsigned_less [of b, where 'a = nat] by simp
  then have "unat b div 16 < 16" by (simp add: less_mult_imp_div_less)
  then show ?case
    using Cons word8_of_nibbles [of b] by (simp add: digest_to_string_def nibble_hex_digit)
qed (simp add: digest_to_string_def)

lemma word8_nibbles:
  assumes "unat h < 16" and "unat l < 16"
  shows "unat (push_bit 4 h OR l :: 8 word) div 16 = unat h" and
    "unat (push_bit 4 h OR l :: 8 word) mod 16 = unat l"
proof -
  have "\<forall>a \<in> set [0..<16]. \<forall>b \<in> set [0..<16].
      unat (push_bit 4 (of_nat a) OR of_nat b :: 8 word) = 16 * a + b"
    by code_simp
  moreover from assms have "unat h \<in> set [0..<16]" and "unat l \<in> set [0..<16]" by simp_all
  ultimately have "unat (push_bit 4 (of_nat (unat h)) OR of_nat (unat l) :: 8 word) =
      16 * unat h + unat l" by blast
  then have "unat (push_bit 4 h OR l) = 16 * unat h + unat l" by simp
  then show "unat (push_bit 4 h OR l) div 16 = unat h" "unat (push_bit 4 h OR l) mod 16 = unat l"
    using assms by simp_all
qed

lemma to_string_parse_pairs:
  "even (length s) \<Longrightarrow> parse_pairs s = Inr bs \<Longrightarrow> digest_to_string bs = s \<and> 2 * length bs = length s"
proof (induction s arbitrary: bs rule: parse_pairs.induct)
  case (1 h l rest)
  from 1(3) obtain high low bs' where n: "nibble h = Some high" "nibble l = Some low"
    and rest: "parse_pairs rest = Inr bs'" and bs: "bs = (push_bit 4 high OR low) # bs'"
    by (auto simp: result_iffs)
  have "digest_to_string bs' = rest \<and> 2 * length bs' = length rest"
    using 1(1) [OF _ rest] 1(2) n by simp
  then show ?case
    using nibble_SomeD [OF n(1)] nibble_SomeD [OF n(2)] word8_nibbles [of high low] bs
    by (simp add: digest_to_string_def)
qed (simp_all add: digest_to_string_def)

text \<open>
  Digest text is a bijection: the printed form of 32 bytes parses back to them, and an accepted
  text is exactly the printed form of the 32 bytes it parses to.
\<close>

theorem digest_text_roundtrip:
  "digest_parse_canonical s = Inr d \<longleftrightarrow> length d = 32 \<and> s = digest_to_string d"
proof
  assume "digest_parse_canonical s = Inr d"
  then have "length s = 64" and "parse_pairs s = Inr d"
    by (auto simp: digest_parse_canonical_def split: if_splits)
  with to_string_parse_pairs [of s d] show "length d = 32 \<and> s = digest_to_string d" by simp
next
  assume d: "length d = 32 \<and> s = digest_to_string d"
  have "length (digest_to_string d) = 2 * length d"
    by (induction d) (simp_all add: digest_to_string_def)
  with d show "digest_parse_canonical s = Inr d"
    by (simp add: digest_parse_canonical_def parse_pairs_to_string)
qed

datatype CanonicalByteCount = CanonicalByteCount int

fun bc_get :: "CanonicalByteCount \<Rightarrow> int" where
  "bc_get (CanonicalByteCount v) = v"

definition bc_try_new :: "int \<Rightarrow> DomainValidationError + CanonicalByteCount" where
  "bc_try_new value =
     (if value \<le> i64_max then Inr (CanonicalByteCount value)
      else Inl (DomainValidationError InvalidByteCount))"

definition u64_checked_add :: "int \<Rightarrow> int \<Rightarrow> int option" where
  "u64_checked_add a b = (if a + b \<le> u64_max then Some (a + b) else None)"

definition bc_checked_add :: "CanonicalByteCount \<Rightarrow> int \<Rightarrow> DomainValidationError + CanonicalByteCount" where
  "bc_checked_add count amount =
     and_then (ok_or (u64_checked_add (bc_get count) amount) (DomainValidationError ArithmeticOverflow))
       (\<lambda>value. map_err (\<lambda>_. DomainValidationError ArithmeticOverflow) (bc_try_new value))"

definition bc_try_from_i64 :: "int \<Rightarrow> DomainValidationError + CanonicalByteCount" where
  "bc_try_from_i64 value =
     (if value < 0 then Inl (DomainValidationError InvalidByteCount) else bc_try_new value)"

lemma bc_checked_add_exact:
  "bc_checked_add c a =
     (if bc_get c + a \<le> i64_max then Inr (CanonicalByteCount (bc_get c + a))
      else Inl (DomainValidationError ArithmeticOverflow))"
  by (auto simp: bc_checked_add_def u64_checked_add_def bc_try_new_def i64_max_def u64_max_def)

section \<open>Message content\<close>

abbreviation CONTENT_MAGIC :: string where "CONTENT_MAGIC \<equiv> ''craxii.content''"
abbreviation TEXT_BLOCK_TAG :: char where "TEXT_BLOCK_TAG \<equiv> CHR 0x01"

definition MAX_CONTENT_TEXT_BYTES :: nat where
  "MAX_CONTENT_TEXT_BYTES = 65536"

datatype ContentBlock = Text string

fun as_text :: "ContentBlock \<Rightarrow> string" where
  "as_text (Text value) = value"

definition text_block :: "string \<Rightarrow> DomainValidationError + ContentBlock" where
  "text_block value =
     (if value = [] then Inl (DomainValidationError InvalidText) else Inr (Text value))"

record MessageContent =
  mc_blocks :: "ContentBlock list"

text \<open>One iteration of the length loop; a \<open>usize\<close> has 64 bits.\<close>

definition add_block_length :: "nat \<Rightarrow> ContentBlock \<Rightarrow> DomainValidationError + nat" where
  "add_block_length sum_so_far block =
     (let len = length (as_text block) in
      if len = 0 then Inl (DomainValidationError InvalidText)
      else if sum_so_far + len \<ge> 2 ^ 64 then Inl (DomainValidationError InvalidContent)
      else if sum_so_far + len > MAX_CONTENT_TEXT_BYTES then Inl (DomainValidationError InvalidContent)
      else Inr (sum_so_far + len))"

definition content_try_new :: "ContentBlock list \<Rightarrow> DomainValidationError + MessageContent" where
  "content_try_new blocks =
     (if blocks = [] then Inl (DomainValidationError InvalidContent)
      else if length blocks \<ge> 2 ^ 32 then Inl (DomainValidationError InvalidContent)
      else and_then (fold_result add_block_length 0 blocks) (\<lambda>_. Inr \<lparr>mc_blocks = blocks\<rparr>))"

definition total_text_bytes :: "MessageContent \<Rightarrow> nat" where
  "total_text_bytes content = sum_list (map (\<lambda>b. length (as_text b)) (mc_blocks content))"

definition encode_block :: "ContentBlock \<Rightarrow> string" where
  "encode_block block = TEXT_BLOCK_TAG # be_bytes 8 (length (as_text block)) @ as_text block"

definition canonical_bytes :: "MessageContent \<Rightarrow> string" where
  "canonical_bytes content =
     CONTENT_MAGIC @ [CHR 0x01] @ be_bytes 4 (length (mc_blocks content)) @
     concat (map encode_block (mc_blocks content))"

definition content_sha256 :: "(string \<Rightarrow> Sha256Digest) \<Rightarrow> MessageContent \<Rightarrow> Sha256Digest" where
  "content_sha256 hash_bytes content = hash_bytes (canonical_bytes content)"

lemma fold_block_length:
  "fold_result add_block_length t bs = Inr t' \<Longrightarrow>
   t' = t + sum_list (map (\<lambda>b. length (as_text b)) bs) \<and> (\<forall>b \<in> set bs. as_text b \<noteq> []) \<and>
   (bs \<noteq> [] \<longrightarrow> t' \<le> MAX_CONTENT_TEXT_BYTES)"
proof (induction bs arbitrary: t)
  case (Cons b bs)
  then obtain m where m: "add_block_length t b = Inr m" "fold_result add_block_length m bs = Inr t'"
    by (auto simp: and_then_Inr_iff)
  then have "m = t + length (as_text b)" "as_text b \<noteq> []" "m \<le> MAX_CONTENT_TEXT_BYTES"
    by (auto simp: add_block_length_def Let_def split: if_splits)
  with Cons.IH [OF m(2)] m(2) show ?case by (cases bs) auto
qed simp

lemma content_try_newD:
  assumes "content_try_new blocks = Inr c"
  shows "mc_blocks c = blocks" and "blocks \<noteq> []" and "length blocks < 2 ^ 32"
    and "\<forall>b \<in> set blocks. as_text b \<noteq> []" and "total_text_bytes c \<le> MAX_CONTENT_TEXT_BYTES"
proof -
  from assms obtain t where t: "fold_result add_block_length 0 blocks = Inr t"
    and c: "c = \<lparr>mc_blocks = blocks\<rparr>" and b: "blocks \<noteq> []" "length blocks < 2 ^ 32"
    by (auto simp: content_try_new_def result_iffs not_le split: if_splits)
  show "mc_blocks c = blocks" "blocks \<noteq> []" "length blocks < 2 ^ 32" using b c by simp_all
  show "\<forall>b \<in> set blocks. as_text b \<noteq> []" "total_text_bytes c \<le> MAX_CONTENT_TEXT_BYTES"
    using fold_block_length [OF t] b(1) c by (simp_all add: total_text_bytes_def)
qed

lemma block_length_le_total: "b \<in> set (mc_blocks c) \<Longrightarrow> length (as_text b) \<le> total_text_bytes c"
  unfolding total_text_bytes_def by (rule member_le_sum_list) simp_all

text \<open>Length-prefixed byte fields, shared by both grammars.\<close>

lemma length_prefix_delimits:
  assumes "length f < 256 ^ n" and "length g < 256 ^ n"
    and "be_bytes n (length f) @ f @ r = be_bytes n (length g) @ g @ s"
  shows "f = g \<and> r = s"
proof -
  from assms(3) have "be_bytes n (length f) = be_bytes n (length g)" and "f @ r = g @ s"
    by (simp_all add: append_eq_append_conv)
  moreover from this(1) have "length f = length g" using be_bytes_inj assms by blast
  ultimately show ?thesis by simp
qed

lemma as_text_inject: "as_text x = as_text y \<longleftrightarrow> x = y"
  by (cases x; cases y) simp

interpretation content_block: prefix_code encode_block "\<lambda>b. length (as_text b) < 256 ^ 8"
proof unfold_locales
  fix x y :: ContentBlock and r s
  assume x: "length (as_text x) < 256 ^ 8" and y: "length (as_text y) < 256 ^ 8"
    and e: "encode_block x @ r = encode_block y @ s"
  from e have "be_bytes 8 (length (as_text x)) @ as_text x @ r =
      be_bytes 8 (length (as_text y)) @ as_text y @ s"
    unfolding encode_block_def by (simp only: append_Cons append_assoc list.inject)
  from length_prefix_delimits [OF x y this] show "x = y \<and> r = s"
    by (simp only: as_text_inject)
next
  fix x :: ContentBlock
  show "encode_block x \<noteq> []" by (simp only: encode_block_def list.distinct not_False_eq_True)
qed

lemma canonical_bytes_injective_on:
  assumes "content_try_new as = Inr a" and "content_try_new bs = Inr b"
    and "canonical_bytes a = canonical_bytes b"
  shows "a = b"
proof -
  have small: "list_all (\<lambda>x. length (as_text x) < 256 ^ 8) (mc_blocks c)"
    if "content_try_new cs = Inr c" for c cs
    unfolding list_all_iff
  proof
    fix x assume "x \<in> set (mc_blocks c)"
    with content_try_newD(5) [OF that] have "length (as_text x) \<le> 65536"
      using block_length_le_total [of x c] by (simp add: MAX_CONTENT_TEXT_BYTES_def)
    then show "length (as_text x) < 256 ^ 8" by simp
  qed
  from assms(3) have "concat (map encode_block (mc_blocks a)) = concat (map encode_block (mc_blocks b))"
    by (simp add: canonical_bytes_def)
  then have "mc_blocks a = mc_blocks b"
    by (rule content_block.concat_enc_inj [OF small [OF assms(1)] small [OF assms(2)]])
  then show ?thesis by (cases a; cases b) simp
qed

text \<open>
  C18. The canonical bytes of validated contents determine the content: equal encodings mean equal
  ordered blocks, so the hash input has no ambiguity between block boundaries.
\<close>

theorem canonical_bytes_injective:
  assumes "content_try_new as = Inr a" and "content_try_new bs = Inr b"
  shows "canonical_bytes a = canonical_bytes b \<longleftrightarrow> as = bs"
  using canonical_bytes_injective_on [OF assms] content_try_newD(1) [OF assms(1)]
    content_try_newD(1) [OF assms(2)] by (auto simp: canonical_bytes_def)

theorem canonical_bytes_injective_witness:
  "\<exists>a b. content_try_new [Text ''ab'', Text ''c''] = Inr a \<and> content_try_new [Text ''a'', Text ''bc''] = Inr b \<and>
         canonical_bytes a \<noteq> canonical_bytes b"
proof -
  have ab: "content_try_new [Text ''ab'', Text ''c''] = Inr \<lparr>mc_blocks = [Text ''ab'', Text ''c'']\<rparr>"
    "content_try_new [Text ''a'', Text ''bc''] = Inr \<lparr>mc_blocks = [Text ''a'', Text ''bc'']\<rparr>"
    by (simp_all add: content_try_new_def add_block_length_def MAX_CONTENT_TEXT_BYTES_def)
  with canonical_bytes_injective [OF ab] show ?thesis by auto
qed

end
