(* ===== verification/Commands.thy ===== *)
theory Commands
  imports Canonical_Encoding
begin

text \<open>
  Command identity, domain/command.rs: command kinds, idempotency keys, the field encoding that is
  hashed for a request, and the receipts. The UUID printer (\<open>hyphenated\<close>) and the hash are
  arguments.
\<close>

section \<open>Kinds and keys\<close>

datatype ClientCommandId = ClientCommandId Uuid
datatype ClientMessageId = ClientMessageId Uuid

datatype CommandKind = Message | Cancel

fun command_kind_str :: "CommandKind \<Rightarrow> string" where
  "command_kind_str Message = ''message''"
| "command_kind_str CommandKind.Cancel = ''cancel''"

datatype CommandValidationKind =
    InvalidIdempotencyKey
  | InvalidCommandKind
  | KeyIdentityMismatch
  | InvalidReceipt

datatype CommandValidationError = CommandValidationError CommandValidationKind

definition command_kind_parse :: "string \<Rightarrow> CommandValidationError + CommandKind" where
  "command_kind_parse value =
     (if value = ''message'' then Inr Message
      else if value = ''cancel'' then Inr CommandKind.Cancel
      else Inl (CommandValidationError InvalidCommandKind))"

lemma command_kind_parse_iff: "command_kind_parse s = Inr k \<longleftrightarrow> s = command_kind_str k"
  by (cases k) (auto simp: command_kind_parse_def)

datatype IdempotencyKey = IdempotencyKey string

definition key_parse_canonical ::
  "(string \<Rightarrow> Uuid option) \<Rightarrow> (Uuid \<Rightarrow> string) \<Rightarrow> string \<Rightarrow> CommandValidationError + IdempotencyKey" where
  "key_parse_canonical parse_str hyphenated value =
     map_ok (\<lambda>_. IdempotencyKey value)
       (map_err (\<lambda>_. CommandValidationError InvalidIdempotencyKey)
          (parse_uuid_v7 parse_str hyphenated value))"

fun key_for_message :: "(Uuid \<Rightarrow> string) \<Rightarrow> ClientMessageId \<Rightarrow> IdempotencyKey" where
  "key_for_message hyphenated (ClientMessageId u) = IdempotencyKey (hyphenated u)"

fun key_for_cancellation :: "(Uuid \<Rightarrow> string) \<Rightarrow> ClientCommandId \<Rightarrow> IdempotencyKey" where
  "key_for_cancellation hyphenated (ClientCommandId u) = IdempotencyKey (hyphenated u)"

definition require_message_id ::
  "(Uuid \<Rightarrow> string) \<Rightarrow> IdempotencyKey \<Rightarrow> ClientMessageId \<Rightarrow> CommandValidationError + unit" where
  "require_message_id hyphenated key message_id =
     (if key = key_for_message hyphenated message_id then Inr ()
      else Inl (CommandValidationError KeyIdentityMismatch))"

definition require_command_id ::
  "(Uuid \<Rightarrow> string) \<Rightarrow> IdempotencyKey \<Rightarrow> ClientCommandId \<Rightarrow> CommandValidationError + unit" where
  "require_command_id hyphenated key command_id =
     (if key = key_for_cancellation hyphenated command_id then Inr ()
      else Inl (CommandValidationError KeyIdentityMismatch))"

section \<open>Request hashing\<close>

abbreviation COMMAND_MAGIC :: string where "COMMAND_MAGIC \<equiv> ''craxii.command''"

definition encode_field :: "string \<Rightarrow> string" where
  "encode_field field = be_bytes 8 (length field) @ field"

definition command_bytes :: "string list \<Rightarrow> string" where
  "command_bytes parts = COMMAND_MAGIC @ [CHR 0x01] @ concat (map encode_field parts)"

definition hash_fields :: "(string \<Rightarrow> Sha256Digest) \<Rightarrow> string list \<Rightarrow> Sha256Digest" where
  "hash_fields hash_bytes parts = hash_bytes (command_bytes parts)"

fun conversation_uuid :: "ConversationId \<Rightarrow> Uuid" where "conversation_uuid (ConversationId u) = u"
fun message_uuid :: "ClientMessageId \<Rightarrow> Uuid" where "message_uuid (ClientMessageId u) = u"
fun command_uuid :: "ClientCommandId \<Rightarrow> Uuid" where "command_uuid (ClientCommandId u) = u"
fun work_uuid :: "WorkId \<Rightarrow> Uuid" where "work_uuid (WorkId u) = u"

definition message_fields ::
  "(Uuid \<Rightarrow> string) \<Rightarrow> nat \<Rightarrow> ConversationId \<Rightarrow> ClientMessageId \<Rightarrow> MessageContent \<Rightarrow> string list" where
  "message_fields hyphenated protocol_version conversation_id client_message_id content =
     [be_bytes 8 protocol_version, command_kind_str Message,
      hyphenated (conversation_uuid conversation_id), hyphenated (message_uuid client_message_id),
      canonical_bytes content]"

definition cancellation_fields ::
  "(Uuid \<Rightarrow> string) \<Rightarrow> nat \<Rightarrow> ClientCommandId \<Rightarrow> WorkId \<Rightarrow> string list" where
  "cancellation_fields hyphenated protocol_version client_command_id work_id =
     [be_bytes 8 protocol_version, command_kind_str CommandKind.Cancel,
      hyphenated (command_uuid client_command_id), hyphenated (work_uuid work_id)]"

definition hash_for_message ::
  "(Uuid \<Rightarrow> string) \<Rightarrow> (string \<Rightarrow> Sha256Digest) \<Rightarrow> nat \<Rightarrow> ConversationId \<Rightarrow> ClientMessageId \<Rightarrow>
   MessageContent \<Rightarrow> Sha256Digest" where
  "hash_for_message hyphenated hash_bytes v conv msg content =
     hash_fields hash_bytes (message_fields hyphenated v conv msg content)"

definition hash_for_cancellation ::
  "(Uuid \<Rightarrow> string) \<Rightarrow> (string \<Rightarrow> Sha256Digest) \<Rightarrow> nat \<Rightarrow> ClientCommandId \<Rightarrow> WorkId \<Rightarrow> Sha256Digest" where
  "hash_for_cancellation hyphenated hash_bytes v cmd work =
     hash_fields hash_bytes (cancellation_fields hyphenated v cmd work)"

section \<open>Receipts\<close>

datatype CancellationCleanupDisposition = NotPending | Pending

record CancellationCommandReceipt =
  cr_work_id :: WorkId
  cr_resulting_work_state :: WorkState
  cr_cleanup :: CancellationCleanupDisposition
  cr_committed_cursor :: JournalOffset

fun receipt_shape_ok :: "WorkState \<Rightarrow> CancellationCleanupDisposition \<Rightarrow> bool" where
  "receipt_shape_ok WorkState.CancelRequested Pending = True"
| "receipt_shape_ok WorkState.Completed NotPending = True"
| "receipt_shape_ok WorkState.Failed NotPending = True"
| "receipt_shape_ok WorkState.Cancelled NotPending = True"
| "receipt_shape_ok WorkState.Interrupted NotPending = True"
| "receipt_shape_ok _ _ = False"

definition cancellation_receipt_try_new ::
  "WorkId \<Rightarrow> WorkState \<Rightarrow> CancellationCleanupDisposition \<Rightarrow> JournalOffset \<Rightarrow>
   CommandValidationError + CancellationCommandReceipt" where
  "cancellation_receipt_try_new work_id state cleanup cursor =
     (if \<not> receipt_shape_ok state cleanup then Inl (CommandValidationError InvalidReceipt)
      else Inr \<lparr>cr_work_id = work_id, cr_resulting_work_state = state, cr_cleanup = cleanup,
                cr_committed_cursor = cursor\<rparr>)"

definition receipt_http_status :: "CancellationCommandReceipt \<Rightarrow> int" where
  "receipt_http_status receipt = (if cr_cleanup receipt = Pending then 202 else 200)"

datatype 't CommandOutcome = Committed 't | Replayed 't

fun is_replay :: "'t CommandOutcome \<Rightarrow> bool" where
  "is_replay (Replayed _) = True"
| "is_replay (Committed _) = False"

fun receipt :: "'t CommandOutcome \<Rightarrow> 't" where
  "receipt (Committed value) = value"
| "receipt (Replayed value) = value"

lemma receipt_shape_ok_iff:
  "receipt_shape_ok st c \<longleftrightarrow>
     st = WorkState.CancelRequested \<and> c = Pending \<or> work_is_terminal st \<and> c = NotPending"
  by (cases st; cases c) simp_all

lemma uuid_projections_inject:
  "conversation_uuid conv = conversation_uuid conv' \<longleftrightarrow> conv = conv'"
  "message_uuid msg = message_uuid msg' \<longleftrightarrow> msg = msg'"
  "command_uuid cmd = command_uuid cmd' \<longleftrightarrow> cmd = cmd'"
  "work_uuid w = work_uuid w' \<longleftrightarrow> w = w'"
     apply (cases conv; cases conv'; simp)
    apply (cases msg; cases msg'; simp)
   apply (cases cmd; cases cmd'; simp)
  apply (cases w; cases w'; simp)
  done

section \<open>Command identity\<close>

interpretation command_field: prefix_code encode_field "\<lambda>f. length f < 256 ^ 8"
proof unfold_locales
  fix x y r s :: string
  assume x: "length x < 256 ^ 8" and y: "length y < 256 ^ 8"
    and e: "encode_field x @ r = encode_field y @ s"
  from e have "be_bytes 8 (length x) @ x @ r = be_bytes 8 (length y) @ y @ s"
    unfolding encode_field_def by (simp only: append_assoc)
  from length_prefix_delimits [OF x y this] show "x = y \<and> r = s" .
next
  fix x :: string
  have "length (encode_field x) = 8 + length x" by (simp add: encode_field_def)
  then show "encode_field x \<noteq> []" by auto
qed

lemma command_bytes_inj:
  assumes "list_all (\<lambda>f. length f < 256 ^ 8) fs" and "list_all (\<lambda>f. length f < 256 ^ 8) gs"
    and "command_bytes fs = command_bytes gs"
  shows "fs = gs"
proof -
  from assms(3) have "concat (map encode_field fs) = concat (map encode_field gs)"
    unfolding command_bytes_def by (simp only: same_append_eq)
  then show ?thesis by (rule command_field.concat_enc_inj [OF assms(1,2)])
qed

lemma canonical_bytes_bounded:
  assumes "content_try_new bs = Inr c"
  shows "length (canonical_bytes c) < 256 ^ 8"
proof -
  note d = content_try_newD [OF assms]
  have "length (concat (map encode_block xs)) \<le> 10 * sum_list (map (\<lambda>b. length (as_text b)) xs)"
    if "\<forall>b \<in> set xs. as_text b \<noteq> []" for xs
    using that
  proof (induction xs)
    case (Cons x xs)
    then have "1 \<le> length (as_text x)" by (simp add: Suc_le_eq)
    moreover have "length (encode_block x) = 9 + length (as_text x)" by (simp add: encode_block_def)
    ultimately show ?case using Cons by simp
  qed simp
  then have "length (concat (map encode_block (mc_blocks c))) \<le> 10 * total_text_bytes c"
    using d(1,4) by (simp add: total_text_bytes_def)
  with d(5) have "length (concat (map encode_block (mc_blocks c))) \<le> 655360"
    by (simp add: MAX_CONTENT_TEXT_BYTES_def)
  moreover have "length (canonical_bytes c) = 19 + length (concat (map encode_block (mc_blocks c)))"
    by (simp add: canonical_bytes_def)
  ultimately have "length (canonical_bytes c) \<le> 655379" by linarith
  then show ?thesis by (rule le_less_trans) simp
qed

definition uuid_printer :: "(Uuid \<Rightarrow> string) \<Rightarrow> bool" where
  "uuid_printer hyphenated \<longleftrightarrow> inj hyphenated \<and> (\<forall>u. length (hyphenated u) = 36)"

lemma small_field: "length f \<le> 36 \<Longrightarrow> length f < 256 ^ 8"
  by simp

lemma message_fields_small:
  assumes "uuid_printer hyphenated" and "content_try_new bs = Inr c"
  shows "list_all (\<lambda>f. length f < 256 ^ 8) (message_fields hyphenated v conv msg c)"
proof -
  have "length (hyphenated u) < 256 ^ 8" for u
    using assms(1) by (intro small_field) (simp add: uuid_printer_def)
  moreover have "length (be_bytes 8 v) < 256 ^ 8" "length (command_kind_str k) < 256 ^ 8" for k
    by (rule small_field, simp) (rule small_field, cases k, simp_all)
  ultimately show ?thesis
    using canonical_bytes_bounded [OF assms(2)]
    unfolding message_fields_def list.pred_inject by (simp only: simp_thms list.pred_inject(1))
qed

lemma cancellation_fields_small:
  assumes "uuid_printer hyphenated"
  shows "list_all (\<lambda>f. length f < 256 ^ 8) (cancellation_fields hyphenated v cmd w)"
proof -
  have "length (hyphenated u) < 256 ^ 8" for u
    using assms(1) by (intro small_field) (simp add: uuid_printer_def)
  moreover have "length (be_bytes 8 v) < 256 ^ 8" "length (command_kind_str k) < 256 ^ 8" for k
    by (rule small_field, simp) (rule small_field, cases k, simp_all)
  ultimately show ?thesis
    unfolding cancellation_fields_def list.pred_inject by (simp only: simp_thms list.pred_inject(1))
qed

text \<open>
  C19. Under a UUID printer that is injective and prints 36 characters, the hashed bytes identify
  the command: two message requests with equal bytes agree in protocol version, conversation,
  client message and content, two cancellations agree in version, command and work item, and no
  message request has the bytes of a cancellation.
\<close>

theorem command_encoding_injective:
  assumes "uuid_printer hyphenated" and "v < 256 ^ 8" and "v' < 256 ^ 8"
    and "content_try_new bs = Inr c" and "content_try_new bs' = Inr c'"
  shows "(command_bytes (message_fields hyphenated v conv msg c) =
          command_bytes (message_fields hyphenated v' conv' msg' c') \<longleftrightarrow>
            v = v' \<and> conv = conv' \<and> msg = msg' \<and> c = c') \<and>
         (command_bytes (cancellation_fields hyphenated v cmd w) =
          command_bytes (cancellation_fields hyphenated v' cmd' w') \<longleftrightarrow>
            v = v' \<and> cmd = cmd' \<and> w = w') \<and>
         command_bytes (message_fields hyphenated v conv msg c) \<noteq>
         command_bytes (cancellation_fields hyphenated v' cmd w)"
proof -
  have eq: "hyphenated a = hyphenated b \<longleftrightarrow> a = b" for a b
    using assms(1) by (auto simp: uuid_printer_def inj_eq)
  have v: "be_bytes 8 v = be_bytes 8 v' \<longleftrightarrow> v = v'"
    using be_bytes_inj [OF assms(2,3)] by blast
  have c: "canonical_bytes c = canonical_bytes c' \<longleftrightarrow> c = c'"
    using canonical_bytes_injective_on [OF assms(4,5)] by blast
  note m = message_fields_small [OF assms(1,4)] and m' = message_fields_small [OF assms(1,5)]
    and k = cancellation_fields_small [OF assms(1)]
  have "command_bytes (message_fields hyphenated v conv msg c) =
      command_bytes (message_fields hyphenated v' conv' msg' c') \<longleftrightarrow>
      message_fields hyphenated v conv msg c = message_fields hyphenated v' conv' msg' c'"
    using command_bytes_inj [OF m m'] by metis
  moreover have "command_bytes (cancellation_fields hyphenated v cmd w) =
      command_bytes (cancellation_fields hyphenated v' cmd' w') \<longleftrightarrow>
      cancellation_fields hyphenated v cmd w = cancellation_fields hyphenated v' cmd' w'"
    using command_bytes_inj [OF k k] by metis
  moreover have "command_bytes (message_fields hyphenated v conv msg c) \<noteq>
      command_bytes (cancellation_fields hyphenated v' cmd w)"
    using command_bytes_inj [OF m k] by (auto simp: message_fields_def cancellation_fields_def)
  ultimately show ?thesis
    by (simp add: message_fields_def cancellation_fields_def eq v c uuid_projections_inject)
qed

text \<open>A printer with the assumed behaviour: the sixteen bytes, padded to 36 characters.\<close>

definition padded_printer :: "Uuid \<Rightarrow> string" where
  "padded_printer u = be_bytes 16 (unat u) @ replicate 20 CHR ''-''"

lemma padded_printer_ok: "uuid_printer padded_printer"
proof -
  have "unat u < 256 ^ 16" for u :: Uuid using unsigned_less [of u, where 'a = nat] by simp
  then have "be_bytes 16 (unat u) = be_bytes 16 (unat w) \<Longrightarrow> u = w" for u w :: Uuid
    using be_bytes_inj [of "unat u" 16 "unat w"] by (metis word_unat_eq_iff)
  then show ?thesis by (auto simp: uuid_printer_def padded_printer_def inj_def)
qed

theorem command_encoding_injective_witness:
  "command_bytes (cancellation_fields padded_printer 1 (ClientCommandId 1) (WorkId 2)) \<noteq>
   command_bytes (cancellation_fields padded_printer 1 (ClientCommandId 1) (WorkId 3))"
proof -
  have c: "content_try_new [Text ''a''] = Inr \<lparr>mc_blocks = [Text ''a'']\<rparr>"
    by (simp add: content_try_new_def add_block_length_def MAX_CONTENT_TEXT_BYTES_def)
  show ?thesis
    using command_encoding_injective [OF padded_printer_ok _ _ c c, of 1 1] by simp
qed

end
