(* ===== verification/Delivery_Planner.thy ===== *)
theory Delivery_Planner
  imports Canonical_Encoding Runtime_Instance
begin

text \<open>
  Outbound delivery values (domain/delivery.rs) and the deterministic planner of
  application/delivery_planner.rs: rendering of assistant content, splitting of the rendered text
  into parts, and the rows planned for a route. Generated identities, the hash and the calendar
  addition of the deadline are arguments.
\<close>

section \<open>Delivery values\<close>

datatype OutboundDeliveryState =
    Queued | Dispatching | RetryWait | Accepted | PermanentFailure | OutcomeUnknown

fun delivery_is_terminal :: "OutboundDeliveryState \<Rightarrow> bool" where
  "delivery_is_terminal OutboundDeliveryState.Accepted = True"
| "delivery_is_terminal OutboundDeliveryState.PermanentFailure = True"
| "delivery_is_terminal OutboundDeliveryState.OutcomeUnknown = True"
| "delivery_is_terminal _ = False"

datatype DeliveryFailureClass =
    AdapterUnavailable | BindingRevoked | ChannelAccountDisabled | UnsupportedPayload
  | ProfileUnavailable | PayloadTooLarge | PriorPartPermanentFailure | PriorPartOutcomeUnknown
  | RetryExhausted | DeliveryDeadlineExceeded | ProviderRetryable | ProviderPermanent
  | ProviderOutcomeUnknown | StaleDispatch | ShutdownInterrupted | StorageInconsistent

record DeliveryFailure =
  df_class :: DeliveryFailureClass
  df_code :: "string option"

definition classified :: "DeliveryFailureClass \<Rightarrow> DeliveryFailure" where
  "classified c = \<lparr>df_class = c, df_code = None\<rparr>"

datatype DeliveryValidationError = DeliveryValidationError

definition provider_failure ::
  "DeliveryFailureClass \<Rightarrow> string option \<Rightarrow> DeliveryValidationError + DeliveryFailure" where
  "provider_failure c code =
     (if c \<notin> {DeliveryFailureClass.ProviderRetryable, DeliveryFailureClass.ProviderPermanent,
              DeliveryFailureClass.ProviderOutcomeUnknown}
      then Inl DeliveryValidationError
      else Inr \<lparr>df_class = c, df_code = code\<rparr>)"

definition delivery_failure_code_try_new :: "string \<Rightarrow> DeliveryValidationError + string" where
  "delivery_failure_code_try_new value =
     (if value = [] \<or> length value > 64 \<or> \<not> list_all is_ascii_byte value \<or>
         \<not> list_all (\<lambda>b. is_ascii_lowercase b \<or> is_ascii_digit b \<or>
                         b \<in> {CHR ''.'', CHR ''_'', CHR ''-''}) value
      then Inl DeliveryValidationError else Inr value)"

record ChannelDeliveryProfile =
  dp_provider_id :: string
  dp_max_text_utf8_bytes :: nat
  dp_max_parts :: nat

definition profile_try_new ::
  "string \<Rightarrow> nat \<Rightarrow> nat \<Rightarrow> DeliveryValidationError + ChannelDeliveryProfile" where
  "profile_try_new provider_id max_text max_parts =
     (if \<not> (64 \<le> max_text \<and> max_text \<le> 196606) \<or> \<not> (1 \<le> max_parts \<and> max_parts \<le> 64)
      then Inl DeliveryValidationError
      else Inr \<lparr>dp_provider_id = provider_id, dp_max_text_utf8_bytes = max_text,
                dp_max_parts = max_parts\<rparr>)"

section \<open>Rendering\<close>

datatype DeliveryPlannerError = DuplicateProvider | InvalidTime | EmptyPayload

datatype ControlAcknowledgementOutcome = Applied | NoOp

text \<open>The loop over the enumerated blocks, with a separator before every block but the first.\<close>

fun render_blocks :: "ContentBlock list \<Rightarrow> string" where
  "render_blocks [] = []"
| "render_blocks [b] = as_text b"
| "render_blocks (b # bs) = as_text b @ [CHR 0x0A, CHR 0x0A] @ render_blocks bs"

definition render_assistant_v1 :: "MessageContent \<Rightarrow> DeliveryPlannerError + string" where
  "render_assistant_v1 content =
     (let rendered = render_blocks (mc_blocks content) in
      if rendered = [] then Inl EmptyPayload else Inr rendered)"

fun render_control_acknowledgement :: "ControlAcknowledgementOutcome \<Rightarrow> string" where
  "render_control_acknowledgement Applied = ''Cancellation requested.''"
| "render_control_acknowledgement NoOp = ''Nothing is currently running or queued.''"

section \<open>Splitting\<close>

text \<open>
  A byte of the form \<open>10xxxxxx\<close> continues a scalar; \<open>is_char_boundary\<close> inside a string holds at
  every other byte.
\<close>

definition is_continuation :: "char \<Rightarrow> bool" where
  "is_continuation c \<longleftrightarrow> 128 \<le> (of_char c :: nat) \<and> (of_char c :: nat) < 192"

fun boundary_at_or_before :: "string \<Rightarrow> nat \<Rightarrow> nat" where
  "boundary_at_or_before s 0 = 0"
| "boundary_at_or_before s (Suc n) =
     (if is_continuation (s ! Suc n) then boundary_at_or_before s n else Suc n)"

definition rfind :: "string \<Rightarrow> string \<Rightarrow> nat option" where
  "rfind pat s = find (\<lambda>i. take (length pat) (drop i s) = pat) (rev [0..<length s])"

definition split_point :: "string \<Rightarrow> nat" where
  "split_point prefix =
     (case rfind [CHR 0x0A, CHR 0x0A] prefix of
        Some index \<Rightarrow> index + 2
      | None \<Rightarrow>
          (case rfind [CHR 0x0A] prefix of
             Some index \<Rightarrow> index + 1
           | None \<Rightarrow> length prefix))"

text \<open>
  The loop works on the remaining text; positions are relative to its start, so the source's
  \<open>boundary == start\<close> and \<open>split <= start\<close> are zero here.
\<close>

function split_loop ::
  "nat \<Rightarrow> nat \<Rightarrow> string \<Rightarrow> string list \<Rightarrow> DeliveryFailureClass + string list" where
  "split_loop limit max_parts remaining parts =
     (if remaining = [] then Inr parts
      else if length remaining \<le> limit then Inr (parts @ [remaining])
      else
        let boundary = boundary_at_or_before remaining limit in
        if boundary = 0 then Inl DeliveryFailureClass.PayloadTooLarge
        else
          let split = split_point (take boundary remaining) in
          if split = 0 then Inl DeliveryFailureClass.PayloadTooLarge
          else if length (parts @ [take split remaining]) \<ge> max_parts
          then Inl DeliveryFailureClass.PayloadTooLarge
          else split_loop limit max_parts (drop split remaining) (parts @ [take split remaining]))"
  by pat_completeness auto
termination
  by (relation "measure (\<lambda>(_, _, remaining, _). length remaining)") auto

declare split_loop.simps [simp del]

definition split_text_v1 ::
  "string \<Rightarrow> ChannelDeliveryProfile \<Rightarrow> DeliveryFailureClass + string list" where
  "split_text_v1 text profile =
     (if text = [] then Inl DeliveryFailureClass.UnsupportedPayload
      else
        and_then (split_loop (dp_max_text_utf8_bytes profile) (dp_max_parts profile) text []) (\<lambda>parts.
        if parts = [] \<or> length parts > dp_max_parts profile \<or> length parts > 64 \<or>
           list_ex (\<lambda>p. p = []) parts \<or> concat parts \<noteq> text
        then Inl DeliveryFailureClass.PayloadTooLarge
        else Inr parts))"

lemma boundary_le: "boundary_at_or_before s n \<le> n"
  by (induction n) (auto intro: le_SucI)

lemma boundary_not_continuation:
  "0 < boundary_at_or_before s n \<Longrightarrow> \<not> is_continuation (s ! boundary_at_or_before s n)"
  by (induction n) auto

lemma rfind_Some:
  assumes "rfind pat s = Some i"
  shows "i < length s" and "take (length pat) (drop i s) = pat"
  using assms by (auto simp: rfind_def find_Some_iff rev_nth)

lemma rfind_Some_room: "rfind pat s = Some i \<Longrightarrow> i + length pat \<le> length s"
proof -
  assume r: "rfind pat s = Some i"
  then have "length (take (length pat) (drop i s)) = length pat" by (simp add: rfind_Some(2))
  then have "length pat \<le> length s - i" by simp
  with rfind_Some(1) [OF r] show ?thesis by simp
qed

lemma split_point_le: "split_point p \<le> length p"
  using rfind_Some_room [of "[CHR 0x0A, CHR 0x0A]" p] rfind_Some_room [of "[CHR 0x0A]" p]
  by (auto simp: split_point_def split: option.splits)

lemma split_point_pos: "p \<noteq> [] \<Longrightarrow> 0 < split_point p"
  by (auto simp: split_point_def split: option.splits)

text \<open>A split falls after a newline or at the scalar boundary.\<close>

lemma split_point_end:
  "p \<noteq> [] \<Longrightarrow> p ! (split_point p - 1) = CHR 0x0A \<or> split_point p = length p"
proof (cases "rfind [CHR 0x0A, CHR 0x0A] p")
  case (Some i)
  have "take 2 (drop i p) = [CHR 0x0A, CHR 0x0A]" using rfind_Some(2) [OF Some] by (simp add: numeral_2_eq_2)
  then have "take 2 (drop i p) ! 1 = CHR 0x0A" by simp
  moreover have "i + 2 \<le> length p" using rfind_Some_room [OF Some] by simp
  ultimately have "p ! (i + 1) = CHR 0x0A" by simp
  with Some show ?thesis by (simp add: split_point_def)
next
  case None
  show ?thesis
  proof (cases "rfind [CHR 0x0A] p")
    case (Some i)
    then have "take 1 (drop i p) = [CHR 0x0A]" and "i < length p"
      using rfind_Some [OF Some] by simp_all
    then have "p ! i = CHR 0x0A" by (simp add: take_Suc hd_drop_conv_nth)
    with Some None show ?thesis by (simp add: split_point_def)
  qed (use None in \<open>simp add: split_point_def\<close>)
qed

text \<open>
  What the bytes of every Rust \<open>str\<close> satisfy and the splitter relies on: the text does not begin
  inside a scalar and no continuation byte follows an ASCII byte.
\<close>

definition str_bytes :: "string \<Rightarrow> bool" where
  "str_bytes s \<longleftrightarrow>
     (s \<noteq> [] \<longrightarrow> \<not> is_continuation (s ! 0)) \<and>
     (\<forall>i. Suc i < length s \<and> is_ascii_byte (s ! i) \<longrightarrow> \<not> is_continuation (s ! Suc i))"

lemma str_bytes_split:
  assumes "str_bytes s" and "n < length s" and "\<not> is_continuation (s ! n)"
  shows "str_bytes (take n s)" and "str_bytes (drop n s)"
  using assms by (auto simp: str_bytes_def)

lemma split_position_ok:
  assumes "str_bytes s" and "limit < length s" and "boundary_at_or_before s limit = b" and "0 < b"
    and "split_point (take b s) = n"
  shows "0 < n" and "n \<le> limit" and "n < length s" and "\<not> is_continuation (s ! n)"
proof -
  have b: "b \<le> limit" using boundary_le [of s limit] assms(3) by simp
  with assms(2,4) have p: "take b s \<noteq> []" and lp: "length (take b s) = b" by auto
  show n: "0 < n" using split_point_pos [OF p] assms(5) by simp
  show nl: "n \<le> limit" using split_point_le [of "take b s"] assms(5) lp b by simp
  with assms(2) show len: "n < length s" by simp
  consider "take b s ! (n - 1) = CHR 0x0A" | "n = b"
    using split_point_end [OF p] assms(5) lp by auto
  then show "\<not> is_continuation (s ! n)"
  proof cases
    case 1
    have "n \<le> b" using split_point_le [of "take b s"] assms(5) lp by simp
    with n have "n - 1 < b" by arith
    with 1 have "is_ascii_byte (s ! (n - 1))" by (simp add: is_ascii_byte_def)
    with assms(1) n len show ?thesis by (auto simp: str_bytes_def dest: spec [of _ "n - 1"])
  next
    case 2
    with boundary_not_continuation [of s limit] assms(3,4) show ?thesis by simp
  qed
qed

lemma split_loop_sound:
  assumes "split_loop limit max_parts remaining parts = Inr result" and "str_bytes remaining"
    and "length parts < max_parts"
  shows "\<exists>new. result = parts @ new \<and> concat new = remaining \<and>
           (\<forall>p \<in> set new. p \<noteq> [] \<and> length p \<le> limit \<and> str_bytes p) \<and>
           length result \<le> max_parts \<and> (remaining \<noteq> [] \<longrightarrow> new \<noteq> [])"
  using assms
proof (induction limit max_parts remaining parts rule: split_loop.induct)
  case (1 limit max_parts s parts)
  show ?case
  proof (cases "s = [] \<or> length s \<le> limit")
    case True
    with 1(2-4) show ?thesis
      by (subst (asm) split_loop.simps) (auto split: if_splits)
  next
    case False
    define b where "b = boundary_at_or_before s limit"
    define n where "n = split_point (take b s)"
    from 1(2) False have b: "0 < b"
      and room: "length (parts @ [take n s]) < max_parts"
      and rest: "split_loop limit max_parts (drop n s) (parts @ [take n s]) = Inr result"
      by (subst (asm) split_loop.simps;
          auto simp: Let_def b_def [symmetric] n_def [symmetric] not_le split: if_splits)+
    have pos: "0 < n" "n \<le> limit" "n < length s" "\<not> is_continuation (s ! n)"
      using split_position_ok [OF 1(3) _ b_def [symmetric] b n_def [symmetric]] False by auto
    note ok = str_bytes_split [OF 1(3) pos(3,4)]
    obtain new where new: "result = (parts @ [take n s]) @ new" "concat new = drop n s"
      "\<forall>p \<in> set new. p \<noteq> [] \<and> length p \<le> limit \<and> str_bytes p" "length result \<le> max_parts"
      using 1(1) [OF _ _ b_def _ n_def _ _ rest ok(2) room] False b pos(1) room by auto
    show ?thesis
      using new ok(1) pos by (intro exI [of _ "take n s # new"]) auto
  qed
qed

text \<open>
  C20. Splitting is exact: with a valid profile, a text is split into nonempty parts within the
  byte limit and the part budget whose concatenation is the text, and no part begins or ends inside
  a scalar; a text within the limit is a single part, and the closing consistency check never
  rejects what the loop produced.
\<close>

theorem split_text_exact:
  assumes "profile_try_new provider limit max_parts = Inr profile" and "str_bytes text"
    and "text \<noteq> []"
  shows "(length text \<le> limit \<longrightarrow> split_text_v1 text profile = Inr [text]) \<and>
         split_text_v1 text profile = split_loop limit max_parts text [] \<and>
         (\<forall>parts. split_text_v1 text profile = Inr parts \<longrightarrow>
            concat parts = text \<and> length parts \<le> max_parts \<and>
            (\<forall>p \<in> set parts. p \<noteq> [] \<and> length p \<le> limit \<and> str_bytes p))"
proof -
  from assms(1) have profile: "dp_max_text_utf8_bytes profile = limit" "dp_max_parts profile = max_parts"
    and bounds: "0 < limit" "0 < max_parts" "max_parts \<le> 64"
    by (auto simp: profile_try_new_def split: if_splits)
  have sound: "concat parts = text \<and> length parts \<le> max_parts \<and> parts \<noteq> [] \<and>
      (\<forall>p \<in> set parts. p \<noteq> [] \<and> length p \<le> limit \<and> str_bytes p)"
    if "split_loop limit max_parts text [] = Inr parts" for parts
    using split_loop_sound [OF that assms(2)] bounds(2) assms(3) by auto
  have eq: "split_text_v1 text profile = split_loop limit max_parts text []"
  proof (cases "split_loop limit max_parts text []")
    case (Inl e)
    with assms(3) profile show ?thesis by (simp add: split_text_v1_def)
  next
    case (Inr parts)
    with sound [OF Inr] assms(3) profile bounds(3) show ?thesis
      by (auto simp: split_text_v1_def list_ex_iff)
  qed
  moreover have "split_loop limit max_parts text [] = Inr [text]" if "length text \<le> limit"
    using that assms(3) by (simp add: split_loop.simps)
  ultimately show ?thesis using sound by simp
qed

theorem split_text_exact_witness:
  "\<exists>profile. profile_try_new ''telegram'' 64 4 = Inr profile \<and>
     split_text_v1 (replicate 100 (CHR ''a'')) profile =
       Inr [replicate 64 (CHR ''a''), replicate 36 (CHR ''a'')]"
proof -
  obtain profile where p: "profile_try_new ''telegram'' 64 4 = Inr profile"
    by (simp add: profile_try_new_def)
  have "str_bytes (replicate 100 (CHR ''a''))"
    by (auto simp: str_bytes_def is_continuation_def)
  moreover have "split_loop 64 4 (replicate 100 (CHR ''a'')) [] =
      Inr [replicate 64 (CHR ''a''), replicate 36 (CHR ''a'')]"
    by code_simp
  ultimately show ?thesis
    using p split_text_exact [OF p, of "replicate 100 (CHR ''a'')"] by simp
qed

section \<open>Planned rows\<close>

datatype ConversationBindingId = ConversationBindingId Uuid
datatype ChannelAccountId = ChannelAccountId Uuid
datatype InboundDeliveryId = InboundDeliveryId Uuid
datatype OutboundDeliveryId = OutboundDeliveryId Uuid

datatype DeliverySource =
    AssistantMessage MessageId WorkId
  | ControlAcknowledgement InboundDeliveryId ControlAcknowledgementOutcome

record DeliveryRoute =
  dr_craxii_id :: CraxiiId
  dr_conversation_binding_id :: ConversationBindingId
  dr_channel_account_id :: ChannelAccountId
  dr_provider_id :: string
  dr_external_conversation_id :: string
  dr_external_thread_id :: "string option"
  dr_binding_active :: bool
  dr_account_active :: bool

record OutboundDelivery =
  od_outbound_delivery_id :: OutboundDeliveryId
  od_craxii_id :: CraxiiId
  od_conversation_binding_id :: ConversationBindingId
  od_channel_account_id :: ChannelAccountId
  od_provider_id :: string
  od_external_conversation_id :: string
  od_external_thread_id :: "string option"
  od_source :: DeliverySource
  od_payload_text :: string
  od_payload_sha256 :: Sha256Digest
  od_part_ordinal :: nat
  od_part_count :: nat
  od_state :: OutboundDeliveryState
  od_attempt_count :: nat
  od_delivery_deadline_at :: UtcTimestamp
  od_failure :: "DeliveryFailure option"
  od_created_at :: UtcTimestamp
  od_updated_at :: UtcTimestamp

type_synonym ChannelDeliveryProfileRegistry = "string \<rightharpoonup> ChannelDeliveryProfile"

definition register_profile ::
  "ChannelDeliveryProfileRegistry \<Rightarrow> ChannelDeliveryProfile \<Rightarrow>
     DeliveryPlannerError + ChannelDeliveryProfileRegistry" where
  "register_profile registered profile =
     (case registered (dp_provider_id profile) of
        Some _ \<Rightarrow> Inl DuplicateProvider
      | None \<Rightarrow> Inr (registered(dp_provider_id profile \<mapsto> profile)))"

definition registry_try_new ::
  "ChannelDeliveryProfile list \<Rightarrow> DeliveryPlannerError + ChannelDeliveryProfileRegistry" where
  "registry_try_new profiles = fold_result register_profile Map.empty profiles"

definition route_failure :: "DeliveryRoute \<Rightarrow> DeliveryFailureClass option" where
  "route_failure route =
     (if \<not> dr_binding_active route then Some DeliveryFailureClass.BindingRevoked
      else if \<not> dr_account_active route then Some DeliveryFailureClass.ChannelAccountDisabled
      else None)"

definition plan_parts ::
  "string \<Rightarrow> string \<Rightarrow> ChannelDeliveryProfileRegistry \<Rightarrow>
     string list \<times> DeliveryFailureClass option" where
  "plan_parts rendered provider_id profiles =
     (case profiles provider_id of
        Some profile \<Rightarrow>
          (case split_text_v1 rendered profile of
             Inr parts \<Rightarrow> (parts, None)
           | Inl failure \<Rightarrow> ([rendered], Some failure))
      | None \<Rightarrow> ([rendered], Some DeliveryFailureClass.ProfileUnavailable))"

text \<open>
  \<open>generate\<close> gives the identity of the row at an index, \<open>hash_bytes\<close> the digest and \<open>add_seconds\<close>
  the checked calendar addition.
\<close>

definition planned_row ::
  "(nat \<Rightarrow> OutboundDeliveryId) \<Rightarrow> (string \<Rightarrow> Sha256Digest) \<Rightarrow> DeliverySource \<Rightarrow> DeliveryRoute \<Rightarrow>
     DeliveryFailureClass option \<Rightarrow> nat \<Rightarrow> UtcTimestamp \<Rightarrow> UtcTimestamp \<Rightarrow> nat \<times> string \<Rightarrow>
     OutboundDelivery" where
  "planned_row generate hash_bytes source route failure part_count deadline created_at =
     (\<lambda>(index, payload_text).
       \<lparr>od_outbound_delivery_id = generate index,
        od_craxii_id = dr_craxii_id route,
        od_conversation_binding_id = dr_conversation_binding_id route,
        od_channel_account_id = dr_channel_account_id route,
        od_provider_id = dr_provider_id route,
        od_external_conversation_id = dr_external_conversation_id route,
        od_external_thread_id = dr_external_thread_id route,
        od_source = source,
        od_payload_text = payload_text,
        od_payload_sha256 = hash_bytes payload_text,
        od_part_ordinal = index + 1,
        od_part_count = part_count,
        od_state = (if failure \<noteq> None then OutboundDeliveryState.PermanentFailure
                    else OutboundDeliveryState.Queued),
        od_attempt_count = 0,
        od_delivery_deadline_at = deadline,
        od_failure = map_option classified failure,
        od_created_at = created_at,
        od_updated_at = created_at\<rparr>)"

definition plan_rendered ::
  "(nat \<Rightarrow> OutboundDeliveryId) \<Rightarrow> (string \<Rightarrow> Sha256Digest) \<Rightarrow>
     (UtcTimestamp \<Rightarrow> int \<Rightarrow> UtcTimestamp option) \<Rightarrow> DeliverySource \<Rightarrow> string \<Rightarrow> DeliveryRoute \<Rightarrow>
     ChannelDeliveryProfileRegistry \<Rightarrow> UtcTimestamp \<Rightarrow>
     DeliveryPlannerError + OutboundDelivery list" where
  "plan_rendered generate hash_bytes add_seconds source rendered route profiles created_at =
     and_then (ok_or (add_seconds created_at (60 * 60)) InvalidTime) (\<lambda>deadline.
     let (parts, planning_failure) = plan_parts rendered (dr_provider_id route) profiles;
         failure = (case route_failure route of Some f \<Rightarrow> Some f | None \<Rightarrow> planning_failure) in
     if length parts > 65535 then Inl EmptyPayload
     else Inr (map (planned_row generate hash_bytes source route failure (length parts) deadline
                      created_at)
                   (List.enumerate 0 parts)))"

definition plan_assistant_delivery ::
  "(nat \<Rightarrow> OutboundDeliveryId) \<Rightarrow> (string \<Rightarrow> Sha256Digest) \<Rightarrow>
     (UtcTimestamp \<Rightarrow> int \<Rightarrow> UtcTimestamp option) \<Rightarrow> MessageId \<Rightarrow> MessageContent \<Rightarrow> WorkId option \<Rightarrow>
     UtcTimestamp \<Rightarrow> DeliveryRoute \<Rightarrow> ChannelDeliveryProfileRegistry \<Rightarrow>
     DeliveryPlannerError + OutboundDelivery list" where
  "plan_assistant_delivery generate hash_bytes add_seconds message_id content produced_by_work_id
       committed_at route profiles =
     and_then (render_assistant_v1 content) (\<lambda>rendered.
     and_then (ok_or produced_by_work_id EmptyPayload) (\<lambda>work_id.
     plan_rendered generate hash_bytes add_seconds (AssistantMessage message_id work_id) rendered
       route profiles committed_at))"

definition plan_control_acknowledgement ::
  "(nat \<Rightarrow> OutboundDeliveryId) \<Rightarrow> (string \<Rightarrow> Sha256Digest) \<Rightarrow>
     (UtcTimestamp \<Rightarrow> int \<Rightarrow> UtcTimestamp option) \<Rightarrow> InboundDeliveryId \<Rightarrow>
     ControlAcknowledgementOutcome \<Rightarrow> DeliveryRoute \<Rightarrow> ChannelDeliveryProfileRegistry \<Rightarrow>
     UtcTimestamp \<Rightarrow> DeliveryPlannerError + OutboundDelivery list" where
  "plan_control_acknowledgement generate hash_bytes add_seconds source_inbound_delivery_id outcome
       route profiles created_at =
     plan_rendered generate hash_bytes add_seconds
       (ControlAcknowledgement source_inbound_delivery_id outcome)
       (render_control_acknowledgement outcome) route profiles created_at"

definition valid_profile :: "ChannelDeliveryProfile \<Rightarrow> bool" where
  "valid_profile p \<longleftrightarrow>
     profile_try_new (dp_provider_id p) (dp_max_text_utf8_bytes p) (dp_max_parts p) = Inr p"

lemma register_profile_ok:
  "register_profile m p = Inr m' \<longleftrightarrow> m (dp_provider_id p) = None \<and> m' = m(dp_provider_id p \<mapsto> p)"
  by (auto simp: register_profile_def split: option.splits)

lemma registry_lookup:
  assumes "fold_result register_profile m ps = Inr profiles"
  shows "profiles k = Some p \<longleftrightarrow> m k = Some p \<or> (p \<in> set ps \<and> dp_provider_id p = k)"
  using assms
proof (induction ps arbitrary: m)
  case (Cons q qs)
  from Cons.prems have new: "m (dp_provider_id q) = None"
    and rest: "fold_result register_profile (m(dp_provider_id q \<mapsto> q)) qs = Inr profiles"
    by (auto simp: and_then_Inr_iff register_profile_ok)
  from new show ?case by (auto simp: Cons.IH [OF rest] split: if_splits)
qed simp

lemma split_text_parts:
  assumes "split_text_v1 text profile = Inr parts"
  shows "concat parts = text" and "parts \<noteq> []" and "length parts \<le> 64"
    and "\<forall>p \<in> set parts. p \<noteq> []"
  using assms by (auto simp: split_text_v1_def and_then_Inr_iff list_ex_iff split: if_splits)

lemma split_loop_failure:
  "split_loop limit max_parts remaining parts = Inl c \<Longrightarrow> c = DeliveryFailureClass.PayloadTooLarge"
proof (induction limit max_parts remaining parts rule: split_loop.induct)
  case (1 limit max_parts remaining parts)
  from 1(2) show ?case
    by (subst (asm) split_loop.simps) (auto simp: Let_def split: if_splits dest: 1(1))
qed

lemma split_text_failure:
  "split_text_v1 text profile = Inl c \<Longrightarrow> text \<noteq> [] \<Longrightarrow> c = DeliveryFailureClass.PayloadTooLarge"
  by (auto simp: split_text_v1_def and_then_Inl_iff dest: split_loop_failure split: if_splits)

lemma split_text_fits:
  assumes "split_text_v1 text p = Inr parts" and "valid_profile p" and "str_bytes text"
  shows "\<forall>part \<in> set parts. length part \<le> dp_max_text_utf8_bytes p"
proof -
  from assms(1) have loop: "split_loop (dp_max_text_utf8_bytes p) (dp_max_parts p) text [] = Inr parts"
    by (auto simp: split_text_v1_def and_then_Inr_iff split: if_splits)
  from assms(2) have "0 < dp_max_parts p"
    by (auto simp: valid_profile_def profile_try_new_def split: if_splits)
  with split_loop_sound [OF loop assms(3)] show ?thesis by auto
qed

lemma plan_parts_exact:
  assumes "plan_parts rendered provider profiles = (parts, failure)" and "rendered \<noteq> []"
  shows "concat parts = rendered" and "1 \<le> length parts" and "length parts \<le> 64"
    and "\<forall>p \<in> set parts. p \<noteq> []"
    and "failure \<in> {None, Some DeliveryFailureClass.ProfileUnavailable,
                    Some DeliveryFailureClass.PayloadTooLarge}"
    and "failure = None \<longleftrightarrow>
           (\<exists>profile. profiles provider = Some profile \<and> split_text_v1 rendered profile = Inr parts)"
    and "profiles provider = None \<longleftrightarrow> failure = Some DeliveryFailureClass.ProfileUnavailable"
  using assms
  by (auto simp: plan_parts_def Suc_le_eq dest: split_text_parts split_text_failure
           split: option.splits sum.splits)

lemma planned_row_sel [simp]:
  "od_payload_text (planned_row g h src route f n d t ip) = snd ip"
  "od_payload_sha256 (planned_row g h src route f n d t ip) = h (snd ip)"
  "od_part_ordinal (planned_row g h src route f n d t ip) = fst ip + 1"
  "od_part_count (planned_row g h src route f n d t ip) = n"
  "od_attempt_count (planned_row g h src route f n d t ip) = 0"
  "od_delivery_deadline_at (planned_row g h src route f n d t ip) = d"
  "od_state (planned_row g h src route f n d t ip) = OutboundDeliveryState.Queued \<longleftrightarrow> f = None"
  "od_failure (planned_row g h src route f n d t ip) = map_option classified f"
  by (simp_all add: planned_row_def split: prod.splits)

lemma enumerate_ordinals: "map (\<lambda>ip. fst ip + 1) (List.enumerate 0 xs) = [1..<Suc (length xs)]"
  by (rule nth_equalityI) (auto simp: nth_enumerate_eq nth_append not_less_eq_eq)

lemma plan_rendered_rows:
  assumes "plan_parts rendered (dr_provider_id route) profiles = (parts, pf)" and "rendered \<noteq> []"
    and "add_seconds t (60 * 60) = Some d"
    and "failure = (case route_failure route of Some f \<Rightarrow> Some f | None \<Rightarrow> pf)"
  shows "plan_rendered g h add_seconds src rendered route profiles t =
           Inr (map (planned_row g h src route failure (length parts) d t) (List.enumerate 0 parts))"
  using assms plan_parts_exact(3) [OF assms(1,2)]
  by (simp add: plan_rendered_def Let_def)

text \<open>
  C21. Planning keeps the text and classifies every row. For a nonempty rendered text, planning
  fails only when the deadline is not a representable time. Otherwise the rows carry the text's
  parts in order with ordinals one to the part count, each with its own digest and no attempt, and
  concatenate to the text. All rows are queued exactly when the binding and the account are active
  and the registered profile accepts the text; else all rows carry one failure, the binding's before
  the account's before the planner's. Whenever the profile accepts the text, the rows are its parts
  and each fits the profile.
\<close>

theorem planned_rows_exact:
  assumes "registry_try_new ps = Inr profiles" and "list_all valid_profile ps"
    and "str_bytes rendered" and "rendered \<noteq> []"
  shows "(add_seconds t (60 * 60) = None \<longrightarrow>
            plan_rendered g h add_seconds src rendered route profiles t = Inl InvalidTime) \<and>
         (\<forall>d. add_seconds t (60 * 60) = Some d \<longrightarrow>
            (\<exists>rows failure. plan_rendered g h add_seconds src rendered route profiles t = Inr rows \<and>
               concat (map od_payload_text rows) = rendered \<and>
               map od_part_ordinal rows = [1..<Suc (length rows)] \<and>
               1 \<le> length rows \<and> length rows \<le> 64 \<and>
               (\<forall>r \<in> set rows. od_part_count r = length rows \<and> od_payload_text r \<noteq> [] \<and>
                  od_payload_sha256 r = h (od_payload_text r) \<and> od_attempt_count r = 0 \<and>
                  od_delivery_deadline_at r = d \<and> od_failure r = map_option classified failure \<and>
                  (od_state r = OutboundDeliveryState.Queued \<longleftrightarrow> failure = None)) \<and>
               (failure = None \<longleftrightarrow>
                  dr_binding_active route \<and> dr_account_active route \<and>
                  (\<exists>p \<in> set ps. dp_provider_id p = dr_provider_id route \<and>
                     (\<exists>parts. split_text_v1 rendered p = Inr parts))) \<and>
               (\<forall>p parts. p \<in> set ps \<and> dp_provider_id p = dr_provider_id route \<and>
                  split_text_v1 rendered p = Inr parts \<longrightarrow>
                  map od_payload_text rows = parts \<and>
                  (\<forall>part \<in> set parts. length part \<le> dp_max_text_utf8_bytes p)) \<and>
               (\<not> dr_binding_active route \<longrightarrow> failure = Some DeliveryFailureClass.BindingRevoked) \<and>
               (dr_binding_active route \<and> \<not> dr_account_active route \<longrightarrow>
                  failure = Some DeliveryFailureClass.ChannelAccountDisabled)))"
proof -
  obtain parts pf where parts: "plan_parts rendered (dr_provider_id route) profiles = (parts, pf)"
    by (cases "plan_parts rendered (dr_provider_id route) profiles")
  define failure where "failure = (case route_failure route of Some f \<Rightarrow> Some f | None \<Rightarrow> pf)"
  note exact = plan_parts_exact [OF parts assms(4)]
  have lookup: "profiles k = Some p \<longleftrightarrow> p \<in> set ps \<and> dp_provider_id p = k" for k p
    using registry_lookup [OF assms(1) [unfolded registry_try_new_def]] by simp
  have fits: "\<forall>part \<in> set parts. length part \<le> dp_max_text_utf8_bytes p"
    if "split_text_v1 rendered p = Inr parts" and "p \<in> set ps" for p
    using split_text_fits [OF that(1) _ assms(3)] that(2) assms(2) by (simp add: list_all_iff)
  have rf: "failure = None \<longleftrightarrow> dr_binding_active route \<and> dr_account_active route \<and> pf = None"
    "\<not> dr_binding_active route \<Longrightarrow> failure = Some DeliveryFailureClass.BindingRevoked"
    "dr_binding_active route \<Longrightarrow> \<not> dr_account_active route \<Longrightarrow>
       failure = Some DeliveryFailureClass.ChannelAccountDisabled"
    by (auto simp: failure_def route_failure_def)
  have planned: "\<exists>rows. plan_rendered g h add_seconds src rendered route profiles t = Inr rows \<and>
      map od_payload_text rows = parts \<and> map od_part_ordinal rows = [1..<Suc (length rows)] \<and>
      (\<forall>r \<in> set rows. od_part_count r = length rows \<and> od_payload_text r \<in> set parts \<and>
         od_payload_sha256 r = h (od_payload_text r) \<and> od_attempt_count r = 0 \<and>
         od_delivery_deadline_at r = d \<and> od_failure r = map_option classified failure \<and>
         (od_state r = OutboundDeliveryState.Queued \<longleftrightarrow> failure = None))"
    if "add_seconds t (60 * 60) = Some d" for d
    unfolding plan_rendered_rows [of rendered route profiles parts pf add_seconds t d,
        OF parts assms(4) that failure_def]
    by (auto simp: comp_def enumerate_ordinals [simplified] in_set_enumerate_eq)
  have found: "parts = parts'" if "profiles (dr_provider_id route) = Some p"
    and "split_text_v1 rendered p = Inr parts'" for p parts'
    using parts that by (simp add: plan_parts_def)
  have queued: "failure = None \<longleftrightarrow>
      dr_binding_active route \<and> dr_account_active route \<and>
      (\<exists>p \<in> set ps. dp_provider_id p = dr_provider_id route \<and>
         (\<exists>parts. split_text_v1 rendered p = Inr parts))"
    unfolding rf(1) exact(6) using found lookup by blast
  have same: "\<forall>p parts'. p \<in> set ps \<and> dp_provider_id p = dr_provider_id route \<and>
      split_text_v1 rendered p = Inr parts' \<longrightarrow>
      parts = parts' \<and> (\<forall>part \<in> set parts'. length part \<le> dp_max_text_utf8_bytes p)"
    using found lookup fits by blast
  show ?thesis
  proof (cases "add_seconds t (60 * 60)")
    case None
    then show ?thesis by (simp add: plan_rendered_def)
  next
    case (Some d)
    from planned [OF Some]
    obtain rows where rows: "plan_rendered g h add_seconds src rendered route profiles t = Inr rows"
      and payloads: "map od_payload_text rows = parts"
      and ordinals: "map od_part_ordinal rows = [1..<Suc (length rows)]"
      and each: "\<forall>r \<in> set rows. od_part_count r = length rows \<and> od_payload_text r \<in> set parts \<and>
         od_payload_sha256 r = h (od_payload_text r) \<and> od_attempt_count r = 0 \<and>
         od_delivery_deadline_at r = d \<and> od_failure r = map_option classified failure \<and>
         (od_state r = OutboundDeliveryState.Queued \<longleftrightarrow> failure = None)"
      by blast
    from payloads have len: "length parts = length rows" and mem: "set parts = od_payload_text ` set rows"
      by auto
    have "\<forall>r \<in> set rows. od_payload_text r \<noteq> []" using exact(4) mem by simp
    then show ?thesis
      using Some rows each ordinals exact(1-3) rf(2,3) queued same
      by (intro conjI allI impI exI [of _ rows] exI [of _ failure]) (simp_all add: payloads len mem)
  qed
qed

definition sample_profile :: ChannelDeliveryProfile where
  "sample_profile =
     \<lparr>dp_provider_id = ''telegram'', dp_max_text_utf8_bytes = 64, dp_max_parts = 4\<rparr>"

definition sample_route :: DeliveryRoute where
  "sample_route =
     \<lparr>dr_craxii_id = CraxiiId 1, dr_conversation_binding_id = ConversationBindingId 2,
      dr_channel_account_id = ChannelAccountId 3, dr_provider_id = ''telegram'',
      dr_external_conversation_id = ''42'', dr_external_thread_id = None,
      dr_binding_active = True, dr_account_active = True\<rparr>"

theorem planned_rows_exact_witness:
  "\<exists>profiles rows. registry_try_new [sample_profile] = Inr profiles \<and>
     plan_rendered (\<lambda>i. OutboundDeliveryId (of_nat i)) (\<lambda>_. []) (\<lambda>t s. Some (t + s * 1000000))
       (ControlAcknowledgement (InboundDeliveryId 9) Applied) (render_control_acknowledgement Applied)
       sample_route profiles 0 = Inr rows \<and>
     concat (map od_payload_text rows) = ''Cancellation requested.'' \<and>
     list_all (\<lambda>r. od_state r = OutboundDeliveryState.Queued) rows"
proof -
  obtain profiles where reg: "registry_try_new [sample_profile] = Inr profiles"
    by (simp add: registry_try_new_def register_profile_def)
  have valid: "list_all valid_profile [sample_profile]"
    by (simp add: valid_profile_def profile_try_new_def sample_profile_def)
  have bytes: "str_bytes ''Cancellation requested.''"
    by (auto simp: str_bytes_def is_continuation_def nth_Cons split: nat.splits)
  have split: "split_text_v1 ''Cancellation requested.'' sample_profile = Inr [''Cancellation requested.'']"
    by code_simp
  obtain rows where
      rows: "plan_rendered (\<lambda>i. OutboundDeliveryId (of_nat i)) (\<lambda>_. []) (\<lambda>t s. Some (t + s * 1000000))
       (ControlAcknowledgement (InboundDeliveryId 9) Applied) ''Cancellation requested.''
       sample_route profiles 0 = Inr rows" "concat (map od_payload_text rows) = ''Cancellation requested.''"
    and states: "list_all (\<lambda>r. od_state r = OutboundDeliveryState.Queued) rows"
    using planned_rows_exact [OF reg valid bytes, of "\<lambda>t s. Some (t + s * 1000000)" 0
        "\<lambda>i. OutboundDeliveryId (of_nat i)" "\<lambda>_. []"
        "ControlAcknowledgement (InboundDeliveryId 9) Applied" sample_route]
      split
    by (auto simp: sample_route_def sample_profile_def list_all_iff)
  with reg show ?thesis by auto
qed

end
