(* ===== verification/Delivery_Store.thy ===== *)
theory Delivery_Store
  imports Delivery_Planner "HOL-Library.Product_Lexorder"
begin

text \<open>
  The durable outbound-delivery store: the transactions of adapters/sqlite/delivery.rs, the
  delivery part of the assistant commit of adapters/sqlite/stage8.rs, and the constraints of
  migrations/0007_durable_channel_delivery.sql. A table is a list of rows whose columns are
  decoded values; an SQL UPDATE is a map over the rows its WHERE clause selects, and a statement
  that breaks a constraint fails with the kind its error maps to. A transaction that fails is never
  committed, so an error carries no store. The hash, the UUID printer and the checked calendar
  addition are the fields of \<open>delivery_env\<close>; foreign keys and storage faults are not modelled.
\<close>

section \<open>Values and tables\<close>

datatype OutboundDeliveryAttemptId = OutboundDeliveryAttemptId Uuid

datatype DeliveryStoreErrorKind = Storage | Inconsistent | Invalid | StateConflict

datatype SqliteFailureKind =
    UnsafeStatePath | UnsupportedFilesystem | AlreadyOwned | Storage | BusyOrLocked | Corrupt
  | NewerSchema | InconsistentSchema | StateConflict | IdempotencyConflict | TargetNotFound
  | InternalInvariant

fun map_sqlite :: "SqliteFailureKind \<Rightarrow> DeliveryStoreErrorKind" where
  "map_sqlite SqliteFailureKind.Storage = DeliveryStoreErrorKind.Storage"
| "map_sqlite SqliteFailureKind.BusyOrLocked = DeliveryStoreErrorKind.Storage"
| "map_sqlite SqliteFailureKind.StateConflict = DeliveryStoreErrorKind.StateConflict"
| "map_sqlite _ = DeliveryStoreErrorKind.Inconsistent"

datatype DeliveryAttemptResultKind =
    Accepted | RetryableFailure | PermanentFailure | OutcomeUnknown

datatype ChannelDispatchResult =
    DispatchAccepted "string option"
  | DispatchRetryableFailure DeliveryFailure "nat option"
  | DispatchPermanentFailure DeliveryFailure
  | DispatchOutcomeUnknown DeliveryFailure

record delivery_env =
  de_hash_bytes :: "string \<Rightarrow> Sha256Digest"
  de_hyphenated :: "Uuid \<Rightarrow> string"
  de_checked_add :: "UtcTimestamp \<Rightarrow> int \<Rightarrow> UtcTimestamp option"

text \<open>A row of \<open>outbound_deliveries\<close>.\<close>

record delivery_row =
  ob_id :: OutboundDeliveryId
  ob_craxii_id :: CraxiiId
  ob_binding_id :: ConversationBindingId
  ob_account_id :: ChannelAccountId
  ob_provider :: string
  ob_destination :: string
  ob_thread :: "string option"
  ob_source :: DeliverySource
  ob_payload :: string
  ob_payload_sha256 :: Sha256Digest
  ob_ordinal :: nat
  ob_count :: nat
  ob_state :: OutboundDeliveryState
  ob_attempts :: nat
  ob_owner :: "RuntimeInstanceId option"
  ob_next_attempt_at :: "UtcTimestamp option"
  ob_deadline :: UtcTimestamp
  ob_accepted_message :: "string option"
  ob_failure_class :: "DeliveryFailureClass option"
  ob_failure_code :: "string option"
  ob_created_at :: UtcTimestamp
  ob_updated_at :: UtcTimestamp
  ob_accepted_at :: "UtcTimestamp option"
  ob_terminal_at :: "UtcTimestamp option"

text \<open>A row of \<open>outbound_delivery_attempts\<close>.\<close>

record attempt_row =
  at_id :: OutboundDeliveryAttemptId
  at_delivery :: OutboundDeliveryId
  at_runtime :: RuntimeInstanceId
  at_number :: nat
  at_prior_state :: OutboundDeliveryState
  at_material_version :: int
  at_material :: Sha256Digest
  at_started_at :: UtcTimestamp
  at_completed_at :: "UtcTimestamp option"
  at_result_kind :: "DeliveryAttemptResultKind option"
  at_failure_class :: "DeliveryFailureClass option"
  at_failure_code :: "string option"
  at_provider_retry_after_ms :: "int option"
  at_selected_retry_delay_ms :: "int option"
  at_scheduled_next :: "UtcTimestamp option"
  at_accepted_message :: "string option"

record delivery_store =
  ds_deliveries :: "delivery_row list"
  ds_attempts :: "attempt_row list"
  ds_routes :: "ConversationBindingId \<rightharpoonup> ConversationId \<times> DeliveryRoute"

text \<open>The source columns that identify the group of parts a row belongs to.\<close>

fun source_key :: "DeliverySource \<Rightarrow> MessageId + InboundDeliveryId" where
  "source_key (AssistantMessage message_id _) = Inl message_id"
| "source_key (ControlAcknowledgement inbound_id _) = Inr inbound_id"

abbreviation ob_key :: "delivery_row \<Rightarrow> MessageId + InboundDeliveryId" where
  "ob_key r \<equiv> source_key (ob_source r)"

definition update_rows :: "('r \<Rightarrow> bool) \<Rightarrow> ('r \<Rightarrow> 'r) \<Rightarrow> 'r list \<Rightarrow> 'r list" where
  "update_rows where_clause assign = map (\<lambda>r. if where_clause r then assign r else r)"

definition rows_affected :: "('r \<Rightarrow> bool) \<Rightarrow> 'r list \<Rightarrow> nat" where
  "rows_affected where_clause rows = length (filter where_clause rows)"

section \<open>Constraints of the schema\<close>

text \<open>The state CHECK of \<open>outbound_deliveries\<close>, one clause per state.\<close>

definition delivery_state_check :: "delivery_row \<Rightarrow> bool" where
  "delivery_state_check r \<longleftrightarrow>
     (case ob_state r of
        OutboundDeliveryState.Queued \<Rightarrow>
          ob_attempts r = 0 \<and> ob_owner r = None \<and> ob_next_attempt_at r \<noteq> None \<and>
          ob_accepted_message r = None \<and> ob_failure_class r = None \<and> ob_failure_code r = None \<and>
          ob_accepted_at r = None \<and> ob_terminal_at r = None
      | OutboundDeliveryState.Dispatching \<Rightarrow>
          1 \<le> ob_attempts r \<and> ob_attempts r \<le> 8 \<and> ob_owner r \<noteq> None \<and>
          ob_next_attempt_at r = None \<and> ob_accepted_message r = None \<and>
          ob_failure_class r = None \<and> ob_failure_code r = None \<and>
          ob_accepted_at r = None \<and> ob_terminal_at r = None
      | OutboundDeliveryState.RetryWait \<Rightarrow>
          1 \<le> ob_attempts r \<and> ob_attempts r \<le> 7 \<and> ob_owner r = None \<and>
          ob_next_attempt_at r \<noteq> None \<and> ob_accepted_message r = None \<and>
          ob_failure_class r = None \<and> ob_failure_code r = None \<and>
          ob_accepted_at r = None \<and> ob_terminal_at r = None
      | OutboundDeliveryState.Accepted \<Rightarrow>
          1 \<le> ob_attempts r \<and> ob_attempts r \<le> 8 \<and> ob_owner r = None \<and>
          ob_next_attempt_at r = None \<and> ob_failure_class r = None \<and> ob_failure_code r = None \<and>
          ob_accepted_at r \<noteq> None \<and> ob_terminal_at r = ob_accepted_at r
      | OutboundDeliveryState.PermanentFailure \<Rightarrow>
          ob_owner r = None \<and> ob_next_attempt_at r = None \<and> ob_accepted_message r = None \<and>
          ob_failure_class r \<noteq> None \<and> ob_accepted_at r = None \<and> ob_terminal_at r \<noteq> None
      | OutboundDeliveryState.OutcomeUnknown \<Rightarrow>
          1 \<le> ob_attempts r \<and> ob_attempts r \<le> 8 \<and> ob_owner r = None \<and>
          ob_next_attempt_at r = None \<and> ob_accepted_message r = None \<and>
          ob_failure_class r \<noteq> None \<and> ob_accepted_at r = None \<and> ob_terminal_at r \<noteq> None)"

definition delivery_check :: "delivery_row \<Rightarrow> bool" where
  "delivery_check r \<longleftrightarrow>
     ob_payload r \<noteq> [] \<and> ob_attempts r \<le> 8 \<and>
     1 \<le> ob_ordinal r \<and> ob_ordinal r \<le> ob_count r \<and> 1 \<le> ob_count r \<and> ob_count r \<le> 64 \<and>
     ob_deadline r > ob_created_at r \<and> ob_updated_at r \<ge> ob_created_at r \<and>
     (ob_failure_code r = None \<or> ob_failure_class r \<noteq> None) \<and> delivery_state_check r"

definition attempt_result_check :: "attempt_row \<Rightarrow> bool" where
  "attempt_result_check a \<longleftrightarrow>
     (case at_completed_at a of
        None \<Rightarrow>
          at_result_kind a = None \<and> at_failure_class a = None \<and> at_failure_code a = None \<and>
          at_provider_retry_after_ms a = None \<and> at_selected_retry_delay_ms a = None \<and>
          at_scheduled_next a = None \<and> at_accepted_message a = None
      | Some _ \<Rightarrow>
          (case at_result_kind a of
             None \<Rightarrow> False
           | Some DeliveryAttemptResultKind.Accepted \<Rightarrow>
               at_failure_class a = None \<and> at_failure_code a = None \<and>
               at_provider_retry_after_ms a = None \<and> at_selected_retry_delay_ms a = None \<and>
               at_scheduled_next a = None
           | Some DeliveryAttemptResultKind.RetryableFailure \<Rightarrow>
               at_failure_class a \<noteq> None \<and> at_selected_retry_delay_ms a \<noteq> None \<and>
               at_accepted_message a = None
           | Some _ \<Rightarrow>
               at_failure_class a \<noteq> None \<and> at_provider_retry_after_ms a = None \<and>
               at_selected_retry_delay_ms a = None \<and> at_scheduled_next a = None \<and>
               at_accepted_message a = None))"

definition attempt_check :: "attempt_row \<Rightarrow> bool" where
  "attempt_check a \<longleftrightarrow>
     1 \<le> at_number a \<and> at_number a \<le> 8 \<and>
     at_prior_state a \<in> {OutboundDeliveryState.Queued, OutboundDeliveryState.RetryWait} \<and>
     at_material_version a = 1 \<and>
     (case at_provider_retry_after_ms a of None \<Rightarrow> True | Some ms \<Rightarrow> 0 \<le> ms) \<and>
     (case at_selected_retry_delay_ms a of None \<Rightarrow> True | Some ms \<Rightarrow> 1000 \<le> ms) \<and>
     (case at_completed_at a of None \<Rightarrow> True | Some t \<Rightarrow> at_started_at a \<le> t) \<and>
     (at_failure_code a = None \<or> at_failure_class a \<noteq> None) \<and> attempt_result_check a"

text \<open>Primary keys and unique indexes.\<close>

definition unique_keys :: "delivery_store \<Rightarrow> bool" where
  "unique_keys s \<longleftrightarrow>
     distinct (map ob_id (ds_deliveries s)) \<and>
     distinct (map (\<lambda>r. (ob_key r, ob_ordinal r)) (ds_deliveries s)) \<and>
     distinct (map (\<lambda>r. (ob_account_id r, ob_accepted_message r))
                 (filter (\<lambda>r. ob_accepted_message r \<noteq> None) (ds_deliveries s))) \<and>
     distinct (map at_id (ds_attempts s)) \<and>
     distinct (map (\<lambda>a. (at_delivery a, at_number a)) (ds_attempts s)) \<and>
     distinct (map at_delivery (filter (\<lambda>a. at_completed_at a = None) (ds_attempts s)))"

definition schema_ok :: "delivery_store \<Rightarrow> bool" where
  "schema_ok s \<longleftrightarrow>
     list_all delivery_check (ds_deliveries s) \<and> list_all attempt_check (ds_attempts s) \<and>
     unique_keys s"

text \<open>A statement takes effect when its result satisfies the schema.\<close>

definition execute :: "delivery_store \<Rightarrow> SqliteFailureKind + delivery_store" where
  "execute s = (if schema_ok s then Inr s else Inl SqliteFailureKind.InternalInvariant)"

definition update_deliveries ::
  "(delivery_row \<Rightarrow> bool) \<Rightarrow> (delivery_row \<Rightarrow> delivery_row) \<Rightarrow> delivery_store \<Rightarrow>
     DeliveryStoreErrorKind + delivery_store \<times> nat" where
  "update_deliveries where_clause assign s =
     map_ok (\<lambda>s'. (s', rows_affected where_clause (ds_deliveries s)))
       (map_err map_sqlite
         (execute (s\<lparr>ds_deliveries := update_rows where_clause assign (ds_deliveries s)\<rparr>)))"

definition update_attempts ::
  "(attempt_row \<Rightarrow> bool) \<Rightarrow> (attempt_row \<Rightarrow> attempt_row) \<Rightarrow> delivery_store \<Rightarrow>
     DeliveryStoreErrorKind + delivery_store \<times> nat" where
  "update_attempts where_clause assign s =
     map_ok (\<lambda>s'. (s', rows_affected where_clause (ds_attempts s)))
       (map_err map_sqlite
         (execute (s\<lparr>ds_attempts := update_rows where_clause assign (ds_attempts s)\<rparr>)))"

text \<open>The check every caller makes: exactly one row was changed.\<close>

definition changed_one ::
  "DeliveryStoreErrorKind + delivery_store \<times> nat \<Rightarrow> DeliveryStoreErrorKind + delivery_store" where
  "changed_one m =
     and_then m (\<lambda>(s, n). if n \<noteq> 1 then Inl DeliveryStoreErrorKind.StateConflict else Inr s)"

section \<open>Insertion\<close>

definition expected_deadline :: "delivery_env \<Rightarrow> UtcTimestamp \<Rightarrow> UtcTimestamp option" where
  "expected_deadline env created_at = de_checked_add env created_at (60 * 60 * 10 ^ 9)"

definition inserted_row :: "OutboundDelivery \<Rightarrow> delivery_row" where
  "inserted_row d =
     \<lparr>ob_id = od_outbound_delivery_id d, ob_craxii_id = od_craxii_id d,
      ob_binding_id = od_conversation_binding_id d, ob_account_id = od_channel_account_id d,
      ob_provider = od_provider_id d, ob_destination = od_external_conversation_id d,
      ob_thread = od_external_thread_id d, ob_source = od_source d, ob_payload = od_payload_text d,
      ob_payload_sha256 = od_payload_sha256 d, ob_ordinal = od_part_ordinal d,
      ob_count = od_part_count d, ob_state = od_state d, ob_attempts = 0, ob_owner = None,
      ob_next_attempt_at =
        (if od_state d = OutboundDeliveryState.Queued then Some (od_created_at d) else None),
      ob_deadline = od_delivery_deadline_at d, ob_accepted_message = None,
      ob_failure_class = map_option df_class (od_failure d),
      ob_failure_code = Option.bind (od_failure d) df_code,
      ob_created_at = od_created_at d, ob_updated_at = od_updated_at d, ob_accepted_at = None,
      ob_terminal_at = (if delivery_is_terminal (od_state d) then Some (od_created_at d) else None)\<rparr>"

definition insert_delivery ::
  "delivery_env \<Rightarrow> delivery_store \<Rightarrow> OutboundDelivery \<Rightarrow> SqliteFailureKind + delivery_store" where
  "insert_delivery env s d =
     (if od_payload_text d = [] \<or> de_hash_bytes env (od_payload_text d) \<noteq> od_payload_sha256 d \<or>
         od_part_ordinal d = 0 \<or> od_part_ordinal d > od_part_count d \<or> od_part_count d > 64 \<or>
         od_attempt_count d \<noteq> 0 \<or> od_updated_at d \<noteq> od_created_at d \<or>
         Some (od_delivery_deadline_at d) \<noteq> expected_deadline env (od_created_at d) \<or>
         \<not> (od_state d = OutboundDeliveryState.Queued \<and> od_failure d = None \<or>
            od_state d = OutboundDeliveryState.PermanentFailure \<and> od_failure d \<noteq> None)
      then Inl SqliteFailureKind.InternalInvariant
      else execute (s\<lparr>ds_deliveries := ds_deliveries s @ [inserted_row d]\<rparr>))"

section \<open>The delivery part of the assistant commit\<close>

text \<open>
  What commit-time validation requires of the part at an index, and the row inserted for it: on an
  inactive route every part is failed, the first with the route's failure and the others as blocked.
\<close>

definition commit_part_matches ::
  "CraxiiId \<Rightarrow> ConversationBindingId \<Rightarrow> DeliveryRoute \<Rightarrow> DeliverySource \<Rightarrow> UtcTimestamp \<Rightarrow> nat \<Rightarrow>
     UtcTimestamp \<Rightarrow> nat \<Rightarrow> OutboundDelivery \<Rightarrow> bool" where
  "commit_part_matches craxii_id binding_id route source committed_at expected_count
       shared_deadline index d \<longleftrightarrow>
     od_craxii_id d = craxii_id \<and> od_conversation_binding_id d = binding_id \<and>
     od_channel_account_id d = dr_channel_account_id route \<and>
     od_provider_id d = dr_provider_id route \<and>
     od_external_conversation_id d = dr_external_conversation_id route \<and>
     od_external_thread_id d = dr_external_thread_id route \<and>
     od_source d = source \<and> od_created_at d = committed_at \<and> od_updated_at d = committed_at \<and>
     od_part_ordinal d = index + 1 \<and> od_part_count d = expected_count \<and>
     od_delivery_deadline_at d = shared_deadline"

definition commit_part_failure ::
  "DeliveryRoute \<Rightarrow> nat \<Rightarrow> nat \<Rightarrow> OutboundDelivery \<Rightarrow> SqliteFailureKind + OutboundDelivery" where
  "commit_part_failure route expected_count index d =
     (case route_failure route of
        Some root_failure \<Rightarrow>
          Inr (d\<lparr>od_state := OutboundDeliveryState.PermanentFailure,
                 od_failure := Some (classified
                   (if index = 0 then root_failure
                    else DeliveryFailureClass.PriorPartPermanentFailure))\<rparr>)
      | None \<Rightarrow>
          (case (od_state d, od_failure d) of
             (OutboundDeliveryState.Queued, None) \<Rightarrow> Inr d
           | (OutboundDeliveryState.PermanentFailure, Some failure) \<Rightarrow>
               if expected_count = 1 \<and>
                  df_class failure \<in> {DeliveryFailureClass.ProfileUnavailable,
                                       DeliveryFailureClass.PayloadTooLarge,
                                       DeliveryFailureClass.UnsupportedPayload}
               then Inr d else Inl SqliteFailureKind.InternalInvariant
           | _ \<Rightarrow> Inl SqliteFailureKind.InternalInvariant))"

definition commit_part ::
  "delivery_env \<Rightarrow> CraxiiId \<Rightarrow> ConversationBindingId \<Rightarrow> DeliveryRoute \<Rightarrow> DeliverySource \<Rightarrow>
     UtcTimestamp \<Rightarrow> nat \<Rightarrow> UtcTimestamp \<Rightarrow> delivery_store \<Rightarrow> nat \<times> OutboundDelivery \<Rightarrow>
     SqliteFailureKind + delivery_store" where
  "commit_part env craxii_id binding_id route source committed_at expected_count shared_deadline s =
     (\<lambda>(index, d).
       if \<not> commit_part_matches craxii_id binding_id route source committed_at expected_count
              shared_deadline index d
       then Inl SqliteFailureKind.InternalInvariant
       else and_then (commit_part_failure route expected_count index d) (insert_delivery env s))"

definition commit_deliveries ::
  "delivery_env \<Rightarrow> delivery_store \<Rightarrow> CraxiiId \<Rightarrow> ConversationId \<Rightarrow> ConversationBindingId \<Rightarrow>
     WorkId \<Rightarrow> MessageId \<Rightarrow> MessageContent \<Rightarrow> UtcTimestamp \<Rightarrow> OutboundDelivery list \<Rightarrow>
     SqliteFailureKind + delivery_store" where
  "commit_deliveries env s craxii_id conversation_id binding_id work_id message_id content
       committed_at deliveries =
     (case ds_routes s binding_id of
        None \<Rightarrow> Inl SqliteFailureKind.InternalInvariant
      | Some (bound_conversation, route) \<Rightarrow>
          if bound_conversation \<noteq> conversation_id then Inl SqliteFailureKind.InternalInvariant
          else
            and_then (map_err (\<lambda>_. SqliteFailureKind.InternalInvariant) (render_assistant_v1 content))
              (\<lambda>rendered.
            if concat (map od_payload_text deliveries) \<noteq> rendered
            then Inl SqliteFailureKind.InternalInvariant
            else if length deliveries > 65535 then Inl SqliteFailureKind.InternalInvariant
            else
              (case deliveries of
                 [] \<Rightarrow> Inl SqliteFailureKind.InternalInvariant
               | first # _ \<Rightarrow>
                   fold_result
                     (commit_part env craxii_id binding_id route (AssistantMessage message_id work_id)
                        committed_at (length deliveries) (od_delivery_deadline_at first))
                     s (List.enumerate 0 deliveries))))"

section \<open>Dispatch material\<close>

definition framed :: "string \<Rightarrow> string" where
  "framed bytes = be_bytes 8 (length bytes) @ bytes"

definition digest_bytes :: "Sha256Digest \<Rightarrow> string" where
  "digest_bytes digest = map (\<lambda>b. char_of (unat b)) digest"

fun channel_account_text :: "delivery_env \<Rightarrow> ChannelAccountId \<Rightarrow> string" where
  "channel_account_text env (ChannelAccountId u) = de_hyphenated env u"

definition dispatch_material ::
  "delivery_env \<Rightarrow> ChannelAccountId \<Rightarrow> string \<Rightarrow> string \<Rightarrow> string option \<Rightarrow> Sha256Digest \<Rightarrow> nat \<Rightarrow>
     nat \<Rightarrow> string" where
  "dispatch_material env account provider destination thread payload_sha256 part_ordinal part_count =
     ''craxii.dispatch-material'' @ [CHR 0x01] @
     framed (channel_account_text env account) @ framed provider @ framed destination @
     (case thread of Some t \<Rightarrow> CHR 0x01 # framed t | None \<Rightarrow> [CHR 0x00]) @
     framed (digest_bytes payload_sha256) @ framed (be_bytes 2 part_ordinal) @
     framed (be_bytes 2 part_count)"

definition dispatch_material_sha256_v1 ::
  "delivery_env \<Rightarrow> ChannelAccountId \<Rightarrow> string \<Rightarrow> string \<Rightarrow> string option \<Rightarrow> Sha256Digest \<Rightarrow> nat \<Rightarrow>
     nat \<Rightarrow> Sha256Digest" where
  "dispatch_material_sha256_v1 env account provider destination thread payload_sha256 part_ordinal
       part_count =
     de_hash_bytes env (dispatch_material env account provider destination thread payload_sha256
       part_ordinal part_count)"

abbreviation row_material :: "delivery_env \<Rightarrow> delivery_row \<Rightarrow> Sha256Digest" where
  "row_material env r \<equiv>
     dispatch_material_sha256_v1 env (ob_account_id r) (ob_provider r) (ob_destination r)
       (ob_thread r) (ob_payload_sha256 r) (ob_ordinal r) (ob_count r)"

end
