(* ===== verification/Delivery_Dispatch.thy ===== *)
theory Delivery_Dispatch
  imports Delivery_Store
begin

text \<open>
  The dispatch transactions of adapters/sqlite/delivery.rs: claiming the next due part, persisting
  the provider's result, and marking interrupted dispatches unknown, with the retry timing of the
  store and the backoff of application/delivery_worker.rs. Durations are nanoseconds.
\<close>

section \<open>Terminal updates before dispatch\<close>

abbreviation waiting :: "delivery_row \<Rightarrow> bool" where
  "waiting r \<equiv> ob_state r \<in> {OutboundDeliveryState.Queued, OutboundDeliveryState.RetryWait}"

definition later_waiting :: "delivery_row \<Rightarrow> delivery_row \<Rightarrow> bool" where
  "later_waiting row r \<longleftrightarrow> ob_ordinal r > ob_ordinal row \<and> waiting r \<and> ob_key r = ob_key row"

definition block_row :: "DeliveryFailureClass \<Rightarrow> UtcTimestamp \<Rightarrow> delivery_row \<Rightarrow> delivery_row" where
  "block_row failure now r =
     r\<lparr>ob_state := OutboundDeliveryState.PermanentFailure, ob_next_attempt_at := None,
       ob_owner := None, ob_failure_class := Some failure, ob_failure_code := None,
       ob_terminal_at := Some now, ob_updated_at := now\<rparr>"

definition cascade_later ::
  "delivery_row \<Rightarrow> DeliveryFailureClass \<Rightarrow> UtcTimestamp \<Rightarrow> delivery_store \<Rightarrow>
     DeliveryStoreErrorKind + delivery_store \<times> nat" where
  "cascade_later row failure now = update_deliveries (later_waiting row) (block_row failure now)"

definition fail_row :: "DeliveryFailureClass \<Rightarrow> UtcTimestamp \<Rightarrow> delivery_row \<Rightarrow> delivery_row" where
  "fail_row failure now r =
     r\<lparr>ob_state := OutboundDeliveryState.PermanentFailure, ob_next_attempt_at := None,
       ob_failure_class := Some failure, ob_failure_code := None, ob_terminal_at := Some now,
       ob_updated_at := now\<rparr>"

definition mark_permanent_before_dispatch ::
  "delivery_row \<Rightarrow> DeliveryFailureClass \<Rightarrow> UtcTimestamp \<Rightarrow> delivery_store \<Rightarrow>
     DeliveryStoreErrorKind + delivery_store \<times> nat" where
  "mark_permanent_before_dispatch row failure now s =
     and_then (changed_one (update_deliveries (\<lambda>r. ob_id r = ob_id row \<and> waiting r)
                 (fail_row failure now) s))
       (cascade_later row DeliveryFailureClass.PriorPartPermanentFailure now)"

section \<open>Claiming\<close>

text \<open>
  A waiting part is due when its time has come and every earlier part of its source is accepted. The
  due parts are served by time, creation and identity; canonical timestamps and UUID texts sort as
  the values they print.
\<close>

definition due :: "delivery_store \<Rightarrow> UtcTimestamp \<Rightarrow> delivery_row \<Rightarrow> bool" where
  "due s now d \<longleftrightarrow>
     waiting d \<and> (case ob_next_attempt_at d of None \<Rightarrow> False | Some t \<Rightarrow> t \<le> now) \<and>
     \<not> list_ex (\<lambda>p. ob_ordinal p < ob_ordinal d \<and> ob_state p \<noteq> OutboundDeliveryState.Accepted \<and>
                    ob_key p = ob_key d) (ds_deliveries s)"

fun delivery_id_value :: "OutboundDeliveryId \<Rightarrow> nat" where
  "delivery_id_value (OutboundDeliveryId u) = unat u"

definition claim_key :: "delivery_row \<Rightarrow> int \<times> int \<times> nat" where
  "claim_key d =
     ((case ob_next_attempt_at d of None \<Rightarrow> 0 | Some t \<Rightarrow> t), ob_created_at d,
      delivery_id_value (ob_id d))"

definition select_due :: "delivery_store \<Rightarrow> UtcTimestamp \<Rightarrow> delivery_row option" where
  "select_due s now =
     (case sort_key claim_key (filter (due s now) (ds_deliveries s)) of
        [] \<Rightarrow> None | d # _ \<Rightarrow> Some d)"

definition attempts_of :: "delivery_store \<Rightarrow> OutboundDeliveryId \<Rightarrow> attempt_row list" where
  "attempts_of s i = filter (\<lambda>a. at_delivery a = i) (ds_attempts s)"

text \<open>COUNT, MAX of the number and the number of open attempts of a delivery.\<close>

definition attempt_statistics :: "attempt_row list \<Rightarrow> nat \<times> nat option \<times> nat" where
  "attempt_statistics attempts =
     (length attempts,
      (if attempts = [] then None else Some (foldr max (map at_number attempts) 0)),
      length (filter (\<lambda>a. at_completed_at a = None) attempts))"

record PreparedChannelDispatch =
  pd_outbound_delivery_id :: OutboundDeliveryId
  pd_attempt_id :: OutboundDeliveryAttemptId
  pd_attempt_number :: nat
  pd_channel_account_id :: ChannelAccountId
  pd_provider_id :: string
  pd_external_conversation_id :: string
  pd_external_thread_id :: "string option"
  pd_text :: string
  pd_payload_sha256 :: Sha256Digest
  pd_dispatch_material_sha256 :: Sha256Digest
  pd_part_ordinal :: nat
  pd_part_count :: nat

datatype DeliveryClaim = Dispatch PreparedChannelDispatch | StateAdvanced | NoneDue

definition route_matches :: "DeliveryRoute \<Rightarrow> delivery_row \<Rightarrow> bool" where
  "route_matches route row \<longleftrightarrow>
     dr_craxii_id route = ob_craxii_id row \<and> dr_channel_account_id route = ob_account_id row \<and>
     dr_external_conversation_id route = ob_destination row \<and>
     dr_external_thread_id route = ob_thread row \<and> dr_provider_id route = ob_provider row"

definition predispatch_failure ::
  "DeliveryRoute \<Rightarrow> delivery_row \<Rightarrow> UtcTimestamp \<Rightarrow> DeliveryFailureClass option" where
  "predispatch_failure route row now =
     (if \<not> dr_binding_active route then Some DeliveryFailureClass.BindingRevoked
      else if \<not> dr_account_active route then Some DeliveryFailureClass.ChannelAccountDisabled
      else if now \<ge> ob_deadline row then Some DeliveryFailureClass.DeliveryDeadlineExceeded
      else if ob_attempts row \<ge> 8 then Some DeliveryFailureClass.RetryExhausted
      else None)"

definition dispatch_row :: "RuntimeInstanceId \<Rightarrow> UtcTimestamp \<Rightarrow> nat \<Rightarrow> delivery_row \<Rightarrow> delivery_row" where
  "dispatch_row runtime now attempt_number r =
     r\<lparr>ob_state := OutboundDeliveryState.Dispatching, ob_attempts := attempt_number,
       ob_owner := Some runtime, ob_next_attempt_at := None, ob_updated_at := now\<rparr>"

definition open_attempt ::
  "delivery_env \<Rightarrow> RuntimeInstanceId \<Rightarrow> OutboundDeliveryAttemptId \<Rightarrow> UtcTimestamp \<Rightarrow> nat \<Rightarrow>
     delivery_row \<Rightarrow> attempt_row" where
  "open_attempt env runtime attempt_id now attempt_number row =
     \<lparr>at_id = attempt_id, at_delivery = ob_id row, at_runtime = runtime, at_number = attempt_number,
      at_prior_state = ob_state row, at_material_version = 1, at_material = row_material env row,
      at_started_at = now, at_completed_at = None, at_result_kind = None, at_failure_class = None,
      at_failure_code = None, at_provider_retry_after_ms = None, at_selected_retry_delay_ms = None,
      at_scheduled_next = None, at_accepted_message = None\<rparr>"

definition prepared ::
  "delivery_env \<Rightarrow> OutboundDeliveryAttemptId \<Rightarrow> nat \<Rightarrow> delivery_row \<Rightarrow> PreparedChannelDispatch" where
  "prepared env attempt_id attempt_number row =
     \<lparr>pd_outbound_delivery_id = ob_id row, pd_attempt_id = attempt_id,
      pd_attempt_number = attempt_number, pd_channel_account_id = ob_account_id row,
      pd_provider_id = ob_provider row, pd_external_conversation_id = ob_destination row,
      pd_external_thread_id = ob_thread row, pd_text = ob_payload row,
      pd_payload_sha256 = ob_payload_sha256 row, pd_dispatch_material_sha256 = row_material env row,
      pd_part_ordinal = ob_ordinal row, pd_part_count = ob_count row\<rparr>"

definition begin_dispatch ::
  "delivery_env \<Rightarrow> RuntimeInstanceId \<Rightarrow> OutboundDeliveryAttemptId \<Rightarrow> UtcTimestamp \<Rightarrow> delivery_row \<Rightarrow>
     delivery_store \<Rightarrow> DeliveryStoreErrorKind + delivery_store \<times> DeliveryClaim" where
  "begin_dispatch env runtime attempt_id now row s =
     (let attempt_number = ob_attempts row + 1 in
      if attempt_number > 65535 then Inl DeliveryStoreErrorKind.Inconsistent
      else
        and_then (changed_one (update_deliveries
            (\<lambda>r. ob_id r = ob_id row \<and> ob_state r = ob_state row \<and> ob_attempts r = ob_attempts row)
            (dispatch_row runtime now attempt_number) s)) (\<lambda>s1.
        and_then (map_err map_sqlite (execute (s1\<lparr>ds_attempts :=
            ds_attempts s1 @ [open_attempt env runtime attempt_id now attempt_number row]\<rparr>))) (\<lambda>s2.
        Inr (s2, Dispatch (prepared env attempt_id attempt_number row)))))"

definition claim ::
  "delivery_env \<Rightarrow> RuntimeInstanceId \<Rightarrow> OutboundDeliveryAttemptId \<Rightarrow> UtcTimestamp \<Rightarrow>
     delivery_store \<Rightarrow> DeliveryStoreErrorKind + delivery_store \<times> DeliveryClaim" where
  "claim env runtime attempt_id now s =
     (case select_due s now of
        None \<Rightarrow> Inr (s, NoneDue)
      | Some row \<Rightarrow>
          if de_hash_bytes env (ob_payload row) \<noteq> ob_payload_sha256 row
          then Inl DeliveryStoreErrorKind.Inconsistent
          else if attempt_statistics (attempts_of s (ob_id row)) \<noteq>
                  (ob_attempts row,
                   if ob_attempts row \<noteq> 0 then Some (ob_attempts row) else None, 0)
          then Inl DeliveryStoreErrorKind.Inconsistent
          else
            (case ds_routes s (ob_binding_id row) of
               None \<Rightarrow> Inl DeliveryStoreErrorKind.Inconsistent
             | Some (_, route) \<Rightarrow>
                 if \<not> route_matches route row then Inl DeliveryStoreErrorKind.Inconsistent
                 else
                   (case predispatch_failure route row now of
                      Some failure \<Rightarrow>
                        map_ok (\<lambda>(s', _). (s', StateAdvanced))
                          (mark_permanent_before_dispatch row failure now s)
                    | None \<Rightarrow> begin_dispatch env runtime attempt_id now row s)))"

section \<open>Retry timing\<close>

definition duration_ms :: "nat \<Rightarrow> DeliveryStoreErrorKind + int" where
  "duration_ms duration =
     (let rounded_up = int ((duration + 999999) div 1000000) in
      if rounded_up > i64_max then Inl DeliveryStoreErrorKind.Invalid else Inr rounded_up)"

definition retry_timing ::
  "nat \<Rightarrow> nat option \<Rightarrow> DeliveryStoreErrorKind + int option \<times> int \<times> nat" where
  "retry_timing local provider =
     and_then (duration_ms (max local (10 ^ 9))) (\<lambda>local_ms.
     and_then (case provider of None \<Rightarrow> Inr None | Some d \<Rightarrow> map_ok Some (duration_ms d)) (\<lambda>provider_ms.
     let selected_ms = (case provider_ms of None \<Rightarrow> local_ms | Some value \<Rightarrow> max value local_ms) in
     if selected_ms < 0 then Inl DeliveryStoreErrorKind.Invalid
     else Inr (provider_ms, selected_ms, nat selected_ms * 1000000)))"

definition add_duration ::
  "delivery_env \<Rightarrow> UtcTimestamp \<Rightarrow> nat \<Rightarrow> DeliveryStoreErrorKind + UtcTimestamp" where
  "add_duration env timestamp duration =
     (if int duration > i64_max then Inl DeliveryStoreErrorKind.Invalid
      else ok_or (de_checked_add env timestamp (int duration)) DeliveryStoreErrorKind.Invalid)"

text \<open>
  The worker's exponential backoff in milliseconds; \<open>sample_inclusive\<close> is the jitter source. The
  exponent is at most 31, so the shift never overflows.
\<close>

definition backoff :: "(nat \<Rightarrow> nat) \<Rightarrow> nat \<Rightarrow> nat" where
  "backoff sample_inclusive attempt_number =
     (let exponent = min (attempt_number - 1) 31;
          ceiling_seconds = min (2 ^ exponent) (5 * 60);
          ceiling_millis = ceiling_seconds * 1000 in
      max (sample_inclusive ceiling_millis) 1000)"

section \<open>Persisting a dispatch result\<close>

record PersistDispatchResultRequest =
  pr_dispatch :: PreparedChannelDispatch
  pr_runtime :: RuntimeInstanceId
  pr_result :: ChannelDispatchResult
  pr_local_retry_delay :: "nat option"
  pr_completed_at :: UtcTimestamp

datatype PersistDispatchResultDisposition = Applied | Idempotent

definition result_class_allowed :: "ChannelDispatchResult \<Rightarrow> bool" where
  "result_class_allowed result \<longleftrightarrow>
     (case result of
        DispatchRetryableFailure failure _ \<Rightarrow>
          df_class failure = DeliveryFailureClass.ProviderRetryable
      | DispatchPermanentFailure failure \<Rightarrow>
          df_class failure \<notin> {DeliveryFailureClass.ProviderRetryable,
                               DeliveryFailureClass.ProviderOutcomeUnknown,
                               DeliveryFailureClass.StaleDispatch,
                               DeliveryFailureClass.ShutdownInterrupted}
      | DispatchOutcomeUnknown failure \<Rightarrow>
          df_class failure = DeliveryFailureClass.ProviderOutcomeUnknown
      | DispatchAccepted _ \<Rightarrow> True)"

fun result_evidence ::
  "ChannelDispatchResult \<Rightarrow> DeliveryAttemptResultKind \<times> DeliveryFailure option \<times> string option" where
  "result_evidence (DispatchAccepted message_id) =
     (DeliveryAttemptResultKind.Accepted, None, message_id)"
| "result_evidence (DispatchRetryableFailure failure _) =
     (DeliveryAttemptResultKind.RetryableFailure, Some failure, None)"
| "result_evidence (DispatchPermanentFailure failure) =
     (DeliveryAttemptResultKind.PermanentFailure, Some failure, None)"
| "result_evidence (DispatchOutcomeUnknown failure) =
     (DeliveryAttemptResultKind.OutcomeUnknown, Some failure, None)"

definition dispatch_is_canonical :: "delivery_env \<Rightarrow> PreparedChannelDispatch \<Rightarrow> bool" where
  "dispatch_is_canonical env d \<longleftrightarrow>
     de_hash_bytes env (pd_text d) = pd_payload_sha256 d \<and>
     dispatch_material_sha256_v1 env (pd_channel_account_id d) (pd_provider_id d)
       (pd_external_conversation_id d) (pd_external_thread_id d) (pd_payload_sha256 d)
       (pd_part_ordinal d) (pd_part_count d) = pd_dispatch_material_sha256 d"

text \<open>The delays and the scheduled time a retryable result gives a row.\<close>

definition retry_schedule ::
  "delivery_env \<Rightarrow> delivery_row \<Rightarrow> UtcTimestamp \<Rightarrow> nat option \<Rightarrow> nat option \<Rightarrow>
     DeliveryStoreErrorKind + int option \<times> int \<times> UtcTimestamp" where
  "retry_schedule env row completed_at local_retry_delay retry_after =
     and_then (ok_or local_retry_delay DeliveryStoreErrorKind.Invalid) (\<lambda>local.
     and_then (retry_timing local retry_after) (\<lambda>(provider_delay, selected_delay, selected).
     and_then (add_duration env completed_at selected) (\<lambda>next.
     Inr (provider_delay, selected_delay, next))))"

definition timing_exact ::
  "delivery_env \<Rightarrow> PersistDispatchResultRequest \<Rightarrow> delivery_row \<Rightarrow> attempt_row \<Rightarrow>
     DeliveryStoreErrorKind + bool" where
  "timing_exact env request row attempt =
     (case pr_result request of
        DispatchRetryableFailure _ retry_after \<Rightarrow>
          and_then (retry_schedule env row (pr_completed_at request) (pr_local_retry_delay request)
              retry_after) (\<lambda>(provider_delay, selected_delay, next).
          let scheduled =
                (if ob_attempts row < 8 \<and> next < ob_deadline row then Some next else None) in
          Inr (at_provider_retry_after_ms attempt = provider_delay \<and>
               at_selected_retry_delay_ms attempt = Some selected_delay \<and>
               at_scheduled_next attempt = scheduled))
      | _ \<Rightarrow>
          Inr (at_provider_retry_after_ms attempt = None \<and>
               at_selected_retry_delay_ms attempt = None \<and> at_scheduled_next attempt = None))"

definition replay_result ::
  "delivery_env \<Rightarrow> PersistDispatchResultRequest \<Rightarrow> delivery_row \<Rightarrow> attempt_row \<Rightarrow>
     DeliveryStoreErrorKind + PersistDispatchResultDisposition" where
  "replay_result env request row attempt =
     (let (result_kind, failure, accepted_id) = result_evidence (pr_result request) in
      and_then (timing_exact env request row attempt) (\<lambda>timing.
      let exact =
            at_result_kind attempt = Some result_kind \<and>
            at_failure_class attempt = map_option df_class failure \<and>
            at_failure_code attempt = Option.bind failure df_code \<and>
            at_accepted_message attempt = accepted_id \<and>
            at_completed_at attempt = Some (pr_completed_at request) \<and> timing in
      if delivery_is_terminal (ob_state row) \<and> exact then Inr Idempotent
      else Inl DeliveryStoreErrorKind.StateConflict))"

definition dispatch_matches ::
  "PersistDispatchResultRequest \<Rightarrow> delivery_row \<Rightarrow> attempt_row \<Rightarrow> bool" where
  "dispatch_matches request row attempt \<longleftrightarrow>
     (let d = pr_dispatch request in
      ob_owner row = Some (pr_runtime request) \<and> at_runtime attempt = pr_runtime request \<and>
      at_completed_at attempt = None \<and> at_material attempt = pd_dispatch_material_sha256 d \<and>
      ob_attempts row = pd_attempt_number d \<and> ob_account_id row = pd_channel_account_id d \<and>
      ob_provider row = pd_provider_id d \<and> ob_destination row = pd_external_conversation_id d \<and>
      ob_thread row = pd_external_thread_id d \<and> ob_payload row = pd_text d \<and>
      ob_ordinal row = pd_part_ordinal d \<and> ob_count row = pd_part_count d)"

text \<open>
  What a result does to the row: the delays and schedule recorded on the attempt, then the row's
  state, failure and acceptance time.
\<close>

record result_outcome =
  ro_provider_ms :: "int option"
  ro_selected_ms :: "int option"
  ro_scheduled :: "UtcTimestamp option"
  ro_state :: OutboundDeliveryState
  ro_failure :: "DeliveryFailureClass option"
  ro_accepted_at :: "UtcTimestamp option"

definition settled ::
  "OutboundDeliveryState \<Rightarrow> DeliveryFailureClass option \<Rightarrow> UtcTimestamp option \<Rightarrow> result_outcome" where
  "settled state failure accepted_at =
     \<lparr>ro_provider_ms = None, ro_selected_ms = None, ro_scheduled = None, ro_state = state,
      ro_failure = failure, ro_accepted_at = accepted_at\<rparr>"

definition result_outcome ::
  "delivery_env \<Rightarrow> PersistDispatchResultRequest \<Rightarrow> delivery_row \<Rightarrow>
     DeliveryStoreErrorKind + result_outcome" where
  "result_outcome env request row =
     (case pr_result request of
        DispatchAccepted _ \<Rightarrow>
          Inr (settled OutboundDeliveryState.Accepted None (Some (pr_completed_at request)))
      | DispatchRetryableFailure failure retry_after \<Rightarrow>
          if df_class failure \<noteq> DeliveryFailureClass.ProviderRetryable
          then Inl DeliveryStoreErrorKind.Invalid
          else
            and_then (retry_schedule env row (pr_completed_at request)
                (pr_local_retry_delay request) retry_after) (\<lambda>(provider_delay, selected_delay, next).
            let out = \<lparr>ro_provider_ms = provider_delay, ro_selected_ms = Some selected_delay,
                       ro_scheduled = None, ro_state = OutboundDeliveryState.PermanentFailure,
                       ro_failure = None, ro_accepted_at = None\<rparr> in
            Inr (if ob_attempts row \<ge> 8
                 then out\<lparr>ro_failure := Some DeliveryFailureClass.RetryExhausted\<rparr>
                 else if next \<ge> ob_deadline row
                 then out\<lparr>ro_failure := Some DeliveryFailureClass.DeliveryDeadlineExceeded\<rparr>
                 else out\<lparr>ro_scheduled := Some next,
                           ro_state := OutboundDeliveryState.RetryWait\<rparr>))
      | DispatchPermanentFailure failure \<Rightarrow>
          Inr (settled OutboundDeliveryState.PermanentFailure (Some (df_class failure)) None)
      | DispatchOutcomeUnknown failure \<Rightarrow>
          Inr (settled OutboundDeliveryState.OutcomeUnknown (Some (df_class failure)) None))"

definition complete_attempt ::
  "PersistDispatchResultRequest \<Rightarrow> result_outcome \<Rightarrow> attempt_row \<Rightarrow> attempt_row" where
  "complete_attempt request out a =
     (let (result_kind, failure, accepted_id) = result_evidence (pr_result request) in
      a\<lparr>at_completed_at := Some (pr_completed_at request), at_result_kind := Some result_kind,
        at_failure_class := map_option df_class failure,
        at_failure_code := Option.bind failure df_code,
        at_provider_retry_after_ms := ro_provider_ms out,
        at_selected_retry_delay_ms := ro_selected_ms out,
        at_scheduled_next := ro_scheduled out, at_accepted_message := accepted_id\<rparr>)"

definition settle_row ::
  "PersistDispatchResultRequest \<Rightarrow> result_outcome \<Rightarrow> delivery_row \<Rightarrow> delivery_row" where
  "settle_row request out r =
     (let (_, failure, accepted_id) = result_evidence (pr_result request) in
      r\<lparr>ob_state := ro_state out, ob_owner := None, ob_next_attempt_at := ro_scheduled out,
        ob_accepted_message := accepted_id, ob_failure_class := ro_failure out,
        ob_failure_code :=
          (if ro_failure out = map_option df_class failure then Option.bind failure df_code
           else None),
        ob_updated_at := pr_completed_at request, ob_accepted_at := ro_accepted_at out,
        ob_terminal_at := (if delivery_is_terminal (ro_state out) then Some (pr_completed_at request)
                           else None)\<rparr>)"

definition cascade_result ::
  "OutboundDeliveryState \<Rightarrow> delivery_row \<Rightarrow> UtcTimestamp \<Rightarrow> delivery_store \<Rightarrow>
     DeliveryStoreErrorKind + delivery_store" where
  "cascade_result state row now s =
     (case state of
        OutboundDeliveryState.PermanentFailure \<Rightarrow>
          map_ok fst (cascade_later row DeliveryFailureClass.PriorPartPermanentFailure now s)
      | OutboundDeliveryState.OutcomeUnknown \<Rightarrow>
          map_ok fst (cascade_later row DeliveryFailureClass.PriorPartOutcomeUnknown now s)
      | _ \<Rightarrow> Inr s)"

definition apply_result ::
  "delivery_env \<Rightarrow> PersistDispatchResultRequest \<Rightarrow> delivery_row \<Rightarrow> delivery_store \<Rightarrow>
     DeliveryStoreErrorKind + delivery_store" where
  "apply_result env request row s =
     and_then (result_outcome env request row) (\<lambda>out.
     and_then (changed_one (update_attempts
         (\<lambda>a. at_id a = pd_attempt_id (pr_dispatch request) \<and> at_completed_at a = None)
         (complete_attempt request out) s)) (\<lambda>s1.
     and_then (changed_one (update_deliveries
         (\<lambda>r. ob_id r = pd_outbound_delivery_id (pr_dispatch request) \<and>
              ob_state r = OutboundDeliveryState.Dispatching \<and>
              ob_owner r = Some (pr_runtime request) \<and>
              ob_attempts r = pd_attempt_number (pr_dispatch request))
         (settle_row request out) s1)) (\<lambda>s2.
     cascade_result (ro_state out) row (pr_completed_at request) s2)))"

definition persist_result ::
  "delivery_env \<Rightarrow> PersistDispatchResultRequest \<Rightarrow> delivery_store \<Rightarrow>
     DeliveryStoreErrorKind + delivery_store \<times> PersistDispatchResultDisposition" where
  "persist_result env request s =
     (let d = pr_dispatch request in
      if \<not> result_class_allowed (pr_result request) then Inl DeliveryStoreErrorKind.Invalid
      else if \<not> dispatch_is_canonical env d then Inl DeliveryStoreErrorKind.Invalid
      else
        and_then (ok_or (find (\<lambda>r. ob_id r = pd_outbound_delivery_id d) (ds_deliveries s))
            DeliveryStoreErrorKind.StateConflict) (\<lambda>row.
        and_then (ok_or (find (\<lambda>a. at_id a = pd_attempt_id d \<and>
                                   at_delivery a = pd_outbound_delivery_id d \<and>
                                   at_number a = pd_attempt_number d) (ds_attempts s))
            DeliveryStoreErrorKind.StateConflict) (\<lambda>attempt.
        if attempt_statistics (attempts_of s (pd_outbound_delivery_id d)) \<noteq>
           (ob_attempts row, Some (ob_attempts row),
            if ob_state row = OutboundDeliveryState.Dispatching then 1 else 0)
        then Inl DeliveryStoreErrorKind.Inconsistent
        else if ob_state row \<noteq> OutboundDeliveryState.Dispatching
        then map_ok (\<lambda>disposition. (s, disposition)) (replay_result env request row attempt)
        else if \<not> dispatch_matches request row attempt
        then Inl DeliveryStoreErrorKind.StateConflict
        else
          map_ok (\<lambda>s'. (s', PersistDispatchResultDisposition.Applied))
            (apply_result env request row s))))"

section \<open>Interrupted dispatches\<close>

record DeliveryRecoveryReceipt =
  rr_dispatches_marked_unknown :: nat
  rr_later_parts_blocked :: nat

definition recovered_attempt :: "UtcTimestamp \<Rightarrow> DeliveryFailureClass \<Rightarrow> attempt_row \<Rightarrow> attempt_row" where
  "recovered_attempt now failure a =
     a\<lparr>at_completed_at := Some now,
       at_result_kind := Some DeliveryAttemptResultKind.OutcomeUnknown,
       at_failure_class := Some failure, at_failure_code := None\<rparr>"

definition recovered_row :: "UtcTimestamp \<Rightarrow> DeliveryFailureClass \<Rightarrow> delivery_row \<Rightarrow> delivery_row" where
  "recovered_row now failure r =
     r\<lparr>ob_state := OutboundDeliveryState.OutcomeUnknown, ob_owner := None,
       ob_failure_class := Some failure, ob_failure_code := None, ob_updated_at := now,
       ob_terminal_at := Some now\<rparr>"

definition recover_one ::
  "UtcTimestamp \<Rightarrow> DeliveryFailureClass \<Rightarrow> delivery_store \<times> DeliveryRecoveryReceipt \<Rightarrow>
     delivery_row \<Rightarrow> DeliveryStoreErrorKind + delivery_store \<times> DeliveryRecoveryReceipt" where
  "recover_one now failure = (\<lambda>(s, receipt) row.
     and_then (ok_or (ob_owner row) DeliveryStoreErrorKind.Inconsistent) (\<lambda>owner.
     (case filter (\<lambda>a. at_delivery a = ob_id row \<and> at_number a = ob_attempts row \<and>
                       at_runtime a = owner \<and> at_completed_at a = None) (ds_attempts s) of
        [attempt] \<Rightarrow>
          and_then (changed_one (update_attempts
              (\<lambda>a. at_id a = at_id attempt \<and> at_completed_at a = None)
              (recovered_attempt now failure) s)) (\<lambda>s1.
          and_then (changed_one (update_deliveries
              (\<lambda>r. ob_id r = ob_id row \<and> ob_state r = OutboundDeliveryState.Dispatching)
              (recovered_row now failure) s1)) (\<lambda>s2.
          map_ok (\<lambda>(s3, blocked).
              (s3, \<lparr>rr_dispatches_marked_unknown = rr_dispatches_marked_unknown receipt + 1,
                    rr_later_parts_blocked = rr_later_parts_blocked receipt + blocked\<rparr>))
            (cascade_later row DeliveryFailureClass.PriorPartOutcomeUnknown now s2)))
      | _ \<Rightarrow> Inl DeliveryStoreErrorKind.Inconsistent)))"

definition recover_matching ::
  "RuntimeInstanceId option \<Rightarrow> UtcTimestamp \<Rightarrow> DeliveryFailureClass \<Rightarrow> delivery_store \<Rightarrow>
     DeliveryStoreErrorKind + delivery_store \<times> DeliveryRecoveryReceipt" where
  "recover_matching runtime now failure s =
     fold_result (recover_one now failure)
       (s, \<lparr>rr_dispatches_marked_unknown = 0, rr_later_parts_blocked = 0\<rparr>)
       (sort_key (\<lambda>r. (ob_created_at r, delivery_id_value (ob_id r)))
         (filter (\<lambda>r. ob_state r = OutboundDeliveryState.Dispatching \<and>
                      (case runtime of None \<Rightarrow> True | Some i \<Rightarrow> ob_owner r = Some i))
           (ds_deliveries s)))"

definition recover_stale_deliveries ::
  "UtcTimestamp \<Rightarrow> delivery_store \<Rightarrow> DeliveryStoreErrorKind + delivery_store \<times> DeliveryRecoveryReceipt"
where
  "recover_stale_deliveries recovered_at =
     recover_matching None recovered_at DeliveryFailureClass.StaleDispatch"

definition interrupt_owned_delivery ::
  "RuntimeInstanceId \<Rightarrow> UtcTimestamp \<Rightarrow> delivery_store \<Rightarrow>
     DeliveryStoreErrorKind + delivery_store \<times> DeliveryRecoveryReceipt" where
  "interrupt_owned_delivery runtime interrupted_at =
     recover_matching (Some runtime) interrupted_at DeliveryFailureClass.ShutdownInterrupted"

end
