(* ===== verification/Delivery_Reconcile.thy ===== *)
theory Delivery_Reconcile
  imports Delivery_Dispatch
begin

text \<open>
  The consistency verifier of adapters/sqlite/delivery.rs: the reconciliation of a delivery row with
  its attempt history, and that every row update of the dispatch transactions keeps a row and its
  history reconciled. The verifier is the code's own specification of the two tables.
\<close>

section \<open>The verifier\<close>

abbreviation consistency_error :: "SqliteFailureKind + 'a" where
  "consistency_error \<equiv> Inl SqliteFailureKind.InconsistentSchema"

definition retry_schedule_is_canonical ::
  "delivery_env \<Rightarrow> attempt_row \<Rightarrow> SqliteFailureKind + bool" where
  "retry_schedule_is_canonical env a =
     (case at_selected_retry_delay_ms a of
        None \<Rightarrow> Inr False
      | Some selected_ms \<Rightarrow>
          if selected_ms < 1000 \<or>
             (case at_provider_retry_after_ms a of
                None \<Rightarrow> False | Some provider_ms \<Rightarrow> provider_ms < 0 \<or> provider_ms > selected_ms)
          then Inr False
          else
            and_then (ok_or (at_completed_at a) SqliteFailureKind.InconsistentSchema) (\<lambda>completed.
            and_then (map_err (\<lambda>_. SqliteFailureKind.InconsistentSchema)
                (add_duration env completed (nat selected_ms * 1000000))) (\<lambda>expected.
            Inr (case at_scheduled_next a of None \<Rightarrow> True | Some scheduled \<Rightarrow> scheduled = expected))))"

definition is_zero_attempt_permanent_failure :: "DeliveryFailureClass \<Rightarrow> bool" where
  "is_zero_attempt_permanent_failure failure \<longleftrightarrow>
     failure \<in> {DeliveryFailureClass.BindingRevoked, DeliveryFailureClass.ChannelAccountDisabled,
                DeliveryFailureClass.UnsupportedPayload, DeliveryFailureClass.ProfileUnavailable,
                DeliveryFailureClass.PayloadTooLarge,
                DeliveryFailureClass.PriorPartPermanentFailure,
                DeliveryFailureClass.PriorPartOutcomeUnknown,
                DeliveryFailureClass.DeliveryDeadlineExceeded}"

definition is_predispatch_permanent_failure :: "DeliveryFailureClass \<Rightarrow> bool" where
  "is_predispatch_permanent_failure failure \<longleftrightarrow>
     failure \<in> {DeliveryFailureClass.BindingRevoked, DeliveryFailureClass.ChannelAccountDisabled,
                DeliveryFailureClass.PriorPartPermanentFailure,
                DeliveryFailureClass.PriorPartOutcomeUnknown,
                DeliveryFailureClass.DeliveryDeadlineExceeded}"

definition attempt_header_ok :: "delivery_env \<Rightarrow> delivery_row \<Rightarrow> nat \<Rightarrow> attempt_row \<Rightarrow> bool" where
  "attempt_header_ok env delivery expected_number a \<longleftrightarrow>
     at_number a = expected_number \<and>
     at_prior_state a = (if expected_number = 1 then OutboundDeliveryState.Queued
                         else OutboundDeliveryState.RetryWait) \<and>
     at_material_version a = 1 \<and> at_material a = row_material env delivery \<and>
     \<not> at_started_at a < ob_created_at delivery \<and>
     (case at_completed_at a of None \<Rightarrow> True | Some completed \<Rightarrow> \<not> completed < at_started_at a)"

text \<open>The match on completion and result kind; the value says whether the attempt is open.\<close>

definition attempt_result_ok :: "delivery_env \<Rightarrow> attempt_row \<Rightarrow> SqliteFailureKind + nat" where
  "attempt_result_ok env a =
     (case (at_completed_at a, at_result_kind a) of
        (None, None) \<Rightarrow>
          if at_failure_class a \<noteq> None \<or> at_failure_code a \<noteq> None \<or>
             at_provider_retry_after_ms a \<noteq> None \<or> at_selected_retry_delay_ms a \<noteq> None \<or>
             at_scheduled_next a \<noteq> None \<or> at_accepted_message a \<noteq> None
          then consistency_error else Inr 1
      | (Some _, Some DeliveryAttemptResultKind.Accepted) \<Rightarrow>
          if at_failure_class a \<noteq> None \<or> at_failure_code a \<noteq> None \<or>
             at_provider_retry_after_ms a \<noteq> None \<or> at_selected_retry_delay_ms a \<noteq> None \<or>
             at_scheduled_next a \<noteq> None
          then consistency_error else Inr 0
      | (Some _, Some DeliveryAttemptResultKind.RetryableFailure) \<Rightarrow>
          if at_failure_class a \<noteq> Some DeliveryFailureClass.ProviderRetryable \<or>
             at_accepted_message a \<noteq> None
          then consistency_error
          else and_then (retry_schedule_is_canonical env a) (\<lambda>canonical.
            if \<not> canonical then consistency_error else Inr 0)
      | (Some _, Some DeliveryAttemptResultKind.PermanentFailure) \<Rightarrow>
          if at_failure_class a = None \<or>
             at_failure_class a \<in> {Some DeliveryFailureClass.ProviderRetryable,
                                   Some DeliveryFailureClass.ProviderOutcomeUnknown,
                                   Some DeliveryFailureClass.StaleDispatch,
                                   Some DeliveryFailureClass.ShutdownInterrupted} \<or>
             at_provider_retry_after_ms a \<noteq> None \<or> at_selected_retry_delay_ms a \<noteq> None \<or>
             at_scheduled_next a \<noteq> None \<or> at_accepted_message a \<noteq> None
          then consistency_error else Inr 0
      | (Some _, Some DeliveryAttemptResultKind.OutcomeUnknown) \<Rightarrow>
          if at_failure_class a \<notin> {Some DeliveryFailureClass.ProviderOutcomeUnknown,
                                   Some DeliveryFailureClass.StaleDispatch,
                                   Some DeliveryFailureClass.ShutdownInterrupted} \<or>
             at_provider_retry_after_ms a \<noteq> None \<or> at_selected_retry_delay_ms a \<noteq> None \<or>
             at_scheduled_next a \<noteq> None \<or> at_accepted_message a \<noteq> None
          then consistency_error else Inr 0
      | _ \<Rightarrow> consistency_error)"

definition attempt_follows :: "attempt_row \<Rightarrow> attempt_row \<Rightarrow> bool" where
  "attempt_follows a next \<longleftrightarrow>
     at_result_kind a = Some DeliveryAttemptResultKind.RetryableFailure \<and>
     at_failure_class a = Some DeliveryFailureClass.ProviderRetryable \<and>
     (case at_scheduled_next a of None \<Rightarrow> False
      | Some scheduled \<Rightarrow> \<not> at_started_at next < scheduled)"

fun verify_attempts ::
  "delivery_env \<Rightarrow> delivery_row \<Rightarrow> nat \<Rightarrow> nat \<Rightarrow> attempt_row list \<Rightarrow> SqliteFailureKind + nat" where
  "verify_attempts env delivery expected_number open_attempts [] = Inr open_attempts"
| "verify_attempts env delivery expected_number open_attempts (a # rest) =
     (if \<not> attempt_header_ok env delivery expected_number a then consistency_error
      else
        and_then (attempt_result_ok env a) (\<lambda>k.
        if (case rest of [] \<Rightarrow> False | next # _ \<Rightarrow> \<not> attempt_follows a next) then consistency_error
        else verify_attempts env delivery (expected_number + 1) (open_attempts + k) rest))"

definition verify_ownership ::
  "delivery_row \<Rightarrow> nat \<Rightarrow> attempt_row option \<Rightarrow> bool" where
  "verify_ownership delivery open_attempts latest \<longleftrightarrow>
     (if ob_state delivery = OutboundDeliveryState.Dispatching
      then
        (case latest of None \<Rightarrow> False
         | Some l \<Rightarrow>
             open_attempts = 1 \<and> at_completed_at l = None \<and> at_number l = ob_attempts delivery \<and>
             ob_owner delivery = Some (at_runtime l) \<and> ob_updated_at delivery = at_started_at l)
      else open_attempts = 0 \<and> ob_owner delivery = None)"

definition verify_permanent_failure ::
  "delivery_row \<Rightarrow> attempt_row option \<Rightarrow> DeliveryFailureClass \<Rightarrow> bool" where
  "verify_permanent_failure delivery latest failure \<longleftrightarrow>
     (case latest of
        None \<Rightarrow> is_zero_attempt_permanent_failure failure \<and> ob_failure_code delivery = None
      | Some l \<Rightarrow>
          if at_result_kind l = Some DeliveryAttemptResultKind.PermanentFailure
          then at_failure_class l = Some failure \<and>
               at_failure_code l = ob_failure_code delivery \<and>
               at_completed_at l = ob_terminal_at delivery
          else if at_result_kind l = Some DeliveryAttemptResultKind.RetryableFailure
          then (if at_scheduled_next l = None
                then failure \<in> {DeliveryFailureClass.RetryExhausted,
                                DeliveryFailureClass.DeliveryDeadlineExceeded} \<and>
                     at_completed_at l = ob_terminal_at delivery
                else is_predispatch_permanent_failure failure \<and>
                     (case at_completed_at l of None \<Rightarrow> False
                      | Some completed \<Rightarrow> completed \<le> ob_updated_at delivery)) \<and>
               ob_failure_code delivery = None
          else False)"

definition verify_state :: "delivery_row \<Rightarrow> attempt_row list \<Rightarrow> attempt_row option \<Rightarrow> bool" where
  "verify_state delivery attempts latest \<longleftrightarrow>
     (case ob_state delivery of
        OutboundDeliveryState.Queued \<Rightarrow>
          attempts = [] \<and> ob_next_attempt_at delivery = Some (ob_created_at delivery) \<and>
          ob_updated_at delivery = ob_created_at delivery
      | OutboundDeliveryState.Dispatching \<Rightarrow> True
      | OutboundDeliveryState.RetryWait \<Rightarrow>
          (case latest of None \<Rightarrow> False
           | Some l \<Rightarrow>
               at_result_kind l = Some DeliveryAttemptResultKind.RetryableFailure \<and>
               at_failure_class l = Some DeliveryFailureClass.ProviderRetryable \<and>
               at_scheduled_next l \<noteq> None \<and> at_scheduled_next l = ob_next_attempt_at delivery \<and>
               at_completed_at l = Some (ob_updated_at delivery))
      | OutboundDeliveryState.Accepted \<Rightarrow>
          (case latest of None \<Rightarrow> False
           | Some l \<Rightarrow>
               at_result_kind l = Some DeliveryAttemptResultKind.Accepted \<and>
               at_accepted_message l = ob_accepted_message delivery \<and>
               at_completed_at l = Some (ob_updated_at delivery) \<and>
               ob_accepted_at delivery = at_completed_at l \<and>
               ob_terminal_at delivery = at_completed_at l)
      | OutboundDeliveryState.PermanentFailure \<Rightarrow>
          (case ob_failure_class delivery of None \<Rightarrow> False
           | Some failure \<Rightarrow>
               ob_terminal_at delivery = Some (ob_updated_at delivery) \<and>
               verify_permanent_failure delivery latest failure)
      | OutboundDeliveryState.OutcomeUnknown \<Rightarrow>
          (case latest of None \<Rightarrow> False
           | Some l \<Rightarrow>
               at_result_kind l = Some DeliveryAttemptResultKind.OutcomeUnknown \<and>
               at_failure_class l = ob_failure_class delivery \<and>
               at_failure_code l = ob_failure_code delivery \<and>
               at_completed_at l = Some (ob_updated_at delivery) \<and>
               ob_terminal_at delivery = at_completed_at l))"

definition verify_delivery_attempt_reconciliation ::
  "delivery_env \<Rightarrow> delivery_row \<Rightarrow> attempt_row list \<Rightarrow> SqliteFailureKind + unit" where
  "verify_delivery_attempt_reconciliation env delivery attempts =
     (if length attempts \<noteq> ob_attempts delivery then consistency_error
      else
        and_then (verify_attempts env delivery 1 0 attempts) (\<lambda>open_attempts.
        let latest = (if attempts = [] then None else Some (last attempts)) in
        if \<not> verify_ownership delivery open_attempts latest then consistency_error
        else if \<not> verify_state delivery attempts latest then consistency_error
        else Inr ()))"

abbreviation reconciled :: "delivery_env \<Rightarrow> delivery_row \<Rightarrow> attempt_row list \<Rightarrow> bool" where
  "reconciled env row attempts \<equiv>
     verify_delivery_attempt_reconciliation env row attempts = Inr ()"

section \<open>What the updates keep\<close>

text \<open>The columns no transaction writes after insertion.\<close>

lemma row_identity [simp]:
  "ob_id (dispatch_row rt now m r) = ob_id r"
  "ob_craxii_id (dispatch_row rt now m r) = ob_craxii_id r"
  "ob_binding_id (dispatch_row rt now m r) = ob_binding_id r"
  "ob_account_id (dispatch_row rt now m r) = ob_account_id r"
  "ob_provider (dispatch_row rt now m r) = ob_provider r"
  "ob_destination (dispatch_row rt now m r) = ob_destination r"
  "ob_thread (dispatch_row rt now m r) = ob_thread r"
  "ob_source (dispatch_row rt now m r) = ob_source r"
  "ob_payload (dispatch_row rt now m r) = ob_payload r"
  "ob_payload_sha256 (dispatch_row rt now m r) = ob_payload_sha256 r"
  "ob_ordinal (dispatch_row rt now m r) = ob_ordinal r"
  "ob_count (dispatch_row rt now m r) = ob_count r"
  "ob_deadline (dispatch_row rt now m r) = ob_deadline r"
  "ob_created_at (dispatch_row rt now m r) = ob_created_at r"
  "ob_id (fail_row f now r) = ob_id r"
  "ob_craxii_id (fail_row f now r) = ob_craxii_id r"
  "ob_binding_id (fail_row f now r) = ob_binding_id r"
  "ob_account_id (fail_row f now r) = ob_account_id r"
  "ob_provider (fail_row f now r) = ob_provider r"
  "ob_destination (fail_row f now r) = ob_destination r"
  "ob_thread (fail_row f now r) = ob_thread r"
  "ob_source (fail_row f now r) = ob_source r"
  "ob_payload (fail_row f now r) = ob_payload r"
  "ob_payload_sha256 (fail_row f now r) = ob_payload_sha256 r"
  "ob_ordinal (fail_row f now r) = ob_ordinal r"
  "ob_count (fail_row f now r) = ob_count r"
  "ob_deadline (fail_row f now r) = ob_deadline r"
  "ob_created_at (fail_row f now r) = ob_created_at r"
  "ob_id (block_row f now r) = ob_id r"
  "ob_craxii_id (block_row f now r) = ob_craxii_id r"
  "ob_binding_id (block_row f now r) = ob_binding_id r"
  "ob_account_id (block_row f now r) = ob_account_id r"
  "ob_provider (block_row f now r) = ob_provider r"
  "ob_destination (block_row f now r) = ob_destination r"
  "ob_thread (block_row f now r) = ob_thread r"
  "ob_source (block_row f now r) = ob_source r"
  "ob_payload (block_row f now r) = ob_payload r"
  "ob_payload_sha256 (block_row f now r) = ob_payload_sha256 r"
  "ob_ordinal (block_row f now r) = ob_ordinal r"
  "ob_count (block_row f now r) = ob_count r"
  "ob_deadline (block_row f now r) = ob_deadline r"
  "ob_created_at (block_row f now r) = ob_created_at r"
  "ob_id (settle_row req out r) = ob_id r"
  "ob_craxii_id (settle_row req out r) = ob_craxii_id r"
  "ob_binding_id (settle_row req out r) = ob_binding_id r"
  "ob_account_id (settle_row req out r) = ob_account_id r"
  "ob_provider (settle_row req out r) = ob_provider r"
  "ob_destination (settle_row req out r) = ob_destination r"
  "ob_thread (settle_row req out r) = ob_thread r"
  "ob_source (settle_row req out r) = ob_source r"
  "ob_payload (settle_row req out r) = ob_payload r"
  "ob_payload_sha256 (settle_row req out r) = ob_payload_sha256 r"
  "ob_ordinal (settle_row req out r) = ob_ordinal r"
  "ob_count (settle_row req out r) = ob_count r"
  "ob_deadline (settle_row req out r) = ob_deadline r"
  "ob_created_at (settle_row req out r) = ob_created_at r"
  "ob_id (recovered_row now f r) = ob_id r"
  "ob_craxii_id (recovered_row now f r) = ob_craxii_id r"
  "ob_binding_id (recovered_row now f r) = ob_binding_id r"
  "ob_account_id (recovered_row now f r) = ob_account_id r"
  "ob_provider (recovered_row now f r) = ob_provider r"
  "ob_destination (recovered_row now f r) = ob_destination r"
  "ob_thread (recovered_row now f r) = ob_thread r"
  "ob_source (recovered_row now f r) = ob_source r"
  "ob_payload (recovered_row now f r) = ob_payload r"
  "ob_payload_sha256 (recovered_row now f r) = ob_payload_sha256 r"
  "ob_ordinal (recovered_row now f r) = ob_ordinal r"
  "ob_count (recovered_row now f r) = ob_count r"
  "ob_deadline (recovered_row now f r) = ob_deadline r"
  "ob_created_at (recovered_row now f r) = ob_created_at r"
  by (simp_all add: dispatch_row_def fail_row_def block_row_def settle_row_def recovered_row_def Let_def split: prod.splits)

lemma row_attempts [simp]:
  "ob_attempts (fail_row f now r) = ob_attempts r"
  "ob_attempts (block_row f now r) = ob_attempts r"
  "ob_attempts (settle_row req out r) = ob_attempts r"
  "ob_attempts (recovered_row now f r) = ob_attempts r"
  "ob_attempts (dispatch_row rt now m r) = m"
  by (simp_all add: dispatch_row_def fail_row_def block_row_def settle_row_def recovered_row_def Let_def split: prod.splits)

lemma row_state [simp]:
  "ob_state (dispatch_row rt now m r) = OutboundDeliveryState.Dispatching"
  "ob_state (fail_row f now r) = OutboundDeliveryState.PermanentFailure"
  "ob_state (block_row f now r) = OutboundDeliveryState.PermanentFailure"
  "ob_state (settle_row req out r) = ro_state out"
  "ob_state (recovered_row now f r) = OutboundDeliveryState.OutcomeUnknown"
  by (simp_all add: dispatch_row_def fail_row_def block_row_def settle_row_def recovered_row_def Let_def split: prod.splits)

lemma attempt_identity [simp]:
  "at_id (complete_attempt req out a) = at_id a"
  "at_delivery (complete_attempt req out a) = at_delivery a"
  "at_runtime (complete_attempt req out a) = at_runtime a"
  "at_number (complete_attempt req out a) = at_number a"
  "at_prior_state (complete_attempt req out a) = at_prior_state a"
  "at_material_version (complete_attempt req out a) = at_material_version a"
  "at_material (complete_attempt req out a) = at_material a"
  "at_started_at (complete_attempt req out a) = at_started_at a"
  "at_id (recovered_attempt now f a) = at_id a"
  "at_delivery (recovered_attempt now f a) = at_delivery a"
  "at_runtime (recovered_attempt now f a) = at_runtime a"
  "at_number (recovered_attempt now f a) = at_number a"
  "at_prior_state (recovered_attempt now f a) = at_prior_state a"
  "at_material_version (recovered_attempt now f a) = at_material_version a"
  "at_material (recovered_attempt now f a) = at_material a"
  "at_started_at (recovered_attempt now f a) = at_started_at a"
  by (simp_all add: complete_attempt_def recovered_attempt_def Let_def split: prod.splits)

section \<open>Histories\<close>

lemma attempt_result_open:
  "attempt_result_ok env a = Inr k \<Longrightarrow> k = (if at_completed_at a = None then 1 else 0)"
  by (auto simp: attempt_result_ok_def and_then_Inr_iff
      split: option.splits DeliveryAttemptResultKind.splits if_splits)

lemma attempt_follows_started:
  "at_started_at b = at_started_at b' \<Longrightarrow> attempt_follows a b = attempt_follows a b'"
  by (simp add: attempt_follows_def split: option.split)

lemma followed_result:
  "attempt_follows a next \<Longrightarrow> attempt_result_ok env a = Inr k \<Longrightarrow> k = 0"
  by (cases "at_completed_at a") (auto simp: attempt_follows_def attempt_result_ok_def
      and_then_Inr_iff split: if_splits)

text \<open>Only the last attempt of a verified history may be open, so a prefix counts none.\<close>

lemma verify_attempts_step:
  "verify_attempts env r n op (x # y # ys) = Inr k \<longleftrightarrow>
     attempt_header_ok env r n x \<and> attempt_result_ok env x = Inr 0 \<and> attempt_follows x y \<and>
     verify_attempts env r (n + 1) op (y # ys) = Inr k"
  using followed_result [of x y env]
  by (auto simp: and_then_Inr_iff simp del: verify_attempts.simps(2) simp: verify_attempts.simps(2) [of _ _ _ _ x])

lemma verify_attempts_single:
  "verify_attempts env r n op [a] = Inr k \<longleftrightarrow>
     attempt_header_ok env r n a \<and> (\<exists>j. attempt_result_ok env a = Inr j \<and> k = op + j)"
  by (auto simp: and_then_Inr_iff)

lemma verify_attempts_snoc:
  "verify_attempts env r n op (xs @ [a]) = Inr k \<longleftrightarrow>
     verify_attempts env r n op xs = Inr op \<and> (xs \<noteq> [] \<longrightarrow> attempt_follows (last xs) a) \<and>
     attempt_header_ok env r (n + length xs) a \<and> (\<exists>j. attempt_result_ok env a = Inr j \<and> k = op + j)"
proof (induction xs arbitrary: n)
  case Nil
  show ?case by (simp add: verify_attempts_single del: verify_attempts.simps(2))
next
  case (Cons x xs)
  note IH = Cons.IH
  show ?case
  proof (cases xs)
    case Nil
    show ?thesis
      using followed_result [of x a env]
      by (auto simp: Nil verify_attempts_step verify_attempts_single simp del: verify_attempts.simps(2))
  next
    case [simp]: (Cons y ys)
    have "verify_attempts env r n op ((x # xs) @ [a]) = Inr k \<longleftrightarrow>
        attempt_header_ok env r n x \<and> attempt_result_ok env x = Inr 0 \<and> attempt_follows x y \<and>
        verify_attempts env r (n + 1) op (xs @ [a]) = Inr k"
      using verify_attempts_step [of env r n op x y "ys @ [a]"] by (simp del: verify_attempts.simps(2))
    then show ?thesis
      unfolding IH using verify_attempts_step [of env r n op x y ys]
      by (auto simp del: verify_attempts.simps(2))
  qed
qed

lemma verify_attempts_cong:
  assumes "\<And>m a. attempt_header_ok env r m a = attempt_header_ok env r' m a"
  shows "verify_attempts env r n op xs = verify_attempts env r' n op xs"
  by (induction xs arbitrary: n op) (simp_all add: assms cong: if_cong)

lemma reconciled_Nil:
  "reconciled env r [] \<longleftrightarrow>
     ob_attempts r = 0 \<and> verify_ownership r 0 None \<and> verify_state r [] None"
  by (auto simp: verify_delivery_attempt_reconciliation_def)

lemma reconciled_snoc:
  "reconciled env r (xs @ [a]) \<longleftrightarrow>
     ob_attempts r = Suc (length xs) \<and> verify_attempts env r 1 0 xs = Inr 0 \<and>
     (xs \<noteq> [] \<longrightarrow> attempt_follows (last xs) a) \<and> attempt_header_ok env r (Suc (length xs)) a \<and>
     (\<exists>k. attempt_result_ok env a = Inr k \<and> verify_ownership r k (Some a)) \<and>
     verify_state r (xs @ [a]) (Some a)"
  by (auto simp: verify_delivery_attempt_reconciliation_def and_then_Inr_iff verify_attempts_snoc
      Let_def split: if_splits)

lemma reconciled_length: "reconciled env r as \<Longrightarrow> ob_attempts r = length as"
  by (simp add: verify_delivery_attempt_reconciliation_def split: if_splits)

section \<open>Row updates keep rows reconciled\<close>

definition calendar_ok :: "delivery_env \<Rightarrow> bool" where
  "calendar_ok env \<longleftrightarrow>
     (\<forall>t d u. de_checked_add env t d = Some u \<and> 0 \<le> d \<longrightarrow> t \<le> u)"

text \<open>A retry is scheduled no earlier than the completion of the attempt.\<close>

lemma scheduled_after_completion:
  assumes "calendar_ok env" and "attempt_result_ok env a = Inr k"
    and "at_result_kind a = Some DeliveryAttemptResultKind.RetryableFailure"
    and "at_scheduled_next a = Some t" and "at_completed_at a = Some c"
  shows "c \<le> t"
proof -
  from assms(2-5) have "retry_schedule_is_canonical env a = Inr True"
    by (auto simp: attempt_result_ok_def and_then_Inr_iff split: if_splits)
  with assms(4,5) obtain ms where "add_duration env c ms = Inr t"
    by (auto simp: retry_schedule_is_canonical_def and_then_Inr_iff map_err_Inr_iff
        split: option.splits if_splits)
  then have "de_checked_add env c (int ms) = Some t"
    by (auto simp: add_duration_def ok_or_Inr_iff split: if_splits)
  with assms(1) show ?thesis unfolding calendar_ok_def by (metis of_nat_0_le_iff)
qed

lemma retry_wait_latest:
  assumes "calendar_ok env" and "reconciled env r as"
    and "ob_state r = OutboundDeliveryState.RetryWait"
    and "ob_next_attempt_at r = Some t"
  obtains xs a c where "as = xs @ [a]" and "at_completed_at a = Some c" and "c \<le> t"
    and "at_result_kind a = Some DeliveryAttemptResultKind.RetryableFailure"
    and "at_failure_class a = Some DeliveryFailureClass.ProviderRetryable"
    and "at_scheduled_next a = Some t" and "ob_created_at r \<le> c"
proof -
  from assms(2,3) have "as \<noteq> []" by (auto simp: reconciled_Nil verify_state_def)
  then obtain xs a where as: "as = xs @ [a]" by (cases as rule: rev_cases) auto
  with assms(2-4) obtain c k where res: "attempt_result_ok env a = Inr k"
    and a: "at_completed_at a = Some c"
      "at_result_kind a = Some DeliveryAttemptResultKind.RetryableFailure"
      "at_failure_class a = Some DeliveryFailureClass.ProviderRetryable"
      "at_scheduled_next a = Some t"
    and hdr: "attempt_header_ok env r (Suc (length xs)) a"
    by (auto simp: reconciled_snoc verify_state_def)
  have "c \<le> t" by (rule scheduled_after_completion [OF assms(1) res a(2,4,1)])
  moreover from hdr a have "ob_created_at r \<le> c" by (auto simp: attempt_header_ok_def)
  ultimately show ?thesis using as a that by blast
qed

lemma header_row_update [simp]:
  "attempt_header_ok env (dispatch_row rt now m r) n a = attempt_header_ok env r n a"
  "attempt_header_ok env (fail_row f now r) n a = attempt_header_ok env r n a"
  "attempt_header_ok env (block_row f now r) n a = attempt_header_ok env r n a"
  "attempt_header_ok env (settle_row req out r) n a = attempt_header_ok env r n a"
  "attempt_header_ok env (recovered_row now f r) n a = attempt_header_ok env r n a"
  by (simp_all add: attempt_header_ok_def dispatch_row_def fail_row_def block_row_def settle_row_def
      recovered_row_def Let_def split: prod.splits)

lemma verify_row_update [simp]:
  "verify_attempts env (dispatch_row rt now m r) n op as = verify_attempts env r n op as"
  "verify_attempts env (fail_row f now r) n op as = verify_attempts env r n op as"
  "verify_attempts env (block_row f now r) n op as = verify_attempts env r n op as"
  "verify_attempts env (settle_row req out r) n op as = verify_attempts env r n op as"
  "verify_attempts env (recovered_row now f r) n op as = verify_attempts env r n op as"
  by (rule verify_attempts_cong; simp)+

lemma claim_reconciled:
  assumes "calendar_ok env" and "reconciled env r as" and "waiting r"
    and "ob_next_attempt_at r = Some t" and "t \<le> now"
  shows "reconciled env (dispatch_row rt now (Suc (ob_attempts r)) r)
           (as @ [open_attempt env rt i now (Suc (ob_attempts r)) r])"
proof -
  let ?a = "open_attempt env rt i now (Suc (ob_attempts r)) r"
  have len: "ob_attempts r = length as" by (rule reconciled_length [OF assms(2)])
  have res: "attempt_result_ok env ?a = Inr 1" by (simp add: attempt_result_ok_def open_attempt_def)
  have own: "verify_ownership (dispatch_row rt now (Suc (ob_attempts r)) r) 1 (Some ?a)"
    by (simp add: verify_ownership_def dispatch_row_def open_attempt_def)
  have st: "verify_state (dispatch_row rt now (Suc (ob_attempts r)) r) (as @ [?a]) (Some ?a)"
    by (simp add: verify_state_def dispatch_row_def)
  have att: "ob_attempts (dispatch_row rt now (Suc (ob_attempts r)) r) = Suc (length as)"
    by (simp add: dispatch_row_def len)
  show ?thesis
  proof (cases "ob_state r = OutboundDeliveryState.Queued")
    case True
    with assms(2) have as: "as = []" and t: "t = ob_created_at r"
      using assms(4) by (auto simp: verify_delivery_attempt_reconciliation_def and_then_Inr_iff
          verify_state_def Let_def split: if_splits)
    have "attempt_header_ok env r 1 ?a"
      using True as t len assms(5) by (simp add: attempt_header_ok_def open_attempt_def)
    then show ?thesis using res own st att len as by (auto simp: reconciled_snoc [of env _ "[]", simplified])
  next
    case False
    with assms(3) have rw: "ob_state r = OutboundDeliveryState.RetryWait" by auto
    from retry_wait_latest [OF assms(1,2) rw assms(4)]
    obtain xs a c where as: "as = xs @ [a]" and c: "at_completed_at a = Some c" "c \<le> t"
      and k: "at_result_kind a = Some DeliveryAttemptResultKind.RetryableFailure"
        "at_failure_class a = Some DeliveryFailureClass.ProviderRetryable"
        "at_scheduled_next a = Some t" and created: "ob_created_at r \<le> c" .
    have "verify_attempts env r 1 0 as = Inr 0"
      using assms(2) rw unfolding verify_delivery_attempt_reconciliation_def
      by (auto simp: and_then_Inr_iff verify_ownership_def Let_def split: if_splits)
    moreover have "attempt_follows (last as) ?a"
      using as k assms(5) by (simp add: attempt_follows_def open_attempt_def)
    moreover have "attempt_header_ok env r (Suc (length as)) ?a"
      using rw as c created assms(5) len by (simp add: attempt_header_ok_def open_attempt_def)
    ultimately show ?thesis using res own st att by (auto simp: reconciled_snoc)
  qed
qed

lemma fail_reconciled:
  assumes "calendar_ok env" and "reconciled env r as" and "waiting r"
    and "ob_next_attempt_at r = Some t" and "t \<le> now"
    and "is_predispatch_permanent_failure f"
  shows "reconciled env (fail_row f now r) as"
proof (cases "ob_state r = OutboundDeliveryState.Queued")
  case True
  with assms(2) have "as = []" and "ob_owner r = None"
    by (auto simp: verify_delivery_attempt_reconciliation_def and_then_Inr_iff verify_state_def
        verify_ownership_def Let_def split: if_splits)
  with assms(2,6) show ?thesis
    by (auto simp: reconciled_Nil verify_ownership_def verify_state_def fail_row_def
        verify_permanent_failure_def is_predispatch_permanent_failure_def
        is_zero_attempt_permanent_failure_def)
next
  case False
  with assms(3) have rw: "ob_state r = OutboundDeliveryState.RetryWait" by auto
  from retry_wait_latest [OF assms(1,2) rw assms(4)]
  obtain xs a c where as: "as = xs @ [a]" and c: "at_completed_at a = Some c" "c \<le> t"
    and k: "at_result_kind a = Some DeliveryAttemptResultKind.RetryableFailure"
      "at_scheduled_next a = Some t" .
  from assms(2) as rw have "ob_owner r = None" by (auto simp: reconciled_snoc verify_ownership_def)
  then have "verify_ownership (fail_row f now r) 0 (Some a)"
    by (simp add: verify_ownership_def fail_row_def)
  moreover have "verify_state (fail_row f now r) as (Some a)"
    using c k assms(5,6) by (simp add: verify_state_def fail_row_def verify_permanent_failure_def)
  moreover have "attempt_result_ok env a = Inr 0"
    using assms(2) as c attempt_result_open by (force simp: reconciled_snoc)
  ultimately show ?thesis
    using assms(2) unfolding as reconciled_snoc by auto
qed

lemma block_reconciled:
  assumes "reconciled env r as" and "ob_state r = OutboundDeliveryState.Queued"
    and "is_predispatch_permanent_failure f"
  shows "reconciled env (block_row f now r) as"
proof -
  from assms(1,2) have "as = []"
    by (auto simp: verify_delivery_attempt_reconciliation_def and_then_Inr_iff verify_state_def
        Let_def split: if_splits)
  with assms show ?thesis
    by (auto simp: reconciled_Nil verify_ownership_def verify_state_def block_row_def
        verify_permanent_failure_def is_predispatch_permanent_failure_def
        is_zero_attempt_permanent_failure_def)
qed

lemma dispatching_latest:
  assumes "reconciled env r as" and "ob_state r = OutboundDeliveryState.Dispatching"
  obtains xs a where "as = xs @ [a]" and "at_completed_at a = None" and "at_number a = ob_attempts r"
    and "at_accepted_message a = None" and "at_provider_retry_after_ms a = None"
    and "at_selected_retry_delay_ms a = None" and "at_scheduled_next a = None"
    and "ob_owner r = Some (at_runtime a)" and "verify_attempts env r 1 0 xs = Inr 0"
    and "xs \<noteq> [] \<longrightarrow> attempt_follows (last xs) a"
    and "attempt_header_ok env r (Suc (length xs)) a" and "ob_attempts r = Suc (length xs)"
proof -
  from assms have "as \<noteq> []" by (auto simp: reconciled_Nil verify_ownership_def)
  then obtain xs a where as: "as = xs @ [a]" by (cases as rule: rev_cases) auto
  with assms show ?thesis
    by (intro that [of xs a]) (auto simp: reconciled_snoc verify_ownership_def attempt_result_ok_def
        split: if_splits option.splits)
qed

lemma recover_reconciled:
  assumes "reconciled env r (xs @ [a])" and "ob_state r = OutboundDeliveryState.Dispatching"
    and "at_started_at a \<le> now"
    and "f \<in> {DeliveryFailureClass.StaleDispatch, DeliveryFailureClass.ShutdownInterrupted}"
  shows "reconciled env (recovered_row now f r) (xs @ [recovered_attempt now f a])"
proof -
  from dispatching_latest [OF assms(1,2)] have fields: "at_accepted_message a = None"
      "at_provider_retry_after_ms a = None" "at_selected_retry_delay_ms a = None"
      "at_scheduled_next a = None"
    and hist: "verify_attempts env r 1 0 xs = Inr 0" "xs \<noteq> [] \<longrightarrow> attempt_follows (last xs) a"
      "attempt_header_ok env r (Suc (length xs)) a" "ob_attempts r = Suc (length xs)"
    by (metis append1_eq_conv)+
  have "attempt_header_ok env r (Suc (length xs)) (recovered_attempt now f a)"
    using hist(3) assms(3) by (simp add: attempt_header_ok_def) (simp add: recovered_attempt_def)
  moreover have "attempt_result_ok env (recovered_attempt now f a) = Inr 0"
    using fields assms(4) by (auto simp: attempt_result_ok_def recovered_attempt_def)
  moreover have "xs \<noteq> [] \<longrightarrow> attempt_follows (last xs) (recovered_attempt now f a)"
    using hist(2) attempt_follows_started [of "recovered_attempt now f a" a] by simp
  moreover have "verify_ownership (recovered_row now f r) 0 (Some (recovered_attempt now f a))"
    by (simp add: verify_ownership_def recovered_row_def)
  moreover have "verify_state (recovered_row now f r) (xs @ [recovered_attempt now f a])
      (Some (recovered_attempt now f a))"
    by (simp add: verify_state_def recovered_row_def recovered_attempt_def)
  ultimately show ?thesis
    using hist(1,4) by (auto simp: reconciled_snoc)
qed

lemma duration_ms_bounds:
  assumes "duration_ms d = Inr v"
  shows "0 \<le> v" and "10 ^ 9 \<le> d \<Longrightarrow> 1000 \<le> v"
proof -
  from assms have v: "v = int ((d + 999999) div 1000000)"
    by (simp add: duration_ms_def Let_def split: if_splits)
  then show "0 \<le> v" by simp
  show "1000 \<le> v" if "10 ^ 9 \<le> d"
  proof -
    have "(10 ^ 9) div 1000000 \<le> (d + 999999) div (1000000 :: nat)"
      by (rule div_le_mono) (use that in linarith)
    then have "1000 \<le> (d + 999999) div (1000000 :: nat)" by simp
    with v show ?thesis by simp
  qed
qed

lemma retry_timing_bounds:
  assumes "retry_timing local after = Inr (provider, selected, ns)"
  shows "1000 \<le> selected" and "\<forall>ms. provider = Some ms \<longrightarrow> 0 \<le> ms \<and> ms \<le> selected"
    and "ns = nat selected * 1000000"
proof -
  from assms obtain l where l: "duration_ms (max local (10 ^ 9)) = Inr l"
    and p: "(case after of None \<Rightarrow> Inr None | Some d \<Rightarrow> map_ok Some (duration_ms d)) = Inr provider"
    and sel: "selected = (case provider of None \<Rightarrow> l | Some value \<Rightarrow> max value l)"
    and ns: "ns = nat selected * 1000000"
    by (auto simp: retry_timing_def and_then_Inr_iff Let_def simp del: max_less_iff_conj
        split: if_splits)
  have "1000 \<le> l" using duration_ms_bounds(2) [OF l] by simp
  with sel show "1000 \<le> selected" by (auto split: option.splits)
  show "\<forall>ms. provider = Some ms \<longrightarrow> 0 \<le> ms \<and> ms \<le> selected"
    using p sel duration_ms_bounds(1)
    by (auto simp: map_ok_Inr_iff split: option.splits)
  show "ns = nat selected * 1000000" by (rule ns)
qed

lemma retry_schedule_bounds:
  assumes "retry_schedule env row c local after = Inr (provider, selected, next)"
  shows "1000 \<le> selected" and "\<forall>ms. provider = Some ms \<longrightarrow> 0 \<le> ms \<and> ms \<le> selected"
    and "add_duration env c (nat selected * 1000000) = Inr next"
proof -
  from assms obtain l ns where "retry_timing l after = Inr (provider, selected, ns)"
    and "add_duration env c ns = Inr next"
    by (auto simp: retry_schedule_def and_then_Inr_iff)
  with retry_timing_bounds [OF this(1)]
  show "1000 \<le> selected" and "\<forall>ms. provider = Some ms \<longrightarrow> 0 \<le> ms \<and> ms \<le> selected"
    and "add_duration env c (nat selected * 1000000) = Inr next"
    by blast+
qed

lemma settle_attempt_ok:
  assumes "result_outcome env req r = Inr out" and "result_class_allowed (pr_result req)"
  shows "attempt_result_ok env (complete_attempt req out a) = Inr 0"
proof (cases "pr_result req")
  case (DispatchRetryableFailure failure after)
  with assms(1) obtain provider selected nxt where
      sched: "retry_schedule env r (pr_completed_at req) (pr_local_retry_delay req) after =
        Inr (provider, selected, nxt)"
    and out: "ro_provider_ms out = provider" "ro_selected_ms out = Some selected"
      "ro_scheduled out \<in> {None, Some nxt}"
    by (auto simp: result_outcome_def and_then_Inr_iff Let_def split: if_splits)
  note b = retry_schedule_bounds [OF sched]
  let ?a = "complete_attempt req out a"
  have a: "at_completed_at ?a = Some (pr_completed_at req)"
      "at_result_kind ?a = Some DeliveryAttemptResultKind.RetryableFailure"
      "at_failure_class ?a = Some (df_class failure)" "at_accepted_message ?a = None"
      "at_provider_retry_after_ms ?a = provider" "at_selected_retry_delay_ms ?a = Some selected"
      "at_scheduled_next ?a \<in> {None, Some nxt}"
    using out DispatchRetryableFailure by (simp_all add: complete_attempt_def)
  have "retry_schedule_is_canonical env ?a = Inr True"
    using a b by (auto simp: retry_schedule_is_canonical_def split: option.splits)
  with a assms(2) DispatchRetryableFailure show ?thesis
    by (simp add: attempt_result_ok_def result_class_allowed_def)
qed (use assms in \<open>auto simp: result_outcome_def settled_def attempt_result_ok_def
      complete_attempt_def result_class_allowed_def\<close>)

lemma settle_state_ok:
  assumes "result_outcome env req r = Inr out" and "result_class_allowed (pr_result req)"
  shows "verify_state (settle_row req out r) as (Some (complete_attempt req out a))"
proof (cases "pr_result req")
  case (DispatchRetryableFailure failure after)
  with assms(1) have "ro_state out = OutboundDeliveryState.PermanentFailure \<and>
        ro_scheduled out = None \<and>
        ro_failure out \<in> {Some DeliveryFailureClass.RetryExhausted,
                           Some DeliveryFailureClass.DeliveryDeadlineExceeded} \<or>
      ro_state out = OutboundDeliveryState.RetryWait \<and> (\<exists>nxt. ro_scheduled out = Some nxt)"
    by (auto simp: result_outcome_def and_then_Inr_iff Let_def split: if_splits)
  then show ?thesis
    using assms(2) DispatchRetryableFailure
    by (auto simp: verify_state_def settle_row_def complete_attempt_def
        verify_permanent_failure_def result_class_allowed_def)
qed (use assms in \<open>auto simp: result_outcome_def settled_def verify_state_def settle_row_def
      complete_attempt_def verify_permanent_failure_def\<close>)

lemma settle_not_dispatching:
  "result_outcome env req r = Inr out \<Longrightarrow> ro_state out \<noteq> OutboundDeliveryState.Dispatching"
  by (auto simp: result_outcome_def settled_def and_then_Inr_iff Let_def
      split: ChannelDispatchResult.splits if_splits)

lemma settle_reconciled:
  assumes "reconciled env r (xs @ [a])" and "ob_state r = OutboundDeliveryState.Dispatching"
    and "at_started_at a \<le> pr_completed_at req"
    and "result_outcome env req r = Inr out" and "result_class_allowed (pr_result req)"
  shows "reconciled env (settle_row req out r) (xs @ [complete_attempt req out a])"
proof -
  from dispatching_latest [OF assms(1,2)] have hist: "verify_attempts env r 1 0 xs = Inr 0"
      "xs \<noteq> [] \<longrightarrow> attempt_follows (last xs) a" "attempt_header_ok env r (Suc (length xs)) a"
      "ob_attempts r = Suc (length xs)"
    by (metis append1_eq_conv)+
  let ?a = "complete_attempt req out a"
  have "at_completed_at ?a = Some (pr_completed_at req)"
    by (simp add: complete_attempt_def split: prod.splits)
  then have "attempt_header_ok env r (Suc (length xs)) ?a"
    using hist(3) assms(3) by (simp add: attempt_header_ok_def)
  moreover have "xs \<noteq> [] \<longrightarrow> attempt_follows (last xs) ?a"
    using hist(2) attempt_follows_started [of ?a a] by simp
  moreover have "verify_ownership (settle_row req out r) 0 (Some ?a)"
    using settle_not_dispatching [OF assms(4)]
    by (simp add: verify_ownership_def) (simp add: settle_row_def split: prod.splits)
  ultimately show ?thesis
    using hist(1,4) settle_attempt_ok [OF assms(4,5), of a] settle_state_ok [OF assms(4,5)]
    by (auto simp: reconciled_snoc)
qed

end
