(* ===== verification/Delivery_Invariant.thy ===== *)
theory Delivery_Invariant
  imports Delivery_Reconcile
begin

text \<open>
  The invariant of the delivery tables and its preservation by every transaction: rows and attempt
  histories stay reconciled, parts of one source are settled strictly in order, and a failed part
  blocks exactly the parts after it. The locale \<open>transactional_store\<close> is the contract of a store
  whose transactions keep an invariant.
\<close>

locale transactional_store =
  fixes step :: "'s \<Rightarrow> 'r \<Rightarrow> 'e + 's"
    and consistent :: "'s \<Rightarrow> bool"
    and admissible :: "'r \<Rightarrow> bool"
  assumes step_consistent:
    "consistent s \<Longrightarrow> admissible r \<Longrightarrow> step s r = Inr s' \<Longrightarrow> consistent s'"
begin

lemma run_consistent:
  "consistent s \<Longrightarrow> list_all admissible rs \<Longrightarrow> fold_result step s rs = Inr s' \<Longrightarrow> consistent s'"
  by (induction rs arbitrary: s) (auto simp: and_then_Inr_iff dest: step_consistent)

end

section \<open>Order of the parts of a source\<close>

abbreviation active_state :: "OutboundDeliveryState \<Rightarrow> bool" where
  "active_state st \<equiv>
     st \<in> {OutboundDeliveryState.Queued, OutboundDeliveryState.RetryWait,
           OutboundDeliveryState.Dispatching}"

abbreviation failed_state :: "OutboundDeliveryState \<Rightarrow> bool" where
  "failed_state st \<equiv>
     st \<in> {OutboundDeliveryState.PermanentFailure, OutboundDeliveryState.OutcomeUnknown}"

abbreviation earlier :: "delivery_row \<Rightarrow> delivery_row \<Rightarrow> bool" where
  "earlier p q \<equiv> ob_key p = ob_key q \<and> ob_ordinal p < ob_ordinal q"

definition block_class :: "OutboundDeliveryState \<Rightarrow> DeliveryFailureClass" where
  "block_class st =
     (if st = OutboundDeliveryState.OutcomeUnknown then DeliveryFailureClass.PriorPartOutcomeUnknown
      else DeliveryFailureClass.PriorPartPermanentFailure)"

text \<open>
  While a part is active the parts after it are queued; after a failed part every part is failed,
  and the first failed part decides the class the others carry.
\<close>

definition parts_in_order :: "delivery_row set \<Rightarrow> bool" where
  "parts_in_order rows \<longleftrightarrow>
     (\<forall>p \<in> rows. \<forall>q \<in> rows. earlier p q \<longrightarrow>
        (active_state (ob_state p) \<longrightarrow> ob_state q = OutboundDeliveryState.Queued) \<and>
        (failed_state (ob_state p) \<longrightarrow> ob_state q = OutboundDeliveryState.PermanentFailure) \<and>
        (failed_state (ob_state p) \<and> (\<forall>x \<in> rows. earlier x p \<longrightarrow> \<not> failed_state (ob_state x)) \<longrightarrow>
           ob_failure_class q = Some (block_class (ob_state p))))"

lemma parts_in_orderD:
  assumes "parts_in_order rows" and "p \<in> rows" and "q \<in> rows" and "earlier p q"
  shows "active_state (ob_state p) \<Longrightarrow> ob_state q = OutboundDeliveryState.Queued"
    and "failed_state (ob_state p) \<Longrightarrow> ob_state q = OutboundDeliveryState.PermanentFailure"
    and "failed_state (ob_state p) \<Longrightarrow> \<forall>x \<in> rows. earlier x p \<longrightarrow> \<not> failed_state (ob_state x) \<Longrightarrow>
           ob_failure_class q = Some (block_class (ob_state p))"
  using assms(1) [unfolded parts_in_order_def, rule_format, OF assms(2-4)] by blast+

lemma state_cases:
  "active_state st \<or> st = OutboundDeliveryState.Accepted \<or> failed_state st"
  by (cases st) auto

text \<open>Every part before one that has been dispatched, or is due, is accepted.\<close>

lemma earlier_accepted:
  assumes "parts_in_order rows" and "p \<in> rows" and "k \<in> rows" and "earlier p k"
    and "ob_state k \<in> {OutboundDeliveryState.RetryWait, OutboundDeliveryState.Dispatching}"
  shows "ob_state p = OutboundDeliveryState.Accepted"
  using parts_in_orderD(1,2) [OF assms(1-4)] assms(5) state_cases [of "ob_state p"] by auto

text \<open>One row is replaced while its predecessors are accepted and it does not fail.\<close>

lemma parts_in_order_advance:
  assumes ok: "parts_in_order rows" and k: "k \<in> rows" and active: "active_state (ob_state k)"
    and before: "\<forall>p \<in> rows. earlier p k \<longrightarrow> ob_state p = OutboundDeliveryState.Accepted"
    and same: "ob_key k' = ob_key k" "ob_ordinal k' = ob_ordinal k"
    and live: "active_state (ob_state k') \<or> ob_state k' = OutboundDeliveryState.Accepted"
  shows "parts_in_order ((\<lambda>r. if r = k then k' else r) ` rows)"
proof -
  let ?u = "\<lambda>r. if r = k then k' else r"
  have e: "earlier (?u p) (?u q) \<longleftrightarrow> earlier p q" for p q using same by auto
  show ?thesis
    unfolding parts_in_order_def
  proof (intro ballI impI)
    fix p' q'
    assume "p' \<in> ?u ` rows" "q' \<in> ?u ` rows" and pq: "earlier p' q'"
    then obtain p q where p: "p \<in> rows" "p' = ?u p" and q: "q \<in> rows" "q' = ?u q" by blast
    with pq have pq: "earlier p q" using e [of p q] by simp
    note base = parts_in_orderD [OF ok p(1) q(1) pq]
    have failed: "failed_state (ob_state (?u x)) \<longleftrightarrow> failed_state (ob_state x)" for x
      using live active by auto
    show "(active_state (ob_state p') \<longrightarrow> ob_state q' = OutboundDeliveryState.Queued) \<and>
        (failed_state (ob_state p') \<longrightarrow> ob_state q' = OutboundDeliveryState.PermanentFailure) \<and>
        (failed_state (ob_state p') \<and>
           (\<forall>x \<in> ?u ` rows. earlier x p' \<longrightarrow> \<not> failed_state (ob_state x)) \<longrightarrow>
           ob_failure_class q' = Some (block_class (ob_state p')))"
    proof (cases "q = k")
      case True
      with before p pq have "p \<noteq> k" and "ob_state p = OutboundDeliveryState.Accepted" by auto
      with p show ?thesis by simp
    next
      case qk: False
      show ?thesis
      proof (cases "p = k")
        case True
        then have "ob_state q = OutboundDeliveryState.Queued" using base(1) active by simp
        with True qk live p q show ?thesis by auto
      next
        case False
        have "(\<forall>x \<in> ?u ` rows. earlier x p' \<longrightarrow> \<not> failed_state (ob_state x)) \<longleftrightarrow>
            (\<forall>x \<in> rows. earlier x p \<longrightarrow> \<not> failed_state (ob_state x))"
          unfolding ball_simps p(2) e failed ..
        with base False qk p q show ?thesis by simp
      qed
    qed
  qed
qed

text \<open>One active row fails and every waiting part after it is blocked.\<close>

lemma parts_in_order_fail:
  assumes ok: "parts_in_order rows" and k: "k \<in> rows" and active: "active_state (ob_state k)"
    and before: "\<forall>p \<in> rows. earlier p k \<longrightarrow> ob_state p = OutboundDeliveryState.Accepted"
    and same: "ob_key k' = ob_key k" "ob_ordinal k' = ob_ordinal k"
    and failed: "failed_state (ob_state k')"
    and unique: "\<forall>r \<in> rows. ob_key r = ob_key k \<and> ob_ordinal r = ob_ordinal k \<longrightarrow> r = k"
  shows "parts_in_order ((\<lambda>r. if r = k then k' else if later_waiting k r
           then block_row (block_class (ob_state k')) now r else r) ` rows)"
proof -
  let ?u = "\<lambda>r. if r = k then k' else if later_waiting k r
           then block_row (block_class (ob_state k')) now r else r"
  have e: "earlier (?u p) (?u q) \<longleftrightarrow> earlier p q" for p q using same by auto
  have later: "later_waiting k q" if "q \<in> rows" "earlier k q" for q
    using parts_in_orderD(1) [OF ok k that] active that by (auto simp: later_waiting_def)
  have blocked: "ob_state (?u q) = OutboundDeliveryState.PermanentFailure \<and>
      ob_failure_class (?u q) = Some (block_class (ob_state k'))" if "q \<in> rows" "earlier k q" for q
    using later [OF that] that by (auto simp: block_row_def)
  have other: "?u r = r" if "ob_key r \<noteq> ob_key k \<or> ob_ordinal r < ob_ordinal k" for r
    using that by (auto simp: later_waiting_def)
  show ?thesis
    unfolding parts_in_order_def
  proof (intro ballI impI)
    fix p' q'
    assume "p' \<in> ?u ` rows" "q' \<in> ?u ` rows" and pq: "earlier p' q'"
    then obtain p q where p: "p \<in> rows" "p' = ?u p" and q: "q \<in> rows" "q' = ?u q" by blast
    with pq have pq: "earlier p q" using e [of p q] by simp
    note base = parts_in_orderD [OF ok p(1) q(1) pq]
    show "(active_state (ob_state p') \<longrightarrow> ob_state q' = OutboundDeliveryState.Queued) \<and>
        (failed_state (ob_state p') \<longrightarrow> ob_state q' = OutboundDeliveryState.PermanentFailure) \<and>
        (failed_state (ob_state p') \<and>
           (\<forall>x \<in> ?u ` rows. earlier x p' \<longrightarrow> \<not> failed_state (ob_state x)) \<longrightarrow>
           ob_failure_class q' = Some (block_class (ob_state p')))"
    proof (cases "ob_key p = ob_key k")
      case False
      with pq have q_eq: "q' = q" and p_eq: "p' = p" using other p q by simp_all
      have "(\<forall>x \<in> ?u ` rows. earlier x p \<longrightarrow> \<not> failed_state (ob_state x)) \<longleftrightarrow>
          (\<forall>x \<in> rows. earlier x p \<longrightarrow> \<not> failed_state (ob_state x))"
      proof -
        have "(earlier (?u x) p \<longrightarrow> \<not> failed_state (ob_state (?u x))) \<longleftrightarrow>
            (earlier x p \<longrightarrow> \<not> failed_state (ob_state x))" for x
          using other [of x] e [of x p] p_eq p(2) False by (cases "ob_key x = ob_key k") auto
        then show ?thesis unfolding ball_simps by (intro ball_cong refl)
      qed
      with base q_eq p_eq show ?thesis by simp
    next
      case key: True
      consider "ob_ordinal p < ob_ordinal k" | "ob_ordinal p = ob_ordinal k"
        | "ob_ordinal k < ob_ordinal p" by linarith
      then show ?thesis
      proof cases
        case 1
        with before key p have "ob_state p' = OutboundDeliveryState.Accepted"
          using other [of p] by simp
        then show ?thesis by simp
      next
        case 2
        with key pq have kq: "earlier k q" by simp
        from 2 key unique p have "p' = k'" by simp
        moreover from failed have "\<not> active_state (ob_state k')" by auto
        ultimately show ?thesis using failed blocked [OF q(1) kq] q by simp
      next
        case 3
        with key pq have kp: "earlier k p" and kq: "earlier k q" by simp_all
        from blocked [OF p(1) kp] p
        have st: "ob_state p' = OutboundDeliveryState.PermanentFailure" by simp
        have "k' \<in> ?u ` rows" using k by force
        moreover have "earlier k' p'" using e [of k p] kp p by simp
        ultimately have "\<not> (\<forall>x \<in> ?u ` rows. earlier x p' \<longrightarrow> \<not> failed_state (ob_state x))"
          using failed by blast
        moreover from blocked [OF q(1) kq] q
        have "ob_state q' = OutboundDeliveryState.PermanentFailure" by simp
        moreover have "\<not> active_state (ob_state p')" by (simp add: st)
        ultimately show ?thesis by blast
      qed
    qed
  qed
qed

section \<open>The invariant of the tables\<close>

definition store_ok :: "delivery_env \<Rightarrow> delivery_store \<Rightarrow> bool" where
  "store_ok env s \<longleftrightarrow>
     schema_ok s \<and>
     (\<forall>r \<in> set (ds_deliveries s).
        reconciled env r (attempts_of s (ob_id r)) \<and>
        de_hash_bytes env (ob_payload r) = ob_payload_sha256 r \<and>
        (\<exists>p \<in> set (ds_deliveries s). ob_key p = ob_key r \<and> ob_ordinal p = 1)) \<and>
     (\<forall>a \<in> set (ds_attempts s). at_delivery a \<in> ob_id ` set (ds_deliveries s)) \<and>
     parts_in_order (set (ds_deliveries s))"

lemma execute_Inr_iff [simp]: "execute s = Inr s' \<longleftrightarrow> s' = s \<and> schema_ok s"
  by (auto simp: execute_def)

lemma update_deliveries_Inr_iff:
  "update_deliveries P f s = Inr (s', n) \<longleftrightarrow>
     s' = s\<lparr>ds_deliveries := update_rows P f (ds_deliveries s)\<rparr> \<and> schema_ok s' \<and>
     n = rows_affected P (ds_deliveries s)"
  by (auto simp: update_deliveries_def map_ok_Inr_iff map_err_Inr_iff)

lemma update_attempts_Inr_iff:
  "update_attempts P f s = Inr (s', n) \<longleftrightarrow>
     s' = s\<lparr>ds_attempts := update_rows P f (ds_attempts s)\<rparr> \<and> schema_ok s' \<and>
     n = rows_affected P (ds_attempts s)"
  by (auto simp: update_attempts_def map_ok_Inr_iff map_err_Inr_iff)

lemma changed_one_Inr_iff: "changed_one m = Inr s \<longleftrightarrow> m = Inr (s, 1)"
  by (auto simp: changed_one_def and_then_Inr_iff split: if_splits)

lemmas statement_iffs =
  update_deliveries_Inr_iff update_attempts_Inr_iff changed_one_Inr_iff and_then_Inr_iff
  map_ok_Inr_iff map_err_Inr_iff ok_or_Inr_iff

text \<open>An UPDATE by primary key changes one row.\<close>

lemma update_rows_key:
  assumes "distinct (map key rows)" and "k \<in> set rows" and "P k"
    and "\<And>r. P r \<Longrightarrow> key r = key k"
  shows "update_rows P f rows = map (\<lambda>r. if r = k then f k else r) rows"
proof -
  have "P r \<longleftrightarrow> r = k" if "r \<in> set rows" for r
    using assms that by (metis distinct_map inj_onD)
  then show ?thesis by (auto simp: update_rows_def)
qed

lemma update_rows_later:
  assumes "\<not> later_waiting k k'"
  shows "update_rows (later_waiting k) b (map (\<lambda>r. if r = k then k' else r) rows) =
           map (\<lambda>r. if r = k then k' else if later_waiting k r then b r else r) rows"
  using assms by (auto simp: update_rows_def)

lemma store_ok_update:
  assumes "store_ok env s" and "schema_ok s'"
    and rows: "ds_deliveries s' = map u (ds_deliveries s)"
    and ident: "\<And>r. ob_id (u r) = ob_id r \<and> ob_source (u r) = ob_source r \<and>
      ob_ordinal (u r) = ob_ordinal r \<and> ob_payload (u r) = ob_payload r \<and>
      ob_payload_sha256 (u r) = ob_payload_sha256 r"
    and "\<forall>a \<in> set (ds_attempts s'). at_delivery a \<in> ob_id ` set (ds_deliveries s)"
    and "\<And>r. r \<in> set (ds_deliveries s) \<Longrightarrow> reconciled env (u r) (attempts_of s' (ob_id r))"
    and "parts_in_order (u ` set (ds_deliveries s))"
  shows "store_ok env s'"
proof -
  have "ob_id ` u ` set (ds_deliveries s) = ob_id ` set (ds_deliveries s)"
    using ident by (auto simp: image_iff)
  with assms show ?thesis by (auto simp: store_ok_def ball_simps bex_simps)
qed

section \<open>Claims keep the invariant\<close>

lemma attempts_of_same:
  "ds_attempts s' = ds_attempts s \<Longrightarrow> attempts_of s' i = attempts_of s i"
  by (simp add: attempts_of_def)

lemma store_okD:
  assumes "store_ok env s"
  shows "schema_ok s" and "parts_in_order (set (ds_deliveries s))"
    and "distinct (map ob_id (ds_deliveries s))" and "distinct (map at_id (ds_attempts s))"
    and "r \<in> set (ds_deliveries s) \<Longrightarrow> reconciled env r (attempts_of s (ob_id r))"
    and "r \<in> set (ds_deliveries s) \<Longrightarrow> delivery_check r"
    and "a \<in> set (ds_attempts s) \<Longrightarrow> at_delivery a \<in> ob_id ` set (ds_deliveries s)"
  using assms by (auto simp: store_ok_def schema_ok_def unique_keys_def list_all_iff)

lemma store_ok_unique:
  assumes "store_ok env s" and "k \<in> set (ds_deliveries s)"
  shows "\<forall>r \<in> set (ds_deliveries s). ob_key r = ob_key k \<and> ob_ordinal r = ob_ordinal k \<longrightarrow> r = k"
proof -
  from assms(1) have "inj_on (\<lambda>r. (ob_key r, ob_ordinal r)) (set (ds_deliveries s))"
    by (simp add: store_ok_def schema_ok_def unique_keys_def distinct_map)
  with assms(2) show ?thesis by (auto dest: inj_onD)
qed

lemma select_due_Some:
  assumes "select_due s now = Some r"
  shows "r \<in> set (ds_deliveries s)" and "due s now r"
    and "q \<in> set (ds_deliveries s) \<Longrightarrow> due s now q \<Longrightarrow> claim_key r \<le> claim_key q"
proof -
  let ?rows = "filter (due s now) (ds_deliveries s)"
  from assms obtain rest where r: "sort_key claim_key ?rows = r # rest"
    by (auto simp: select_due_def split: list.splits)
  have "set (r # rest) = set ?rows" by (metis r set_sort)
  then have mem: "r \<in> set ?rows" and all: "set ?rows = set (r # rest)" by auto
  from mem show "r \<in> set (ds_deliveries s)" and "due s now r" by auto
  have sorted: "sorted (map claim_key (r # rest))" using r by (metis sorted_sort_key)
  show "claim_key r \<le> claim_key q" if "q \<in> set (ds_deliveries s)" and "due s now q"
  proof -
    from that have "q \<in> set ?rows" by simp
    then have "q \<in> set (r # rest)" unfolding all .
    with sorted show ?thesis by auto
  qed
qed

lemma due_facts:
  assumes "due s now r" and "p \<in> set (ds_deliveries s)" and "earlier p r"
  shows "ob_state p = OutboundDeliveryState.Accepted"
  using assms by (auto simp: due_def list_ex_iff)

lemma due_time:
  assumes "due s now r"
  obtains t where "ob_next_attempt_at r = Some t" and "t \<le> now" and "waiting r"
  using assms by (auto simp: due_def split: option.splits)

text \<open>A failing row with its cascade, in the three transactions that fail a part.\<close>

lemma store_ok_fail:
  assumes ok: "store_ok env s" and schema: "schema_ok s'" and k: "k \<in> set (ds_deliveries s)"
    and active: "active_state (ob_state k)"
    and before: "\<forall>p \<in> set (ds_deliveries s). earlier p k \<longrightarrow> ob_state p = OutboundDeliveryState.Accepted"
    and ident: "ob_id k' = ob_id k \<and> ob_source k' = ob_source k \<and> ob_ordinal k' = ob_ordinal k \<and>
      ob_payload k' = ob_payload k \<and> ob_payload_sha256 k' = ob_payload_sha256 k"
    and failed: "failed_state (ob_state k')"
    and rows: "ds_deliveries s' = map (\<lambda>r. if r = k then k' else if later_waiting k r
        then block_row (block_class (ob_state k')) now r else r) (ds_deliveries s)"
    and others: "\<And>i. i \<noteq> ob_id k \<Longrightarrow> attempts_of s' i = attempts_of s i"
    and refs: "\<forall>a \<in> set (ds_attempts s'). at_delivery a \<in> ob_id ` set (ds_deliveries s)"
    and rec: "reconciled env k' (attempts_of s' (ob_id k))"
  shows "store_ok env s'"
proof (rule store_ok_update [OF ok schema rows _ refs])
  let ?u = "\<lambda>r. if r = k then k' else if later_waiting k r
        then block_row (block_class (ob_state k')) now r else r"
  show "parts_in_order (?u ` set (ds_deliveries s))"
    using ident by (intro parts_in_order_fail [OF store_okD(2) [OF ok] k active before _ _ failed
        store_ok_unique [OF ok k]]) auto
  show "reconciled env (?u r) (attempts_of s' (ob_id r))" if r: "r \<in> set (ds_deliveries s)" for r
  proof (cases "r = k")
    case False
    with store_okD(3) [OF ok] k r have "ob_id r \<noteq> ob_id k" by (metis distinct_map inj_onD)
    then have same: "reconciled env r (attempts_of s' (ob_id r))"
      using others store_okD(5) [OF ok r] by simp
    show ?thesis
    proof (cases "later_waiting k r")
      case True
      then have "ob_state r = OutboundDeliveryState.Queued"
        using parts_in_orderD(1) [OF store_okD(2) [OF ok] k r _ active]
        by (simp add: later_waiting_def)
      with same True False show ?thesis
        by (simp add: block_reconciled is_predispatch_permanent_failure_def block_class_def)
    qed (use False same in simp)
  qed (use rec in simp)
qed (use ident in auto)

text \<open>A row advances without failing.\<close>

lemma store_ok_advance:
  assumes ok: "store_ok env s" and schema: "schema_ok s'" and k: "k \<in> set (ds_deliveries s)"
    and active: "active_state (ob_state k)"
    and before: "\<forall>p \<in> set (ds_deliveries s). earlier p k \<longrightarrow> ob_state p = OutboundDeliveryState.Accepted"
    and ident: "ob_id k' = ob_id k \<and> ob_source k' = ob_source k \<and> ob_ordinal k' = ob_ordinal k \<and>
      ob_payload k' = ob_payload k \<and> ob_payload_sha256 k' = ob_payload_sha256 k"
    and live: "active_state (ob_state k') \<or> ob_state k' = OutboundDeliveryState.Accepted"
    and rows: "ds_deliveries s' = map (\<lambda>r. if r = k then k' else r) (ds_deliveries s)"
    and others: "\<And>i. i \<noteq> ob_id k \<Longrightarrow> attempts_of s' i = attempts_of s i"
    and refs: "\<forall>a \<in> set (ds_attempts s'). at_delivery a \<in> ob_id ` set (ds_deliveries s)"
    and rec: "reconciled env k' (attempts_of s' (ob_id k))"
  shows "store_ok env s'"
proof (rule store_ok_update [OF ok schema rows _ refs])
  show "parts_in_order ((\<lambda>r. if r = k then k' else r) ` set (ds_deliveries s))"
    using ident by (intro parts_in_order_advance [OF store_okD(2) [OF ok] k active before _ _ live]) auto
  show "reconciled env (if r = k then k' else r) (attempts_of s' (ob_id r))"
    if r: "r \<in> set (ds_deliveries s)" for r
  proof (cases "r = k")
    case False
    with store_okD(3) [OF ok] k r have "ob_id r \<noteq> ob_id k" by (metis distinct_map inj_onD)
    with others store_okD(5) [OF ok r] False show ?thesis by simp
  qed (use rec in simp)
qed (use ident in auto)

lemma waiting_attempts_bound:
  "delivery_check r \<Longrightarrow> waiting r \<Longrightarrow> ob_attempts r < 8"
  by (auto simp: delivery_check_def delivery_state_check_def)

lemma predispatch_failure_class:
  "predispatch_failure route r now = Some f \<Longrightarrow> ob_attempts r < 8 \<Longrightarrow>
     is_predispatch_permanent_failure f"
  by (auto simp: predispatch_failure_def is_predispatch_permanent_failure_def split: if_splits)

lemma mark_permanent_rows:
  assumes "mark_permanent_before_dispatch k f now s = Inr (s', n)"
    and "distinct (map ob_id (ds_deliveries s))" and "k \<in> set (ds_deliveries s)" and "waiting k"
  shows "schema_ok s'" and "ds_attempts s' = ds_attempts s" and "ds_routes s' = ds_routes s"
    and "ds_deliveries s' = map (\<lambda>r. if r = k then fail_row f now k else if later_waiting k r
           then block_row DeliveryFailureClass.PriorPartPermanentFailure now r else r)
           (ds_deliveries s)"
proof -
  have one: "update_rows (\<lambda>r. ob_id r = ob_id k \<and> waiting r) (fail_row f now) (ds_deliveries s) =
      map (\<lambda>r. if r = k then fail_row f now k else r) (ds_deliveries s)"
    by (rule update_rows_key [OF assms(2,3)]) (use assms(4) in auto)
  have no: "\<not> later_waiting k (fail_row f now k)" by (simp add: later_waiting_def)
  from assms(1)
  show "schema_ok s'" and "ds_attempts s' = ds_attempts s" and "ds_routes s' = ds_routes s"
    and "ds_deliveries s' = map (\<lambda>r. if r = k then fail_row f now k else if later_waiting k r
           then block_row DeliveryFailureClass.PriorPartPermanentFailure now r else r)
           (ds_deliveries s)"
    by (auto simp: mark_permanent_before_dispatch_def cascade_later_def statement_iffs one
        update_rows_later [OF no] simp del: insert_iff)
qed

lemma store_ok_mark_permanent:
  assumes ok: "store_ok env s" and cal: "calendar_ok env"
    and k: "k \<in> set (ds_deliveries s)" and due: "due s now k"
    and f: "is_predispatch_permanent_failure f"
    and step: "mark_permanent_before_dispatch k f now s = Inr (s', n)"
  shows "store_ok env s'"
proof -
  from due obtain t where t: "ob_next_attempt_at k = Some t" "t \<le> now" and w: "waiting k"
    by (rule due_time)
  note rows = mark_permanent_rows [OF step store_okD(3) [OF ok] k w]
  note atts = attempts_of_same [OF rows(2)]
  show ?thesis
  proof (rule store_ok_fail [OF ok rows(1) k, where k' = "fail_row f now k" and now = now])
    show "reconciled env (fail_row f now k) (attempts_of s' (ob_id k))"
      unfolding atts by (rule fail_reconciled [OF cal store_okD(5) [OF ok k] w t f])
    show "\<forall>p \<in> set (ds_deliveries s). earlier p k \<longrightarrow> ob_state p = OutboundDeliveryState.Accepted"
      using due_facts [OF due] by blast
    show "\<forall>a \<in> set (ds_attempts s'). at_delivery a \<in> ob_id ` set (ds_deliveries s)"
      unfolding rows(2) using store_okD(7) [OF ok] by blast
    show "ds_deliveries s' = map (\<lambda>r. if r = k then fail_row f now k else if later_waiting k r
        then block_row (block_class (ob_state (fail_row f now k))) now r else r) (ds_deliveries s)"
      unfolding rows(4) by (simp add: block_class_def)
  qed (use w atts in auto)
qed

lemma begin_dispatch_rows:
  assumes "begin_dispatch env rt i now k s = Inr (s', c)"
    and "distinct (map ob_id (ds_deliveries s))" and "k \<in> set (ds_deliveries s)"
  shows "schema_ok s'" and "ds_routes s' = ds_routes s"
    and "ds_attempts s' = ds_attempts s @ [open_attempt env rt i now (Suc (ob_attempts k)) k]"
    and "ds_deliveries s' =
           map (\<lambda>r. if r = k then dispatch_row rt now (Suc (ob_attempts k)) k else r) (ds_deliveries s)"
    and "c = Dispatch (prepared env i (Suc (ob_attempts k)) k)"
proof -
  have one: "update_rows (\<lambda>r. ob_id r = ob_id k \<and> ob_state r = ob_state k \<and>
        ob_attempts r = ob_attempts k) (dispatch_row rt now (Suc (ob_attempts k))) (ds_deliveries s) =
      map (\<lambda>r. if r = k then dispatch_row rt now (Suc (ob_attempts k)) k else r) (ds_deliveries s)"
    by (rule update_rows_key [OF assms(2,3)]) auto
  from assms(1)
  show "schema_ok s'" and "ds_routes s' = ds_routes s"
    and "ds_attempts s' = ds_attempts s @ [open_attempt env rt i now (Suc (ob_attempts k)) k]"
    and "ds_deliveries s' =
           map (\<lambda>r. if r = k then dispatch_row rt now (Suc (ob_attempts k)) k else r) (ds_deliveries s)"
    and "c = Dispatch (prepared env i (Suc (ob_attempts k)) k)"
    by (auto simp: begin_dispatch_def statement_iffs one Let_def split: if_splits)
qed

lemma store_ok_begin_dispatch:
  assumes ok: "store_ok env s" and cal: "calendar_ok env"
    and k: "k \<in> set (ds_deliveries s)" and due: "due s now k"
    and step: "begin_dispatch env rt i now k s = Inr (s', c)"
  shows "store_ok env s'"
proof -
  from due obtain t where t: "ob_next_attempt_at k = Some t" "t \<le> now" and w: "waiting k"
    by (rule due_time)
  note rows = begin_dispatch_rows [OF step store_okD(3) [OF ok] k]
  have atts: "attempts_of s' j = attempts_of s j @
      (if j = ob_id k then [open_attempt env rt i now (Suc (ob_attempts k)) k] else [])" for j
    by (simp add: attempts_of_def rows(3)) (simp add: open_attempt_def)
  show ?thesis
  proof (rule store_ok_advance [OF ok rows(1) k])
    show "reconciled env (dispatch_row rt now (Suc (ob_attempts k)) k) (attempts_of s' (ob_id k))"
      using claim_reconciled [OF cal store_okD(5) [OF ok k] w t] by (simp add: atts)
    show "\<forall>p \<in> set (ds_deliveries s). earlier p k \<longrightarrow> ob_state p = OutboundDeliveryState.Accepted"
      using due_facts [OF due] by blast
    show "\<forall>a \<in> set (ds_attempts s'). at_delivery a \<in> ob_id ` set (ds_deliveries s)"
      unfolding rows(3) using store_okD(7) [OF ok] k by (auto simp: open_attempt_def)
  qed (use w atts rows(4) in auto)
qed

text \<open>Early returns of an error before a successful value.\<close>

lemma early_return_iffs:
  "(if b then Inl e else m) = Inr x \<longleftrightarrow> \<not> b \<and> m = Inr x"
  "(case opt of None \<Rightarrow> Inl e | Some y \<Rightarrow> f y) = Inr x \<longleftrightarrow> (\<exists>y. opt = Some y \<and> f y = Inr x)"
  "(case pair of (a, b) \<Rightarrow> g a b) = Inr x \<longleftrightarrow> g (fst pair) (snd pair) = Inr x"
  by (auto split: option.splits prod.splits)

lemma claim_cases:
  assumes "claim env rt i now s = Inr (s', c)"
  obtains (none) "select_due s now = None" and "s' = s" and "c = NoneDue"
  | (failed) k v route f n where "select_due s now = Some k"
      and "ds_routes s (ob_binding_id k) = Some (v, route)" and "route_matches route k"
      and "predispatch_failure route k now = Some f"
      and "mark_permanent_before_dispatch k f now s = Inr (s', n)" and "c = StateAdvanced"
  | (dispatched) k v route where "select_due s now = Some k"
      and "ds_routes s (ob_binding_id k) = Some (v, route)" and "route_matches route k"
      and "predispatch_failure route k now = None"
      and "begin_dispatch env rt i now k s = Inr (s', c)"
proof (cases "select_due s now")
  case None
  with assms have "s' = s" and "c = NoneDue" by (simp_all add: claim_def)
  with None show ?thesis by (rule none)
next
  case k: (Some k)
  from assms obtain y where y: "ds_routes s (ob_binding_id k) = Some y" "route_matches (snd y) k"
    and rest: "(case predispatch_failure (snd y) k now of
        None \<Rightarrow> begin_dispatch env rt i now k s
      | Some f \<Rightarrow> map_ok (\<lambda>(s', _). (s', StateAdvanced)) (mark_permanent_before_dispatch k f now s)) =
        Inr (s', c)"
    unfolding claim_def k option.case early_return_iffs not_not by blast
  from y(1) have r: "ds_routes s (ob_binding_id k) = Some (fst y, snd y)" by simp
  show ?thesis
  proof (cases "predispatch_failure (snd y) k now")
    case None
    with rest have "begin_dispatch env rt i now k s = Inr (s', c)" by simp
    with k r y(2) None show ?thesis by (rule dispatched)
  next
    case (Some f)
    with rest obtain n where "mark_permanent_before_dispatch k f now s = Inr (s', n)" "c = StateAdvanced"
      by (auto simp: map_ok_Inr_iff)
    with k r y(2) Some show ?thesis by (rule failed)
  qed
qed

lemma store_ok_claim:
  assumes ok: "store_ok env s" and cal: "calendar_ok env"
    and step: "claim env rt i now s = Inr (s', c)"
  shows "store_ok env s'"
  using step
proof (cases rule: claim_cases)
  case (failed k v route f n)
  note k = select_due_Some(1,2) [OF failed(1)]
  from k(2) have "waiting k" by (rule due_time)
  with store_okD(6) [OF ok k(1)] have "ob_attempts k < 8" by (rule waiting_attempts_bound)
  with failed(4) have "is_predispatch_permanent_failure f" by (rule predispatch_failure_class)
  from store_ok_mark_permanent [OF ok cal k this failed(5)] show ?thesis .
next
  case (dispatched k v route)
  from store_ok_begin_dispatch [OF ok cal select_due_Some(1,2) [OF dispatched(1)] dispatched(5)]
  show ?thesis .
qed (use ok in simp)

section \<open>Results and recovery keep the invariant\<close>

lemma verify_attempts_count:
  "verify_attempts env r n op xs = Inr m \<Longrightarrow>
     m = op + length (filter (\<lambda>a. at_completed_at a = None) xs)"
proof (induction xs arbitrary: n op)
  case (Cons a xs)
  from Cons.prems obtain j where j: "attempt_result_ok env a = Inr j"
    and rest: "verify_attempts env r (n + 1) (op + j) xs = Inr m"
    by (auto simp: and_then_Inr_iff split: if_splits)
  from Cons.IH [OF rest] attempt_result_open [OF j] show ?case by simp
qed simp

text \<open>The open attempt of a dispatching row is its last one.\<close>

lemma open_attempt_last:
  assumes "reconciled env r as" and "ob_state r = OutboundDeliveryState.Dispatching"
    and "a \<in> set as" and "at_completed_at a = None"
  obtains xs where "as = xs @ [a]"
proof -
  from assms(1,2) obtain xs l where as: "as = xs @ [l]" and xs: "verify_attempts env r 1 0 xs = Inr 0"
    by (rule dispatching_latest)
  from verify_attempts_count [OF xs] have "\<forall>b \<in> set xs. at_completed_at b \<noteq> None"
    by (simp add: filter_empty_conv)
  with assms(3,4) as have "a = l" by auto
  with as show ?thesis by (intro that) simp
qed

lemma attempts_of_replace:
  assumes "distinct (map at_id (ds_attempts s))" and "a \<in> set (ds_attempts s)"
    and "at_delivery a' = at_delivery a"
    and "ds_attempts s' = map (\<lambda>b. if b = a then a' else b) (ds_attempts s)"
  shows "i \<noteq> at_delivery a \<Longrightarrow> attempts_of s' i = attempts_of s i"
    and "attempts_of s (at_delivery a) = xs @ [a] \<Longrightarrow> attempts_of s' (at_delivery a) = xs @ [a']"
proof -
  have all: "attempts_of s' i = map (\<lambda>b. if b = a then a' else b) (attempts_of s i)" for i
    using assms(3) by (simp add: attempts_of_def assms(4) filter_map comp_def cong: filter_cong)
      (metis (mono_tags, lifting))
  show "attempts_of s' i = attempts_of s i" if "i \<noteq> at_delivery a"
    unfolding all using that by (auto simp: attempts_of_def intro!: map_idI)
  show "attempts_of s' (at_delivery a) = xs @ [a']" if "attempts_of s (at_delivery a) = xs @ [a]"
  proof -
    have "distinct (attempts_of s (at_delivery a))"
      using assms(1) by (simp add: attempts_of_def distinct_map)
    with that have "a \<notin> set xs" by simp
    with that show ?thesis unfolding all by (auto intro!: map_idI)
  qed
qed

lemma store_ok_settle:
  assumes ok: "store_ok env s" and schema: "schema_ok s'" and k: "k \<in> set (ds_deliveries s)"
    and dispatching: "ob_state k = OutboundDeliveryState.Dispatching"
    and a: "a \<in> set (ds_attempts s)" "at_delivery a = ob_id k" "at_completed_at a = None"
    and same: "at_delivery a' = at_delivery a"
    and ident: "ob_id k' = ob_id k \<and> ob_source k' = ob_source k \<and> ob_ordinal k' = ob_ordinal k \<and>
      ob_payload k' = ob_payload k \<and> ob_payload_sha256 k' = ob_payload_sha256 k"
    and atts: "ds_attempts s' = map (\<lambda>b. if b = a then a' else b) (ds_attempts s)"
    and rows: "ds_deliveries s' = map (\<lambda>r. if r = k then k' else
        if failed_state (ob_state k') \<and> later_waiting k r
        then block_row (block_class (ob_state k')) now r else r) (ds_deliveries s)"
    and rec: "\<And>xs. reconciled env k (xs @ [a]) \<Longrightarrow> reconciled env k' (xs @ [a'])"
  shows "store_ok env s'"
proof -
  have "a \<in> set (attempts_of s (ob_id k))" using a by (simp add: attempts_of_def)
  from open_attempt_last [OF store_okD(5) [OF ok k] dispatching this a(3)]
  obtain xs where xs: "attempts_of s (ob_id k) = xs @ [a]" .
  note repl = attempts_of_replace [OF store_okD(4) [OF ok] a(1) same atts]
  have rec': "reconciled env k' (attempts_of s' (ob_id k))"
    using rec [of xs] store_okD(5) [OF ok k] repl(2) [unfolded a(2)] xs by simp
  have others: "attempts_of s' i = attempts_of s i" if "i \<noteq> ob_id k" for i
    using repl(1) that a(2) by simp
  have before: "\<forall>p \<in> set (ds_deliveries s). earlier p k \<longrightarrow> ob_state p = OutboundDeliveryState.Accepted"
    using earlier_accepted [OF store_okD(2) [OF ok] _ k] dispatching by blast
  have refs: "\<forall>b \<in> set (ds_attempts s'). at_delivery b \<in> ob_id ` set (ds_deliveries s)"
    using store_okD(7) [OF ok] a same k by (auto simp: atts)
  have active: "active_state (ob_state k)" using dispatching by simp
  show ?thesis
  proof (cases "failed_state (ob_state k')")
    case True
    have "ds_deliveries s' = map (\<lambda>r. if r = k then k' else if later_waiting k r
        then block_row (block_class (ob_state k')) now r else r) (ds_deliveries s)"
      unfolding rows by (simp only: True simp_thms)
    from store_ok_fail [OF ok schema k active before ident True this others refs rec'] show ?thesis .
  next
    case False
    then have live: "active_state (ob_state k') \<or> ob_state k' = OutboundDeliveryState.Accepted"
      using state_cases by blast
    have "ds_deliveries s' = map (\<lambda>r. if r = k then k' else r) (ds_deliveries s)"
      unfolding rows by (simp only: False simp_thms if_False)
    from store_ok_advance [OF ok schema k active before ident live this others refs rec'] show ?thesis .
  qed
qed

lemma cascade_result_rows:
  assumes "cascade_result st k now s = Inr s'" and "schema_ok s"
  shows "schema_ok s'" and "ds_attempts s' = ds_attempts s" and "ds_routes s' = ds_routes s"
    and "ds_deliveries s' = (if failed_state st
           then update_rows (later_waiting k) (block_row (block_class st) now) (ds_deliveries s)
           else ds_deliveries s)"
  using assms
  by (auto simp: cascade_result_def cascade_later_def statement_iffs block_class_def
      split: OutboundDeliveryState.splits)

lemma apply_result_rows:
  assumes step: "apply_result env req k s = Inr s'"
    and ids: "distinct (map ob_id (ds_deliveries s))" "distinct (map at_id (ds_attempts s))"
    and k: "k \<in> set (ds_deliveries s)" "ob_id k = pd_outbound_delivery_id (pr_dispatch req)"
      "ob_state k = OutboundDeliveryState.Dispatching"
    and a: "a \<in> set (ds_attempts s)" "at_id a = pd_attempt_id (pr_dispatch req)"
    and m: "dispatch_matches req k a"
  obtains out s1 where "result_outcome env req k = Inr out" and "schema_ok s'"
    and "schema_ok s1" and "ds_attempts s1 = ds_attempts s'" and "ds_routes s' = ds_routes s"
    and "ds_attempts s' = map (\<lambda>b. if b = a then complete_attempt req out a else b) (ds_attempts s)"
    and "ds_deliveries s' = map (\<lambda>r. if r = k then settle_row req out k else
        if failed_state (ro_state out) \<and> later_waiting k r
        then block_row (block_class (ro_state out)) (pr_completed_at req) r else r) (ds_deliveries s)"
proof -
  from step obtain out s1 s2 where out: "result_outcome env req k = Inr out"
    and s1: "s1 = s\<lparr>ds_attempts := update_rows
        (\<lambda>b. at_id b = pd_attempt_id (pr_dispatch req) \<and> at_completed_at b = None)
        (complete_attempt req out) (ds_attempts s)\<rparr>" "schema_ok s1"
    and s2: "s2 = s1\<lparr>ds_deliveries := update_rows
        (\<lambda>r. ob_id r = pd_outbound_delivery_id (pr_dispatch req) \<and>
             ob_state r = OutboundDeliveryState.Dispatching \<and> ob_owner r = Some (pr_runtime req) \<and>
             ob_attempts r = pd_attempt_number (pr_dispatch req))
        (settle_row req out) (ds_deliveries s1)\<rparr>" "schema_ok s2"
    and casc: "cascade_result (ro_state out) k (pr_completed_at req) s2 = Inr s'"
    unfolding apply_result_def statement_iffs by blast
  have att: "update_rows
        (\<lambda>b. at_id b = pd_attempt_id (pr_dispatch req) \<and> at_completed_at b = None)
        (complete_attempt req out) (ds_attempts s) =
      map (\<lambda>b. if b = a then complete_attempt req out a else b) (ds_attempts s)"
    by (rule update_rows_key [OF ids(2) a(1)]) (use a(2) m in \<open>auto simp: dispatch_matches_def Let_def\<close>)
  have row: "update_rows
        (\<lambda>r. ob_id r = pd_outbound_delivery_id (pr_dispatch req) \<and>
             ob_state r = OutboundDeliveryState.Dispatching \<and> ob_owner r = Some (pr_runtime req) \<and>
             ob_attempts r = pd_attempt_number (pr_dispatch req))
        (settle_row req out) (ds_deliveries s) =
      map (\<lambda>r. if r = k then settle_row req out k else r) (ds_deliveries s)"
    by (rule update_rows_key [OF ids(1) k(1)]) (use k(2,3) m in \<open>auto simp: dispatch_matches_def Let_def\<close>)
  have no: "\<not> later_waiting k (settle_row req out k)" by (simp add: later_waiting_def)
  note c = cascade_result_rows [OF casc s2(2)]
  show ?thesis
  proof (rule that [OF out c(1) s1(2)])
    show "ds_attempts s1 = ds_attempts s'" and "ds_routes s' = ds_routes s"
      using c s1(1) s2(1) by simp_all
    show "ds_attempts s' = map (\<lambda>b. if b = a then complete_attempt req out a else b) (ds_attempts s)"
      using c(2) s1(1) s2(1) att by simp
    show "ds_deliveries s' = map (\<lambda>r. if r = k then settle_row req out k else
        if failed_state (ro_state out) \<and> later_waiting k r
        then block_row (block_class (ro_state out)) (pr_completed_at req) r else r) (ds_deliveries s)"
      using c(4) s1(1) s2(1) row update_rows_later [OF no] by (auto cong: if_cong)
  qed
qed

lemma persist_cases:
  assumes "persist_result env req s = Inr (s', d)"
  obtains (replayed) k a where "find (\<lambda>r. ob_id r = pd_outbound_delivery_id (pr_dispatch req)) (ds_deliveries s) = Some k"
      and "a \<in> set (ds_attempts s)" and "ob_state k \<noteq> OutboundDeliveryState.Dispatching"
      and "replay_result env req k a = Inr d" and "s' = s"
  | (applied) k a where "result_class_allowed (pr_result req)"
      and "k \<in> set (ds_deliveries s)" and "ob_id k = pd_outbound_delivery_id (pr_dispatch req)"
      and "ob_state k = OutboundDeliveryState.Dispatching"
      and "a \<in> set (ds_attempts s)" and "at_id a = pd_attempt_id (pr_dispatch req)"
      and "at_delivery a = ob_id k" and "dispatch_matches req k a"
      and "apply_result env req k s = Inr s'" and "d = PersistDispatchResultDisposition.Applied"
proof -
  let ?d = "pr_dispatch req"
  from assms obtain k a where allowed: "result_class_allowed (pr_result req)"
    and k: "find (\<lambda>r. ob_id r = pd_outbound_delivery_id ?d) (ds_deliveries s) = Some k"
    and a: "find (\<lambda>a. at_id a = pd_attempt_id ?d \<and> at_delivery a = pd_outbound_delivery_id ?d \<and>
        at_number a = pd_attempt_number ?d) (ds_attempts s) = Some a"
    and rest: "(if ob_state k \<noteq> OutboundDeliveryState.Dispatching
        then map_ok (\<lambda>disposition. (s, disposition)) (replay_result env req k a)
        else if \<not> dispatch_matches req k a then Inl DeliveryStoreErrorKind.StateConflict
        else map_ok (\<lambda>s'. (s', PersistDispatchResultDisposition.Applied)) (apply_result env req k s)) =
        Inr (s', d)"
    unfolding persist_result_def Let_def early_return_iffs(1) and_then_Inr_iff ok_or_Inr_iff not_not
    by (elim exE conjE) (rule that; assumption)
  from a have a': "a \<in> set (ds_attempts s)" "at_id a = pd_attempt_id ?d"
      "at_delivery a = pd_outbound_delivery_id ?d"
    by (auto simp: find_Some_iff)
  from k have k': "k \<in> set (ds_deliveries s)" "ob_id k = pd_outbound_delivery_id ?d"
    by (auto simp: find_Some_iff)
  show ?thesis
  proof (cases "ob_state k = OutboundDeliveryState.Dispatching")
    case True
    with rest have "dispatch_matches req k a" "apply_result env req k s = Inr s'"
        "d = PersistDispatchResultDisposition.Applied"
      by (auto simp: map_ok_Inr_iff split: if_splits)
    with True allowed k' a' show ?thesis by (intro applied) simp_all
  next
    case False
    with rest have "replay_result env req k a = Inr d" "s' = s" by (auto simp: map_ok_Inr_iff)
    with False k a' show ?thesis by (intro replayed) simp_all
  qed
qed

lemma store_ok_persist:
  assumes ok: "store_ok env s" and step: "persist_result env req s = Inr (s', d)"
  shows "store_ok env s'"
  using step
proof (cases rule: persist_cases)
  case (applied k a)
  from apply_result_rows [OF applied(9) store_okD(3,4) [OF ok] applied(2-6,8)]
  obtain out s1 where out: "result_outcome env req k = Inr out" and schema: "schema_ok s'"
    and atts: "ds_attempts s' = map (\<lambda>b. if b = a then complete_attempt req out a else b) (ds_attempts s)"
    and rows: "ds_deliveries s' = map (\<lambda>r. if r = k then settle_row req out k else
        if failed_state (ro_state out) \<and> later_waiting k r
        then block_row (block_class (ro_state out)) (pr_completed_at req) r else r) (ds_deliveries s)" .
  have "complete_attempt req out a \<in> set (ds_attempts s')" unfolding atts using applied(5) by force
  with schema have "attempt_check (complete_attempt req out a)"
    by (simp add: schema_ok_def list_all_iff)
  moreover have "at_completed_at (complete_attempt req out a) = Some (pr_completed_at req)"
    by (simp add: complete_attempt_def split: prod.splits)
  ultimately have started: "at_started_at a \<le> pr_completed_at req" by (simp add: attempt_check_def)
  have open_a: "at_completed_at a = None" using applied(8) by (simp add: dispatch_matches_def Let_def)
  show ?thesis
    by (rule store_ok_settle [OF ok schema applied(2,4,5,7) open_a,
          where k' = "settle_row req out k" and a' = "complete_attempt req out a"
            and now = "pr_completed_at req"])
      (use atts rows settle_reconciled [OF _ applied(4) started out applied(1)] in auto)
qed (use ok in simp)

text \<open>Exactly one selected row.\<close>

lemma singleton_case_iff:
  "(case xs of [a] \<Rightarrow> f a | _ \<Rightarrow> Inl e) = Inr x \<longleftrightarrow> (\<exists>a. xs = [a] \<and> f a = Inr x)"
  by (auto split: list.splits)

lemma recover_one_rows:
  assumes step: "recover_one now f (s, receipt) k = Inr (s', receipt')"
    and ids: "distinct (map ob_id (ds_deliveries s))" "distinct (map at_id (ds_attempts s))"
    and k: "k \<in> set (ds_deliveries s)" "ob_state k = OutboundDeliveryState.Dispatching"
  obtains a where "a \<in> set (ds_attempts s)" and "at_delivery a = ob_id k" and "at_completed_at a = None"
    and "schema_ok s'" and "ds_routes s' = ds_routes s"
    and "ds_attempts s' = map (\<lambda>b. if b = a then recovered_attempt now f a else b) (ds_attempts s)"
    and "ds_deliveries s' = map (\<lambda>r. if r = k then recovered_row now f k else if later_waiting k r
        then block_row DeliveryFailureClass.PriorPartOutcomeUnknown now r else r) (ds_deliveries s)"
proof -
  from step obtain owner a s1 s2 n where
      sel: "filter (\<lambda>a. at_delivery a = ob_id k \<and> at_number a = ob_attempts k \<and> at_runtime a = owner \<and>
        at_completed_at a = None) (ds_attempts s) = [a]"
    and s1: "s1 = s\<lparr>ds_attempts := update_rows (\<lambda>b. at_id b = at_id a \<and> at_completed_at b = None)
        (recovered_attempt now f) (ds_attempts s)\<rparr>"
    and s2: "s2 = s1\<lparr>ds_deliveries := update_rows
        (\<lambda>r. ob_id r = ob_id k \<and> ob_state r = OutboundDeliveryState.Dispatching)
        (recovered_row now f) (ds_deliveries s1)\<rparr>"
    and s': "s' = s2\<lparr>ds_deliveries := update_rows (later_waiting k)
        (block_row DeliveryFailureClass.PriorPartOutcomeUnknown now) (ds_deliveries s2)\<rparr>" "schema_ok s'"
    unfolding recover_one_def prod.case cascade_later_def and_then_Inr_iff singleton_case_iff
      changed_one_Inr_iff update_attempts_Inr_iff update_deliveries_Inr_iff map_ok_Inr_iff
      split_paired_Ex
    by (elim exE conjE) (simp add: update_deliveries_Inr_iff)
  from sel have "a \<in> set (filter (\<lambda>a. at_delivery a = ob_id k \<and> at_number a = ob_attempts k \<and>
      at_runtime a = owner \<and> at_completed_at a = None) (ds_attempts s))" by simp
  then have a: "a \<in> set (ds_attempts s)" "at_delivery a = ob_id k" "at_completed_at a = None" by auto
  have att: "update_rows (\<lambda>b. at_id b = at_id a \<and> at_completed_at b = None)
        (recovered_attempt now f) (ds_attempts s) =
      map (\<lambda>b. if b = a then recovered_attempt now f a else b) (ds_attempts s)"
    by (rule update_rows_key [OF ids(2) a(1)]) (use a in auto)
  have row: "update_rows (\<lambda>r. ob_id r = ob_id k \<and> ob_state r = OutboundDeliveryState.Dispatching)
        (recovered_row now f) (ds_deliveries s) =
      map (\<lambda>r. if r = k then recovered_row now f k else r) (ds_deliveries s)"
    by (rule update_rows_key [OF ids(1) k(1)]) (use k in auto)
  have no: "\<not> later_waiting k (recovered_row now f k)" by (simp add: later_waiting_def)
  show ?thesis
    by (rule that [OF a s'(2)]) (use s' s1 s2 att row update_rows_later [OF no] in auto)
qed

lemma store_ok_recover_one:
  assumes ok: "store_ok env s" and step: "recover_one now f (s, receipt) k = Inr (s', receipt')"
    and k: "k \<in> set (ds_deliveries s)" "ob_state k = OutboundDeliveryState.Dispatching"
    and f: "f \<in> {DeliveryFailureClass.StaleDispatch, DeliveryFailureClass.ShutdownInterrupted}"
  shows "store_ok env s'"
proof -
  from recover_one_rows [OF step store_okD(3,4) [OF ok] k]
  obtain a where a: "a \<in> set (ds_attempts s)" "at_delivery a = ob_id k" "at_completed_at a = None"
    and schema: "schema_ok s'"
    and atts: "ds_attempts s' = map (\<lambda>b. if b = a then recovered_attempt now f a else b) (ds_attempts s)"
    and rows: "ds_deliveries s' = map (\<lambda>r. if r = k then recovered_row now f k else if later_waiting k r
        then block_row DeliveryFailureClass.PriorPartOutcomeUnknown now r else r) (ds_deliveries s)" .
  have "recovered_attempt now f a \<in> set (ds_attempts s')" unfolding atts using a(1) by force
  with schema have "attempt_check (recovered_attempt now f a)"
    by (simp add: schema_ok_def list_all_iff)
  moreover have "at_completed_at (recovered_attempt now f a) = Some now"
    by (simp add: recovered_attempt_def)
  ultimately have started: "at_started_at a \<le> now" by (simp add: attempt_check_def)
  show ?thesis
    by (rule store_ok_settle [OF ok schema k a, where k' = "recovered_row now f k"
          and a' = "recovered_attempt now f a" and now = now])
      (use atts rows recover_reconciled [OF _ k(2) started f] in \<open>auto simp: block_class_def\<close>)
qed

abbreviation dispatching_rows :: "delivery_store \<Rightarrow> delivery_row set" where
  "dispatching_rows s \<equiv>
     {r \<in> set (ds_deliveries s). ob_state r = OutboundDeliveryState.Dispatching}"

lemma recover_one_dispatching:
  assumes ok: "store_ok env s" and step: "recover_one now f (s, receipt) k = Inr (s', receipt')"
    and k: "k \<in> dispatching_rows s"
  shows "dispatching_rows s' = dispatching_rows s - {k}"
    and "rr_dispatches_marked_unknown receipt' = rr_dispatches_marked_unknown receipt + 1"
proof -
  from k have k': "k \<in> set (ds_deliveries s)" "ob_state k = OutboundDeliveryState.Dispatching"
    by simp_all
  from recover_one_rows [OF step store_okD(3,4) [OF ok] k']
  obtain a where rows: "ds_deliveries s' = map (\<lambda>r. if r = k then recovered_row now f k
        else if later_waiting k r
        then block_row DeliveryFailureClass.PriorPartOutcomeUnknown now r else r) (ds_deliveries s)" .
  define u where "u = (\<lambda>r. if r = k then recovered_row now f k else if later_waiting k r
      then block_row DeliveryFailureClass.PriorPartOutcomeUnknown now r else r)"
  have st: "ob_state (u r) = OutboundDeliveryState.Dispatching \<longleftrightarrow>
      r \<noteq> k \<and> ob_state r = OutboundDeliveryState.Dispatching" for r
    by (auto simp: u_def later_waiting_def)
  have same: "u r = r" if "r \<noteq> k" "ob_state r = OutboundDeliveryState.Dispatching" for r
    using that by (simp add: u_def later_waiting_def)
  have rows': "set (ds_deliveries s') = u ` set (ds_deliveries s)"
    unfolding rows [folded u_def] by (rule set_map)
  show "dispatching_rows s' = dispatching_rows s - {k}"
  proof (intro set_eqI iffI)
    fix r
    assume "r \<in> dispatching_rows s'"
    then obtain x where x: "x \<in> set (ds_deliveries s)" "r = u x"
      and "ob_state (u x) = OutboundDeliveryState.Dispatching" unfolding rows' by blast
    with st [of x] same [of x] show "r \<in> dispatching_rows s - {k}" by simp
  next
    fix r
    assume "r \<in> dispatching_rows s - {k}"
    then have r: "r \<in> set (ds_deliveries s)" "r \<noteq> k" "ob_state r = OutboundDeliveryState.Dispatching"
      by simp_all
    from imageI [OF r(1), of u] same [OF r(2,3)] r(3) show "r \<in> dispatching_rows s'"
      unfolding rows' by simp
  qed
  from step show "rr_dispatches_marked_unknown receipt' = rr_dispatches_marked_unknown receipt + 1"
    unfolding recover_one_def prod.case and_then_Inr_iff singleton_case_iff map_ok_Inr_iff by auto
qed

lemma recover_fold:
  assumes "store_ok env s" and "fold_result (recover_one now f) (s, receipt) ks = Inr (s', receipt')"
    and "set ks \<subseteq> dispatching_rows s" and "distinct ks"
    and f: "f \<in> {DeliveryFailureClass.StaleDispatch, DeliveryFailureClass.ShutdownInterrupted}"
  shows "store_ok env s' \<and> dispatching_rows s' = dispatching_rows s - set ks \<and>
    rr_dispatches_marked_unknown receipt' = rr_dispatches_marked_unknown receipt + length ks"
  using assms(1-4)
proof (induction ks arbitrary: s receipt)
  case (Cons k ks)
  from Cons.prems(2) obtain s1 receipt1 where
      step: "recover_one now f (s, receipt) k = Inr (s1, receipt1)"
    and rest: "fold_result (recover_one now f) (s1, receipt1) ks = Inr (s', receipt')"
    by (auto simp: and_then_Inr_iff)
  from Cons.prems(3) have k: "k \<in> dispatching_rows s" by simp
  note one = recover_one_dispatching [OF Cons.prems(1) step k]
  have ok1: "store_ok env s1" using store_ok_recover_one [OF Cons.prems(1) step] k f by simp
  have "set ks \<subseteq> dispatching_rows s1" using Cons.prems(3,4) unfolding one(1) by auto
  with Cons.IH [OF ok1 rest] Cons.prems(4) one show ?case by auto
qed simp

lemma recover_matching_result:
  assumes "store_ok env s" and "recover_matching runtime now f s = Inr (s', receipt)"
    and "f \<in> {DeliveryFailureClass.StaleDispatch, DeliveryFailureClass.ShutdownInterrupted}"
  defines "selected \<equiv> {r \<in> dispatching_rows s. case runtime of None \<Rightarrow> True | Some i \<Rightarrow> ob_owner r = Some i}"
  shows "store_ok env s'" and "dispatching_rows s' = dispatching_rows s - selected"
    and "rr_dispatches_marked_unknown receipt = card selected"
proof -
  let ?ks = "sort_key (\<lambda>r. (ob_created_at r, delivery_id_value (ob_id r)))
      (filter (\<lambda>r. ob_state r = OutboundDeliveryState.Dispatching \<and>
          (case runtime of None \<Rightarrow> True | Some i \<Rightarrow> ob_owner r = Some i)) (ds_deliveries s))"
  have set: "set ?ks = selected" by (auto simp: selected_def)
  have dist: "distinct ?ks" using store_okD(3) [OF assms(1)] by (simp add: distinct_map)
  have "set ?ks \<subseteq> dispatching_rows s" unfolding set by (auto simp: selected_def)
  from recover_fold [OF assms(1) assms(2) [unfolded recover_matching_def] this dist assms(3)]
  have "store_ok env s' \<and> dispatching_rows s' = dispatching_rows s - set ?ks \<and>
      rr_dispatches_marked_unknown receipt = length ?ks"
    by simp
  moreover have "length ?ks = card selected" using distinct_card [OF dist] set by simp
  ultimately show "store_ok env s'" and "dispatching_rows s' = dispatching_rows s - selected"
    and "rr_dispatches_marked_unknown receipt = card selected"
    using set by simp_all
qed

section \<open>Insertion keeps the invariant\<close>

text \<open>What the constructors of \<open>DeliveryFailure\<close> guarantee: only provider failures carry a code.\<close>

definition failure_value :: "DeliveryFailure \<Rightarrow> bool" where
  "failure_value f \<longleftrightarrow>
     df_code f = None \<or>
     df_class f \<in> {DeliveryFailureClass.ProviderRetryable, DeliveryFailureClass.ProviderPermanent,
                  DeliveryFailureClass.ProviderOutcomeUnknown}"

lemma failure_value_constructors:
  "failure_value (classified c)"
  "provider_failure c code = Inr f \<Longrightarrow> failure_value f"
  by (auto simp: failure_value_def classified_def provider_failure_def split: if_splits)

lemma insert_delivery_facts:
  assumes "insert_delivery env s d = Inr s'"
  shows "s' = s\<lparr>ds_deliveries := ds_deliveries s @ [inserted_row d]\<rparr>" and "schema_ok s'"
    and "de_hash_bytes env (od_payload_text d) = od_payload_sha256 d"
    and "od_updated_at d = od_created_at d"
    and "od_state d = OutboundDeliveryState.Queued \<and> od_failure d = None \<or>
      od_state d = OutboundDeliveryState.PermanentFailure \<and> od_failure d \<noteq> None"
  using assms unfolding insert_delivery_def early_return_iffs(1) de_Morgan_disj execute_Inr_iff
  by blast+

lemma inserted_reconciled:
  assumes "insert_delivery env s d = Inr s'"
    and "\<And>f. od_failure d = Some f \<Longrightarrow> is_zero_attempt_permanent_failure (df_class f) \<and> df_code f = None"
  shows "reconciled env (inserted_row d) []"
  using insert_delivery_facts(5) [OF assms(1)]
proof
  assume "od_state d = OutboundDeliveryState.Queued \<and> od_failure d = None"
  then show ?thesis
    using insert_delivery_facts(4) [OF assms(1)]
    by (simp add: reconciled_Nil inserted_row_def verify_ownership_def verify_state_def)
next
  assume "od_state d = OutboundDeliveryState.PermanentFailure \<and> od_failure d \<noteq> None"
  then obtain f where "od_state d = OutboundDeliveryState.PermanentFailure" "od_failure d = Some f"
    by blast
  then show ?thesis
    using assms(2) [of f] insert_delivery_facts(4) [OF assms(1)]
    by (simp add: reconciled_Nil inserted_row_def verify_ownership_def verify_state_def
        verify_permanent_failure_def)
qed

lemma store_ok_insert:
  assumes ok: "store_ok env s" and step: "insert_delivery env s d = Inr s'"
    and zero: "\<And>f. od_failure d = Some f \<Longrightarrow>
      is_zero_attempt_permanent_failure (df_class f) \<and> df_code f = None"
    and group: "\<And>p. p \<in> set (ds_deliveries s) \<Longrightarrow> ob_key p = source_key (od_source d) \<Longrightarrow>
      ob_ordinal p < od_part_ordinal d \<and>
      (ob_state p = OutboundDeliveryState.Queued \<and> od_state d = OutboundDeliveryState.Queued \<or>
       ob_state p = OutboundDeliveryState.PermanentFailure \<and>
       od_failure d = Some (classified DeliveryFailureClass.PriorPartPermanentFailure))"
    and first: "od_part_ordinal d = 1 \<or>
      (\<exists>p \<in> set (ds_deliveries s). ob_key p = source_key (od_source d) \<and> ob_ordinal p = 1)"
  shows "store_ok env s'"
proof -
  let ?n = "inserted_row d"
  note facts = insert_delivery_facts [OF step]
  note s' = facts(1) and schema = facts(2) and hash = facts(3) and st = facts(5)
  have n: "ob_id ?n = od_outbound_delivery_id d" "ob_source ?n = od_source d"
      "ob_ordinal ?n = od_part_ordinal d" "ob_state ?n = od_state d" "ob_payload ?n = od_payload_text d"
      "ob_payload_sha256 ?n = od_payload_sha256 d"
      "ob_failure_class ?n = map_option df_class (od_failure d)"
    by (simp_all add: inserted_row_def)
  have att: "attempts_of s' i = attempts_of s i" for i by (simp add: attempts_of_def s')
  from schema have "ob_id ?n \<notin> ob_id ` set (ds_deliveries s)"
    by (auto simp: schema_ok_def unique_keys_def s')
  then have none: "attempts_of s' (ob_id ?n) = []"
    unfolding att unfolding attempts_of_def filter_empty_conv using store_okD(7) [OF ok] by metis
  have order: "parts_in_order (set (ds_deliveries s) \<union> {?n})"
    unfolding parts_in_order_def
  proof (intro ballI impI)
    let ?rows = "set (ds_deliveries s)"
    fix p q
    assume p: "p \<in> ?rows \<union> {?n}" and q: "q \<in> ?rows \<union> {?n}" and pq: "earlier p q"
    have "p \<noteq> ?n" using group [of q] q pq n(2,3) by auto
    with p have p: "p \<in> ?rows" by blast
    show "(active_state (ob_state p) \<longrightarrow> ob_state q = OutboundDeliveryState.Queued) \<and>
        (failed_state (ob_state p) \<longrightarrow> ob_state q = OutboundDeliveryState.PermanentFailure) \<and>
        (failed_state (ob_state p) \<and>
           (\<forall>x \<in> ?rows \<union> {?n}. earlier x p \<longrightarrow> \<not> failed_state (ob_state x)) \<longrightarrow>
           ob_failure_class q = Some (block_class (ob_state p)))"
    proof (cases "q = ?n")
      case True
      with pq n have "ob_key p = source_key (od_source d)" by simp
      from group [OF p this] show ?thesis
        unfolding True using st n(4,7) by (auto simp: block_class_def classified_def)
    next
      case False
      with q have q: "q \<in> ?rows" by blast
      note base = parts_in_orderD [OF store_okD(2) [OF ok] p q pq]
      show ?thesis using base by blast
    qed
  qed
  show ?thesis
    unfolding store_ok_def
  proof (intro conjI)
    show "\<forall>r \<in> set (ds_deliveries s'). reconciled env r (attempts_of s' (ob_id r)) \<and>
        de_hash_bytes env (ob_payload r) = ob_payload_sha256 r \<and>
        (\<exists>p \<in> set (ds_deliveries s'). ob_key p = ob_key r \<and> ob_ordinal p = 1)"
    proof
      fix r
      assume "r \<in> set (ds_deliveries s')"
      then consider "r \<in> set (ds_deliveries s)" | "r = ?n" by (auto simp: s')
      then show "reconciled env r (attempts_of s' (ob_id r)) \<and>
          de_hash_bytes env (ob_payload r) = ob_payload_sha256 r \<and>
          (\<exists>p \<in> set (ds_deliveries s'). ob_key p = ob_key r \<and> ob_ordinal p = 1)"
      proof cases
        case 1
        with ok show ?thesis unfolding att by (auto simp: store_ok_def s')
      next
        case 2
        from first n have "\<exists>p \<in> set (ds_deliveries s'). ob_key p = ob_key r \<and> ob_ordinal p = 1"
          unfolding 2 s' by auto
        with 2 none hash n inserted_reconciled [OF step zero] show ?thesis by simp
      qed
    qed
    show "\<forall>a \<in> set (ds_attempts s'). at_delivery a \<in> ob_id ` set (ds_deliveries s')"
      using store_okD(7) [OF ok] by (auto simp: s')
    show "parts_in_order (set (ds_deliveries s'))" using order by (simp add: s')
  qed (rule schema)
qed

text \<open>The first part of a source is inserted only where the source has no rows.\<close>

lemma first_part_fresh:
  assumes ok: "store_ok env s" and step: "insert_delivery env s d = Inr s'"
    and "od_part_ordinal d = 1" and p: "p \<in> set (ds_deliveries s)"
  shows "ob_key p \<noteq> source_key (od_source d)"
proof
  assume key: "ob_key p = source_key (od_source d)"
  from ok p obtain q where q: "q \<in> set (ds_deliveries s)" "ob_key q = ob_key p" "ob_ordinal q = 1"
    unfolding store_ok_def by blast
  from insert_delivery_facts(1,2) [OF step]
  have "distinct (map (\<lambda>r. (ob_key r, ob_ordinal r)) (ds_deliveries s @ [inserted_row d]))"
    by (simp add: schema_ok_def unique_keys_def del: map_append)
  then have "(ob_key (inserted_row d), ob_ordinal (inserted_row d)) \<notin>
      (\<lambda>r. (ob_key r, ob_ordinal r)) ` set (ds_deliveries s)"
    by simp
  moreover have "(ob_key (inserted_row d), ob_ordinal (inserted_row d)) = (ob_key q, ob_ordinal q)"
    using key q assms(3) by (simp add: inserted_row_def)
  moreover from q(1) have "(ob_key q, ob_ordinal q) \<in>
      (\<lambda>r. (ob_key r, ob_ordinal r)) ` set (ds_deliveries s)"
    by (rule imageI)
  ultimately show False by simp
qed

text \<open>
  The parts of the committed source inserted so far: the first \<open>i\<close> ordinals, all failed on an
  inactive route and all queued on an active one unless there is only one part.
\<close>

definition committed_parts ::
  "DeliveryRoute \<Rightarrow> DeliverySource \<Rightarrow> nat \<Rightarrow> nat \<Rightarrow> delivery_store \<Rightarrow> bool" where
  "committed_parts route source count i s \<longleftrightarrow>
     (\<forall>p \<in> set (ds_deliveries s). ob_key p = source_key source \<longrightarrow>
        ob_ordinal p \<le> i \<and>
        (if route_failure route = None
         then ob_state p = OutboundDeliveryState.Queued \<or> count = 1
         else ob_state p = OutboundDeliveryState.PermanentFailure)) \<and>
     (\<exists>p \<in> set (ds_deliveries s). ob_key p = source_key source \<and> ob_ordinal p = 1)"

lemma commit_part_failure_cases:
  assumes "commit_part_failure route count i d = Inr d'"
    and "\<And>f. od_failure d = Some f \<Longrightarrow> failure_value f"
  shows "od_source d' = od_source d" and "od_part_ordinal d' = od_part_ordinal d"
    and "od_failure d' = Some f \<Longrightarrow>
      is_zero_attempt_permanent_failure (df_class f) \<and> df_code f = None"
    and "if route_failure route = None
      then od_state d' = OutboundDeliveryState.Queued \<or> count = 1
      else od_state d' = OutboundDeliveryState.PermanentFailure \<and>
        (i \<noteq> 0 \<longrightarrow> od_failure d' = Some (classified DeliveryFailureClass.PriorPartPermanentFailure))"
proof -
  show "od_source d' = od_source d" and "od_part_ordinal d' = od_part_ordinal d"
    and "if route_failure route = None
      then od_state d' = OutboundDeliveryState.Queued \<or> count = 1
      else od_state d' = OutboundDeliveryState.PermanentFailure \<and>
        (i \<noteq> 0 \<longrightarrow> od_failure d' = Some (classified DeliveryFailureClass.PriorPartPermanentFailure))"
    using assms(1)
    by (auto simp: commit_part_failure_def split: option.splits if_splits OutboundDeliveryState.splits)
  show "is_zero_attempt_permanent_failure (df_class f) \<and> df_code f = None" if "od_failure d' = Some f"
  proof (cases "route_failure route")
    case None
    with assms(1) that have "od_failure d = Some f" and
      "df_class f \<in> {DeliveryFailureClass.ProfileUnavailable, DeliveryFailureClass.PayloadTooLarge,
        DeliveryFailureClass.UnsupportedPayload}"
      by (auto simp: commit_part_failure_def split: option.splits if_splits OutboundDeliveryState.splits)
    with assms(2) show ?thesis
      by (auto simp: failure_value_def is_zero_attempt_permanent_failure_def)
  next
    case (Some root)
    then have "root \<in> {DeliveryFailureClass.BindingRevoked, DeliveryFailureClass.ChannelAccountDisabled}"
      by (auto simp: route_failure_def split: if_splits)
    with Some assms(1) that show ?thesis
      by (auto simp: commit_part_failure_def classified_def is_zero_attempt_permanent_failure_def
          split: if_splits)
  qed
qed

lemma commit_part_ok:
  assumes ok: "store_ok env s"
    and step: "commit_part env craxii_id binding_id route source committed_at count deadline s (i, d) = Inr s'"
    and wf: "\<And>f. od_failure d = Some f \<Longrightarrow> failure_value f"
    and i: "i < count" and prev: "i \<noteq> 0 \<Longrightarrow> committed_parts route source count i s"
  shows "store_ok env s' \<and> committed_parts route source count (Suc i) s'"
proof -
  from step obtain d' where d': "commit_part_failure route count i d = Inr d'"
    and ins: "insert_delivery env s d' = Inr s'"
    and m: "od_source d = source" "od_part_ordinal d = Suc i"
    by (auto simp: commit_part_def and_then_Inr_iff commit_part_matches_def split: if_splits)
  note c = commit_part_failure_cases [OF d' wf]
  have src: "od_source d' = source" and ord: "od_part_ordinal d' = Suc i" using c(1,2) m by simp_all
  note facts = insert_delivery_facts [OF ins]
  have fresh: "ob_key p \<noteq> source_key source" if "i = 0" "p \<in> set (ds_deliveries s)" for p
    using first_part_fresh [OF ok ins _ that(2)] ord src that(1) by simp
  have group: "ob_ordinal p < od_part_ordinal d' \<and>
      (ob_state p = OutboundDeliveryState.Queued \<and> od_state d' = OutboundDeliveryState.Queued \<or>
       ob_state p = OutboundDeliveryState.PermanentFailure \<and>
       od_failure d' = Some (classified DeliveryFailureClass.PriorPartPermanentFailure))"
    if p: "p \<in> set (ds_deliveries s)" and key: "ob_key p = source_key (od_source d')" for p
  proof -
    from fresh p key src have i0: "i \<noteq> 0" by auto
    with i have "count \<noteq> 1" by linarith
    from prev [OF i0] p key src have q: "ob_ordinal p \<le> i"
        "if route_failure route = None then ob_state p = OutboundDeliveryState.Queued \<or> count = 1
         else ob_state p = OutboundDeliveryState.PermanentFailure"
      unfolding committed_parts_def by blast+
    show ?thesis
      using q c(4) \<open>count \<noteq> 1\<close> i0 ord by (cases "route_failure route = None") simp_all
  qed
  have first: "od_part_ordinal d' = 1 \<or>
      (\<exists>p \<in> set (ds_deliveries s). ob_key p = source_key (od_source d') \<and> ob_ordinal p = 1)"
  proof (cases "i = 0")
    case False
    from prev [OF False] src show ?thesis unfolding committed_parts_def by blast
  qed (use ord in simp)
  have ok': "store_ok env s'" by (rule store_ok_insert [OF ok ins c(3) group first])
  have new: "ob_key (inserted_row d') = source_key source" "ob_ordinal (inserted_row d') = Suc i"
      "ob_state (inserted_row d') = od_state d'"
    using src ord by (simp_all add: inserted_row_def)
  have rows: "set (ds_deliveries s') = insert (inserted_row d') (set (ds_deliveries s))"
    using facts(1) by simp
  have "committed_parts route source count (Suc i) s'"
    unfolding committed_parts_def rows
  proof (intro conjI ballI impI)
    fix p
    assume p: "p \<in> insert (inserted_row d') (set (ds_deliveries s))" and key: "ob_key p = source_key source"
    show "ob_ordinal p \<le> Suc i"
    proof (cases "p = inserted_row d'")
      case False
      with p group [of p] key src ord show ?thesis by simp
    qed (use new(2) in simp)
    show "if route_failure route = None
        then ob_state p = OutboundDeliveryState.Queued \<or> count = 1
        else ob_state p = OutboundDeliveryState.PermanentFailure"
    proof (cases "p = inserted_row d'")
      case True
      with c(4) new(3) show ?thesis by (cases "route_failure route = None") (simp_all del: not_None_eq)
    next
      case False
      with p have p: "p \<in> set (ds_deliveries s)" by simp
      with fresh key have "i \<noteq> 0" by auto
      from prev [OF this] p key show ?thesis unfolding committed_parts_def by blast
    qed
  next
    show "\<exists>p \<in> insert (inserted_row d') (set (ds_deliveries s)).
        ob_key p = source_key source \<and> ob_ordinal p = 1"
      using first new ord src by (metis insert_iff)
  qed
  with ok' show ?thesis ..
qed

lemma commit_fold:
  assumes "store_ok env s"
    and "fold_result (commit_part env craxii_id binding_id route source committed_at count deadline) s
      (List.enumerate i ds) = Inr s'"
    and "i + length ds = count"
    and "\<And>d f. d \<in> set ds \<Longrightarrow> od_failure d = Some f \<Longrightarrow> failure_value f"
    and "i \<noteq> 0 \<Longrightarrow> committed_parts route source count i s"
  shows "store_ok env s'"
  using assms
proof (induction ds arbitrary: i s)
  case (Cons d ds)
  from Cons.prems(2) obtain s1 where
      step: "commit_part env craxii_id binding_id route source committed_at count deadline s (i, d) = Inr s1"
    and rest: "fold_result (commit_part env craxii_id binding_id route source committed_at count deadline)
      s1 (List.enumerate (Suc i) ds) = Inr s'"
    by (auto simp: and_then_Inr_iff)
  have wf: "failure_value f" if "od_failure d = Some f" for f
    by (rule Cons.prems(4) [OF _ that]) simp
  have "i < count" using Cons.prems(3) by simp
  from commit_part_ok [OF Cons.prems(1) step wf this Cons.prems(5)]
  have "store_ok env s1" and "committed_parts route source count (Suc i) s1" by blast+
  then show ?case
    using Cons.prems(3,4) by (intro Cons.IH [OF _ rest]) auto
qed simp

lemma store_ok_commit:
  assumes ok: "store_ok env s"
    and step: "commit_deliveries env s craxii_id conversation_id binding_id work_id message_id content
      committed_at ds = Inr s'"
    and wf: "\<And>d f. d \<in> set ds \<Longrightarrow> od_failure d = Some f \<Longrightarrow> failure_value f"
  shows "store_ok env s'"
proof -
  from step obtain d ds' route where ds: "ds = d # ds'"
    and fold: "fold_result (commit_part env craxii_id binding_id route
        (AssistantMessage message_id work_id) committed_at (length ds) (od_delivery_deadline_at d)) s
        (List.enumerate 0 ds) = Inr s'"
    unfolding commit_deliveries_def early_return_iffs and_then_Inr_iff
    by (cases ds) auto
  show ?thesis by (rule commit_fold [OF ok fold _ wf]) simp_all
qed

end
