(* ===== verification/Delivery_Machine.thy ===== *)
theory Delivery_Machine
  imports Delivery_Invariant
begin

text \<open>
  The delivery store as one machine: its transactions as operations, runs from an empty store, and
  the guarantees a run gives to the worker and to the provider. Routes may change between any two
  transactions, as binding and account administration does.
\<close>

section \<open>The control acknowledgement of a channel command\<close>

text \<open>
  The delivery part of the control classification of adapters/sqlite/channel_ingress.rs; its error
  kinds are named as those of the delivery store.
\<close>

definition commit_control_acknowledgement ::
  "delivery_env \<Rightarrow> (nat \<Rightarrow> OutboundDeliveryId) \<Rightarrow> delivery_store \<Rightarrow> InboundDeliveryId \<Rightarrow> WorkId option \<Rightarrow>
     ChannelDeliveryProfile option \<Rightarrow> DeliveryRoute \<Rightarrow> UtcTimestamp \<Rightarrow> OutboundDeliveryId \<Rightarrow>
     DeliveryStoreErrorKind + delivery_store" where
  "commit_control_acknowledgement env generate s inbound_delivery_id target_work_id delivery_profile
       account_route observed_at outbound_delivery_id =
     (let outcome = (if target_work_id \<noteq> None then ControlAcknowledgementOutcome.Applied
                     else ControlAcknowledgementOutcome.NoOp) in
      and_then (map_err (\<lambda>_. DeliveryStoreErrorKind.Invalid)
          (registry_try_new (case delivery_profile of None \<Rightarrow> [] | Some p \<Rightarrow> [p]))) (\<lambda>profiles.
      if (case delivery_profile of None \<Rightarrow> False
          | Some p \<Rightarrow> dp_provider_id p \<noteq> dr_provider_id account_route)
      then Inl DeliveryStoreErrorKind.Invalid
      else
        let route = account_route\<lparr>dr_binding_active := True, dr_account_active := True\<rparr> in
        and_then (map_err (\<lambda>_. DeliveryStoreErrorKind.Invalid)
            (plan_control_acknowledgement generate (de_hash_bytes env)
              (\<lambda>t secs. de_checked_add env t (secs * 10 ^ 9)) inbound_delivery_id outcome route
              profiles observed_at)) (\<lambda>deliveries.
        (case deliveries of
           [delivery] \<Rightarrow>
             map_err map_sqlite (insert_delivery env s
               (delivery\<lparr>od_outbound_delivery_id := outbound_delivery_id\<rparr>))
         | _ \<Rightarrow> Inl DeliveryStoreErrorKind.Invalid))))"

section \<open>Operations and runs\<close>

datatype delivery_op =
    CommitAssistant CraxiiId ConversationId ConversationBindingId WorkId MessageId MessageContent
      UtcTimestamp "OutboundDelivery list"
  | CommitControl "nat \<Rightarrow> OutboundDeliveryId" InboundDeliveryId "WorkId option"
      "ChannelDeliveryProfile option" DeliveryRoute UtcTimestamp OutboundDeliveryId
  | ClaimNext RuntimeInstanceId OutboundDeliveryAttemptId UtcTimestamp
  | PersistResult PersistDispatchResultRequest
  | RecoverStale UtcTimestamp
  | InterruptOwned RuntimeInstanceId UtcTimestamp
  | ChangeRoute ConversationBindingId "(ConversationId \<times> DeliveryRoute) option"

fun delivery_step ::
  "delivery_env \<Rightarrow> delivery_store \<Rightarrow> delivery_op \<Rightarrow> DeliveryStoreErrorKind + delivery_store" where
  "delivery_step env s (CommitAssistant craxii conv binding work msg content committed ds) =
     map_err map_sqlite (commit_deliveries env s craxii conv binding work msg content committed ds)"
| "delivery_step env s (CommitControl generate inbound target profile route observed i) =
     commit_control_acknowledgement env generate s inbound target profile route observed i"
| "delivery_step env s (ClaimNext rt i now) = map_ok fst (claim env rt i now s)"
| "delivery_step env s (PersistResult req) = map_ok fst (persist_result env req s)"
| "delivery_step env s (RecoverStale now) = map_ok fst (recover_stale_deliveries now s)"
| "delivery_step env s (InterruptOwned rt now) = map_ok fst (interrupt_owned_delivery rt now s)"
| "delivery_step env s (ChangeRoute binding route) =
     Inr (s\<lparr>ds_routes := (ds_routes s)(binding := route)\<rparr>)"

text \<open>Failures passed to the store are values of the \<open>DeliveryFailure\<close> constructors.\<close>

fun op_values_ok :: "delivery_op \<Rightarrow> bool" where
  "op_values_ok (CommitAssistant _ _ _ _ _ _ _ ds) \<longleftrightarrow>
     (\<forall>d \<in> set ds. case od_failure d of None \<Rightarrow> True | Some f \<Rightarrow> failure_value f)"
| "op_values_ok _ \<longleftrightarrow> True"

definition empty_store :: "(ConversationBindingId \<rightharpoonup> ConversationId \<times> DeliveryRoute) \<Rightarrow> delivery_store" where
  "empty_store routes = \<lparr>ds_deliveries = [], ds_attempts = [], ds_routes = routes\<rparr>"

lemma store_ok_empty: "store_ok env (empty_store routes)"
  by (simp add: store_ok_def empty_store_def schema_ok_def unique_keys_def parts_in_order_def)

lemma store_ok_routes: "store_ok env (s\<lparr>ds_routes := m\<rparr>) = store_ok env s"
  by (simp add: store_ok_def schema_ok_def unique_keys_def attempts_of_def)

lemma control_row:
  assumes "commit_control_acknowledgement env generate s inbound target profile route observed i = Inr s'"
  obtains d where "insert_delivery env s d = Inr s'" and "od_part_ordinal d = 1"
    and "od_source d = ControlAcknowledgement inbound
      (if target \<noteq> None then ControlAcknowledgementOutcome.Applied else ControlAcknowledgementOutcome.NoOp)"
    and "\<And>f. od_failure d = Some f \<Longrightarrow> is_zero_attempt_permanent_failure (df_class f) \<and> df_code f = None"
proof -
  let ?outcome = "if target \<noteq> None then ControlAcknowledgementOutcome.Applied
    else ControlAcknowledgementOutcome.NoOp"
  let ?route = "route\<lparr>dr_binding_active := True, dr_account_active := True\<rparr>"
  from assms obtain profiles d where
      plan: "plan_rendered generate (de_hash_bytes env) (\<lambda>t secs. de_checked_add env t (secs * 10 ^ 9))
        (ControlAcknowledgement inbound ?outcome) (render_control_acknowledgement ?outcome) ?route
        profiles observed = Inr [d]"
    and ins: "insert_delivery env s (d\<lparr>od_outbound_delivery_id := i\<rparr>) = Inr s'"
    unfolding commit_control_acknowledgement_def plan_control_acknowledgement_def Let_def
      and_then_Inr_iff early_return_iffs(1) map_err_Inr_iff singleton_case_iff
    by blast
  have nonempty: "render_control_acknowledgement ?outcome \<noteq> []" by simp
  obtain parts pf where parts: "plan_parts (render_control_acknowledgement ?outcome)
      (dr_provider_id ?route) profiles = (parts, pf)"
    by (cases "plan_parts (render_control_acknowledgement ?outcome) (dr_provider_id ?route) profiles")
  from plan obtain deadline where "de_checked_add env observed (60 * 60 * 10 ^ 9) = Some deadline"
    unfolding plan_rendered_def by (cases "de_checked_add env observed (60 * 60 * 10 ^ 9)") auto
  moreover have "pf = (case route_failure ?route of Some f \<Rightarrow> Some f | None \<Rightarrow> pf)"
    by (simp add: route_failure_def)
  ultimately have "map (planned_row generate (de_hash_bytes env) (ControlAcknowledgement inbound ?outcome)
      ?route pf (length parts) deadline observed) (List.enumerate 0 parts) = [d]"
    using plan_rendered_rows [OF parts nonempty, where t = observed and d = deadline and failure = pf
        and add_seconds = "\<lambda>t secs. de_checked_add env t (secs * 10 ^ 9)"] plan by simp
  then obtain part where d: "d = planned_row generate (de_hash_bytes env)
      (ControlAcknowledgement inbound ?outcome) ?route pf (length parts) deadline observed (0, part)"
    by (cases parts) auto
  have pf: "is_zero_attempt_permanent_failure c" if "pf = Some c" for c
    using plan_parts_exact(5) [OF parts nonempty] that
    by (auto simp: is_zero_attempt_permanent_failure_def)
  show ?thesis
    by (rule that [OF ins]) (use pf in \<open>auto simp: d planned_row_def classified_def\<close>)
qed

lemma delivery_step_ok:
  assumes cal: "calendar_ok env" and ok: "store_ok env s" and vals: "op_values_ok op"
    and step: "delivery_step env s op = Inr s'"
  shows "store_ok env s'"
proof (cases op)
  case (CommitAssistant craxii conv binding work msg content committed ds)
  with step have "commit_deliveries env s craxii conv binding work msg content committed ds = Inr s'"
    by (simp add: map_err_Inr_iff)
  from store_ok_commit [OF ok this] show ?thesis using vals CommitAssistant by fastforce
next
  case (CommitControl generate inbound target profile route observed i)
  with step have "commit_control_acknowledgement env generate s inbound target profile route observed i =
      Inr s'" by simp
  from control_row [OF this] obtain d where ins: "insert_delivery env s d = Inr s'"
    and ord: "od_part_ordinal d = 1"
    and zero: "\<And>f. od_failure d = Some f \<Longrightarrow>
      is_zero_attempt_permanent_failure (df_class f) \<and> df_code f = None"
    by metis
  show ?thesis
    by (rule store_ok_insert [OF ok ins zero]) (use first_part_fresh [OF ok ins ord] ord in auto)
next
  case (ClaimNext rt i now)
  with step obtain c where "claim env rt i now s = Inr (s', c)" by (auto simp: map_ok_Inr_iff)
  from store_ok_claim [OF ok cal this] show ?thesis .
next
  case (PersistResult req)
  with step obtain d where "persist_result env req s = Inr (s', d)" by (auto simp: map_ok_Inr_iff)
  from store_ok_persist [OF ok this] show ?thesis .
next
  case (RecoverStale now)
  with step obtain receipt where "recover_matching None now DeliveryFailureClass.StaleDispatch s =
      Inr (s', receipt)" by (auto simp: map_ok_Inr_iff recover_stale_deliveries_def)
  from recover_matching_result(1) [OF ok this] show ?thesis by simp
next
  case (InterruptOwned rt now)
  with step obtain receipt where "recover_matching (Some rt) now
      DeliveryFailureClass.ShutdownInterrupted s = Inr (s', receipt)"
    by (auto simp: map_ok_Inr_iff interrupt_owned_delivery_def)
  from recover_matching_result(1) [OF ok this] show ?thesis by simp
next
  case (ChangeRoute binding route)
  with step ok show ?thesis by (auto simp: store_ok_routes)
qed

interpretation delivery: transactional_store
  "delivery_step env" "\<lambda>s. calendar_ok env \<longrightarrow> store_ok env s" op_values_ok for env
  by unfold_locales (blast intro: delivery_step_ok)

lemma delivery_run_ok:
  "calendar_ok env \<Longrightarrow> list_all op_values_ok ops \<Longrightarrow>
     fold_result (delivery_step env) (empty_store routes) ops = Inr s \<Longrightarrow> store_ok env s"
  using delivery.run_consistent [of env "empty_store routes" ops s] store_ok_empty by blast

section \<open>The startup verifier accepts every reachable store\<close>

text \<open>
  The blocking check of the verifier over the ordered parts of a source: after the first failed
  part every part is failed with the class that part determines.
\<close>

fun verify_blocking :: "DeliveryFailureClass option \<Rightarrow> delivery_row list \<Rightarrow> SqliteFailureKind + unit" where
  "verify_blocking predecessor_block [] = Inr ()"
| "verify_blocking (Some expected_failure) (part # parts) =
     (if ob_state part \<noteq> OutboundDeliveryState.PermanentFailure \<or>
         ob_failure_class part \<noteq> Some expected_failure
      then Inl SqliteFailureKind.InconsistentSchema
      else verify_blocking (Some expected_failure) parts)"
| "verify_blocking None (part # parts) =
     verify_blocking
       (case ob_state part of
          OutboundDeliveryState.OutcomeUnknown \<Rightarrow> Some DeliveryFailureClass.PriorPartOutcomeUnknown
        | OutboundDeliveryState.PermanentFailure \<Rightarrow>
            Some DeliveryFailureClass.PriorPartPermanentFailure
        | _ \<Rightarrow> None) parts"

definition group_parts :: "delivery_store \<Rightarrow> MessageId + InboundDeliveryId \<Rightarrow> delivery_row list" where
  "group_parts s key = sort_key ob_ordinal (filter (\<lambda>r. ob_key r = key) (ds_deliveries s))"

lemma verify_blocking_after:
  assumes "\<forall>q \<in> set qs. ob_state q = OutboundDeliveryState.PermanentFailure \<and>
    ob_failure_class q = Some c"
  shows "verify_blocking (Some c) qs = Inr ()"
  using assms by (induction qs) auto

lemma verify_blocking_ordered:
  assumes "parts_in_order rows" and "set (pre @ ps) = {r \<in> rows. ob_key r = key}"
    and "sorted_wrt earlier (pre @ ps)" and "\<forall>r \<in> set pre. \<not> failed_state (ob_state r)"
  shows "verify_blocking None ps = Inr ()"
  using assms(2-4)
proof (induction ps arbitrary: pre)
  case (Cons p ps)
  show ?case
  proof (cases "failed_state (ob_state p)")
    case False
    then have "verify_blocking None (p # ps) = verify_blocking None ps"
      by (auto split: OutboundDeliveryState.splits)
    moreover have "verify_blocking None ps = Inr ()"
      by (rule Cons.IH [of "pre @ [p]"]) (use Cons.prems False in auto)
    ultimately show ?thesis by simp
  next
    case True
    have p: "p \<in> rows" "ob_key p = key" using Cons.prems(1) by auto
    have after: "\<forall>q \<in> set ps. earlier p q" using Cons.prems(2) by (simp add: sorted_wrt_append)
    have first: "\<forall>x \<in> rows. earlier x p \<longrightarrow> \<not> failed_state (ob_state x)"
    proof (intro ballI impI)
      fix x
      assume x: "x \<in> rows" "earlier x p"
      then have "x \<in> set (pre @ p # ps)" using Cons.prems(1) p(2) by simp
      moreover have "x \<notin> set (p # ps)"
      proof
        assume "x \<in> set (p # ps)"
        then have "x = p \<or> earlier p x" using after by auto
        with x(2) show False by auto
      qed
      ultimately show "\<not> failed_state (ob_state x)" using Cons.prems(3) by simp
    qed
    have "ob_state q = OutboundDeliveryState.PermanentFailure \<and>
        ob_failure_class q = Some (block_class (ob_state p))" if q: "q \<in> set ps" for q
    proof -
      have "q \<in> rows" using q Cons.prems(1) by auto
      moreover have "earlier p q" using q after by blast
      ultimately show ?thesis using parts_in_orderD(2,3) [OF assms(1) p(1)] True first by blast
    qed
    then have "verify_blocking (Some (block_class (ob_state p))) ps = Inr ()"
      by (intro verify_blocking_after) blast
    with True show ?thesis by (auto simp: block_class_def)
  qed
qed simp

lemma sorted_wrt_strict:
  assumes "sorted (map f xs)" and "distinct (map f xs)"
  shows "sorted_wrt (\<lambda>x y. f x < f y) xs"
  using assms by (induction xs) (auto simp: order_less_le)

lemma group_parts_ordered:
  assumes "store_ok env s"
  shows "sorted_wrt earlier (group_parts s key)"
    and "set (group_parts s key) = {r \<in> set (ds_deliveries s). ob_key r = key}"
proof -
  let ?ps = "group_parts s key"
  show set: "set ?ps = {r \<in> set (ds_deliveries s). ob_key r = key}" by (simp add: group_parts_def)
  have "distinct ?ps" using store_okD(3) [OF assms] by (simp add: group_parts_def distinct_map)
  moreover have "inj_on ob_ordinal (set ?ps)"
    unfolding set using store_ok_unique [OF assms] by (auto intro!: inj_onI)
  ultimately have "distinct (map ob_ordinal ?ps)" by (simp add: distinct_map)
  moreover have "sorted (map ob_ordinal ?ps)" by (simp add: group_parts_def)
  ultimately have "sorted_wrt (\<lambda>x y. ob_ordinal x < ob_ordinal y) ?ps" by (intro sorted_wrt_strict)
  then show "sorted_wrt earlier ?ps"
    by (rule sorted_wrt_mono_rel [rotated]) (use set in auto)
qed

lemma verified_numbers:
  "verify_attempts env r n op xs = Inr k \<Longrightarrow> map at_number xs = [n..<n + length xs]"
proof (induction xs arbitrary: n op)
  case (Cons a xs)
  from Cons.prems obtain j where "at_number a = n"
    and "verify_attempts env r (n + 1) (op + j) xs = Inr k"
    by (auto simp: and_then_Inr_iff attempt_header_ok_def split: if_splits)
  with Cons.IH show ?case by (simp add: upt_rec [of n] del: upt_Suc)
qed simp

lemma reconciled_sorted:
  assumes "reconciled env r as"
  shows "sort_key at_number as = as"
proof -
  from assms obtain k where "verify_attempts env r 1 0 as = Inr k"
    by (auto simp: verify_delivery_attempt_reconciliation_def and_then_Inr_iff split: if_splits)
  from verified_numbers [OF this] have "sorted (map at_number as)"
    by (simp only: sorted_upt)
  then show ?thesis by (rule sort_key_id_if_sorted)
qed

text \<open>
  C22. Whatever sequence of commits, claims, results, recoveries and route changes is applied to an
  empty delivery store, the resulting store passes the checks the code makes at startup: every row
  reconciles with its attempts in order of their number, every payload matches its digest, and the
  parts of every source satisfy the blocking check.
\<close>

theorem delivery_run_verified:
  assumes "calendar_ok env" and "list_all op_values_ok ops"
    and "fold_result (delivery_step env) (empty_store routes) ops = Inr s"
  shows "(\<forall>r \<in> set (ds_deliveries s).
            verify_delivery_attempt_reconciliation env r
              (sort_key at_number (attempts_of s (ob_id r))) = Inr () \<and>
            de_hash_bytes env (ob_payload r) = ob_payload_sha256 r) \<and>
         (\<forall>key. verify_blocking None (group_parts s key) = Inr ())"
proof -
  have ok: "store_ok env s" by (rule delivery_run_ok [OF assms])
  have "verify_delivery_attempt_reconciliation env r
      (sort_key at_number (attempts_of s (ob_id r))) = Inr ()" if "r \<in> set (ds_deliveries s)" for r
    using reconciled_sorted store_okD(5) [OF ok that] by metis
  moreover have "de_hash_bytes env (ob_payload r) = ob_payload_sha256 r"
    if "r \<in> set (ds_deliveries s)" for r
    using ok that by (simp add: store_ok_def)
  moreover have "verify_blocking None (group_parts s key) = Inr ()" for key
    by (rule verify_blocking_ordered [OF store_okD(2) [OF ok], where pre = "[]" and key = key])
      (use group_parts_ordered [OF ok] in simp_all)
  ultimately show ?thesis by blast
qed

text \<open>
  A concrete run: a message in two parts is committed and its first part is claimed; then its
  result is persisted, or the dispatch is interrupted by a restart.
\<close>

definition sample_env :: delivery_env where
  "sample_env =
     \<lparr>de_hash_bytes = (\<lambda>bytes. [of_nat (length bytes)]), de_hyphenated = (\<lambda>_. ''account''),
      de_checked_add = (\<lambda>t d. Some (t + d div 1000))\<rparr>"

definition sample_part :: "nat \<Rightarrow> OutboundDelivery" where
  "sample_part n =
     \<lparr>od_outbound_delivery_id = OutboundDeliveryId (of_nat n), od_craxii_id = CraxiiId 1,
      od_conversation_binding_id = ConversationBindingId 2, od_channel_account_id = ChannelAccountId 3,
      od_provider_id = ''telegram'', od_external_conversation_id = ''42'',
      od_external_thread_id = None, od_source = AssistantMessage (MessageId 5) (WorkId 6),
      od_payload_text = ''hi'', od_payload_sha256 = [2], od_part_ordinal = n, od_part_count = 2,
      od_state = OutboundDeliveryState.Queued, od_attempt_count = 0,
      od_delivery_deadline_at = 3600000000, od_failure = None, od_created_at = 0, od_updated_at = 0\<rparr>"

definition sample_dispatch :: "nat \<Rightarrow> PreparedChannelDispatch" where
  "sample_dispatch n =
     \<lparr>pd_outbound_delivery_id = OutboundDeliveryId 1,
      pd_attempt_id = OutboundDeliveryAttemptId (of_nat n), pd_attempt_number = n,
      pd_channel_account_id = ChannelAccountId 3, pd_provider_id = ''telegram'',
      pd_external_conversation_id = ''42'', pd_external_thread_id = None, pd_text = ''hi'',
      pd_payload_sha256 = [2],
      pd_dispatch_material_sha256 = dispatch_material_sha256_v1 sample_env (ChannelAccountId 3)
        ''telegram'' ''42'' None [2] 1 2,
      pd_part_ordinal = 1, pd_part_count = 2\<rparr>"

definition sample_request :: "nat \<Rightarrow> ChannelDispatchResult \<Rightarrow> UtcTimestamp \<Rightarrow> PersistDispatchResultRequest"
where
  "sample_request n result now =
     \<lparr>pr_dispatch = sample_dispatch n, pr_runtime = RuntimeInstanceId 7, pr_result = result,
      pr_local_retry_delay = Some 2000000000, pr_completed_at = now\<rparr>"

definition sample_routes :: "ConversationBindingId \<rightharpoonup> ConversationId \<times> DeliveryRoute" where
  "sample_routes = [ConversationBindingId 2 \<mapsto> (ConversationId 8, sample_route)]"

definition sample_commit :: delivery_op where
  "sample_commit =
     CommitAssistant (CraxiiId 1) (ConversationId 8) (ConversationBindingId 2) (WorkId 6)
        (MessageId 5) \<lparr>mc_blocks = [Text ''hihi'']\<rparr> 0 [sample_part 1, sample_part 2]"

definition sample_rows :: "delivery_row list" where
  "sample_rows = [inserted_row (sample_part 1), inserted_row (sample_part 2)]"

definition sample_committed :: delivery_store where
  "sample_committed = (empty_store sample_routes)\<lparr>ds_deliveries := sample_rows\<rparr>"

definition sample_claimed :: delivery_store where
  "sample_claimed = sample_committed\<lparr>
     ds_deliveries := [dispatch_row (RuntimeInstanceId 7) 10 1 (inserted_row (sample_part 1)),
                       inserted_row (sample_part 2)],
     ds_attempts := [open_attempt sample_env (RuntimeInstanceId 7) (OutboundDeliveryAttemptId 1) 10 1
                       (inserted_row (sample_part 1))]\<rparr>"

lemma calendar_ok_sample: "calendar_ok sample_env"
  by (simp add: calendar_ok_def sample_env_def pos_imp_zdiv_nonneg_iff)

lemmas schema_evals =
  schema_ok_def unique_keys_def delivery_check_def delivery_state_check_def attempt_check_def
  attempt_result_check_def empty_store_def

lemma sample_commit_step:
  "delivery_step sample_env (empty_store sample_routes) sample_commit = Inr sample_committed"
  by (simp add: sample_commit_def commit_deliveries_def sample_routes_def sample_route_def
      render_assistant_v1_def sample_part_def commit_part_def commit_part_matches_def
      commit_part_failure_def route_failure_def insert_delivery_def expected_deadline_def
      execute_def schema_evals inserted_row_def sample_env_def sample_committed_def sample_rows_def)

lemma sample_claim_step:
  "claim sample_env (RuntimeInstanceId 7) (OutboundDeliveryAttemptId 1) 10 sample_committed =
     Inr (sample_claimed, Dispatch (sample_dispatch 1))"
  by (simp add: claim_def select_due_def due_def claim_key_def attempt_statistics_def attempts_of_def
      sample_routes_def sample_route_def sample_part_def route_matches_def predispatch_failure_def
      begin_dispatch_def changed_one_def update_deliveries_def update_rows_def rows_affected_def
      dispatch_row_def open_attempt_def prepared_def sample_dispatch_def
      execute_def schema_evals inserted_row_def sample_env_def sample_committed_def sample_rows_def
      sample_claimed_def)

definition sample_recovered :: delivery_store where
  "sample_recovered = sample_claimed\<lparr>
     ds_deliveries :=
       [recovered_row 20 DeliveryFailureClass.StaleDispatch
          (dispatch_row (RuntimeInstanceId 7) 10 1 (inserted_row (sample_part 1))),
        block_row DeliveryFailureClass.PriorPartOutcomeUnknown 20 (inserted_row (sample_part 2))],
     ds_attempts := map (recovered_attempt 20 DeliveryFailureClass.StaleDispatch)
       (ds_attempts sample_claimed)\<rparr>"

lemma sample_recover_step:
  "recover_stale_deliveries 20 sample_claimed =
     Inr (sample_recovered, \<lparr>rr_dispatches_marked_unknown = 1, rr_later_parts_blocked = 1\<rparr>)"
  by (simp add: recover_stale_deliveries_def recover_matching_def recover_one_def sample_part_def
      changed_one_def update_deliveries_def update_attempts_def update_rows_def rows_affected_def
      dispatch_row_def open_attempt_def recovered_row_def recovered_attempt_def cascade_later_def
      later_waiting_def block_row_def
      execute_def schema_evals inserted_row_def sample_env_def sample_committed_def sample_rows_def
      sample_claimed_def sample_recovered_def)

definition sample_settled :: delivery_store where
  "sample_settled = sample_claimed\<lparr>
     ds_deliveries :=
       [settle_row (sample_request 1 (DispatchAccepted (Some ''100'')) 20)
          (settled OutboundDeliveryState.Accepted None (Some 20))
          (dispatch_row (RuntimeInstanceId 7) 10 1 (inserted_row (sample_part 1))),
        inserted_row (sample_part 2)],
     ds_attempts := map (complete_attempt (sample_request 1 (DispatchAccepted (Some ''100'')) 20)
          (settled OutboundDeliveryState.Accepted None (Some 20))) (ds_attempts sample_claimed)\<rparr>"

lemma sample_persist_step:
  "persist_result sample_env (sample_request 1 (DispatchAccepted (Some ''100'')) 20) sample_claimed =
     Inr (sample_settled, PersistDispatchResultDisposition.Applied)"
  by (simp add: persist_result_def result_class_allowed_def dispatch_is_canonical_def
      sample_request_def sample_dispatch_def attempt_statistics_def attempts_of_def
      dispatch_matches_def apply_result_def result_outcome_def cascade_result_def settled_def
      settle_row_def complete_attempt_def sample_part_def
      changed_one_def update_deliveries_def update_attempts_def update_rows_def rows_affected_def
      dispatch_row_def open_attempt_def
      execute_def schema_evals inserted_row_def sample_env_def sample_committed_def sample_rows_def
      sample_claimed_def sample_settled_def)

lemma sample_run:
  "fold_result (delivery_step sample_env) (empty_store sample_routes)
     [sample_commit, ClaimNext (RuntimeInstanceId 7) (OutboundDeliveryAttemptId 1) 10] =
     Inr sample_claimed"
  by (simp add: sample_commit_step sample_claim_step)

lemma sample_commit_ok: "op_values_ok sample_commit"
  by (simp add: sample_commit_def sample_part_def)

lemmas sample_facts = calendar_ok_sample sample_commit_ok sample_commit_step sample_claim_step
  sample_recover_step sample_persist_step

theorem delivery_run_verified_witness:
  "fold_result (delivery_step sample_env) (empty_store sample_routes)
     [sample_commit, ClaimNext (RuntimeInstanceId 7) (OutboundDeliveryAttemptId 1) 10, RecoverStale 20] =
     Inr sample_recovered \<and>
   verify_blocking None (group_parts sample_recovered (Inl (MessageId 5))) = Inr ()"
  using delivery_run_verified [of sample_env
      "[sample_commit, ClaimNext (RuntimeInstanceId 7) (OutboundDeliveryAttemptId 1) 10,
        RecoverStale 20]" sample_routes sample_recovered]
  by (simp add: sample_facts)

end
