(* ===== verification/Delivery_Guarantees.thy ===== *)
theory Delivery_Guarantees
  imports Delivery_Machine
begin

text \<open>
  What a run of the delivery store guarantees to its users: when a part may be handed to a provider,
  that settled parts never change, how a repeated result is answered, what recovery leaves behind,
  and the bounds of the retry schedule and the digest input of a dispatch.
\<close>

section \<open>Claims\<close>

lemma predispatch_None:
  assumes "predispatch_failure route row now = None"
  shows "dr_binding_active route" and "dr_account_active route" and "now < ob_deadline row"
    and "ob_attempts row < 8"
  using assms by (auto simp: predispatch_failure_def split: if_splits)

text \<open>
  C23. A claim hands out a dispatch only for a stored part that is due and least in the claim order
  among the due parts: all earlier parts of its source are accepted, its retry time has come, its
  deadline has not, its route is active and unchanged, the attempt is the next one and at most the
  eighth. The dispatch carries the stored payload and a canonical material digest, and afterwards
  the part is the only one of its source that is being dispatched.
\<close>

theorem claim_dispatch_safe:
  assumes "calendar_ok env" and "list_all op_values_ok ops"
    and "fold_result (delivery_step env) (empty_store routes) ops = Inr s"
    and "claim env runtime attempt_id now s = Inr (s', Dispatch d)"
  shows "\<exists>row conversation route.
     row \<in> set (ds_deliveries s) \<and> pd_outbound_delivery_id d = ob_id row \<and> pd_text d = ob_payload row \<and>
     (\<forall>p \<in> set (ds_deliveries s). earlier p row \<longrightarrow> ob_state p = OutboundDeliveryState.Accepted) \<and>
     (\<forall>q \<in> set (ds_deliveries s). due s now q \<longrightarrow> claim_key row \<le> claim_key q) \<and>
     (\<exists>t. ob_next_attempt_at row = Some t \<and> t \<le> now) \<and> now < ob_deadline row \<and>
     ds_routes s (ob_binding_id row) = Some (conversation, route) \<and> route_matches route row \<and>
     dr_binding_active route \<and> dr_account_active route \<and>
     pd_attempt_number d = length (attempts_of s (ob_id row)) + 1 \<and> pd_attempt_number d \<le> 8 \<and>
     dispatch_is_canonical env d \<and>
     {q \<in> dispatching_rows s'. ob_key q = ob_key row} = {dispatch_row runtime now (pd_attempt_number d) row}"
  using assms(4)
proof (cases rule: claim_cases)
  case (dispatched k v route)
  have ok: "store_ok env s" by (rule delivery_run_ok [OF assms(1-3)])
  note sel = select_due_Some [OF dispatched(1)]
  note rows = begin_dispatch_rows [OF dispatched(5) store_okD(3) [OF ok] sel(1)]
  let ?k = "dispatch_row runtime now (Suc (ob_attempts k)) k"
  from rows(5) have d: "d = prepared env attempt_id (Suc (ob_attempts k)) k" by simp
  obtain t where t: "ob_next_attempt_at k = Some t" "t \<le> now" and w: "waiting k"
    using sel(2) by (rule due_time)
  have others: "ob_state q \<noteq> OutboundDeliveryState.Dispatching"
    if q: "q \<in> set (ds_deliveries s)" "ob_key q = ob_key k" for q
  proof
    assume disp: "ob_state q = OutboundDeliveryState.Dispatching"
    consider "earlier q k" | "earlier k q" | "ob_ordinal q = ob_ordinal k" using q(2) by force
    then show False
    proof cases
      case 1
      from due_facts [OF sel(2) q(1) this] disp show False by simp
    next
      case 2
      from earlier_accepted [OF store_okD(2) [OF ok] sel(1) q(1) this] disp w show False by auto
    next
      case 3
      with store_ok_unique [OF ok sel(1)] q have "q = k" by blast
      with disp w show False by auto
    qed
  qed
  have "{q \<in> dispatching_rows s'. ob_key q = ob_key k} = {?k}"
  proof (intro set_eqI iffI)
    fix q
    assume "q \<in> {q \<in> dispatching_rows s'. ob_key q = ob_key k}"
    then have q: "q \<in> set (ds_deliveries s')" "ob_state q = OutboundDeliveryState.Dispatching"
      "ob_key q = ob_key k" by blast+
    from q(1) obtain x where x: "x \<in> set (ds_deliveries s)" "q = (if x = k then ?k else x)"
      unfolding rows(4) set_map by (elim imageE)
    show "q \<in> {?k}"
    proof (cases "x = k")
      case False
      with x others [of q] q(2,3) show ?thesis by simp
    qed (use x in simp)
  next
    fix q
    assume "q \<in> {?k}"
    moreover have "?k \<in> set (ds_deliveries s')" unfolding rows(4) using sel(1) by force
    ultimately show "q \<in> {q \<in> dispatching_rows s'. ob_key q = ob_key k}"
      by (simp add: dispatch_row_def)
  qed
  moreover have "de_hash_bytes env (ob_payload k) = ob_payload_sha256 k"
    using ok sel(1) by (simp add: store_ok_def)
  moreover have "ob_attempts k = length (attempts_of s (ob_id k))"
    by (rule reconciled_length [OF store_okD(5) [OF ok sel(1)]])
  ultimately show ?thesis
    using sel(1,3) due_facts [OF sel(2)] t dispatched(2,3) predispatch_None [OF dispatched(4)]
    by (intro exI [of _ k] exI [of _ v] exI [of _ route])
      (simp add: d prepared_def dispatch_is_canonical_def)
qed simp_all

theorem claim_dispatch_safe_witness:
  "claim sample_env (RuntimeInstanceId 7) (OutboundDeliveryAttemptId 1) 10 sample_committed =
     Inr (sample_claimed, Dispatch (sample_dispatch 1)) \<and>
   dispatch_is_canonical sample_env (sample_dispatch 1) \<and> pd_attempt_number (sample_dispatch 1) \<le> 8"
  using claim_dispatch_safe [OF calendar_ok_sample, of "[sample_commit]" sample_routes
      sample_committed "RuntimeInstanceId 7" "OutboundDeliveryAttemptId 1" 10 sample_claimed
      "sample_dispatch 1"]
  by (auto simp: sample_facts)

section \<open>Settled parts\<close>

text \<open>Every settled row of the first store is in the second one, with the same attempts.\<close>

definition settled_kept :: "delivery_store \<Rightarrow> delivery_store \<Rightarrow> bool" where
  "settled_kept s s' \<longleftrightarrow>
     (\<forall>r \<in> set (ds_deliveries s). delivery_is_terminal (ob_state r) \<longrightarrow>
        r \<in> set (ds_deliveries s') \<and> attempts_of s' (ob_id r) = attempts_of s (ob_id r))"

lemma settled_kept_refl: "settled_kept s s"
  by (simp add: settled_kept_def)

lemma settled_kept_trans: "settled_kept s t \<Longrightarrow> settled_kept t u \<Longrightarrow> settled_kept s u"
  by (simp add: settled_kept_def)

lemma settled_keptI:
  assumes "\<And>r. r \<in> set (ds_deliveries s) \<Longrightarrow> delivery_is_terminal (ob_state r) \<Longrightarrow> u r = r"
    and "ds_deliveries s' = map u (ds_deliveries s) @ new"
    and "\<And>r. r \<in> set (ds_deliveries s) \<Longrightarrow> delivery_is_terminal (ob_state r) \<Longrightarrow>
           attempts_of s' (ob_id r) = attempts_of s (ob_id r)"
  shows "settled_kept s s'"
  unfolding settled_kept_def
proof (intro ballI impI conjI)
  fix r
  assume r: "r \<in> set (ds_deliveries s)" "delivery_is_terminal (ob_state r)"
  have "u r \<in> set (ds_deliveries s')" unfolding assms(2) using r(1) by simp
  with assms(1) [OF r] show "r \<in> set (ds_deliveries s')" by simp
  show "attempts_of s' (ob_id r) = attempts_of s (ob_id r)" by (rule assms(3) [OF r])
qed

text \<open>An update of one unsettled row, of waiting rows, and of attempts of that row.\<close>

lemma settled_kept_update:
  assumes ok: "store_ok env s" and k: "k \<in> set (ds_deliveries s)"
    and live: "\<not> delivery_is_terminal (ob_state k)"
    and rows: "ds_deliveries s' = map (\<lambda>r. if r = k then k' else if P r \<and> waiting r then b r else r)
      (ds_deliveries s)"
    and atts: "\<And>i. i \<noteq> ob_id k \<Longrightarrow> attempts_of s' i = attempts_of s i"
  shows "settled_kept s s'"
proof (rule settled_keptI [where new = "[]"])
  fix r
  assume r: "r \<in> set (ds_deliveries s)" "delivery_is_terminal (ob_state r)"
  from r(2) live have "r \<noteq> k" and "\<not> waiting r" by auto
  then show "(\<lambda>r. if r = k then k' else if P r \<and> waiting r then b r else r) r = r" by simp
  have "ob_id r \<noteq> ob_id k"
    using store_okD(3) [OF ok] r(1) k \<open>r \<noteq> k\<close> by (auto simp: distinct_map dest: inj_onD)
  then show "attempts_of s' (ob_id r) = attempts_of s (ob_id r)" by (rule atts)
qed (simp add: rows)

lemma later_waiting_split:
  "later_waiting k r \<longleftrightarrow> (ob_ordinal k < ob_ordinal r \<and> ob_key r = ob_key k) \<and> waiting r"
  by (auto simp: later_waiting_def)

lemma settled_kept_claim:
  assumes ok: "store_ok env s" and step: "claim env rt i now s = Inr (s', c)"
  shows "settled_kept s s'"
  using step
proof (cases rule: claim_cases)
  case (failed k v route f n)
  note k = select_due_Some(1,2) [OF failed(1)]
  from k(2) have w: "waiting k" by (rule due_time)
  note rows = mark_permanent_rows [OF failed(5) store_okD(3) [OF ok] k(1) w]
  show ?thesis
    by (rule settled_kept_update [OF ok k(1) _ rows(4) [unfolded later_waiting_split]])
      (use w attempts_of_same [OF rows(2)] in auto)
next
  case (dispatched k v route)
  note k = select_due_Some(1,2) [OF dispatched(1)]
  from k(2) have w: "waiting k" by (rule due_time)
  note rows = begin_dispatch_rows [OF dispatched(5) store_okD(3) [OF ok] k(1)]
  show ?thesis
  proof (rule settled_kept_update [OF ok k(1), where P = "\<lambda>_. False"])
    show "ds_deliveries s' = map (\<lambda>r. if r = k then dispatch_row rt now (Suc (ob_attempts k)) k
        else if False \<and> waiting r then undefined r else r) (ds_deliveries s)"
      unfolding rows(4) by simp
    show "attempts_of s' j = attempts_of s j" if "j \<noteq> ob_id k" for j
      using that by (simp add: attempts_of_def rows(3)) (simp add: open_attempt_def)
  qed (use w in auto)
qed (simp add: settled_kept_refl)

lemma settled_kept_persist:
  assumes ok: "store_ok env s" and step: "persist_result env req s = Inr (s', d)"
  shows "settled_kept s s'"
  using step
proof (cases rule: persist_cases)
  case (applied k a)
  from apply_result_rows [OF applied(9) store_okD(3,4) [OF ok] applied(2-6,8)]
  obtain out s1 where
      atts: "ds_attempts s' = map (\<lambda>b. if b = a then complete_attempt req out a else b) (ds_attempts s)"
    and rows: "ds_deliveries s' = map (\<lambda>r. if r = k then settle_row req out k else
        if failed_state (ro_state out) \<and> later_waiting k r
        then block_row (block_class (ro_state out)) (pr_completed_at req) r else r) (ds_deliveries s)" .
  have same: "at_delivery (complete_attempt req out a) = at_delivery a"
    by (simp add: complete_attempt_def split: prod.splits)
  show ?thesis
    by (rule settled_kept_update [OF ok applied(2) _ rows [unfolded later_waiting_split conj_assoc [symmetric]]])
      (use applied(4,7) attempts_of_replace(1) [OF store_okD(4) [OF ok] applied(5) same atts] in auto)
qed (simp add: settled_kept_refl)

lemma settled_kept_recover_one:
  assumes ok: "store_ok env s" and step: "recover_one now f (s, receipt) k = Inr (s', receipt')"
    and k: "k \<in> dispatching_rows s"
  shows "settled_kept s s'"
proof -
  from k have k': "k \<in> set (ds_deliveries s)" "ob_state k = OutboundDeliveryState.Dispatching"
    by simp_all
  from recover_one_rows [OF step store_okD(3,4) [OF ok] k']
  obtain a where a: "a \<in> set (ds_attempts s)" "at_delivery a = ob_id k"
    and atts: "ds_attempts s' = map (\<lambda>b. if b = a then recovered_attempt now f a else b) (ds_attempts s)"
    and rows: "ds_deliveries s' = map (\<lambda>r. if r = k then recovered_row now f k else if later_waiting k r
        then block_row DeliveryFailureClass.PriorPartOutcomeUnknown now r else r) (ds_deliveries s)" .
  have same: "at_delivery (recovered_attempt now f a) = at_delivery a"
    by (simp add: recovered_attempt_def)
  show ?thesis
    by (rule settled_kept_update [OF ok k'(1) _ rows [unfolded later_waiting_split]])
      (use k'(2) a(2) attempts_of_replace(1) [OF store_okD(4) [OF ok] a(1) same atts] in auto)
qed

lemma settled_kept_recover_fold:
  assumes "store_ok env s" and "fold_result (recover_one now f) (s, receipt) ks = Inr (s', receipt')"
    and "set ks \<subseteq> dispatching_rows s" and "distinct ks"
    and f: "f \<in> {DeliveryFailureClass.StaleDispatch, DeliveryFailureClass.ShutdownInterrupted}"
  shows "settled_kept s s'"
  using assms(1-4)
proof (induction ks arbitrary: s receipt)
  case (Cons k ks)
  from Cons.prems(2) obtain s1 receipt1 where
      step: "recover_one now f (s, receipt) k = Inr (s1, receipt1)"
    and rest: "fold_result (recover_one now f) (s1, receipt1) ks = Inr (s', receipt')"
    by (auto simp: and_then_Inr_iff)
  from Cons.prems(3) have k: "k \<in> dispatching_rows s" by simp
  note one = recover_one_dispatching [OF Cons.prems(1) step k]
  have ok1: "store_ok env s1" using store_ok_recover_one [OF Cons.prems(1) step] k f by simp
  have "set ks \<subseteq> dispatching_rows s1" using Cons.prems(3,4) unfolding one(1) by auto
  then have "settled_kept s1 s'" by (rule Cons.IH [OF ok1 rest]) (use Cons.prems(4) in simp)
  with settled_kept_recover_one [OF Cons.prems(1) step k] show ?case by (rule settled_kept_trans)
qed (simp add: settled_kept_refl)

lemma settled_kept_recover:
  assumes ok: "store_ok env s" and step: "recover_matching runtime now f s = Inr (s', receipt)"
    and f: "f \<in> {DeliveryFailureClass.StaleDispatch, DeliveryFailureClass.ShutdownInterrupted}"
  shows "settled_kept s s'"
  by (rule settled_kept_recover_fold [OF ok step [unfolded recover_matching_def] _ _ f])
    (use store_okD(3) [OF ok] in \<open>auto simp: distinct_map\<close>)

lemma settled_kept_append:
  "ds_deliveries s' = ds_deliveries s @ new \<Longrightarrow> ds_attempts s' = ds_attempts s \<Longrightarrow> settled_kept s s'"
  by (rule settled_keptI [where u = id]) (simp_all add: attempts_of_def)

lemma settled_kept_insert: "insert_delivery env s d = Inr s' \<Longrightarrow> settled_kept s s'"
  by (drule insert_delivery_facts(1)) (simp add: settled_kept_append)

lemma settled_kept_commit_fold:
  "fold_result (commit_part env c b route source t n dl) s xs = Inr s' \<Longrightarrow> settled_kept s s'"
proof (induction xs arbitrary: s)
  case (Cons x xs)
  from Cons.prems obtain s1 where step: "commit_part env c b route source t n dl s x = Inr s1"
    and rest: "fold_result (commit_part env c b route source t n dl) s1 xs = Inr s'"
    by (auto simp: and_then_Inr_iff)
  from step obtain d where "insert_delivery env s d = Inr s1"
    unfolding commit_part_def early_return_iffs(1,3) and_then_Inr_iff by blast
  from settled_kept_trans [OF settled_kept_insert [OF this] Cons.IH [OF rest]] show ?case .
qed (simp add: settled_kept_refl)

lemma settled_kept_commit:
  assumes "commit_deliveries env s c conv b w m content t ds = Inr s'"
  shows "settled_kept s s'"
proof -
  from assms obtain d ds' route where "ds = d # ds'"
    and "fold_result (commit_part env c b route (AssistantMessage m w) t
      (length ds) (od_delivery_deadline_at d)) s (List.enumerate 0 ds) = Inr s'"
    unfolding commit_deliveries_def early_return_iffs and_then_Inr_iff by (cases ds) auto
  from this(2) show ?thesis by (rule settled_kept_commit_fold)
qed

lemma settled_kept_step:
  assumes ok: "store_ok env s" and step: "delivery_step env s op = Inr s'"
  shows "settled_kept s s'"
proof (cases op)
  case (CommitControl generate inbound target profile route observed i)
  with step have "commit_control_acknowledgement env generate s inbound target profile route observed i =
      Inr s'" by simp
  from control_row [OF this] show ?thesis using settled_kept_insert by metis
next
  case (ChangeRoute binding route)
  with step show ?thesis by (auto simp: settled_kept_def attempts_of_def)
qed (use step in \<open>auto simp: map_err_Inr_iff map_ok_Inr_iff recover_stale_deliveries_def
    interrupt_owned_delivery_def intro: settled_kept_commit settled_kept_claim [OF ok]
    settled_kept_persist [OF ok] settled_kept_recover [OF ok]\<close>)

lemma settled_kept_run:
  assumes cal: "calendar_ok env"
  shows "store_ok env s \<Longrightarrow> list_all op_values_ok ops \<Longrightarrow>
    fold_result (delivery_step env) s ops = Inr s' \<Longrightarrow> settled_kept s s'"
proof (induction ops arbitrary: s)
  case (Cons op ops)
  from Cons.prems(3) obtain s1 where step: "delivery_step env s op = Inr s1"
    and rest: "fold_result (delivery_step env) s1 ops = Inr s'"
    by (auto simp: and_then_Inr_iff)
  have "store_ok env s1" by (rule delivery_step_ok [OF cal Cons.prems(1) _ step]) (use Cons.prems(2) in simp)
  then have "settled_kept s1 s'" by (rule Cons.IH [OF _ _ rest]) (use Cons.prems(2) in simp)
  with settled_kept_step [OF Cons.prems(1) step] show ?case by (rule settled_kept_trans)
qed (simp add: settled_kept_refl)

text \<open>
  C24. Once a part is accepted, failed or of unknown outcome, no later sequence of commits, claims,
  results, recoveries and route changes alters its row or its attempts: an accepted part is never
  sent again and an unknown outcome is never retried.
\<close>

theorem settled_parts_immutable:
  assumes "calendar_ok env" and "list_all op_values_ok ops" and "list_all op_values_ok ops'"
    and "fold_result (delivery_step env) (empty_store routes) ops = Inr s"
    and "fold_result (delivery_step env) s ops' = Inr s'"
    and "r \<in> set (ds_deliveries s)" and "delivery_is_terminal (ob_state r)"
  shows "r \<in> set (ds_deliveries s') \<and> attempts_of s' (ob_id r) = attempts_of s (ob_id r)"
  using settled_kept_run [OF assms(1) delivery_run_ok [OF assms(1,2,4)] assms(3,5)] assms(6,7)
  by (simp add: settled_kept_def)

theorem settled_parts_immutable_witness:
  "\<exists>r. r \<in> set (ds_deliveries sample_settled) \<and> ob_state r = OutboundDeliveryState.Accepted \<and>
     (\<exists>s'. fold_result (delivery_step sample_env) sample_settled [ChangeRoute (ConversationBindingId 2) None]
        = Inr s' \<and> r \<in> set (ds_deliveries s') \<and>
        attempts_of s' (ob_id r) = attempts_of sample_settled (ob_id r))"
proof -
  let ?r = "settle_row (sample_request 1 (DispatchAccepted (Some ''100'')) 20)
          (settled OutboundDeliveryState.Accepted None (Some 20))
          (dispatch_row (RuntimeInstanceId 7) 10 1 (inserted_row (sample_part 1)))"
  have r: "?r \<in> set (ds_deliveries sample_settled)" "ob_state ?r = OutboundDeliveryState.Accepted"
    by (simp_all add: sample_settled_def settle_row_def settled_def sample_request_def)
  with settled_parts_immutable [of sample_env "[sample_commit,
        ClaimNext (RuntimeInstanceId 7) (OutboundDeliveryAttemptId 1) 10,
        PersistResult (sample_request 1 (DispatchAccepted (Some ''100'')) 20)]"
      "[ChangeRoute (ConversationBindingId 2) None]" sample_routes sample_settled _ ?r]
  show ?thesis by (intro exI [of _ ?r]) (simp add: sample_facts del: One_nat_def)
qed

section \<open>Repeated results\<close>

lemma find_unique:
  assumes "distinct (map f xs)" and "x \<in> set xs" and "P x" and "\<And>y. P y \<Longrightarrow> f y = f x"
  shows "find P xs = Some x"
  using assms
proof (induction xs)
  case (Cons y ys)
  show ?case
  proof (cases "P y")
    case True
    have "f y = f x" by (rule Cons.prems(4) [OF True])
    then have "x = y" using Cons.prems(1,2) by (metis distinct.simps(2) image_eqI list.simps(9) list.set_map set_ConsD)
    with True show ?thesis by simp
  next
    case False
    with Cons.prems(2,3) have "x \<in> set ys" by auto
    from Cons.IH [OF _ this Cons.prems(3,4)] Cons.prems(1) False show ?thesis by simp
  qed
qed simp

lemma foldr_max_upt: "foldr max [1..<Suc n] 0 = n"
proof -
  have "foldr max [a..<Suc n] 0 = n" if "a \<le> n" for a
    using that
  proof (induction "n - a" arbitrary: a)
    case (Suc k)
    then show ?case by (simp add: upt_rec [of a] del: upt_Suc)
  qed (simp add: upt_rec)
  from this [of 1] show ?thesis by (cases n) (auto simp del: upt_Suc)
qed

lemma reconciled_statistics:
  assumes "reconciled env r as" and "as \<noteq> []"
  shows "attempt_statistics as =
    (ob_attempts r, Some (ob_attempts r),
     if ob_state r = OutboundDeliveryState.Dispatching then 1 else 0)"
proof -
  from assms(1) obtain n where n: "verify_attempts env r 1 0 as = Inr n"
    and own: "verify_ownership r n (if as = [] then None else Some (last as))"
    by (auto simp: verify_delivery_attempt_reconciliation_def and_then_Inr_iff Let_def split: if_splits)
  have "map at_number as = [1..<Suc (length as)]" using verified_numbers [OF n] by simp
  then have "foldr max (map at_number as) 0 = length as" by (simp only: foldr_max_upt)
  moreover have "length (filter (\<lambda>a. at_completed_at a = None) as) =
      (if ob_state r = OutboundDeliveryState.Dispatching then 1 else 0)"
    using verify_attempts_count [OF n] own by (auto simp: verify_ownership_def split: if_splits option.splits)
  ultimately show ?thesis
    using assms(2) reconciled_length [OF assms(1)] by (simp add: attempt_statistics_def)
qed

text \<open>The row and the attempt a result leaves behind answer the same result as exact.\<close>

lemma replay_exact:
  assumes "result_outcome env req k = Inr out"
  shows "replay_result env req (settle_row req out k) (complete_attempt req out a) =
    (if delivery_is_terminal (ro_state out) then Inr Idempotent
     else Inl DeliveryStoreErrorKind.StateConflict)"
proof (cases "pr_result req")
  case (DispatchRetryableFailure f after)
  with assms obtain p sel nxt where
      sch: "retry_schedule env k (pr_completed_at req) (pr_local_retry_delay req) after = Inr (p, sel, nxt)"
    and out: "ro_provider_ms out = p" "ro_selected_ms out = Some sel"
      "ro_scheduled out = (if ob_attempts k < 8 \<and> nxt < ob_deadline k then Some nxt else None)"
    by (auto simp: result_outcome_def and_then_Inr_iff Let_def split: if_splits)
  have sch': "retry_schedule env (settle_row req out k) (pr_completed_at req) (pr_local_retry_delay req)
      after = Inr (p, sel, nxt)"
    using sch by (simp add: retry_schedule_def)
  show ?thesis
    using DispatchRetryableFailure out sch'
    by (simp add: replay_result_def timing_exact_def settle_row_def complete_attempt_def Let_def)
qed (use assms in \<open>auto simp: replay_result_def timing_exact_def settle_row_def complete_attempt_def
    result_outcome_def settled_def\<close>)

text \<open>
  C25. A result that was applied and is reported again leaves the store as it is. It is acknowledged
  as idempotent when the first report settled the part, and rejected as a state conflict when the
  first report scheduled a retry.
\<close>

theorem persist_result_replayed:
  assumes "calendar_ok env" and "list_all op_values_ok ops"
    and "fold_result (delivery_step env) (empty_store routes) ops = Inr s"
    and "persist_result env req s = Inr (s', PersistDispatchResultDisposition.Applied)"
  shows "\<exists>row \<in> set (ds_deliveries s'). ob_id row = pd_outbound_delivery_id (pr_dispatch req) \<and>
    persist_result env req s' =
      (if delivery_is_terminal (ob_state row) then Inr (s', Idempotent)
       else Inl DeliveryStoreErrorKind.StateConflict)"
  using assms(4)
proof (cases rule: persist_cases)
  case (replayed k a)
  from replayed(4) have False
    by (auto simp: replay_result_def and_then_Inr_iff Let_def split: prod.splits if_splits)
  then show ?thesis ..
next
  case (applied k a)
  let ?d = "pr_dispatch req"
  have ok: "store_ok env s" by (rule delivery_run_ok [OF assms(1-3)])
  have ok': "store_ok env s'" by (rule store_ok_persist [OF ok assms(4)])
  from apply_result_rows [OF applied(9) store_okD(3,4) [OF ok] applied(2-6,8)]
  obtain out s1 where out: "result_outcome env req k = Inr out"
    and atts: "ds_attempts s' = map (\<lambda>b. if b = a then complete_attempt req out a else b) (ds_attempts s)"
    and rows: "ds_deliveries s' = map (\<lambda>r. if r = k then settle_row req out k else
        if failed_state (ro_state out) \<and> later_waiting k r
        then block_row (block_class (ro_state out)) (pr_completed_at req) r else r) (ds_deliveries s)" .
  define row where "row = settle_row req out k"
  define att where "att = complete_attempt req out a"
  have row: "row \<in> set (ds_deliveries s')" unfolding rows row_def using applied(2) by force
  have att: "att \<in> set (ds_attempts s')" unfolding atts att_def using applied(5) by force
  have row_id: "ob_id row = pd_outbound_delivery_id ?d" by (simp add: row_def applied(3))
  have att_id: "at_id att = at_id a" "at_delivery att = at_delivery a" "at_number att = at_number a"
    by (simp_all add: att_def complete_attempt_def split: prod.splits)
  have open_a: "at_completed_at a = None" and count: "ob_attempts k = pd_attempt_number ?d"
    using applied(8) by (simp_all add: dispatch_matches_def Let_def)
  have "a \<in> set (attempts_of s (ob_id k))" using applied(5,7) by (simp add: attempts_of_def)
  from open_attempt_last [OF store_okD(5) [OF ok applied(2)] applied(4) this open_a]
  obtain xs where "attempts_of s (ob_id k) = xs @ [a]" .
  then have number: "at_number a = pd_attempt_number ?d"
    using store_okD(5) [OF ok applied(2)] count by (simp add: reconciled_snoc attempt_header_ok_def)
  have find_row: "find (\<lambda>r. ob_id r = pd_outbound_delivery_id ?d) (ds_deliveries s') = Some row"
    by (rule find_unique [OF store_okD(3) [OF ok'] row]) (simp_all add: row_id)
  have find_att: "find (\<lambda>a. at_id a = pd_attempt_id ?d \<and> at_delivery a = pd_outbound_delivery_id ?d \<and>
      at_number a = pd_attempt_number ?d) (ds_attempts s') = Some att"
    by (rule find_unique [OF store_okD(4) [OF ok'] att])
      (simp_all add: att_id applied(3,6,7) number)
  have state: "ob_state row = ro_state out" "ob_state row \<noteq> OutboundDeliveryState.Dispatching"
    using settle_not_dispatching [OF out] by (simp_all add: row_def settle_row_def split: prod.splits)
  have "att \<in> set (attempts_of s' (ob_id row))"
    using att att_id applied(3,7) row_id by (simp add: attempts_of_def)
  then have "attempts_of s' (ob_id row) \<noteq> []" by auto
  from reconciled_statistics [OF store_okD(5) [OF ok' row] this] state(2)
  have stats: "attempt_statistics (attempts_of s' (pd_outbound_delivery_id ?d)) =
      (ob_attempts row, Some (ob_attempts row), 0)" by (simp add: row_id)
  have canonical: "dispatch_is_canonical env ?d" "result_class_allowed (pr_result req)"
    using assms(4) unfolding persist_result_def Let_def early_return_iffs(1) by blast+
  have "persist_result env req s' = map_ok (\<lambda>disposition. (s', disposition)) (replay_result env req row att)"
    unfolding persist_result_def Let_def find_row find_att
    using canonical state(2) stats by simp
  also have "\<dots> = (if delivery_is_terminal (ob_state row) then Inr (s', Idempotent)
       else Inl DeliveryStoreErrorKind.StateConflict)"
    unfolding row_def att_def replay_exact [OF out] by (simp add: settle_row_def split: prod.splits)
  finally show ?thesis using row row_id by blast
qed

lemma sample_request_id:
  "pd_outbound_delivery_id (pr_dispatch (sample_request n result t)) = OutboundDeliveryId 1"
  by (simp add: sample_request_def sample_dispatch_def)

theorem persist_result_replayed_witness:
  "\<exists>row \<in> set (ds_deliveries sample_settled). ob_id row = OutboundDeliveryId 1 \<and>
    persist_result sample_env (sample_request 1 (DispatchAccepted (Some ''100'')) 20) sample_settled =
      (if delivery_is_terminal (ob_state row) then Inr (sample_settled, Idempotent)
       else Inl DeliveryStoreErrorKind.StateConflict)"
  using persist_result_replayed [OF calendar_ok_sample, of "[sample_commit,
        ClaimNext (RuntimeInstanceId 7) (OutboundDeliveryAttemptId 1) 10]" sample_routes sample_claimed
      "sample_request 1 (DispatchAccepted (Some ''100'')) 20" sample_settled]
  by (simp add: sample_facts sample_request_id del: One_nat_def)

section \<open>Recovery after a restart\<close>

lemma schema_ok_deliveries:
  assumes "schema_ok s" and "\<And>r. r \<in> set (ds_deliveries s) \<Longrightarrow> delivery_check (u r)"
    and "\<And>r. ob_id (u r) = ob_id r" and "\<And>r. ob_source (u r) = ob_source r"
    and "\<And>r. ob_ordinal (u r) = ob_ordinal r" and "\<And>r. ob_account_id (u r) = ob_account_id r"
    and "\<And>r. ob_accepted_message (u r) = ob_accepted_message r"
  shows "schema_ok (s\<lparr>ds_deliveries := map u (ds_deliveries s)\<rparr>)"
  using assms by (simp add: schema_ok_def unique_keys_def list_all_iff filter_map comp_def)

lemma schema_ok_attempts:
  assumes "schema_ok s" and "\<And>a. a \<in> set (ds_attempts s) \<Longrightarrow> attempt_check (u a)"
    and "\<And>a. at_id (u a) = at_id a" and "\<And>a. at_delivery (u a) = at_delivery a"
    and "\<And>a. at_number (u a) = at_number a"
    and "\<And>a. at_completed_at (u a) = None \<Longrightarrow> at_completed_at a = None"
  shows "schema_ok (s\<lparr>ds_attempts := map u (ds_attempts s)\<rparr>)"
proof -
  have "inj_on at_delivery (set (filter (\<lambda>a. at_completed_at a = None) (ds_attempts s)))"
    using assms(1) by (simp add: schema_ok_def unique_keys_def distinct_map)
  then have "inj_on at_delivery (set (filter (\<lambda>a. at_completed_at (u a) = None) (ds_attempts s)))"
    by (rule inj_on_subset) (use assms(6) in auto)
  moreover have "distinct (ds_attempts s)"
    using assms(1) by (simp add: schema_ok_def unique_keys_def distinct_map)
  ultimately have "distinct (map at_delivery (filter (\<lambda>a. at_completed_at (u a) = None) (ds_attempts s)))"
    by (simp add: distinct_map)
  with assms(1-5) show ?thesis
    by (simp add: schema_ok_def unique_keys_def list_all_iff filter_map comp_def)
qed

definition times_before :: "UtcTimestamp \<Rightarrow> delivery_store \<Rightarrow> bool" where
  "times_before now s \<longleftrightarrow>
     (\<forall>r \<in> set (ds_deliveries s). ob_created_at r \<le> now) \<and>
     (\<forall>a \<in> set (ds_attempts s). at_started_at a \<le> now)"

lemma recovered_row_check:
  assumes "delivery_check k" and "ob_state k = OutboundDeliveryState.Dispatching" and "ob_created_at k \<le> now"
  shows "delivery_check (recovered_row now f k)"
  using assms by (simp add: delivery_check_def delivery_state_check_def recovered_row_def)

lemma block_row_check:
  assumes "delivery_check r" and "waiting r" and "ob_created_at r \<le> now"
  shows "delivery_check (block_row f now r)"
  using assms by (auto simp: delivery_check_def delivery_state_check_def block_row_def)

lemma recovered_attempt_check:
  assumes "attempt_check a" and "at_completed_at a = None" and "at_started_at a \<le> now"
  shows "attempt_check (recovered_attempt now f a)"
  using assms by (simp add: attempt_check_def attempt_result_check_def recovered_attempt_def)

text \<open>The open attempt that recovery completes exists and is the only one.\<close>

lemma open_attempt_selected:
  assumes ok: "store_ok env s" and k: "k \<in> dispatching_rows s"
  obtains owner a where "ob_owner k = Some owner"
    and "filter (\<lambda>a. at_delivery a = ob_id k \<and> at_number a = ob_attempts k \<and> at_runtime a = owner \<and>
           at_completed_at a = None) (ds_attempts s) = [a]"
proof -
  from k have k': "k \<in> set (ds_deliveries s)" "ob_state k = OutboundDeliveryState.Dispatching"
    by simp_all
  have rec: "reconciled env k (attempts_of s (ob_id k))" by (rule store_okD(5) [OF ok k'(1)])
  from rec k'(2) obtain xs a where atts: "attempts_of s (ob_id k) = xs @ [a]"
    and xs: "verify_attempts env k 1 0 xs = Inr 0"
    by (rule dispatching_latest)
  from verify_attempts_count [OF xs] have closed: "\<forall>b \<in> set xs. at_completed_at b \<noteq> None"
    by (simp add: filter_empty_conv)
  from rec atts k'(2) have a: "at_completed_at a = None" "at_number a = ob_attempts k"
      "ob_owner k = Some (at_runtime a)"
    by (auto simp: reconciled_snoc verify_ownership_def)
  have "filter (\<lambda>b. at_delivery b = ob_id k \<and> at_number b = ob_attempts k \<and> at_runtime b = at_runtime a \<and>
      at_completed_at b = None) (ds_attempts s) =
      filter (\<lambda>b. at_number b = ob_attempts k \<and> at_runtime b = at_runtime a \<and> at_completed_at b = None)
        (attempts_of s (ob_id k))"
    by (simp add: attempts_of_def conj_ac)
  also have "\<dots> = [a]" unfolding atts using a closed by (auto simp: filter_empty_conv)
  finally show ?thesis by (rule that [OF a(3)])
qed

lemma rows_affected_one:
  assumes "distinct (map key rows)" and "k \<in> set rows" and "P k" and "\<And>r. P r \<Longrightarrow> key r = key k"
  shows "rows_affected P rows = 1"
proof -
  have "P r \<longleftrightarrow> r = k" if "r \<in> set rows" for r
    using assms that by (metis distinct_map inj_onD)
  then have "filter P rows = filter (\<lambda>r. r = k) rows" by (rule filter_cong [OF refl])
  moreover have "distinct rows" using assms(1) by (simp add: distinct_map)
  ultimately show ?thesis
    using assms(2) by (simp add: rows_affected_def distinct_length_filter)
qed

lemma update_rows_iffs:
  "schema_ok (s\<lparr>ds_deliveries := update_rows P f (ds_deliveries s)\<rparr>) \<Longrightarrow>
     update_deliveries P f s =
       Inr (s\<lparr>ds_deliveries := update_rows P f (ds_deliveries s)\<rparr>, rows_affected P (ds_deliveries s))"
  "schema_ok (s\<lparr>ds_attempts := update_rows Q g (ds_attempts s)\<rparr>) \<Longrightarrow>
     update_attempts Q g s =
       Inr (s\<lparr>ds_attempts := update_rows Q g (ds_attempts s)\<rparr>, rows_affected Q (ds_attempts s))"
  for s :: delivery_store
  by (simp_all add: update_deliveries_def update_attempts_def execute_def)

lemma recover_one_total:
  assumes ok: "store_ok env s" and k: "k \<in> dispatching_rows s" and times: "times_before now s"
  obtains s' receipt' where "recover_one now f (s, receipt) k = Inr (s', receipt')"
proof -
  from k have k': "k \<in> set (ds_deliveries s)" "ob_state k = OutboundDeliveryState.Dispatching"
    by simp_all
  have schema: "schema_ok s" by (rule store_okD(1) [OF ok])
  have ids: "distinct (map ob_id (ds_deliveries s))" "distinct (map at_id (ds_attempts s))"
    by (rule store_okD(3,4) [OF ok])+
  from ok k obtain owner a where owner: "ob_owner k = Some owner"
    and sel: "filter (\<lambda>a. at_delivery a = ob_id k \<and> at_number a = ob_attempts k \<and> at_runtime a = owner \<and>
           at_completed_at a = None) (ds_attempts s) = [a]"
    by (rule open_attempt_selected)
  have "a \<in> set (filter (\<lambda>a. at_delivery a = ob_id k \<and> at_number a = ob_attempts k \<and>
      at_runtime a = owner \<and> at_completed_at a = None) (ds_attempts s))" unfolding sel by simp
  then have a: "a \<in> set (ds_attempts s)" "at_completed_at a = None" by auto
  let ?P1 = "\<lambda>b. at_id b = at_id a \<and> at_completed_at b = None"
  let ?P2 = "\<lambda>r. ob_id r = ob_id k \<and> ob_state r = OutboundDeliveryState.Dispatching"
  define s1 where "s1 = s\<lparr>ds_attempts := update_rows ?P1 (recovered_attempt now f) (ds_attempts s)\<rparr>"
  define s2 where "s2 = s1\<lparr>ds_deliveries := update_rows ?P2 (recovered_row now f) (ds_deliveries s1)\<rparr>"
  have rows1: "ds_deliveries s1 = ds_deliveries s" by (simp add: s1_def)
  have check: "delivery_check r" "ob_created_at r \<le> now" if "r \<in> set (ds_deliveries s)" for r
    using that store_okD(6) [OF ok that] times by (auto simp: times_before_def)
  have schema1: "schema_ok s1"
    unfolding s1_def update_rows_def
    by (rule schema_ok_attempts [OF schema])
      (use schema times recovered_attempt_check in
        \<open>auto simp: schema_ok_def list_all_iff times_before_def recovered_attempt_def
          split: if_splits\<close>)
  have schema2: "schema_ok s2"
    unfolding s2_def update_rows_def
    by (rule schema_ok_deliveries [OF schema1])
      (use check recovered_row_check in \<open>auto simp: rows1 recovered_row_def\<close>)
  have check2: "delivery_check r" "ob_created_at r \<le> now" if "r \<in> set (ds_deliveries s2)" for r
  proof -
    from that schema2 show "delivery_check r" by (simp add: schema_ok_def list_all_iff)
    from that obtain x where "x \<in> set (ds_deliveries s)" "r = (if ?P2 x then recovered_row now f x else x)"
      unfolding s2_def rows1 update_rows_def by auto
    with check(2) [of x] show "ob_created_at r \<le> now" by (simp split: if_splits)
  qed
  have schema3: "schema_ok (s2\<lparr>ds_deliveries := update_rows (later_waiting k)
      (block_row DeliveryFailureClass.PriorPartOutcomeUnknown now) (ds_deliveries s2)\<rparr>)"
    unfolding update_rows_def
    by (rule schema_ok_deliveries [OF schema2])
      (use check2 block_row_check in \<open>auto simp: later_waiting_def block_row_def\<close>)
  have step1: "changed_one (update_attempts ?P1 (recovered_attempt now f) s) = Inr s1"
    using schema1 rows_affected_one [OF ids(2) a(1), of ?P1] a(2)
    by (simp add: changed_one_def update_rows_iffs(2) s1_def)
  have step2: "changed_one (update_deliveries ?P2 (recovered_row now f) s1) = Inr s2"
    using schema2 rows_affected_one [OF ids(1) k'(1), of ?P2] k'(2)
    by (simp add: changed_one_def update_rows_iffs(1) s2_def rows1)
  show ?thesis
    by (rule that) (simp add: recover_one_def owner sel step1 step2 cascade_later_def
        update_rows_iffs(1) [OF schema3])
qed

lemma recover_one_times:
  assumes ok: "store_ok env s" and step: "recover_one now f (s, receipt) k = Inr (s', receipt')"
    and k: "k \<in> dispatching_rows s" and times: "times_before t s"
  shows "times_before t s'"
proof -
  from k have k': "k \<in> set (ds_deliveries s)" "ob_state k = OutboundDeliveryState.Dispatching"
    by simp_all
  from recover_one_rows [OF step store_okD(3,4) [OF ok] k']
  obtain a where a: "a \<in> set (ds_attempts s)"
    and atts: "ds_attempts s' = map (\<lambda>b. if b = a then recovered_attempt now f a else b) (ds_attempts s)"
    and rows: "ds_deliveries s' = map (\<lambda>r. if r = k then recovered_row now f k else if later_waiting k r
        then block_row DeliveryFailureClass.PriorPartOutcomeUnknown now r else r) (ds_deliveries s)" .
  have "ob_created_at r \<le> t" if r: "r \<in> set (ds_deliveries s')" for r
  proof -
    from r obtain x where x: "x \<in> set (ds_deliveries s)" "r = (if x = k then recovered_row now f k
        else if later_waiting k x then block_row DeliveryFailureClass.PriorPartOutcomeUnknown now x else x)"
      unfolding rows set_map by (elim imageE)
    then have "ob_created_at r = ob_created_at x" by simp
    with x(1) times show ?thesis by (simp add: times_before_def)
  qed
  moreover have "at_started_at b \<le> t" if b: "b \<in> set (ds_attempts s')" for b
  proof -
    from b obtain x where x: "x \<in> set (ds_attempts s)" "b = (if x = a then recovered_attempt now f a else x)"
      unfolding atts set_map by (elim imageE)
    then have "at_started_at b = at_started_at x" by (simp add: recovered_attempt_def)
    with x(1) times show ?thesis by (simp add: times_before_def)
  qed
  ultimately show "times_before t s'" by (simp add: times_before_def)
qed

lemma recover_one_rows_kept:
  assumes ok: "store_ok env s" and step: "recover_one now f (s, receipt) k = Inr (s', receipt')"
    and k: "k \<in> dispatching_rows s"
  shows "recovered_row now f k \<in> set (ds_deliveries s')"
proof -
  from k have k': "k \<in> set (ds_deliveries s)" "ob_state k = OutboundDeliveryState.Dispatching" by simp_all
  from recover_one_rows [OF step store_okD(3,4) [OF ok] k'] have "ds_deliveries s' =
      map (\<lambda>r. if r = k then recovered_row now f k else if later_waiting k r
        then block_row DeliveryFailureClass.PriorPartOutcomeUnknown now r else r) (ds_deliveries s)" by metis
  then show ?thesis using k'(1) by force
qed

lemma recover_fold_total:
  assumes f: "f \<in> {DeliveryFailureClass.StaleDispatch, DeliveryFailureClass.ShutdownInterrupted}"
  shows "store_ok env s \<Longrightarrow> times_before now s \<Longrightarrow> set ks \<subseteq> dispatching_rows s \<Longrightarrow> distinct ks \<Longrightarrow>
    \<exists>s' receipt'. fold_result (recover_one now f) (s, receipt) ks = Inr (s', receipt') \<and>
      recovered_row now f ` set ks \<subseteq> set (ds_deliveries s')"
proof (induction ks arbitrary: s receipt)
  case (Cons k ks)
  from Cons.prems(3) have k: "k \<in> dispatching_rows s" by simp
  from recover_one_total [OF Cons.prems(1) k Cons.prems(2)] obtain s1 receipt1
    where step: "recover_one now f (s, receipt) k = Inr (s1, receipt1)" .
  have ok1: "store_ok env s1" using store_ok_recover_one [OF Cons.prems(1) step] k f by simp
  note one = recover_one_dispatching(1) [OF Cons.prems(1) step k]
  note times = recover_one_times [OF Cons.prems(1) step k Cons.prems(2)]
  have sub: "set ks \<subseteq> dispatching_rows s1" using Cons.prems(3,4) unfolding one by auto
  have "distinct ks" using Cons.prems(4) by simp
  from Cons.IH [OF ok1 times sub this] obtain s' receipt'
    where rest: "fold_result (recover_one now f) (s1, receipt1) ks = Inr (s', receipt')"
      "recovered_row now f ` set ks \<subseteq> set (ds_deliveries s')" by blast
  have "settled_kept s1 s'"
    by (rule settled_kept_recover_fold [OF ok1 rest(1) sub \<open>distinct ks\<close> f])
  with recover_one_rows_kept [OF Cons.prems(1) step k] have "recovered_row now f k \<in> set (ds_deliveries s')"
    by (simp add: settled_kept_def recovered_row_def)
  with rest step show ?case by auto
qed simp

lemma recover_matching_total:
  assumes ok: "store_ok env s" and times: "times_before now s"
    and f: "f \<in> {DeliveryFailureClass.StaleDispatch, DeliveryFailureClass.ShutdownInterrupted}"
  obtains s' receipt where "recover_matching runtime now f s = Inr (s', receipt)"
    and "\<And>r. r \<in> dispatching_rows s \<Longrightarrow> (case runtime of None \<Rightarrow> True | Some i \<Rightarrow> ob_owner r = Some i) \<Longrightarrow>
           recovered_row now f r \<in> set (ds_deliveries s')"
proof -
  let ?ks = "sort_key (\<lambda>r. (ob_created_at r, delivery_id_value (ob_id r)))
      (filter (\<lambda>r. ob_state r = OutboundDeliveryState.Dispatching \<and>
          (case runtime of None \<Rightarrow> True | Some i \<Rightarrow> ob_owner r = Some i)) (ds_deliveries s))"
  have "set ?ks \<subseteq> dispatching_rows s" by auto
  moreover have "distinct ?ks" using store_okD(3) [OF ok] by (simp add: distinct_map)
  ultimately obtain s' receipt where "recover_matching runtime now f s = Inr (s', receipt)"
    and sub: "recovered_row now f ` set ?ks \<subseteq> set (ds_deliveries s')"
    using recover_fold_total [OF f ok times] unfolding recover_matching_def by blast
  then show ?thesis by (intro that) auto
qed

lemma recover_fold_rows:
  assumes f: "f \<in> {DeliveryFailureClass.StaleDispatch, DeliveryFailureClass.ShutdownInterrupted}"
  shows "store_ok env s \<Longrightarrow> set ks \<subseteq> dispatching_rows s \<Longrightarrow> distinct ks \<Longrightarrow>
    fold_result (recover_one now f) (s, receipt) ks = Inr (s', receipt') \<Longrightarrow>
    store_ok env s' \<and> recovered_row now f ` set ks \<subseteq> set (ds_deliveries s')"
proof (induction ks arbitrary: s receipt)
  case (Cons k ks)
  from Cons.prems(2) have k: "k \<in> dispatching_rows s" by simp
  from Cons.prems(4) obtain s1 receipt1 where step: "recover_one now f (s, receipt) k = Inr (s1, receipt1)"
    and rest: "fold_result (recover_one now f) (s1, receipt1) ks = Inr (s', receipt')"
    by (auto simp: result_iffs)
  have ok1: "store_ok env s1" using store_ok_recover_one [OF Cons.prems(1) step] k f by simp
  have sub: "set ks \<subseteq> dispatching_rows s1"
    using Cons.prems(2,3) unfolding recover_one_dispatching(1) [OF Cons.prems(1) step k] by auto
  have "distinct ks" using Cons.prems(3) by simp
  note IH = Cons.IH [OF ok1 sub this rest]
  have "settled_kept s1 s'" by (rule settled_kept_recover_fold [OF ok1 rest sub \<open>distinct ks\<close> f])
  with recover_one_rows_kept [OF Cons.prems(1) step k] have "recovered_row now f k \<in> set (ds_deliveries s')"
    by (simp add: settled_kept_def recovered_row_def)
  with IH show ?case by simp
qed simp

text \<open>
  C26. Startup recovery at a time that is not before the creation and start times in the store succeeds
  on every store a run can leave behind. Whenever it succeeds, every part that was being dispatched is
  recorded as of unknown outcome, none is left in dispatch, and the receipt counts them; and it cannot
  succeed at a time before the creation of a part that was being dispatched, as after a clock that
  stepped back over the restart.
\<close>

theorem recover_stale_total:
  assumes "calendar_ok env" and "list_all op_values_ok ops"
    and "fold_result (delivery_step env) (empty_store routes) ops = Inr s"
  shows "(times_before now s \<longrightarrow> (\<exists>s' receipt. recover_stale_deliveries now s = Inr (s', receipt))) \<and>
    (\<forall>s' receipt. recover_stale_deliveries now s = Inr (s', receipt) \<longrightarrow>
       (\<forall>r \<in> dispatching_rows s. ob_created_at r \<le> now) \<and>
       (\<forall>r \<in> set (ds_deliveries s'). ob_state r \<noteq> OutboundDeliveryState.Dispatching) \<and>
       (\<forall>r \<in> dispatching_rows s.
          recovered_row now DeliveryFailureClass.StaleDispatch r \<in> set (ds_deliveries s')) \<and>
       rr_dispatches_marked_unknown receipt = card (dispatching_rows s))"
proof -
  have ok: "store_ok env s" by (rule delivery_run_ok [OF assms])
  have f: "DeliveryFailureClass.StaleDispatch \<in>
      {DeliveryFailureClass.StaleDispatch, DeliveryFailureClass.ShutdownInterrupted}" by simp
  let ?ks = "sort_key (\<lambda>r. (ob_created_at r, delivery_id_value (ob_id r)))
      (filter (\<lambda>r. ob_state r = OutboundDeliveryState.Dispatching) (ds_deliveries s))"
  have ks: "set ?ks = dispatching_rows s" "distinct ?ks"
    using store_okD(3) [OF ok] by (auto simp: distinct_map)
  have "\<exists>s' receipt. recover_stale_deliveries now s = Inr (s', receipt)" if "times_before now s"
    using recover_matching_total [OF ok that f, where runtime = None] unfolding recover_stale_deliveries_def by blast
  moreover have "(\<forall>r \<in> dispatching_rows s. ob_created_at r \<le> now) \<and>
      (\<forall>r \<in> set (ds_deliveries s'). ob_state r \<noteq> OutboundDeliveryState.Dispatching) \<and>
      (\<forall>r \<in> dispatching_rows s.
         recovered_row now DeliveryFailureClass.StaleDispatch r \<in> set (ds_deliveries s')) \<and>
      rr_dispatches_marked_unknown receipt = card (dispatching_rows s)"
    if run: "recover_stale_deliveries now s = Inr (s', receipt)" for s' receipt
  proof -
    from run have step: "recover_matching None now DeliveryFailureClass.StaleDispatch s = Inr (s', receipt)"
      by (simp add: recover_stale_deliveries_def)
    note result = recover_matching_result(2,3) [OF ok step f, simplified]
    from step have "fold_result (recover_one now DeliveryFailureClass.StaleDispatch)
        (s, \<lparr>rr_dispatches_marked_unknown = 0, rr_later_parts_blocked = 0\<rparr>) ?ks = Inr (s', receipt)"
      by (simp add: recover_matching_def)
    from recover_fold_rows [OF f ok _ ks(2) this] ks(1)
    have rows: "store_ok env s'" "\<forall>r \<in> dispatching_rows s.
        recovered_row now DeliveryFailureClass.StaleDispatch r \<in> set (ds_deliveries s')" by auto
    have "ob_created_at r \<le> now" if "r \<in> dispatching_rows s" for r
      using store_okD(6) [OF rows(1)] rows(2) that by (fastforce simp: delivery_check_def recovered_row_def)
    moreover have "\<forall>r \<in> set (ds_deliveries s'). ob_state r \<noteq> OutboundDeliveryState.Dispatching"
      using result(1) by blast
    ultimately show ?thesis using rows(2) result(2) by blast
  qed
  ultimately show ?thesis by blast
qed

theorem recover_stale_total_witness:
  "times_before 20 sample_claimed \<and>
   (\<exists>s' receipt. recover_stale_deliveries 20 sample_claimed = Inr (s', receipt) \<and>
      rr_dispatches_marked_unknown receipt = card (dispatching_rows sample_claimed))"
proof -
  have "times_before 20 sample_claimed"
    by (simp add: times_before_def sample_claimed_def open_attempt_def inserted_row_def sample_part_def)
  with recover_stale_total [OF calendar_ok_sample, of "[sample_commit,
      ClaimNext (RuntimeInstanceId 7) (OutboundDeliveryAttemptId 1) 10]" sample_routes sample_claimed 20]
  show ?thesis using sample_commit_ok sample_run by auto
qed

section \<open>Bounds of the retry delay\<close>

lemma backoff_ceiling:
  assumes "1 \<le> n"
  shows "min (2 ^ min (n - 1) 31) 300 = min (2 ^ (n - 1)) (300 :: nat)"
proof (cases "n - 1 \<le> 31")
  case False
  then have "(2 :: nat) ^ 31 \<le> 2 ^ (n - 1)" by (intro power_increasing) simp_all
  with False show ?thesis by simp
qed simp

lemma backoff_bounds:
  assumes "\<And>c. sample c \<le> c" and "1 \<le> n"
  shows "1000 \<le> backoff sample n" and "backoff sample n \<le> 1000 * min (2 ^ (n - 1)) 300"
proof -
  have one: "1 \<le> min (2 ^ (n - 1)) (300 :: nat)" by simp
  show "1000 \<le> backoff sample n" by (simp add: backoff_def Let_def)
  have "sample (min (2 ^ (n - 1)) 300 * 1000) \<le> min (2 ^ (n - 1)) 300 * 1000" by (rule assms(1))
  moreover have "backoff sample n = max (sample (min (2 ^ (n - 1)) 300 * 1000)) 1000"
    using backoff_ceiling [OF assms(2)] by (simp add: backoff_def Let_def)
  ultimately show "backoff sample n \<le> 1000 * min (2 ^ (n - 1)) 300" using one by linarith
qed

lemma duration_ms_millis:
  "int n \<le> i64_max \<Longrightarrow> duration_ms (n * 10 ^ 6) = Inr (int n)"
proof -
  have "(n * 10 ^ 6 + 999999) div 1000000 = n" by simp
  then show "int n \<le> i64_max \<Longrightarrow> duration_ms (n * 10 ^ 6) = Inr (int n)"
    by (simp add: duration_ms_def Let_def)
qed

lemma rounded_up_covers: "d \<le> (d + 999999) div 1000000 * (1000000 :: nat)"
proof -
  have "(d + 999999) mod 1000000 < (1000000 :: nat)" by (rule mod_less_divisor) simp
  then show ?thesis using div_mult_mod_eq [of "d + 999999" 1000000] by linarith
qed

text \<open>
  C27. The worker's backoff before attempt n + 1 lies between one second and 2 ^ (n - 1) seconds,
  capped at five minutes, whatever the jitter. Without a provider delay the store selects exactly the
  backoff. With one it selects the larger of the two in whole milliseconds, the provider delay rounded
  up, so that neither is undercut; it refuses the request exactly when the rounded provider delay
  exceeds the milliseconds an i64 holds.
\<close>

theorem retry_delay_bounds:
  assumes "\<And>c. sample_inclusive c \<le> c" and "1 \<le> n"
  shows "1000 \<le> backoff sample_inclusive n \<and>
    backoff sample_inclusive n \<le> 1000 * min (2 ^ (n - 1)) 300 \<and>
    retry_timing (backoff sample_inclusive n * 10 ^ 6) None =
      Inr (None, int (backoff sample_inclusive n), backoff sample_inclusive n * 10 ^ 6) \<and>
    (\<forall>after. let p = (after + 999999) div 1000000; ms = max p (backoff sample_inclusive n) in
       retry_timing (backoff sample_inclusive n * 10 ^ 6) (Some after) =
         (if int p \<le> i64_max then Inr (Some (int p), int ms, ms * 1000000)
          else Inl DeliveryStoreErrorKind.Invalid) \<and>
       after \<le> ms * 1000000 \<and> backoff sample_inclusive n * 10 ^ 6 \<le> ms * 1000000)"
proof -
  let ?b = "backoff sample_inclusive n"
  note b = backoff_bounds [OF assms]
  have small: "?b \<le> 300000" using b(2) by linarith
  then have fits: "int ?b \<le> i64_max" by (simp add: i64_max_def)
  have big: "max (?b * 10 ^ 6) (10 ^ 9) = ?b * 10 ^ 6" using b(1) by (simp add: max_def)
  note local = duration_ms_millis [OF fits]
  have none: "retry_timing (?b * 10 ^ 6) None = Inr (None, int ?b, ?b * 10 ^ 6)"
    unfolding retry_timing_def big local by simp
  have some: "let p = (after + 999999) div 1000000; ms = max p ?b in
      retry_timing (?b * 10 ^ 6) (Some after) =
         (if int p \<le> i64_max then Inr (Some (int p), int ms, ms * 1000000)
          else Inl DeliveryStoreErrorKind.Invalid) \<and>
      after \<le> ms * 1000000 \<and> ?b * 10 ^ 6 \<le> ms * 1000000" for after
  proof -
    define p where "p = (after + 999999) div 1000000"
    have "after \<le> p * 1000000" unfolding p_def by (rule rounded_up_covers)
    then have covers: "after \<le> max p ?b * 1000000" "?b * 10 ^ 6 \<le> max p ?b * 1000000"
      by (auto simp: max_def)
    have p: "duration_ms after = (if int p \<le> i64_max then Inr (int p) else Inl DeliveryStoreErrorKind.Invalid)"
      by (simp add: duration_ms_def Let_def p_def not_le)
    have ms: "max (int p) (int ?b) = int (max p ?b)" "nat (int (max p ?b)) = max p ?b" by simp_all
    have "retry_timing (?b * 10 ^ 6) (Some after) =
        (if int p \<le> i64_max then Inr (Some (int p), int (max p ?b), max p ?b * 1000000)
         else Inl DeliveryStoreErrorKind.Invalid)"
      unfolding retry_timing_def big local by (simp add: p Let_def ms del: of_nat_max)
    with covers show ?thesis unfolding p_def [symmetric] Let_def by blast
  qed
  from b none some show ?thesis by blast
qed

theorem retry_delay_bounds_witness:
  "backoff id 3 \<le> 4000 \<and> 1000 \<le> backoff id 3 \<and>
   retry_timing (backoff id 3 * 10 ^ 6) None = Inr (None, int (backoff id 3), backoff id 3 * 10 ^ 6)"
  using retry_delay_bounds [of id 3] by simp

section \<open>The digest input of a dispatch\<close>

interpretation dispatch_field: prefix_code framed "\<lambda>f. length f < 256 ^ 8"
proof unfold_locales
  fix x y r s :: string
  assume x: "length x < 256 ^ 8" and y: "length y < 256 ^ 8" and e: "framed x @ r = framed y @ s"
  from e have "be_bytes 8 (length x) @ x @ r = be_bytes 8 (length y) @ y @ s"
    unfolding framed_def by (simp only: append_assoc)
  from length_prefix_delimits [OF x y this] show "x = y \<and> r = s" .
next
  fix x :: string
  show "framed x \<noteq> []" by (metis append_is_Nil_conv framed_def length_be_bytes list.size(3) zero_neq_numeral)
qed

lemma digest_bytes_inject: "digest_bytes d = digest_bytes e \<longleftrightarrow> d = e"
proof -
  have "inj (\<lambda>b :: 8 word. char_of (unat b))"
  proof (rule injI)
    fix a b :: "8 word"
    assume "(char_of (unat a) :: char) = char_of (unat b)"
    then have "(of_char (char_of (unat a) :: char) :: nat) = of_char (char_of (unat b) :: char)" by simp
    moreover have "unat a < 256" "unat b < 256" using unsigned_less [of a] unsigned_less [of b] by simp_all
    ultimately show "a = b" by (simp add: of_char_of word_unat_eq_iff)
  qed
  then show ?thesis by (simp add: digest_bytes_def inj_map_eq_map)
qed

text \<open>
  The byte string a dispatch digest is taken of determines every field that identifies the
  dispatch: account, provider, destination, thread (and whether there is one), payload digest, part
  ordinal and part count. Two different dispatches therefore have the same digest only by a
  collision of the hash.
\<close>

lemma thread_frame_delimits:
  assumes "\<forall>f \<in> set_option t \<union> set_option u. length f < 256 ^ 8"
    and "(case t of Some f \<Rightarrow> CHR 0x01 # framed f | None \<Rightarrow> [CHR 0x00]) @ r =
         (case u of Some f \<Rightarrow> CHR 0x01 # framed f | None \<Rightarrow> [CHR 0x00]) @ s"
  shows "t = u \<and> r = s"
proof (cases t)
  case None
  with assms(2) show ?thesis by (cases u) simp_all
next
  case t: (Some f)
  show ?thesis
  proof (cases u)
    case (Some g)
    with assms t have "framed f @ r = framed g @ s" and "length f < 256 ^ 8" "length g < 256 ^ 8"
      by simp_all
    from dispatch_field.self_delimiting [OF this(2,3,1)] t Some show ?thesis by simp
  qed (use assms(2) t in simp)
qed

theorem dispatch_material_injective:
  assumes "dispatch_material env account provider destination thread sha ordinal count =
      dispatch_material env account' provider' destination' thread' sha' ordinal' count'"
    and "\<forall>f \<in> {channel_account_text env account, provider, destination, digest_bytes sha,
        channel_account_text env account', provider', destination', digest_bytes sha'} \<union>
        set_option thread \<union> set_option thread'. length f < 256 ^ 8"
    and "\<forall>n \<in> {ordinal, count, ordinal', count'}. n < 65536"
  shows "channel_account_text env account = channel_account_text env account' \<and> provider = provider' \<and>
    destination = destination' \<and> thread = thread' \<and> sha = sha' \<and> ordinal = ordinal' \<and> count = count'"
proof -
  let ?opt = "\<lambda>t. case t of Some f \<Rightarrow> CHR 0x01 # framed f | None \<Rightarrow> [CHR 0x00]"
  note one = dispatch_field.self_delimiting
  have lens: "length (be_bytes 2 n) < 256 ^ 8" for n by simp
  have short: "length (channel_account_text env account) < 256 ^ 8"
      "length (channel_account_text env account') < 256 ^ 8" "length provider < 256 ^ 8"
      "length provider' < 256 ^ 8" "length destination < 256 ^ 8" "length destination' < 256 ^ 8"
      "length (digest_bytes sha) < 256 ^ 8" "length (digest_bytes sha') < 256 ^ 8"
      "\<forall>f \<in> set_option thread \<union> set_option thread'. length f < 256 ^ 8"
    using assms(2) unfolding ball_Un ball_simps simp_thms by blast+
  from assms(1) have "framed (channel_account_text env account) @ framed provider @
      framed destination @ ?opt thread @ framed (digest_bytes sha) @ framed (be_bytes 2 ordinal) @
      framed (be_bytes 2 count) = framed (channel_account_text env account') @ framed provider' @
      framed destination' @ ?opt thread' @ framed (digest_bytes sha') @ framed (be_bytes 2 ordinal') @
      framed (be_bytes 2 count')"
    unfolding dispatch_material_def by (simp only: same_append_eq)
  note e1 = one [OF short(1,2) this]
  note e2 = one [OF short(3,4) conjunct2 [OF e1]]
  note e3 = one [OF short(5,6) conjunct2 [OF e2]]
  note e4 = thread_frame_delimits [OF short(9) conjunct2 [OF e3]]
  note e5 = one [OF short(7,8) conjunct2 [OF e4]]
  note e6 = one [OF lens lens conjunct2 [OF e5]]
  have "framed (be_bytes 2 count) @ [] = framed (be_bytes 2 count') @ []" using e6 by simp
  note e7 = one [OF lens lens this]
  have inj: "m = n" if "be_bytes 2 m = be_bytes 2 n" "m < 65536" "n < 65536" for m n
    by (rule be_bytes_inj [of _ 2]) (use that in simp_all)
  show ?thesis using e1 e2 e3 e4 e5 e6 e7 inj assms(3) digest_bytes_inject by auto
qed

theorem dispatch_material_injective_witness:
  "\<exists>account provider destination thread sha.
     dispatch_material sample_env account provider destination thread sha 1 2 \<noteq>
       dispatch_material sample_env account provider destination (Some ''7'') sha 1 2 \<and> thread = None"
  using dispatch_material_injective [of sample_env "ChannelAccountId 3" "''telegram''" "''42''" None "[2]"
      1 2 "ChannelAccountId 3" "''telegram''" "''42''" "Some ''7''" "[2]" 1 2]
  by (intro exI [of _ "ChannelAccountId 3"] exI [of _ "''telegram''"] exI [of _ "''42''"]
      exI [of _ None] exI [of _ "[2]"]) (auto simp: sample_env_def digest_bytes_def)

end
