(* ===== verification/Model_Json.thy ===== *)
theory Model_Json
  imports Canonical_Encoding "HOL-Library.Multiset" "HOL-Library.List_Lexorder" "HOL-Library.Char_ord"
begin

text \<open>
  JSON values and their canonical form, from domain/model.rs. The value type is the one of the JSON
  library with an object as the list of its members in iteration order; reading and writing JSON text
  is not part of the sources and is a field of \<open>model_env\<close>, as are the hash and the UUID printer.
  The order on strings is the bytewise order the code sorts by.
\<close>

section \<open>Values\<close>

datatype Number = PosInt nat | NegInt int | Float "64 word"

datatype Json =
    JNull
  | JBool bool
  | JNumber Number
  | JString string
  | JArray "Json list"
  | JObject "(string \<times> Json) list"

record model_env =
  me_to_vec :: "Json \<Rightarrow> string"
  me_from_str :: "string \<Rightarrow> Json option"
  me_hash_bytes :: "string \<Rightarrow> Sha256Digest"
  me_hyphenated :: "Uuid \<Rightarrow> string"

definition json_number :: "int \<Rightarrow> Json" where
  "json_number n = JNumber (if 0 \<le> n then PosInt (nat n) else NegInt n)"

definition json_option :: "('a \<Rightarrow> Json) \<Rightarrow> 'a option \<Rightarrow> Json" where
  "json_option f m = (case m of None \<Rightarrow> JNull | Some x \<Rightarrow> f x)"

section \<open>The canonical form\<close>

text \<open>Members of an object are sorted by key before their values are canonicalized.\<close>

fun canonicalize_json :: "Json \<Rightarrow> Json" where
  "canonicalize_json (JArray values) = JArray (map canonicalize_json values)"
| "canonicalize_json (JObject members) =
     JObject (map (\<lambda>(key, value). (key, canonicalize_json value)) (sort_key fst members))"
| "canonicalize_json scalar = scalar"

definition canonical_json_bytes :: "model_env \<Rightarrow> Json \<Rightarrow> string" where
  "canonical_json_bytes env value = me_to_vec env (canonicalize_json value)"

text \<open>Every object has one member per key, as the library's map type guarantees.\<close>

fun distinct_keys :: "Json \<Rightarrow> bool" where
  "distinct_keys (JArray values) \<longleftrightarrow> list_all distinct_keys values"
| "distinct_keys (JObject members) \<longleftrightarrow>
     distinct (map fst members) \<and> list_all (\<lambda>(_, value). distinct_keys value) members"
| "distinct_keys _ \<longleftrightarrow> True"

text \<open>Two values that differ only in the order of object members.\<close>

inductive json_same :: "Json \<Rightarrow> Json \<Rightarrow> bool" where
  scalar: "(\<forall>values. v \<noteq> JArray values) \<Longrightarrow> (\<forall>members. v \<noteq> JObject members) \<Longrightarrow> json_same v v"
| array: "list_all2 json_same values values' \<Longrightarrow> json_same (JArray values) (JArray values')"
| members: "mset ps = mset ps' \<Longrightarrow> list_all2 (rel_prod (=) json_same) ps' qs' \<Longrightarrow> mset qs' = mset qs \<Longrightarrow>
    json_same (JObject ps) (JObject qs)"

lemma map_apsnd_keys: "map fst (map (\<lambda>(k, v). (k, f v)) ps) = map fst ps"
  by (induction ps) auto

lemma sort_key_by_fst:
  assumes "mset ps = mset qs" and "distinct (map fst ps)"
  shows "sort_key fst ps = sort_key fst qs"
proof (rule sort_key_inj_key_eq)
  show "mset ps = mset (sort_key fst qs)" using assms(1) by simp
  show "inj_on fst (set ps)" using assms(2) by (simp add: distinct_map)
qed simp

lemma sort_key_map_snd:
  "sort_key fst (map (\<lambda>(k, v). (k, f v)) ps) = map (\<lambda>(k, v). (k, f v)) (sort_key fst ps)"
proof -
  have insort: "insort_key fst (case p of (k, v) \<Rightarrow> (k, f v)) (map (\<lambda>(k, v). (k, f v)) qs) =
      map (\<lambda>(k, v). (k, f v)) (insort_key fst p qs)" for p qs
    by (induction qs) (auto split: prod.splits)
  show ?thesis by (induction ps) (simp_all add: insort split: prod.splits)
qed

lemma list_all2_map_eq:
  assumes "list_all2 (rel_prod (=) R) ps qs"
    and "\<And>v w. v \<in> snd ` set ps \<Longrightarrow> R v w \<Longrightarrow> f v = f w"
  shows "map (\<lambda>(k, v). (k, f v)) ps = map (\<lambda>(k, v). (k, f v)) qs"
  using assms by (induction rule: list_all2_induct) (auto simp: rel_prod_sel)

lemma canonicalize_json_same:
  assumes "json_same v w" and "distinct_keys v"
  shows "canonicalize_json v = canonicalize_json w"
  using assms
proof (induction rule: json_same.induct)
  case (array vs ws)
  then have "map canonicalize_json vs = map canonicalize_json ws"
    by (induction rule: list_all2_induct) auto
  then show ?case by simp
next
  case (members ps ps' qs' qs)
  have keys: "distinct (map fst ps')"
    using members.prems members.hyps(1) by (metis distinct_keys.simps(2) mset_eq_imp_distinct_iff mset_map)
  have sub: "\<And>v. v \<in> snd ` set ps' \<Longrightarrow> distinct_keys v"
    using members.prems mset_eq_setD [OF members.hyps(1)] by (auto simp: list_all_iff)
  have "map fst ps' = map fst qs'"
    using members.IH by (induction rule: list_all2_induct) auto
  with keys have keys': "distinct (map fst qs')" by simp
  have eq: "map (\<lambda>(k, v). (k, canonicalize_json v)) ps' = map (\<lambda>(k, v). (k, canonicalize_json v)) qs'"
    by (rule list_all2_map_eq [OF members.IH]) (use sub in blast)
  have "sort_key fst ps = sort_key fst ps'"
    by (rule sort_key_by_fst [OF members.hyps(1)]) (use members.prems in simp)
  moreover have "sort_key fst qs' = sort_key fst qs"
    by (rule sort_key_by_fst [OF members.hyps(2) keys'])
  moreover have "map (\<lambda>(k, v). (k, canonicalize_json v)) (sort_key fst ps') =
      map (\<lambda>(k, v). (k, canonicalize_json v)) (sort_key fst qs')"
    using eq by (simp only: flip: sort_key_map_snd)
  ultimately show ?case by simp
qed simp

lemma same_scalar:
  "canonicalize_json v = canonicalize_json w \<Longrightarrow> (\<And>vs. v \<noteq> JArray vs) \<Longrightarrow> (\<And>ps. v \<noteq> JObject ps) \<Longrightarrow>
     json_same v w"
  by (cases v; cases w) (auto intro: json_same.scalar)

lemma same_canonicalize_json:
  "canonicalize_json v = canonicalize_json w \<Longrightarrow> json_same v w"
proof (induction v arbitrary: w rule: canonicalize_json.induct)
  case (1 vs)
  from 1(2) obtain ws where w: "w = JArray ws" and eq: "map canonicalize_json vs = map canonicalize_json ws"
    by (cases w) auto
  have "list_all2 json_same vs ws"
    unfolding list_all2_conv_all_nth
  proof (intro conjI allI impI)
    show len: "length vs = length ws" using eq by (rule map_eq_imp_length_eq)
    show "json_same (vs ! i) (ws ! i)" if "i < length vs" for i
      by (rule 1(1)) (use that len arg_cong [OF eq, of "\<lambda>xs. xs ! i"] in auto)
  qed
  then show ?case unfolding w by (rule json_same.array)
next
  case (2 ps)
  let ?c = "\<lambda>(k, v). (k :: string, canonicalize_json v)"
  from 2(2) obtain qs where w: "w = JObject qs" and eq: "map ?c (sort_key fst ps) = map ?c (sort_key fst qs)"
    by (cases w) auto
  have "list_all2 (rel_prod (=) json_same) (sort_key fst ps) (sort_key fst qs)"
    unfolding list_all2_conv_all_nth
  proof (intro conjI allI impI)
    show len: "length (sort_key fst ps) = length (sort_key fst qs)" using eq by (rule map_eq_imp_length_eq)
    fix i
    assume i: "i < length (sort_key fst ps)"
    obtain k v l u where kv: "sort_key fst ps ! i = (k, v)" and lu: "sort_key fst qs ! i = (l, u)"
      by (cases "sort_key fst ps ! i"; cases "sort_key fst qs ! i") auto
    have "?c (sort_key fst ps ! i) = ?c (sort_key fst qs ! i)"
      using i len arg_cong [OF eq, of "\<lambda>xs. xs ! i"] by (simp only: nth_map)
    then have "k = l" and "canonicalize_json v = canonicalize_json u" by (simp_all add: kv lu)
    moreover have "(k, v) \<in> set (sort_key fst ps)" using i kv by (metis nth_mem)
    ultimately show "rel_prod (=) json_same (sort_key fst ps ! i) (sort_key fst qs ! i)"
      using 2(1) [of "(k, v)" k v u] by (simp add: kv lu)
  qed
  then show ?case unfolding w by (rule json_same.members [rotated]) simp_all
qed (erule same_scalar; simp)+

fun sorted_json :: "Json \<Rightarrow> bool" where
  "sorted_json (JArray vs) \<longleftrightarrow> list_all sorted_json vs"
| "sorted_json (JObject members) \<longleftrightarrow>
     sorted (map fst members) \<and> list_all (\<lambda>(_, value). sorted_json value) members"
| "sorted_json _ \<longleftrightarrow> True"

lemma canonicalize_sorted: "sorted_json (canonicalize_json v)"
proof (induction v rule: canonicalize_json.induct)
  case (2 ps)
  then show ?case
    by (auto simp: list_all_iff map_apsnd_keys [unfolded map_map comp_def] comp_def case_prod_unfold)
qed (auto simp: list_all_iff)

lemma canonicalize_idem: "sorted_json v \<Longrightarrow> canonicalize_json v = v"
proof (induction v rule: canonicalize_json.induct)
  case (1 vs)
  then show ?case by (auto simp: list_all_iff intro!: map_idI)
next
  case (2 ps)
  then have "sort_key fst ps = ps" by (auto intro: sort_key_id_if_sorted)
  with 2 show ?case by (auto simp: list_all_iff intro!: map_idI)
qed auto

lemma canonicalize_distinct: "distinct_keys v \<Longrightarrow> distinct_keys (canonicalize_json v)"
proof (induction v rule: canonicalize_json.induct)
  case (2 ps)
  have "distinct (map fst (sort_key fst ps))"
    using 2(2) by (metis distinct_keys.simps(2) mset_eq_imp_distinct_iff mset_map mset_sort)
  with 2 show ?case
    by (auto simp: list_all_iff map_apsnd_keys [unfolded map_map comp_def] comp_def case_prod_unfold)
qed (auto simp: list_all_iff)

text \<open>
  C29. Whatever compact JSON writer is used, as long as it writes different values with sorted members
  differently: two values with one member per key have the same canonical bytes exactly when they
  differ only in the order of object members, at any depth. The bytes are those of a value whose
  members are sorted by key at every depth, and which is its own canonical form.
\<close>

theorem canonical_json_exact:
  assumes writer: "inj_on (me_to_vec env) {value. sorted_json value \<and> distinct_keys value}"
    and "distinct_keys v" and "distinct_keys w"
  shows "(canonical_json_bytes env v = canonical_json_bytes env w \<longleftrightarrow> json_same v w) \<and>
    (\<exists>u. canonical_json_bytes env v = me_to_vec env u \<and> sorted_json u \<and> distinct_keys u \<and>
       canonicalize_json u = u \<and> json_same v u)"
proof -
  have canonical: "canonicalize_json x \<in> {value. sorted_json value \<and> distinct_keys value}" if "distinct_keys x" for x
    using canonicalize_sorted canonicalize_distinct [OF that] by simp
  have "canonical_json_bytes env v = canonical_json_bytes env w \<longleftrightarrow> canonicalize_json v = canonicalize_json w"
    unfolding canonical_json_bytes_def
    by (rule inj_on_eq_iff [OF writer canonical [OF assms(2)] canonical [OF assms(3)]])
  also have "\<dots> \<longleftrightarrow> json_same v w"
    using canonicalize_json_same [OF _ assms(2)] same_canonicalize_json by blast
  finally show ?thesis
    using canonicalize_sorted [of v] canonicalize_distinct [OF assms(2)]
      canonicalize_idem [OF canonicalize_sorted, of v]
      same_canonicalize_json [of v "canonicalize_json v"]
    unfolding canonical_json_bytes_def by metis
qed

text \<open>
  A self-delimiting writer, as an instance of the hypothesis: numbers in unary, strings with a mark
  before every character, and a comma before every element.
\<close>

definition write_nat :: "nat \<Rightarrow> string" where
  "write_nat n = replicate n (CHR ''1'') @ ''0''"

fun write_text :: "string \<Rightarrow> string" where
  "write_text [] = ''e''"
| "write_text (c # cs) = CHR ''c'' # c # write_text cs"

fun write_number :: "Number \<Rightarrow> string" where
  "write_number (PosInt n) = CHR ''p'' # write_nat n"
| "write_number (NegInt i) = (if i < 0 then CHR ''-'' else CHR ''+'') # write_nat (nat \<bar>i\<bar>)"
| "write_number (Float w) = CHR ''d'' # write_nat (unat w)"

fun write_json :: "Json \<Rightarrow> string" where
  "write_json JNull = ''n''"
| "write_json (JBool b) = (if b then ''t'' else ''f'')"
| "write_json (JNumber n) = CHR ''#'' # write_number n"
| "write_json (JString t) = CHR ''s'' # write_text t"
| "write_json (JArray vs) = CHR ''['' # concat (map (\<lambda>v. CHR '','' # write_json v) vs) @ '']''"
| "write_json (JObject ps) =
     CHR ''{'' # concat (map (\<lambda>p. CHR '','' # (case p of (k, v) \<Rightarrow> write_text k @ write_json v)) ps) @ ''}''"

lemma write_nat_delimits: "write_nat m @ r = write_nat n @ s \<Longrightarrow> m = n \<and> r = s"
proof (induction m arbitrary: n)
  case 0
  then show ?case by (cases n) (simp_all add: write_nat_def)
next
  case (Suc m)
  then show ?case by (cases n) (simp_all add: write_nat_def)
qed

lemma write_text_delimits: "write_text t @ r = write_text u @ s \<Longrightarrow> t = u \<and> r = s"
proof (induction t arbitrary: u)
  case Nil
  then show ?case by (cases u) simp_all
next
  case (Cons c t)
  then show ?case by (cases u) auto
qed

lemma write_number_delimits: "write_number m @ r = write_number n @ s \<Longrightarrow> m = n \<and> r = s"
  by (cases m; cases n) (auto dest!: write_nat_delimits split: if_splits simp: word_unat_eq_iff)

lemma write_items_delimits:
  assumes "\<And>x y r s. x \<in> set xs \<Longrightarrow> enc x @ r = enc y @ s \<Longrightarrow> x = y \<and> r = s" and "close \<noteq> CHR '',''"
    and "concat (map (\<lambda>x. CHR '','' # enc x) xs) @ close # r = concat (map (\<lambda>x. CHR '','' # enc x) ys) @ close # s"
  shows "xs = ys \<and> r = s"
  using assms(1,3)
proof (induction xs arbitrary: ys)
  case Nil
  then show ?case using assms(2) by (cases ys) auto
next
  case (Cons x xs)
  then obtain y ys' where ys: "ys = y # ys'" using assms(2) by (cases ys) auto
  from Cons.prems ys have first: "x = y \<and> concat (map (\<lambda>x. CHR '','' # enc x) xs) @ close # r =
      concat (map (\<lambda>x. CHR '','' # enc x) ys') @ close # s"
    by (intro Cons.prems(1)) simp_all
  moreover have "xs = ys' \<and> r = s"
  proof (rule Cons.IH)
    fix z y r s
    assume "z \<in> set xs" "enc z @ r = enc y @ s"
    then show "z = y \<and> r = s" by (intro Cons.prems(1)) simp_all
  qed (use first in simp)
  ultimately show ?case using ys by simp
qed

lemma write_json_delimits: "write_json v @ r = write_json w @ s \<Longrightarrow> v = w \<and> r = s"
proof (induction v arbitrary: w r s rule: write_json.induct)
  case (3 n)
  then show ?case by (cases w) (auto dest: write_number_delimits split: if_splits)
next
  case (4 t)
  then show ?case by (cases w) (auto dest: write_text_delimits split: if_splits)
next
  case (5 vs)
  then obtain ws where w: "w = JArray ws" by (cases w) (auto split: if_splits)
  have "vs = ws \<and> r = s"
    by (rule write_items_delimits [where enc = write_json and close = "CHR '']''"]) (use 5 w in auto)
  with w show ?case by simp
next
  case (6 ps)
  then obtain qs where w: "w = JObject qs" by (cases w) (auto split: if_splits)
  have "ps = qs \<and> r = s"
  proof (rule write_items_delimits [where close = "CHR ''}''"])
    fix x y :: "string \<times> Json" and r s
    assume x: "x \<in> set ps"
      and e: "(case x of (k, v) \<Rightarrow> write_text k @ write_json v) @ r = (case y of (k, v) \<Rightarrow> write_text k @ write_json v) @ s"
    obtain k v l u where xy: "x = (k, v)" "y = (l, u)" by (cases x; cases y) auto
    with e have "write_text k @ write_json v @ r = write_text l @ write_json u @ s" by simp
    from write_text_delimits [OF this] have "k = l" "write_json v @ r = write_json u @ s" by simp_all
    with 6(1) [OF x xy(1) [symmetric], of r u s] xy show "x = y \<and> r = s" by simp
  qed (use 6 w in auto)
  with w show ?case by simp
qed (case_tac [!] w, auto split: if_splits)

theorem canonical_json_exact_witness:
  "\<exists>env. inj_on (me_to_vec env) {value. sorted_json value \<and> distinct_keys value} \<and>
     canonical_json_bytes env (JObject [(''a'', JArray [JBool True]), (''b'', JNull)]) =
       canonical_json_bytes env (JObject [(''b'', JNull), (''a'', JArray [JBool True])]) \<and>
     canonical_json_bytes env (JArray [JNull, JBool True]) \<noteq> canonical_json_bytes env (JArray [JBool True, JNull])"
proof -
  let ?env = "\<lparr>me_to_vec = write_json, me_from_str = (\<lambda>_. None), me_hash_bytes = (\<lambda>_. []),
    me_hyphenated = (\<lambda>_. [])\<rparr>"
  let ?v = "JObject [(''b'', JNull), (''a'', JArray [JBool True])]"
  let ?w = "JObject [(''a'', JArray [JBool True]), (''b'', JNull)]"
  have writer: "inj_on (me_to_vec ?env) {value. sorted_json value \<and> distinct_keys value}"
    using write_json_delimits [of _ "[]" _ "[]"] by (auto intro: inj_onI)
  have scalars: "json_same JNull JNull" "json_same (JBool True) (JBool True)"
    by (simp_all add: json_same.scalar)
  then have "json_same (JArray [JBool True]) (JArray [JBool True])" by (intro json_same.array) simp
  with scalars have "json_same ?w ?v"
    by (intro json_same.members [where ps' = "[(''b'', JNull), (''a'', JArray [JBool True])]"
          and qs' = "[(''b'', JNull), (''a'', JArray [JBool True])]"]) simp_all
  moreover have "\<not> json_same (JArray [JNull, JBool True]) (JArray [JBool True, JNull])"
    using canonicalize_json_same [of "JArray [JNull, JBool True]" "JArray [JBool True, JNull]"] by auto
  ultimately show ?thesis
    using canonical_json_exact [OF writer, of ?w ?v]
      canonical_json_exact [OF writer, of "JArray [JNull, JBool True]" "JArray [JBool True, JNull]"] writer
    by (intro exI [of _ ?env]) simp
qed

end
