(* ===== verification/Model_Contract.thy ===== *)
theory Model_Contract
  imports Model_Json Evidence "HOL-Library.Sublist" "HOL-Library.AList"
begin

text \<open>
  The provider-neutral model contract of domain/model.rs: targets, capabilities, requests, ordered
  output, usage and responses, each with its validating constructor and its canonical JSON form.
  Newtypes over a validated string are strings; a tool schema version is its integer. Counts of
  tokens and bytes are \<open>u64\<close> values, as natural numbers below \<open>2 ^ 64\<close> where the code adds them.
\<close>

section \<open>Errors and references\<close>

datatype ModelContractErrorKind =
    InvalidTarget | InvalidRequest | InvalidText | InvalidStructuredData | InvalidToolName
  | InvalidToolArguments | ToolArgumentsTooLarge | TooManyOutputItems | DuplicateToolCallId
  | InvalidUsage | InvalidProviderEvidence | UnknownSemanticItem | InvalidTerminalSemantics
  | InvalidStreamOrdering | NormalizedOutputTooLarge

datatype ModelContractError = ModelContractError ModelContractErrorKind

fun contract_error_code :: "ModelContractErrorKind \<Rightarrow> string" where
  "contract_error_code ModelContractErrorKind.InvalidTarget = ''invalid_model_target''"
| "contract_error_code ModelContractErrorKind.InvalidRequest = ''invalid_model_request''"
| "contract_error_code ModelContractErrorKind.InvalidText = ''invalid_model_text''"
| "contract_error_code ModelContractErrorKind.InvalidStructuredData = ''invalid_structured_data''"
| "contract_error_code ModelContractErrorKind.InvalidToolName = ''invalid_tool_name''"
| "contract_error_code ModelContractErrorKind.InvalidToolArguments = ''malformed_tool_arguments''"
| "contract_error_code ModelContractErrorKind.ToolArgumentsTooLarge = ''tool_arguments_too_large''"
| "contract_error_code ModelContractErrorKind.TooManyOutputItems = ''too_many_output_items''"
| "contract_error_code ModelContractErrorKind.DuplicateToolCallId = ''duplicate_tool_call_id''"
| "contract_error_code ModelContractErrorKind.InvalidUsage = ''invalid_model_usage''"
| "contract_error_code ModelContractErrorKind.InvalidProviderEvidence = ''invalid_provider_evidence''"
| "contract_error_code ModelContractErrorKind.UnknownSemanticItem = ''unsupported_provider_item''"
| "contract_error_code ModelContractErrorKind.InvalidTerminalSemantics =
     ''invalid_model_terminal_semantics''"
| "contract_error_code ModelContractErrorKind.InvalidStreamOrdering = ''invalid_provider_stream_order''"
| "contract_error_code ModelContractErrorKind.NormalizedOutputTooLarge = ''normalized_output_too_large''"

abbreviation contract_err :: "ModelContractErrorKind \<Rightarrow> ModelContractError + 'a" where
  "contract_err kind \<equiv> Inl (ModelContractError kind)"

definition MAX_MODEL_OUTPUT_ITEMS :: nat where "MAX_MODEL_OUTPUT_ITEMS = 64"
definition MAX_MODEL_TOOL_ARGUMENT_BYTES :: nat where "MAX_MODEL_TOOL_ARGUMENT_BYTES = 65536"
definition MAX_NORMALIZED_MODEL_RESPONSE_BYTES :: nat where
  "MAX_NORMALIZED_MODEL_RESPONSE_BYTES = 262144"
definition MAX_MODEL_COMPONENT_BYTES :: nat where "MAX_MODEL_COMPONENT_BYTES = 65536"
definition MAX_PROVIDER_EVIDENCE_ID_BYTES :: nat where "MAX_PROVIDER_EVIDENCE_ID_BYTES = 128"
definition MAX_ENDPOINT_REFERENCE_BYTES :: nat where "MAX_ENDPOINT_REFERENCE_BYTES = 2048"
definition MAX_CONFIG_REFERENCE_BYTES :: nat where "MAX_CONFIG_REFERENCE_BYTES = 128"
definition MAX_METADATA_ENTRIES :: nat where "MAX_METADATA_ENTRIES = 32"

text \<open>
  The white space that \<open>str::trim\<close> removes and the control characters of \<open>char::is_control\<close>, by
  their UTF-8 encodings.
\<close>

definition whitespace_encodings :: "string list" where
  "whitespace_encodings =
     map (map char_of)
       ([[9], [10], [11], [12], [13], [32], [0xC2, 0x85], [0xC2, 0xA0], [0xE1, 0x9A, 0x80]] @
        map (\<lambda>n. [0xE2, 0x80, n])
          [0x80, 0x81, 0x82, 0x83, 0x84, 0x85, 0x86, 0x87, 0x88, 0x89, 0x8A, 0xA8, 0xA9, 0xAF] @
        [[0xE2, 0x81, 0x9F], [0xE3, 0x80, 0x80 :: nat]])"

definition trimmed :: "string \<Rightarrow> bool" where
  "trimmed s \<longleftrightarrow> \<not> list_ex (\<lambda>w. prefix w s \<or> suffix w s) whitespace_encodings"

fun has_control :: "string \<Rightarrow> bool" where
  "has_control [] \<longleftrightarrow> False"
| "has_control (c # cs) \<longleftrightarrow>
     of_char c < (32 :: nat) \<or> of_char c = (127 :: nat) \<or>
     (of_char c = (0xC2 :: nat) \<and>
      (case cs of [] \<Rightarrow> False | d # _ \<Rightarrow> (0x80 :: nat) \<le> of_char d \<and> of_char d \<le> (0x9F :: nat))) \<or>
     has_control cs"

definition clean_reference :: "string \<Rightarrow> nat \<Rightarrow> bool" where
  "clean_reference value maximum \<longleftrightarrow>
     value \<noteq> [] \<and> length value \<le> maximum \<and> trimmed value \<and> \<not> has_control value"

definition config_reference_try_new :: "string \<Rightarrow> nat \<Rightarrow> ModelContractError + string" where
  "config_reference_try_new value maximum =
     (if \<not> clean_reference value maximum then contract_err ModelContractErrorKind.InvalidTarget
      else Inr value)"

definition config_reference_endpoint :: "string \<Rightarrow> ModelContractError + string" where
  "config_reference_endpoint value = config_reference_try_new value MAX_ENDPOINT_REFERENCE_BYTES"

definition config_reference_named :: "string \<Rightarrow> ModelContractError + string" where
  "config_reference_named value = config_reference_try_new value MAX_CONFIG_REFERENCE_BYTES"

definition evidence_id_try_new :: "string \<Rightarrow> ModelContractError + string" where
  "evidence_id_try_new value =
     (if \<not> clean_reference value MAX_PROVIDER_EVIDENCE_ID_BYTES
      then contract_err ModelContractErrorKind.InvalidProviderEvidence else Inr value)"

definition tool_call_id_try_new :: "string \<Rightarrow> ModelContractError + string" where
  "tool_call_id_try_new value =
     (if \<not> clean_reference value MAX_PROVIDER_EVIDENCE_ID_BYTES
      then contract_err ModelContractErrorKind.InvalidProviderEvidence else Inr value)"

section \<open>Targets\<close>

record TokenEstimatorIdentity =
  te_id :: string
  te_version :: int

definition estimator_try_new :: "string \<Rightarrow> int \<Rightarrow> ModelContractError + TokenEstimatorIdentity" where
  "estimator_try_new i version =
     (if version = 0 \<or> version > i64_max then contract_err ModelContractErrorKind.InvalidTarget
      else map_ok (\<lambda>named. \<lparr>te_id = named, te_version = version\<rparr>) (config_reference_named i))"

record ModelTarget =
  mt_reference :: ProviderModelReference
  mt_enabled :: bool
  mt_endpoint_reference :: string
  mt_account_reference :: string
  mt_requested_output_tokens :: TokenCount
  mt_estimator :: TokenEstimatorIdentity
  mt_reasoning_continuation :: bool

definition target_try_new :: "ModelTarget \<Rightarrow> ModelContractError + ModelTarget" where
  "target_try_new input =
     (let capabilities = pm_capabilities (mt_reference input) in
      if pri_get (mt_requested_output_tokens input) > pri_get (cap_max_output_tokens capabilities) \<or>
         mt_reasoning_continuation input \<and> \<not> cap_reasoning_continuation capabilities
      then contract_err ModelContractErrorKind.InvalidTarget else Inr input)"

record ModelTargetIdentity =
  ti_model_target_id :: string
  ti_provider_id :: string
  ti_provider_model_id :: string
  ti_target_configuration_version :: TargetConfigurationVersion

definition identity_from_reference :: "ProviderModelReference \<Rightarrow> ModelTargetIdentity" where
  "identity_from_reference reference =
     \<lparr>ti_model_target_id = pm_model_target_id reference, ti_provider_id = pm_provider_id reference,
      ti_provider_model_id = pm_provider_model_id reference,
      ti_target_configuration_version = pm_target_configuration_version reference\<rparr>"

definition target_identity :: "ModelTarget \<Rightarrow> ModelTargetIdentity" where
  "target_identity target = identity_from_reference (mt_reference target)"

definition identity_value :: "ModelTargetIdentity \<Rightarrow> Json" where
  "identity_value i = JObject
     [(''model_target_id'', JString (ti_model_target_id i)),
      (''provider_id'', JString (ti_provider_id i)),
      (''provider_model_id'', JString (ti_provider_model_id i)),
      (''target_configuration_version'', json_number (pri_get (ti_target_configuration_version i)))]"

record RequiredModelCapabilities =
  rc_text_input :: bool
  rc_text_output :: bool
  rc_custom_tool_calling :: bool
  rc_streaming :: bool
  rc_ordered_output_items :: bool
  rc_structured_output :: bool
  rc_reasoning_continuation :: bool
  rc_required_output_tokens :: TokenCount

definition satisfied_by :: "RequiredModelCapabilities \<Rightarrow> ModelCapabilitySnapshot \<Rightarrow> bool" where
  "satisfied_by required available \<longleftrightarrow>
     (\<not> rc_text_input required \<or> cap_text_input available) \<and>
     (\<not> rc_text_output required \<or> cap_text_output available) \<and>
     (\<not> rc_custom_tool_calling required \<or> cap_custom_tool_calling available) \<and>
     (\<not> rc_streaming required \<or> cap_streaming available) \<and>
     (\<not> rc_ordered_output_items required \<or> cap_ordered_output_items available) \<and>
     (\<not> rc_structured_output required \<or> cap_structured_output available) \<and>
     (\<not> rc_reasoning_continuation required \<or> cap_reasoning_continuation available) \<and>
     pri_get (rc_required_output_tokens required) \<le> pri_get (cap_max_output_tokens available)"

definition required_value :: "RequiredModelCapabilities \<Rightarrow> Json" where
  "required_value r = JObject
     [(''custom_tool_calling'', JBool (rc_custom_tool_calling r)),
      (''ordered_output_items'', JBool (rc_ordered_output_items r)),
      (''reasoning_continuation'', JBool (rc_reasoning_continuation r)),
      (''required_output_tokens'', json_number (pri_get (rc_required_output_tokens r))),
      (''streaming'', JBool (rc_streaming r)),
      (''structured_output'', JBool (rc_structured_output r)),
      (''text_input'', JBool (rc_text_input r)),
      (''text_output'', JBool (rc_text_output r))]"

section \<open>Components of requests and responses\<close>

definition text_part_try_new :: "string \<Rightarrow> ModelContractError + string" where
  "text_part_try_new value =
     (if value = [] \<or> length value > MAX_MODEL_COMPONENT_BYTES
      then contract_err ModelContractErrorKind.InvalidText else Inr value)"

definition require_parts :: "string list \<Rightarrow> ModelContractError + unit" where
  "require_parts parts =
     (if parts = [] then contract_err ModelContractErrorKind.InvalidText else Inr ())"

definition text_values :: "string list \<Rightarrow> Json" where
  "text_values parts = JArray (map JString parts)"

definition bounded_json :: "model_env \<Rightarrow> Json \<Rightarrow> ModelContractError + Json" where
  "bounded_json env value =
     (let value = canonicalize_json value in
      if length (canonical_json_bytes env value) > MAX_MODEL_COMPONENT_BYTES
      then contract_err ModelContractErrorKind.InvalidStructuredData else Inr value)"

record CanonicalModelToolCall =
  tc_call_id :: string
  tc_name :: string
  tc_raw_arguments :: string
  tc_parsed_arguments :: "Json option"

definition tool_call_try_new ::
  "model_env \<Rightarrow> string \<Rightarrow> string \<Rightarrow> string \<Rightarrow> ModelContractError + CanonicalModelToolCall" where
  "tool_call_try_new env call_id name raw_arguments =
     and_then (map_err (\<lambda>_. ModelContractError ModelContractErrorKind.InvalidToolName)
         (tool_name_try_new name)) (\<lambda>name.
     if length raw_arguments > MAX_MODEL_TOOL_ARGUMENT_BYTES
     then contract_err ModelContractErrorKind.ToolArgumentsTooLarge
     else Inr \<lparr>tc_call_id = call_id, tc_name = name, tc_raw_arguments = raw_arguments,
               tc_parsed_arguments = map_option canonicalize_json (me_from_str env raw_arguments)\<rparr>)"

definition arguments_are_valid_json :: "CanonicalModelToolCall \<Rightarrow> bool" where
  "arguments_are_valid_json call \<longleftrightarrow> tc_parsed_arguments call \<noteq> None"

definition require_valid_arguments :: "CanonicalModelToolCall \<Rightarrow> ModelContractError + Json" where
  "require_valid_arguments call =
     ok_or (tc_parsed_arguments call) (ModelContractError ModelContractErrorKind.InvalidToolArguments)"

definition tool_call_value :: "CanonicalModelToolCall \<Rightarrow> Json" where
  "tool_call_value call = JObject
     [(''arguments_valid_json'', JBool (arguments_are_valid_json call)),
      (''call_id'', JString (tc_call_id call)),
      (''name'', JString (tc_name call)),
      (''parsed_arguments'', json_option id (tc_parsed_arguments call)),
      (''raw_arguments'', JString (tc_raw_arguments call))]"

record ProviderOpaqueEvidence =
  oe_provider_id :: string
  oe_type_label :: string
  oe_opaque :: string
  oe_sha256 :: Sha256Digest

definition opaque_try_new ::
  "model_env \<Rightarrow> string \<Rightarrow> string \<Rightarrow> string \<Rightarrow> ModelContractError + ProviderOpaqueEvidence" where
  "opaque_try_new env provider_id type_label opaque =
     (if opaque = [] \<or> length opaque > MAX_MODEL_COMPONENT_BYTES
      then contract_err ModelContractErrorKind.InvalidProviderEvidence
      else map_ok (\<lambda>label. \<lparr>oe_provider_id = provider_id, oe_type_label = label, oe_opaque = opaque,
                             oe_sha256 = me_hash_bytes env opaque\<rparr>)
             (config_reference_named type_label))"

definition opaque_value :: "ProviderOpaqueEvidence \<Rightarrow> Json" where
  "opaque_value e = JObject
     [(''opaque'', JString (oe_opaque e)), (''provider_id'', JString (oe_provider_id e)),
      (''sha256'', JString (digest_to_string (oe_sha256 e))),
      (''type_label'', JString (oe_type_label e))]"

section \<open>Requests\<close>

datatype ModelInputRole = System | Developer | User

fun input_role_str :: "ModelInputRole \<Rightarrow> string" where
  "input_role_str ModelInputRole.System = ''system''"
| "input_role_str ModelInputRole.Developer = ''developer''"
| "input_role_str ModelInputRole.User = ''user''"

datatype ModelInputItem =
    Message ModelInputRole "string list"
  | PriorAssistant "string list"
  | ToolCall CanonicalModelToolCall
  | ToolResult string Json
  | HistoricalRefusal "string list"
  | HistoricalReasoningSummary "string list"
  | StructuredData Json
  | SyntheticRuntimeStatus string Json
  | ProviderOpaqueContinuation ProviderOpaqueEvidence

definition input_message :: "ModelInputRole \<Rightarrow> string list \<Rightarrow> ModelContractError + ModelInputItem" where
  "input_message role parts = map_ok (\<lambda>_. Message role parts) (require_parts parts)"

definition prior_assistant :: "string list \<Rightarrow> ModelContractError + ModelInputItem" where
  "prior_assistant parts = map_ok (\<lambda>_. PriorAssistant parts) (require_parts parts)"

definition historical_refusal :: "string list \<Rightarrow> ModelContractError + ModelInputItem" where
  "historical_refusal parts = map_ok (\<lambda>_. HistoricalRefusal parts) (require_parts parts)"

definition historical_reasoning_summary :: "string list \<Rightarrow> ModelContractError + ModelInputItem" where
  "historical_reasoning_summary parts =
     map_ok (\<lambda>_. HistoricalReasoningSummary parts) (require_parts parts)"

definition input_structured_data :: "model_env \<Rightarrow> Json \<Rightarrow> ModelContractError + ModelInputItem" where
  "input_structured_data env data = map_ok StructuredData (bounded_json env data)"

definition input_tool_result :: "model_env \<Rightarrow> string \<Rightarrow> Json \<Rightarrow> ModelContractError + ModelInputItem" where
  "input_tool_result env call_id result = map_ok (ToolResult call_id) (bounded_json env result)"

definition synthetic_runtime_status ::
  "model_env \<Rightarrow> string \<Rightarrow> Json \<Rightarrow> ModelContractError + ModelInputItem" where
  "synthetic_runtime_status env status details =
     and_then (config_reference_named status) (\<lambda>status.
     map_ok (SyntheticRuntimeStatus status) (bounded_json env details))"

fun input_item_value :: "ModelInputItem \<Rightarrow> Json" where
  "input_item_value (Message role parts) = JObject
     [(''content_parts'', text_values parts), (''kind'', JString ''message''),
      (''role'', JString (input_role_str role))]"
| "input_item_value (PriorAssistant parts) = JObject
     [(''content_parts'', text_values parts), (''kind'', JString ''prior_assistant'')]"
| "input_item_value (ToolCall call) = JObject
     [(''call'', tool_call_value call), (''kind'', JString ''tool_call'')]"
| "input_item_value (ToolResult call_id result) = JObject
     [(''call_id'', JString call_id), (''kind'', JString ''tool_result''), (''result'', result)]"
| "input_item_value (HistoricalRefusal parts) = JObject
     [(''content_parts'', text_values parts), (''kind'', JString ''historical_refusal'')]"
| "input_item_value (HistoricalReasoningSummary parts) = JObject
     [(''content_parts'', text_values parts), (''kind'', JString ''historical_reasoning_summary'')]"
| "input_item_value (StructuredData data) = JObject
     [(''data'', data), (''kind'', JString ''structured_data'')]"
| "input_item_value (SyntheticRuntimeStatus status details) = JObject
     [(''details'', details), (''kind'', JString ''synthetic_runtime_status''),
      (''status'', JString status)]"
| "input_item_value (ProviderOpaqueContinuation evidence) = JObject
     [(''evidence'', opaque_value evidence), (''kind'', JString ''provider_opaque_continuation'')]"

definition input_item_bytes :: "model_env \<Rightarrow> ModelInputItem \<Rightarrow> string" where
  "input_item_bytes env item = canonical_json_bytes env (input_item_value item)"

record ModelToolDefinition =
  td_name :: string
  td_implementation_version :: string
  td_schema_version :: int
  td_description :: string
  td_input_schema :: Json

definition tool_definition_try_new ::
  "model_env \<Rightarrow> string \<Rightarrow> string \<Rightarrow> int \<Rightarrow> string \<Rightarrow> Json \<Rightarrow> ModelContractError + ModelToolDefinition" where
  "tool_definition_try_new env name implementation_version schema_version description input_schema =
     and_then (text_part_try_new description) (\<lambda>description.
     map_ok (\<lambda>schema. \<lparr>td_name = name, td_implementation_version = implementation_version,
                        td_schema_version = schema_version, td_description = description,
                        td_input_schema = schema\<rparr>) (bounded_json env input_schema))"

definition tool_definition_value :: "ModelToolDefinition \<Rightarrow> Json" where
  "tool_definition_value d = JObject
     [(''description'', JString (td_description d)),
      (''implementation_version'', JString (td_implementation_version d)),
      (''input_schema'', td_input_schema d), (''name'', JString (td_name d)),
      (''schema_version'', json_number (td_schema_version d))]"

definition tool_definition_bytes :: "model_env \<Rightarrow> ModelToolDefinition \<Rightarrow> string" where
  "tool_definition_bytes env d = canonical_json_bytes env (tool_definition_value d)"

definition model_toolset_fingerprint :: "model_env \<Rightarrow> ModelToolDefinition list \<Rightarrow> Sha256Digest" where
  "model_toolset_fingerprint env definitions =
     me_hash_bytes env (canonical_json_bytes env (JArray (map tool_definition_value definitions)))"

datatype ModelToolChoicePolicy = Automatic | NoTools

fun tool_choice_str :: "ModelToolChoicePolicy \<Rightarrow> string" where
  "tool_choice_str Automatic = ''automatic''"
| "tool_choice_str NoTools = ''none''"

record ModelRequest =
  mr_logical_invocation_id :: LogicalInvocationId
  mr_target :: ModelTarget
  mr_ordered_input_items :: "ModelInputItem list"
  mr_instructions :: "string list"
  mr_tool_definitions :: "ModelToolDefinition list"
  mr_requested_output_limit :: TokenCount
  mr_tool_choice_policy :: ModelToolChoicePolicy
  mr_reasoning_continuation :: bool
  mr_context_manifest_id :: ContextManifestId

definition request_try_new :: "ModelRequest \<Rightarrow> ModelContractError + ModelRequest" where
  "request_try_new input =
     (let target = mr_target input in
      if mr_ordered_input_items input = [] \<or>
         pri_get (mr_requested_output_limit input) >
           pri_get (cap_max_output_tokens (pm_capabilities (mt_reference target))) \<or>
         mr_reasoning_continuation input \<noteq> mt_reasoning_continuation target \<or>
         mr_tool_choice_policy input = NoTools \<and> mr_tool_definitions input \<noteq> []
      then contract_err ModelContractErrorKind.InvalidRequest
      else if \<not> distinct (map td_name (mr_tool_definitions input))
      then contract_err ModelContractErrorKind.InvalidRequest
      else Inr input)"

fun manifest_id_text :: "model_env \<Rightarrow> ContextManifestId \<Rightarrow> string" where
  "manifest_id_text env (ContextManifestId u) = me_hyphenated env u"

fun logical_id_text :: "model_env \<Rightarrow> LogicalInvocationId \<Rightarrow> string" where
  "logical_id_text env (LogicalInvocationId u) = me_hyphenated env u"

definition request_value :: "model_env \<Rightarrow> ModelRequest \<Rightarrow> Json" where
  "request_value env r = JObject
     [(''context_manifest_id'', JString (manifest_id_text env (mr_context_manifest_id r))),
      (''instructions'', text_values (mr_instructions r)),
      (''logical_invocation_id'', JString (logical_id_text env (mr_logical_invocation_id r))),
      (''ordered_input_items'', JArray (map input_item_value (mr_ordered_input_items r))),
      (''parallel_tool_calls'', JBool False),
      (''provider_native_options'', JObject
         [(''reasoning_continuation'', JBool (mr_reasoning_continuation r))]),
      (''requested_output_limit'', json_number (pri_get (mr_requested_output_limit r))),
      (''target'', identity_value (target_identity (mr_target r))),
      (''tool_choice_policy'', JString (tool_choice_str (mr_tool_choice_policy r))),
      (''tool_definitions'', JArray (map tool_definition_value (mr_tool_definitions r)))]"

definition request_bytes :: "model_env \<Rightarrow> ModelRequest \<Rightarrow> string" where
  "request_bytes env r = canonical_json_bytes env (request_value env r)"

section \<open>Responses\<close>

datatype ModelOutputItem =
    OutputText "string list"
  | OutputToolCall CanonicalModelToolCall
  | OutputStructuredData Json
  | OutputRefusal "string list"
  | OutputReasoningSummary "string list"
  | ProviderOpaque ProviderOpaqueEvidence
  | UnknownProviderItem ProviderOpaqueEvidence

fun output_item_value :: "ModelOutputItem \<Rightarrow> Json" where
  "output_item_value (OutputText parts) = JObject
     [(''content_parts'', text_values parts), (''kind'', JString ''text'')]"
| "output_item_value (OutputToolCall call) = JObject
     [(''call'', tool_call_value call), (''kind'', JString ''tool_call'')]"
| "output_item_value (OutputStructuredData data) = JObject
     [(''data'', data), (''kind'', JString ''structured_data'')]"
| "output_item_value (OutputRefusal parts) = JObject
     [(''content_parts'', text_values parts), (''kind'', JString ''refusal'')]"
| "output_item_value (OutputReasoningSummary parts) = JObject
     [(''content_parts'', text_values parts), (''kind'', JString ''reasoning_summary'')]"
| "output_item_value (ProviderOpaque evidence) = JObject
     [(''evidence'', opaque_value evidence), (''kind'', JString ''provider_opaque'')]"
| "output_item_value (UnknownProviderItem evidence) = JObject
     [(''evidence'', opaque_value evidence), (''kind'', JString ''unknown_provider_item'')]"

datatype ModelStopReason =
    Completed | ToolContinuation | Refusal | IncompleteProviderLimit | Cancelled | ProviderFailure

fun stop_reason_str :: "ModelStopReason \<Rightarrow> string" where
  "stop_reason_str ModelStopReason.Completed = ''completed''"
| "stop_reason_str ModelStopReason.ToolContinuation = ''tool_continuation''"
| "stop_reason_str ModelStopReason.Refusal = ''refusal''"
| "stop_reason_str ModelStopReason.IncompleteProviderLimit = ''incomplete_provider_limit''"
| "stop_reason_str ModelStopReason.Cancelled = ''cancelled''"
| "stop_reason_str ModelStopReason.ProviderFailure = ''provider_failure''"

record ModelUsage =
  mu_input_tokens :: "64 word"
  mu_cached_input_tokens :: "64 word"
  mu_output_tokens :: "64 word"
  mu_reasoning_tokens :: "64 word"
  mu_total_tokens :: "64 word"

definition u64_checked_add :: "64 word \<Rightarrow> 64 word \<Rightarrow> 64 word option" where
  "u64_checked_add a b = (if a + b < a then None else Some (a + b))"

definition usage_try_new ::
  "64 word \<Rightarrow> 64 word \<Rightarrow> 64 word \<Rightarrow> 64 word \<Rightarrow> 64 word \<Rightarrow> ModelContractError + ModelUsage" where
  "usage_try_new input_tokens cached_input_tokens output_tokens reasoning_tokens total_tokens =
     and_then (ok_or (u64_checked_add input_tokens output_tokens)
         (ModelContractError ModelContractErrorKind.InvalidUsage)) (\<lambda>calculated.
     if list_ex (\<lambda>value. uint value > i64_max)
          [input_tokens, cached_input_tokens, output_tokens, reasoning_tokens, total_tokens] \<or>
        cached_input_tokens > input_tokens \<or> reasoning_tokens > output_tokens \<or>
        total_tokens \<noteq> calculated
     then contract_err ModelContractErrorKind.InvalidUsage
     else Inr \<lparr>mu_input_tokens = input_tokens, mu_cached_input_tokens = cached_input_tokens,
               mu_output_tokens = output_tokens, mu_reasoning_tokens = reasoning_tokens,
               mu_total_tokens = total_tokens\<rparr>)"

definition usage_value :: "ModelUsage \<Rightarrow> Json" where
  "usage_value u = JObject
     [(''cached_input_tokens'', json_number (uint (mu_cached_input_tokens u))),
      (''input_tokens'', json_number (uint (mu_input_tokens u))),
      (''output_tokens'', json_number (uint (mu_output_tokens u))),
      (''reasoning_tokens'', json_number (uint (mu_reasoning_tokens u))),
      (''total_tokens'', json_number (uint (mu_total_tokens u)))]"

datatype ProviderMetadataValue = Boolean bool | Integer int | Identifier string

definition metadata_key_ok :: "string \<Rightarrow> bool" where
  "metadata_key_ok key \<longleftrightarrow>
     key \<noteq> [] \<and> length key \<le> 64 \<and>
     list_all (\<lambda>b. is_ascii_lowercase b \<or> is_ascii_digit b \<or> b \<in> {CHR ''_'', CHR ''-'', CHR ''.''}) key"

text \<open>Collecting into an ordered map keeps the last value of a key.\<close>

definition metadata_try_new ::
  "(string \<times> ProviderMetadataValue) list \<Rightarrow>
     ModelContractError + (string \<times> ProviderMetadataValue) list" where
  "metadata_try_new entries =
     (let entries = sort_key fst (fold (\<lambda>(key, value). AList.update key value) entries []) in
      if length entries > MAX_METADATA_ENTRIES \<or> list_ex (\<lambda>(key, _). \<not> metadata_key_ok key) entries
      then contract_err ModelContractErrorKind.InvalidProviderEvidence else Inr entries)"

fun metadata_entry_value :: "ProviderMetadataValue \<Rightarrow> Json" where
  "metadata_entry_value (Boolean value) = JBool value"
| "metadata_entry_value (Integer value) = json_number value"
| "metadata_entry_value (Identifier value) = JString value"

definition metadata_value :: "(string \<times> ProviderMetadataValue) list \<Rightarrow> Json" where
  "metadata_value entries = JObject (map (\<lambda>(key, value). (key, metadata_entry_value value)) entries)"

record ModelResponse =
  rs_selected_target :: ModelTargetIdentity
  rs_output_items :: "ModelOutputItem list"
  rs_stop_reason :: ModelStopReason
  rs_usage :: "ModelUsage option"
  rs_provider_request_id :: "string option"
  rs_provider_response_id :: "string option"
  rs_provider_continuation :: "ProviderOpaqueEvidence option"
  rs_provider_metadata :: "(string \<times> ProviderMetadataValue) list"

record ResponseSemantics =
  se_answer_text :: bool
  se_tool_call :: bool
  se_structured_data :: bool
  se_refusal :: bool
  se_reasoning_summary :: bool
  se_provider_opaque :: bool
  se_unknown :: bool

definition no_semantics :: ResponseSemantics where
  "no_semantics =
     \<lparr>se_answer_text = False, se_tool_call = False, se_structured_data = False, se_refusal = False,
      se_reasoning_summary = False, se_provider_opaque = False, se_unknown = False\<rparr>"

definition has_normal_answer :: "ResponseSemantics \<Rightarrow> bool" where
  "has_normal_answer s \<longleftrightarrow> se_answer_text s \<or> se_structured_data s"

definition has_exposed_semantics :: "ResponseSemantics \<Rightarrow> bool" where
  "has_exposed_semantics s \<longleftrightarrow>
     se_answer_text s \<or> se_tool_call s \<or> se_structured_data s \<or> se_refusal s \<or>
     se_reasoning_summary s \<or> se_unknown s"

text \<open>One iteration over the output items: the call ids seen so far and the flags.\<close>

fun observe_item ::
  "string list \<times> ResponseSemantics \<Rightarrow> ModelOutputItem \<Rightarrow>
     ModelContractError + string list \<times> ResponseSemantics" where
  "observe_item (call_ids, s) (OutputToolCall call) =
     (if tc_call_id call \<in> set call_ids then contract_err ModelContractErrorKind.DuplicateToolCallId
      else Inr (tc_call_id call # call_ids, s\<lparr>se_tool_call := True\<rparr>))"
| "observe_item (call_ids, s) (OutputText _) = Inr (call_ids, s\<lparr>se_answer_text := True\<rparr>)"
| "observe_item (call_ids, s) (OutputStructuredData _) = Inr (call_ids, s\<lparr>se_structured_data := True\<rparr>)"
| "observe_item (call_ids, s) (OutputRefusal _) = Inr (call_ids, s\<lparr>se_refusal := True\<rparr>)"
| "observe_item (call_ids, s) (OutputReasoningSummary _) =
     Inr (call_ids, s\<lparr>se_reasoning_summary := True\<rparr>)"
| "observe_item (call_ids, s) (ProviderOpaque _) = Inr (call_ids, s\<lparr>se_provider_opaque := True\<rparr>)"
| "observe_item (call_ids, s) (UnknownProviderItem _) = Inr (call_ids, s\<lparr>se_unknown := True\<rparr>)"

fun stop_is_consistent :: "ModelStopReason \<Rightarrow> ResponseSemantics \<Rightarrow> bool" where
  "stop_is_consistent ModelStopReason.Completed s \<longleftrightarrow>
     has_normal_answer s \<and> \<not> se_tool_call s \<and> \<not> se_refusal s \<and> \<not> se_unknown s"
| "stop_is_consistent ModelStopReason.ToolContinuation s \<longleftrightarrow>
     se_tool_call s \<and> \<not> se_structured_data s \<and> \<not> se_refusal s \<and> \<not> se_unknown s"
| "stop_is_consistent ModelStopReason.Refusal s \<longleftrightarrow>
     se_refusal s \<and> \<not> se_answer_text s \<and> \<not> se_tool_call s \<and> \<not> se_structured_data s \<and> \<not> se_unknown s"
| "stop_is_consistent ModelStopReason.IncompleteProviderLimit s \<longleftrightarrow>
     \<not> se_tool_call s \<and> \<not> se_refusal s \<and> \<not> se_unknown s"
| "stop_is_consistent ModelStopReason.Cancelled s \<longleftrightarrow> \<not> has_exposed_semantics s"
| "stop_is_consistent ModelStopReason.ProviderFailure s \<longleftrightarrow>
     \<not> se_answer_text s \<and> \<not> se_tool_call s \<and> \<not> se_structured_data s \<and> \<not> se_refusal s \<and>
     \<not> se_reasoning_summary s"

definition response_value :: "ModelResponse \<Rightarrow> Json" where
  "response_value r = JObject
     [(''output_items'', JArray (map output_item_value (rs_output_items r))),
      (''provider_continuation'', json_option opaque_value (rs_provider_continuation r)),
      (''provider_metadata'', metadata_value (rs_provider_metadata r)),
      (''provider_request_id'', json_option JString (rs_provider_request_id r)),
      (''provider_response_id'', json_option JString (rs_provider_response_id r)),
      (''selected_target'', identity_value (rs_selected_target r)),
      (''stop_reason'', JString (stop_reason_str (rs_stop_reason r))),
      (''usage'', json_option usage_value (rs_usage r))]"

definition response_bytes :: "model_env \<Rightarrow> ModelResponse \<Rightarrow> string" where
  "response_bytes env r = canonical_json_bytes env (response_value r)"

definition response_try_new :: "model_env \<Rightarrow> ModelResponse \<Rightarrow> ModelContractError + ModelResponse" where
  "response_try_new env input =
     (if length (rs_output_items input) > MAX_MODEL_OUTPUT_ITEMS
      then contract_err ModelContractErrorKind.TooManyOutputItems
      else
        and_then (fold_result observe_item ([], no_semantics) (rs_output_items input)) (\<lambda>(_, s).
        if \<not> stop_is_consistent (rs_stop_reason input) s
        then contract_err ModelContractErrorKind.InvalidTerminalSemantics
        else if length (response_bytes env input) > MAX_NORMALIZED_MODEL_RESPONSE_BYTES
        then contract_err ModelContractErrorKind.NormalizedOutputTooLarge
        else Inr input))"

fun is_unknown_item :: "ModelOutputItem \<Rightarrow> bool" where
  "is_unknown_item (UnknownProviderItem _) \<longleftrightarrow> True"
| "is_unknown_item _ \<longleftrightarrow> False"

fun require_item_arguments :: "unit \<Rightarrow> ModelOutputItem \<Rightarrow> ModelContractError + unit" where
  "require_item_arguments u (OutputToolCall call) = map_ok (\<lambda>_. ()) (require_valid_arguments call)"
| "require_item_arguments u _ = Inr ()"

definition require_supported_semantics :: "ModelResponse \<Rightarrow> ModelContractError + unit" where
  "require_supported_semantics r =
     (if list_ex is_unknown_item (rs_output_items r)
      then contract_err ModelContractErrorKind.UnknownSemanticItem
      else fold_result require_item_arguments () (rs_output_items r))"

section \<open>What validated values guarantee\<close>

lemma u64_checked_add_exact:
  "u64_checked_add a b = (if uint a + uint b < 2 ^ 64 then Some (a + b) else None)"
  "uint a + uint b < 2 ^ 64 \<Longrightarrow> uint (a + b) = uint a + uint b"
proof -
  let ?m = "2 ^ 64 :: int"
  have bounds: "0 \<le> uint a" "0 \<le> uint b" "uint a < ?m" "uint b < ?m"
    using uint_lt2p [of a] uint_lt2p [of b] by simp_all
  have sum: "uint (a + b) = (uint a + uint b) mod ?m" by (simp add: uint_word_ariths)
  show small: "uint (a + b) = uint a + uint b" if "uint a + uint b < ?m"
    unfolding sum by (rule mod_pos_pos_trivial) (use that bounds in linarith)+
  have big: "uint (a + b) = uint a + uint b - ?m" if "\<not> uint a + uint b < ?m"
  proof -
    have "(uint a + uint b) mod ?m = (uint a + uint b - ?m) mod ?m" by (rule minus_mod_self2 [symmetric])
    also have "\<dots> = uint a + uint b - ?m"
      by (rule mod_pos_pos_trivial) (use that bounds in linarith)+
    finally show ?thesis unfolding sum .
  qed
  show "u64_checked_add a b = (if uint a + uint b < ?m then Some (a + b) else None)"
  proof (cases "uint a + uint b < ?m")
    case True
    then have "\<not> a + b < a" using small bounds by (simp add: word_less_def)
    with True show ?thesis by (simp add: u64_checked_add_def)
  next
    case False
    then have "a + b < a" using big bounds by (simp add: word_less_def)
    with False show ?thesis by (simp add: u64_checked_add_def)
  qed
qed

text \<open>
  C30. Validated usage is consistent and fits the durable columns: the constructor accepts five
  64-bit counts exactly when, as unbounded integers, the total is the sum of input and output tokens,
  it fits a signed 64-bit column, and the cached and reasoning parts do not exceed what they are parts
  of. No wrap-around can make an inconsistent total acceptable.
\<close>

theorem usage_exact:
  "(\<exists>u. usage_try_new i c out r t = Inr u) \<longleftrightarrow>
     uint t = uint i + uint out \<and> uint t \<le> i64_max \<and> uint c \<le> uint i \<and> uint r \<le> uint out"
proof (cases "uint i + uint out < 2 ^ 64")
  case True
  note add = u64_checked_add_exact(2) [OF True] u64_checked_add_exact(1) [of i out]
  have "t = i + out \<longleftrightarrow> uint t = uint i + uint out" by (simp add: word_uint_eq_iff add(1))
  with True show ?thesis
    by (auto simp: usage_try_new_def add(2) word_less_def word_le_def not_less)
      (use uint_ge_0 [of i] uint_ge_0 [of out] in linarith)+
next
  case False
  have "i64_max < 2 ^ 64" by (simp add: i64_max_def)
  with False show ?thesis by (auto simp: usage_try_new_def u64_checked_add_exact(1))
qed

end
