(* ===== verification/Model_Stream.thy ===== *)
theory Model_Stream
  imports Model_Contract
begin

text \<open>
  The provider-neutral stream contract of domain/model.rs: stream events, the validator that observes
  them one by one, and the classification of a stream. The validator's two maps are association lists
  keyed by call id. The main result describes every accepted stream.
\<close>

section \<open>Events and states\<close>

datatype ModelStreamProviderErrorKind =
    DefiniteFailure | TransientUnavailable | Cancelled | OutcomeUnknown | TimeoutBeforeOutput
  | TimeoutAfterOutput | ProtocolFailure

datatype ModelStreamEvent =
    ResponseStarted ModelTargetIdentity "string option" "string option"
  | TextDelta nat string
  | ReasoningSummaryDelta nat string
  | ToolCallStarted nat string string
  | ToolArgumentDelta nat string string
  | ToolCallCompleted nat CanonicalModelToolCall
  | RefusalDelta nat string
  | RefusalCompleted nat
  | StreamStructuredData nat Json
  | Usage ModelUsage
  | UsageUnavailable
  | StreamCompleted ModelResponse
  | StreamProviderError ModelStreamProviderErrorKind
  | UnknownProviderEvent ProviderOpaqueEvidence

definition stream_argument_delta :: "nat \<Rightarrow> string \<Rightarrow> string \<Rightarrow> ModelContractError + ModelStreamEvent" where
  "stream_argument_delta item_ordinal call_id delta =
     (if delta = [] \<or> length delta > MAX_MODEL_TOOL_ARGUMENT_BYTES
      then contract_err ModelContractErrorKind.ToolArgumentsTooLarge
      else Inr (ToolArgumentDelta item_ordinal call_id delta))"

fun event_is_semantic_output :: "ModelStreamEvent \<Rightarrow> bool" where
  "event_is_semantic_output (TextDelta _ _) \<longleftrightarrow> True"
| "event_is_semantic_output (ReasoningSummaryDelta _ _) \<longleftrightarrow> True"
| "event_is_semantic_output (ToolCallStarted _ _ _) \<longleftrightarrow> True"
| "event_is_semantic_output (ToolArgumentDelta _ _ _) \<longleftrightarrow> True"
| "event_is_semantic_output (ToolCallCompleted _ _) \<longleftrightarrow> True"
| "event_is_semantic_output (RefusalDelta _ _) \<longleftrightarrow> True"
| "event_is_semantic_output (RefusalCompleted _) \<longleftrightarrow> True"
| "event_is_semantic_output (StreamStructuredData _ _) \<longleftrightarrow> True"
| "event_is_semantic_output (UnknownProviderEvent _) \<longleftrightarrow> True"
| "event_is_semantic_output _ \<longleftrightarrow> False"

fun event_is_terminal :: "ModelStreamEvent \<Rightarrow> bool" where
  "event_is_terminal (StreamCompleted _) \<longleftrightarrow> True"
| "event_is_terminal (StreamProviderError _) \<longleftrightarrow> True"
| "event_is_terminal _ \<longleftrightarrow> False"

datatype ModelStreamState =
    NoSemanticOutput | SemanticOutputObserved | Completed | DefiniteProviderError | Cancelled
  | AmbiguousTransportLoss | TimeoutBeforeOutput | TimeoutAfterOutput | ProtocolFailure

record ActiveToolCall =
  ac_item_ordinal :: nat
  ac_name :: string
  ac_arguments :: string

record ModelStreamValidator =
  sv_started_target :: "ModelTargetIdentity option"
  sv_semantic_output_observed :: bool
  sv_usage :: "ModelUsage option"
  sv_usage_unavailable :: bool
  sv_terminal :: "ModelStreamState option"
  sv_active_calls :: "(string \<times> ActiveToolCall) list"
  sv_seen_call_ids :: "string list"

section \<open>The validator\<close>

definition new_validator :: ModelStreamValidator where
  "new_validator =
     \<lparr>sv_started_target = None, sv_semantic_output_observed = False, sv_usage = None,
      sv_usage_unavailable = False, sv_terminal = None, sv_active_calls = [], sv_seen_call_ids = []\<rparr>"

abbreviation stream_reject :: "ModelContractError + 'a" where
  "stream_reject \<equiv> contract_err ModelContractErrorKind.InvalidStreamOrdering"

definition usage_result_seen :: "ModelStreamValidator \<Rightarrow> bool" where
  "usage_result_seen v \<longleftrightarrow> sv_usage v \<noteq> None \<or> sv_usage_unavailable v"

definition provider_error_rejected :: "ModelStreamValidator \<Rightarrow> ModelStreamProviderErrorKind \<Rightarrow> bool" where
  "provider_error_rejected v kind \<longleftrightarrow>
     \<not> usage_result_seen v \<or>
     kind = ModelStreamProviderErrorKind.TimeoutBeforeOutput \<and> sv_semantic_output_observed v \<or>
     kind = ModelStreamProviderErrorKind.TimeoutAfterOutput \<and> \<not> sv_semantic_output_observed v \<or>
     kind = ModelStreamProviderErrorKind.TransientUnavailable \<and> sv_semantic_output_observed v"

fun provider_error_state :: "ModelStreamProviderErrorKind \<Rightarrow> ModelStreamState" where
  "provider_error_state ModelStreamProviderErrorKind.DefiniteFailure =
     ModelStreamState.DefiniteProviderError"
| "provider_error_state ModelStreamProviderErrorKind.TransientUnavailable =
     ModelStreamState.DefiniteProviderError"
| "provider_error_state ModelStreamProviderErrorKind.Cancelled = ModelStreamState.Cancelled"
| "provider_error_state ModelStreamProviderErrorKind.OutcomeUnknown =
     ModelStreamState.AmbiguousTransportLoss"
| "provider_error_state ModelStreamProviderErrorKind.TimeoutBeforeOutput =
     ModelStreamState.TimeoutBeforeOutput"
| "provider_error_state ModelStreamProviderErrorKind.TimeoutAfterOutput =
     ModelStreamState.TimeoutAfterOutput"
| "provider_error_state ModelStreamProviderErrorKind.ProtocolFailure = ModelStreamState.ProtocolFailure"

text \<open>The event-specific part of \<open>observe\<close>, once the stream has started and is not terminal.\<close>

definition observe_bounded :: "ModelStreamValidator \<Rightarrow> nat \<Rightarrow> ModelContractError + ModelStreamValidator" where
  "observe_bounded v item_ordinal =
     (if item_ordinal \<ge> MAX_MODEL_OUTPUT_ITEMS then stream_reject else Inr v)"

definition observe_call_started ::
  "ModelStreamValidator \<Rightarrow> nat \<Rightarrow> string \<Rightarrow> string \<Rightarrow> ModelContractError + ModelStreamValidator" where
  "observe_call_started v item_ordinal call_id name =
     (if item_ordinal \<ge> MAX_MODEL_OUTPUT_ITEMS \<or> call_id \<in> set (sv_seen_call_ids v) then stream_reject
      else Inr (v\<lparr>sv_seen_call_ids := call_id # sv_seen_call_ids v,
                  sv_active_calls := AList.update call_id
                    \<lparr>ac_item_ordinal = item_ordinal, ac_name = name, ac_arguments = []\<rparr>
                    (sv_active_calls v)\<rparr>))"

definition observe_argument_delta ::
  "ModelStreamValidator \<Rightarrow> nat \<Rightarrow> string \<Rightarrow> string \<Rightarrow> ModelContractError + ModelStreamValidator" where
  "observe_argument_delta v item_ordinal call_id delta =
     (case map_of (sv_active_calls v) call_id of
        None \<Rightarrow> stream_reject
      | Some active \<Rightarrow>
          if ac_item_ordinal active \<noteq> item_ordinal then stream_reject
          else if length (ac_arguments active) + length delta > MAX_MODEL_TOOL_ARGUMENT_BYTES
          then contract_err ModelContractErrorKind.ToolArgumentsTooLarge
          else Inr (v\<lparr>sv_active_calls := AList.update call_id
                 (active\<lparr>ac_arguments := ac_arguments active @ delta\<rparr>) (sv_active_calls v)\<rparr>))"

definition observe_call_completed ::
  "ModelStreamValidator \<Rightarrow> nat \<Rightarrow> CanonicalModelToolCall \<Rightarrow> ModelContractError + ModelStreamValidator" where
  "observe_call_completed v item_ordinal call =
     (case map_of (sv_active_calls v) (tc_call_id call) of
        None \<Rightarrow> stream_reject
      | Some active \<Rightarrow>
          if ac_item_ordinal active \<noteq> item_ordinal \<or> ac_name active \<noteq> tc_name call \<or>
             ac_arguments active \<noteq> tc_raw_arguments call
          then stream_reject
          else Inr (v\<lparr>sv_active_calls := AList.delete (tc_call_id call) (sv_active_calls v)\<rparr>))"

definition observe_completed ::
  "ModelStreamValidator \<Rightarrow> ModelResponse \<Rightarrow> ModelContractError + ModelStreamValidator" where
  "observe_completed v response =
     (if sv_active_calls v \<noteq> [] \<or> sv_usage v \<noteq> rs_usage response \<or>
         sv_usage_unavailable v \<noteq> (rs_usage response = None) \<or>
         sv_started_target v \<noteq> Some (rs_selected_target response)
      then stream_reject
      else map_ok (\<lambda>_. v\<lparr>sv_terminal := Some ModelStreamState.Completed\<rparr>)
             (require_supported_semantics response))"

fun observe_stream_event :: "ModelStreamValidator \<Rightarrow> ModelStreamEvent \<Rightarrow> ModelContractError + ModelStreamValidator" where
  "observe_stream_event v (TextDelta n _) = observe_bounded v n"
| "observe_stream_event v (ReasoningSummaryDelta n _) = observe_bounded v n"
| "observe_stream_event v (RefusalDelta n _) = observe_bounded v n"
| "observe_stream_event v (RefusalCompleted n) = observe_bounded v n"
| "observe_stream_event v (StreamStructuredData n _) = observe_bounded v n"
| "observe_stream_event v (ToolCallStarted n call_id name) = observe_call_started v n call_id name"
| "observe_stream_event v (ToolArgumentDelta n call_id delta) = observe_argument_delta v n call_id delta"
| "observe_stream_event v (ToolCallCompleted n call) = observe_call_completed v n call"
| "observe_stream_event v (Usage usage) =
     (if usage_result_seen v then stream_reject else Inr (v\<lparr>sv_usage := Some usage\<rparr>))"
| "observe_stream_event v UsageUnavailable =
     (if usage_result_seen v then stream_reject else Inr (v\<lparr>sv_usage_unavailable := True\<rparr>))"
| "observe_stream_event v (StreamCompleted response) = observe_completed v response"
| "observe_stream_event v (StreamProviderError kind) =
     (if provider_error_rejected v kind then stream_reject
      else Inr (v\<lparr>sv_terminal := Some (provider_error_state kind)\<rparr>))"
| "observe_stream_event v (UnknownProviderEvent _) = Inr v"
| "observe_stream_event v (ResponseStarted _ _ _) = stream_reject"

definition stream_observe ::
  "ModelStreamValidator \<Rightarrow> ModelStreamEvent \<Rightarrow> ModelContractError + ModelStreamValidator" where
  "stream_observe v event =
     (if sv_terminal v \<noteq> None then stream_reject
      else if sv_started_target v = None
      then (case event of
              ResponseStarted target _ _ \<Rightarrow> Inr (v\<lparr>sv_started_target := Some target\<rparr>)
            | _ \<Rightarrow> stream_reject)
      else if (case event of ResponseStarted _ _ _ \<Rightarrow> True | _ \<Rightarrow> False) then stream_reject
      else if usage_result_seen v \<and> \<not> event_is_terminal event then stream_reject
      else map_ok (\<lambda>v'. v'\<lparr>sv_semantic_output_observed :=
                      sv_semantic_output_observed v' \<or> event_is_semantic_output event\<rparr>)
             (observe_stream_event v event))"

definition stream_state :: "ModelStreamValidator \<Rightarrow> ModelStreamState" where
  "stream_state v =
     (case sv_terminal v of
        Some state \<Rightarrow> state
      | None \<Rightarrow> if sv_semantic_output_observed v then ModelStreamState.SemanticOutputObserved
                else ModelStreamState.NoSemanticOutput)"

definition validate_model_stream :: "ModelStreamEvent list \<Rightarrow> ModelContractError + ModelStreamState" where
  "validate_model_stream events =
     and_then (fold_result stream_observe new_validator events) (\<lambda>v.
     if sv_started_target v = None then stream_reject else Inr (stream_state v))"


section \<open>Accepted streams\<close>

text \<open>
  The contract, stated over whole streams. \<open>started_ids\<close> and \<open>completed_ids\<close> collect the tool calls of
  a prefix, \<open>call_arguments\<close> the concatenation of one call's deltas.
\<close>

fun started_ids :: "ModelStreamEvent list \<Rightarrow> string set" where
  "started_ids [] = {}"
| "started_ids (ToolCallStarted _ call_id _ # es) = insert call_id (started_ids es)"
| "started_ids (_ # es) = started_ids es"

fun completed_ids :: "ModelStreamEvent list \<Rightarrow> string set" where
  "completed_ids [] = {}"
| "completed_ids (ToolCallCompleted _ call # es) = insert (tc_call_id call) (completed_ids es)"
| "completed_ids (_ # es) = completed_ids es"

fun call_arguments :: "string \<Rightarrow> ModelStreamEvent list \<Rightarrow> string" where
  "call_arguments call_id [] = []"
| "call_arguments call_id (ToolArgumentDelta _ call_id' delta # es) =
     (if call_id' = call_id then delta else []) @ call_arguments call_id es"
| "call_arguments call_id (_ # es) = call_arguments call_id es"

definition call_open :: "ModelStreamEvent list \<Rightarrow> string \<Rightarrow> nat \<Rightarrow> string \<Rightarrow> bool" where
  "call_open es call_id n name \<longleftrightarrow> ToolCallStarted n call_id name \<in> set es \<and> call_id \<notin> completed_ids es"

fun output_follows :: "ModelStreamEvent list \<Rightarrow> ModelStreamEvent \<Rightarrow> bool" where
  "output_follows es (TextDelta n _) \<longleftrightarrow> n < MAX_MODEL_OUTPUT_ITEMS"
| "output_follows es (ReasoningSummaryDelta n _) \<longleftrightarrow> n < MAX_MODEL_OUTPUT_ITEMS"
| "output_follows es (RefusalDelta n _) \<longleftrightarrow> n < MAX_MODEL_OUTPUT_ITEMS"
| "output_follows es (RefusalCompleted n) \<longleftrightarrow> n < MAX_MODEL_OUTPUT_ITEMS"
| "output_follows es (StreamStructuredData n _) \<longleftrightarrow> n < MAX_MODEL_OUTPUT_ITEMS"
| "output_follows es (ToolCallStarted n call_id _) \<longleftrightarrow>
     n < MAX_MODEL_OUTPUT_ITEMS \<and> call_id \<notin> started_ids es"
| "output_follows es (ToolArgumentDelta n call_id delta) \<longleftrightarrow>
     (\<exists>name. call_open es call_id n name) \<and>
     length (call_arguments call_id es) + length delta \<le> MAX_MODEL_TOOL_ARGUMENT_BYTES"
| "output_follows es (ToolCallCompleted n call) \<longleftrightarrow>
     call_open es (tc_call_id call) n (tc_name call) \<and>
     tc_raw_arguments call = call_arguments (tc_call_id call) es"
| "output_follows es (UnknownProviderEvent _) \<longleftrightarrow> True"
| "output_follows es _ \<longleftrightarrow> False"

definition output_ok :: "ModelStreamEvent list \<Rightarrow> bool" where
  "output_ok body \<longleftrightarrow> (\<forall>i < length body. output_follows (take i body) (body ! i))"

fun closes_stream ::
  "ModelTargetIdentity \<Rightarrow> ModelStreamEvent list \<Rightarrow> ModelUsage option \<Rightarrow> ModelStreamEvent \<Rightarrow> bool" where
  "closes_stream target body usage (StreamCompleted response) \<longleftrightarrow>
     started_ids body = completed_ids body \<and> rs_usage response = usage \<and>
     rs_selected_target response = target \<and> require_supported_semantics response = Inr ()"
| "closes_stream target body usage (StreamProviderError kind) \<longleftrightarrow>
     (if body = [] then kind \<noteq> ModelStreamProviderErrorKind.TimeoutAfterOutput
      else kind \<notin> {ModelStreamProviderErrorKind.TimeoutBeforeOutput,
                      ModelStreamProviderErrorKind.TransientUnavailable})"
| "closes_stream target body usage _ \<longleftrightarrow> False"

fun usage_report :: "ModelStreamEvent \<Rightarrow> ModelUsage option option" where
  "usage_report (Usage usage) = Some (Some usage)"
| "usage_report UsageUnavailable = Some None"
| "usage_report _ = None"

fun tail_ok :: "ModelTargetIdentity \<Rightarrow> ModelStreamEvent list \<Rightarrow> ModelStreamEvent list \<Rightarrow> bool" where
  "tail_ok target body [] \<longleftrightarrow> True"
| "tail_ok target body [u] \<longleftrightarrow> usage_report u \<noteq> None"
| "tail_ok target body [u, t] \<longleftrightarrow>
     (case usage_report u of None \<Rightarrow> False | Some usage \<Rightarrow> closes_stream target body usage t)"
| "tail_ok target body _ \<longleftrightarrow> False"

fun tail_state :: "ModelStreamEvent list \<Rightarrow> ModelStreamEvent list \<Rightarrow> ModelStreamState" where
  "tail_state body [u, StreamCompleted _] = ModelStreamState.Completed"
| "tail_state body [u, StreamProviderError kind] = provider_error_state kind"
| "tail_state body _ =
     (if body = [] then ModelStreamState.NoSemanticOutput else ModelStreamState.SemanticOutputObserved)"

subsection \<open>The validator follows the contract\<close>

lemma stream_prefix_append [simp]:
  "started_ids (es @ fs) = started_ids es \<union> started_ids fs"
  "completed_ids (es @ fs) = completed_ids es \<union> completed_ids fs"
  "call_arguments call_id (es @ fs) = call_arguments call_id es @ call_arguments call_id fs"
  subgoal by (induction es rule: started_ids.induct) auto
  subgoal by (induction es rule: completed_ids.induct) auto
  subgoal by (induction call_id es rule: call_arguments.induct) auto
  done

lemma started_ids_iff: "call_id \<in> started_ids es \<longleftrightarrow> (\<exists>n name. ToolCallStarted n call_id name \<in> set es)"
  by (induction es rule: started_ids.induct) auto

definition follows :: "ModelTargetIdentity \<Rightarrow> ModelStreamValidator \<Rightarrow> ModelStreamEvent list \<Rightarrow> bool" where
  "follows target v body \<longleftrightarrow>
     sv_started_target v = Some target \<and> sv_usage v = None \<and> \<not> sv_usage_unavailable v \<and>
     sv_terminal v = None \<and> sv_semantic_output_observed v = (body \<noteq> []) \<and>
     set (sv_seen_call_ids v) = started_ids body \<and> completed_ids body \<subseteq> started_ids body \<and>
     (\<forall>call_id. call_id \<notin> started_ids body \<longrightarrow> call_arguments call_id body = []) \<and>
     distinct (map fst (sv_active_calls v)) \<and>
     (\<forall>call_id a. map_of (sv_active_calls v) call_id = Some a \<longleftrightarrow>
        call_open body call_id (ac_item_ordinal a) (ac_name a) \<and>
        ac_arguments a = call_arguments call_id body)"

lemma follows_start: "follows target (new_validator\<lparr>sv_started_target := Some target\<rparr>) []"
  by (simp add: follows_def new_validator_def call_open_def)

lemma observe_output:
  assumes v: "follows target v body" and semantic: "event_is_semantic_output e"
  shows "stream_observe v e =
    map_ok (\<lambda>v'. v'\<lparr>sv_semantic_output_observed := True\<rparr>) (observe_stream_event v e)"
  using v semantic unfolding stream_observe_def follows_def usage_result_seen_def
  by (cases e) simp_all

lemma follows_passive:
  assumes v: "follows target v body"
    and inert: "started_ids [e] = {}" "completed_ids [e] = {}" "\<And>call_id. call_arguments call_id [e] = []"
    and none: "\<And>n call_id name. e \<noteq> ToolCallStarted n call_id name"
  shows "follows target (v\<lparr>sv_semantic_output_observed := True\<rparr>) (body @ [e])"
  using assms unfolding follows_def call_open_def by auto

lemma no_active_iff:
  assumes v: "follows target v body"
  shows "map_of (sv_active_calls v) call_id = None \<longleftrightarrow> \<not> (\<exists>n name. call_open body call_id n name)"
proof
  assume none: "map_of (sv_active_calls v) call_id = None"
  show "\<not> (\<exists>n name. call_open body call_id n name)"
  proof
    assume "\<exists>n name. call_open body call_id n name"
    then obtain n name where "call_open body call_id n name" by blast
    then have "map_of (sv_active_calls v) call_id =
        Some \<lparr>ac_item_ordinal = n, ac_name = name, ac_arguments = call_arguments call_id body\<rparr>"
      using v unfolding follows_def by simp
    with none show False by simp
  qed
next
  assume "\<not> (\<exists>n name. call_open body call_id n name)"
  then show "map_of (sv_active_calls v) call_id = None"
    using v unfolding follows_def by (cases "map_of (sv_active_calls v) call_id") auto
qed

lemma active_open_iff:
  assumes v: "follows target v body" and active: "map_of (sv_active_calls v) call_id = Some a"
  shows "call_open body call_id n name \<longleftrightarrow> ac_item_ordinal a = n \<and> ac_name a = name"
    and "ac_arguments a = call_arguments call_id body"
proof -
  have a: "call_open body call_id (ac_item_ordinal a) (ac_name a)"
    and arguments: "ac_arguments a = call_arguments call_id body"
    using v active unfolding follows_def by blast+
  show "ac_arguments a = call_arguments call_id body" by (rule arguments)
  have "ac_item_ordinal a = n \<and> ac_name a = name" if "call_open body call_id n name"
  proof -
    have "map_of (sv_active_calls v) call_id =
        Some \<lparr>ac_item_ordinal = n, ac_name = name, ac_arguments = call_arguments call_id body\<rparr>"
      using v that unfolding follows_def by simp
    with active have "a = \<lparr>ac_item_ordinal = n, ac_name = name,
        ac_arguments = call_arguments call_id body\<rparr>" by simp
    then show ?thesis by simp
  qed
  with a show "call_open body call_id n name \<longleftrightarrow> ac_item_ordinal a = n \<and> ac_name a = name" by blast
qed

lemma follows_call_started:
  assumes v: "follows target v body" and fresh: "call_id \<notin> started_ids body"
    and calls: "sv_active_calls v' = AList.update call_id
                  \<lparr>ac_item_ordinal = n, ac_name = name, ac_arguments = []\<rparr> (sv_active_calls v)"
    and rest: "sv_started_target v' = sv_started_target v" "sv_usage v' = sv_usage v"
      "sv_usage_unavailable v' = sv_usage_unavailable v" "sv_terminal v' = sv_terminal v"
      "sv_semantic_output_observed v'" "sv_seen_call_ids v' = call_id # sv_seen_call_ids v"
  shows "follows target v' (body @ [ToolCallStarted n call_id name])"
proof -
  have unfinished: "call_id \<notin> completed_ids body" and silent: "call_arguments call_id body = []"
    using v fresh by (auto simp: follows_def)
  have unstarted: "ToolCallStarted m call_id name' \<notin> set body" for m name'
    using fresh started_ids_iff by blast
  have "map_of (sv_active_calls v') c = Some a \<longleftrightarrow>
      call_open (body @ [ToolCallStarted n call_id name]) c (ac_item_ordinal a) (ac_name a) \<and>
      ac_arguments a = call_arguments c (body @ [ToolCallStarted n call_id name])" for c a
  proof (cases "c = call_id")
    case True
    then show ?thesis using unfinished silent unstarted
      by (cases a) (auto simp: calls update_conv call_open_def)
  next
    case False
    then show ?thesis using v by (auto simp: calls update_conv call_open_def follows_def)
  qed
  then show ?thesis using v rest by (auto simp: follows_def calls distinct_update)
qed

lemma follows_argument_delta:
  assumes v: "follows target v body" and active: "map_of (sv_active_calls v) call_id = Some a"
    and calls: "sv_active_calls v' = AList.update call_id
                  (a\<lparr>ac_arguments := ac_arguments a @ delta\<rparr>) (sv_active_calls v)"
    and rest: "sv_started_target v' = sv_started_target v" "sv_usage v' = sv_usage v"
      "sv_usage_unavailable v' = sv_usage_unavailable v" "sv_terminal v' = sv_terminal v"
      "sv_semantic_output_observed v'" "sv_seen_call_ids v' = sv_seen_call_ids v"
  shows "follows target v' (body @ [ToolArgumentDelta n call_id delta])"
proof -
  let ?body = "body @ [ToolArgumentDelta n call_id delta]"
  have a: "call_open body call_id (ac_item_ordinal a) (ac_name a)"
      "ac_arguments a = call_arguments call_id body"
    using v active unfolding follows_def by blast+
  then have started: "call_id \<in> started_ids body" by (auto simp: call_open_def started_ids_iff)
  have opens: "call_open ?body c m name \<longleftrightarrow> call_open body c m name" for c m name
    by (simp add: call_open_def)
  have "map_of (sv_active_calls v') c = Some b \<longleftrightarrow>
      call_open ?body c (ac_item_ordinal b) (ac_name b) \<and> ac_arguments b = call_arguments c ?body" for c b
  proof (cases "c = call_id")
    case True
    have "map_of (sv_active_calls v') c = Some b \<longleftrightarrow> a\<lparr>ac_arguments := ac_arguments a @ delta\<rparr> = b"
      by (simp add: calls update_conv True)
    also have "\<dots> \<longleftrightarrow> ac_item_ordinal a = ac_item_ordinal b \<and> ac_name a = ac_name b \<and>
        ac_arguments b = ac_arguments a @ delta"
      by (cases a; cases b) auto
    finally show ?thesis
      unfolding opens True active_open_iff [OF v active] by simp
  next
    case False
    then show ?thesis using v by (simp add: calls update_conv opens follows_def)
  qed
  then show ?thesis using v rest started by (auto simp: follows_def calls distinct_update)
qed

lemma follows_call_completed:
  assumes v: "follows target v body" and active: "map_of (sv_active_calls v) (tc_call_id call) = Some a"
    and calls: "sv_active_calls v' = AList.delete (tc_call_id call) (sv_active_calls v)"
    and rest: "sv_started_target v' = sv_started_target v" "sv_usage v' = sv_usage v"
      "sv_usage_unavailable v' = sv_usage_unavailable v" "sv_terminal v' = sv_terminal v"
      "sv_semantic_output_observed v'" "sv_seen_call_ids v' = sv_seen_call_ids v"
  shows "follows target v' (body @ [ToolCallCompleted n call])"
proof -
  have started: "tc_call_id call \<in> started_ids body"
    using v active unfolding follows_def call_open_def started_ids_iff by blast
  have "map_of (sv_active_calls v') c = Some b \<longleftrightarrow>
      call_open (body @ [ToolCallCompleted n call]) c (ac_item_ordinal b) (ac_name b) \<and>
      ac_arguments b = call_arguments c (body @ [ToolCallCompleted n call])" for c b
    using v by (auto simp: calls delete_conv' call_open_def follows_def)
  then show ?thesis using v rest started by (auto simp: follows_def calls distinct_delete)
qed

text \<open>One output event: the validator accepts it exactly when it may follow the prefix.\<close>

lemma observe_output_exact:
  assumes v: "follows target v body" and semantic: "event_is_semantic_output e"
  shows "if output_follows body e
    then \<exists>v'. stream_observe v e = Inr v' \<and> follows target v' (body @ [e])
    else \<exists>err. stream_observe v e = Inl err"
proof -
  note step = observe_output [OF v semantic]
  show ?thesis
  proof (cases e)
    case (ToolCallStarted n call_id name)
    have seen: "set (sv_seen_call_ids v) = started_ids body" using v by (simp add: follows_def)
    show ?thesis
      using follows_call_started [OF v] unfolding step
      by (auto simp: ToolCallStarted observe_call_started_def seen)
  next
    case (ToolArgumentDelta n call_id delta)
    show ?thesis
    proof (cases "map_of (sv_active_calls v) call_id")
      case None
      then show ?thesis using no_active_iff [OF v, of call_id] unfolding step
        by (auto simp: ToolArgumentDelta observe_argument_delta_def)
    next
      case (Some a)
      note active = active_open_iff [OF v Some]
      show ?thesis using follows_argument_delta [OF v Some] unfolding step
        by (auto simp: ToolArgumentDelta observe_argument_delta_def Some active)
    qed
  next
    case (ToolCallCompleted n call)
    show ?thesis
    proof (cases "map_of (sv_active_calls v) (tc_call_id call)")
      case None
      then show ?thesis using no_active_iff [OF v, of "tc_call_id call"] unfolding step
        by (auto simp: ToolCallCompleted observe_call_completed_def)
    next
      case (Some a)
      note active = active_open_iff [OF v Some]
      show ?thesis using follows_call_completed [OF v Some] unfolding step
        by (auto simp: ToolCallCompleted observe_call_completed_def Some active)
    qed
  qed (use semantic in \<open>simp_all add: observe_output [OF v] observe_bounded_def follows_passive [OF v]\<close>)
qed

lemma output_ok_snoc: "output_ok (body @ [e]) \<longleftrightarrow> output_ok body \<and> output_follows body e"
  by (auto simp: output_ok_def nth_append less_Suc_eq)

lemma output_follows_semantic: "output_follows body e \<Longrightarrow> event_is_semantic_output e"
  by (cases e) simp_all

lemma output_ok_semantic: "output_ok body \<Longrightarrow> e \<in> set body \<Longrightarrow> event_is_semantic_output e"
  by (auto simp: output_ok_def in_set_conv_nth dest: output_follows_semantic)

text \<open>A body of output events: accepted exactly when each may follow its prefix.\<close>

lemma observe_body_exact:
  assumes "\<And>e. e \<in> set body \<Longrightarrow> event_is_semantic_output e"
  shows "if output_ok body
    then \<exists>v. fold_result stream_observe (new_validator\<lparr>sv_started_target := Some target\<rparr>) body = Inr v \<and>
             follows target v body
    else \<exists>err. fold_result stream_observe (new_validator\<lparr>sv_started_target := Some target\<rparr>) body = Inl err"
  using assms
proof (induction body rule: rev_induct)
  case Nil
  then show ?case by (simp add: output_ok_def follows_start)
next
  case (snoc e body)
  then have IH: "if output_ok body
    then \<exists>v. fold_result stream_observe (new_validator\<lparr>sv_started_target := Some target\<rparr>) body = Inr v \<and>
             follows target v body
    else \<exists>err. fold_result stream_observe (new_validator\<lparr>sv_started_target := Some target\<rparr>) body = Inl err"
    and semantic: "event_is_semantic_output e" by auto
  show ?case
  proof (cases "output_ok body")
    case True
    with IH obtain v where
      run: "fold_result stream_observe (new_validator\<lparr>sv_started_target := Some target\<rparr>) body = Inr v"
      and v: "follows target v body" by auto
    show ?thesis using observe_output_exact [OF v semantic]
      by (auto simp: output_ok_snoc True fold_result_append run split: if_splits)
  next
    case False
    with IH show ?thesis by (auto simp: output_ok_snoc fold_result_append)
  qed
qed

text \<open>What may come after the body: the usage report, then one terminal event.\<close>

lemma observe_closed:
  assumes "sv_terminal v \<noteq> None"
  shows "(\<exists>w. fold_result stream_observe v es = Inr w) \<longleftrightarrow> es = []"
  using assms by (cases es) (simp_all add: stream_observe_def)

lemma observe_usage:
  assumes v: "follows target v body" and other: "\<not> event_is_semantic_output u"
  shows "stream_observe v u =
    (case usage_report u of
       None \<Rightarrow> stream_reject
     | Some usage \<Rightarrow> Inr (v\<lparr>sv_usage := usage, sv_usage_unavailable := (usage = None)\<rparr>))"
  using v other unfolding stream_observe_def follows_def
  by (cases u)
     (auto simp: usage_result_seen_def observe_completed_def provider_error_rejected_def
       intro!: ModelStreamValidator.equality)

lemma no_active_calls:
  assumes v: "follows target v body"
  shows "sv_active_calls v = [] \<longleftrightarrow> started_ids body = completed_ids body"
proof -
  have "sv_active_calls v = [] \<longleftrightarrow> (\<forall>call_id. map_of (sv_active_calls v) call_id = None)"
    by (cases "sv_active_calls v") (auto dest: spec [of _ "fst (hd (sv_active_calls v))"])
  also have "\<dots> \<longleftrightarrow> (\<forall>call_id n name. \<not> call_open body call_id n name)"
    unfolding no_active_iff [OF v] by blast
  also have "\<dots> \<longleftrightarrow> started_ids body \<subseteq> completed_ids body"
    unfolding call_open_def subset_iff started_ids_iff by blast
  also have "\<dots> \<longleftrightarrow> started_ids body = completed_ids body"
    using v unfolding follows_def by blast
  finally show ?thesis .
qed

fun terminal_state :: "ModelStreamEvent \<Rightarrow> ModelStreamState" where
  "terminal_state (StreamProviderError kind) = provider_error_state kind"
| "terminal_state _ = ModelStreamState.Completed"

lemma observe_terminal:
  fixes usage :: "ModelUsage option"
  assumes v: "follows target v body"
  defines "w \<equiv> v\<lparr>sv_usage := usage, sv_usage_unavailable := (usage = None)\<rparr>"
  shows "if closes_stream target body usage t
    then stream_observe w t = Inr (w\<lparr>sv_terminal := Some (terminal_state t)\<rparr>)
    else \<exists>err. stream_observe w t = Inl err"
proof -
  have seen: "usage_result_seen w" by (cases usage) (simp_all add: w_def usage_result_seen_def)
  have w: "sv_started_target w = Some target" "sv_terminal w = None"
      "sv_semantic_output_observed w = (body \<noteq> [])" "sv_usage w = usage"
      "sv_usage_unavailable w = (usage = None)" "sv_active_calls w = sv_active_calls v"
    using v by (simp_all add: w_def follows_def)
  show ?thesis
  proof (cases t)
    case (StreamCompleted response)
    show ?thesis
      by (cases "require_supported_semantics response")
         (auto simp: stream_observe_def StreamCompleted w observe_completed_def no_active_calls [OF v])
  next
    case (StreamProviderError kind)
    show ?thesis
      by (auto simp: stream_observe_def StreamProviderError w seen provider_error_rejected_def)
  qed (simp_all add: stream_observe_def w seen)
qed

lemma tail_usage: "tail_ok target body (u # es) \<Longrightarrow> usage_report u \<noteq> None"
  by (cases "(target, body, u # es)" rule: tail_ok.cases) (auto split: option.splits)

lemma tail_not_output: "tail_ok target body (u # es) \<Longrightarrow> \<not> event_is_semantic_output u"
  by (cases u) (auto dest: tail_usage)

lemma observe_tail_exact:
  assumes v: "follows target v body" and other: "es \<noteq> [] \<Longrightarrow> \<not> event_is_semantic_output (hd es)"
  shows "and_then (fold_result stream_observe v es)
           (\<lambda>w. if sv_started_target w = None then stream_reject else Inr (stream_state w)) = Inr s \<longleftrightarrow>
         tail_ok target body es \<and> s = tail_state body es"
    (is "?run es = _ \<longleftrightarrow> _")
proof -
  consider "es = []" | u where "es = [u]" | u t rest where "es = u # t # rest" by (cases es; cases "tl es") auto
  then show ?thesis
  proof cases
    case 1
    then show ?thesis using v by (auto simp: stream_state_def follows_def)
  next
    case 2
    with other show ?thesis using v
      by (auto simp: observe_usage [OF v] stream_state_def follows_def split: option.splits)
  next
    case 3
    then have u: "\<not> event_is_semantic_output u" using other by simp
    show ?thesis
    proof (cases "usage_report u")
      case None
      then show ?thesis by (cases rest) (simp_all add: 3 observe_usage [OF v u])
    next
      case (Some usage)
      define w where "w = v\<lparr>sv_usage := usage, sv_usage_unavailable := (usage = None)\<rparr>"
      have first: "stream_observe v u = Inr w" by (simp add: observe_usage [OF v u] Some w_def)
      note second = observe_terminal [OF v, of usage t, folded w_def]
      show ?thesis
      proof (cases "closes_stream target body usage t")
        case False
        with second show ?thesis by (cases rest) (auto simp: 3 first Some)
      next
        case True
        then have state: "tail_state body [u, t] = terminal_state t" by (cases t) simp_all
        have started: "sv_started_target w = Some target" using v by (simp add: w_def follows_def)
        show ?thesis
        proof (cases rest)
          case Nil
          with second True show ?thesis
            by (auto simp: 3 first Some state started stream_state_def)
        next
          case (Cons x xs)
          have "stream_observe (w\<lparr>sv_terminal := Some (terminal_state t)\<rparr>) x = stream_reject"
            by (simp add: stream_observe_def)
          with second True Cons show ?thesis by (simp add: 3 first)
        qed
      qed
    qed
  qed
qed

text \<open>
  C31. The validator accepts exactly the streams of the contract and classifies them. An accepted stream
  is one start event, then output events, then at most a usage report and after it at most one terminal
  event. In the output, ordinals are in range, tool calls start once, argument deltas and completions
  belong to an open call with the same ordinal and name, and a completed call carries exactly the
  concatenation of its deltas, which stays within the argument limit. A completed response needs every
  call closed, the usage reported before it, and the target the stream started with; a provider error
  must agree with whether output was seen. The class is the terminal one, otherwise it says whether there
  was output.
\<close>

theorem stream_exact:
  "validate_model_stream events = Inr s \<longleftrightarrow>
     (\<exists>target request_id response_id body closing.
        events = ResponseStarted target request_id response_id # body @ closing \<and>
        output_ok body \<and> tail_ok target body closing \<and> s = tail_state body closing)"
proof (cases events)
  case Nil
  then show ?thesis by (simp add: validate_model_stream_def new_validator_def)
next
  case (Cons e es)
  show ?thesis
  proof (cases "\<exists>target request_id response_id. e = ResponseStarted target request_id response_id")
    case False
    then have "\<exists>err. stream_observe new_validator e = Inl err"
      by (cases e) (simp_all add: stream_observe_def new_validator_def)
    with False Cons show ?thesis by (auto simp: validate_model_stream_def)
  next
    case True
    then obtain target request_id response_id where e: "e = ResponseStarted target request_id response_id"
      by blast
    define start where "start = new_validator\<lparr>sv_started_target := Some target\<rparr>"
    have run: "fold_result stream_observe new_validator events = fold_result stream_observe start es"
      by (simp add: Cons e stream_observe_def new_validator_def start_def)
    define body closing where "body = takeWhile event_is_semantic_output es"
      and "closing = dropWhile event_is_semantic_output es"
    have es: "es = body @ closing" by (simp add: body_def closing_def)
    have semantic: "event_is_semantic_output x" if "x \<in> set body" for x
      using that unfolding body_def by (rule set_takeWhileD [THEN conjunct2])
    have other: "\<not> event_is_semantic_output (hd closing)" if "closing \<noteq> []"
      using that unfolding closing_def by (rule hd_dropWhile)
    have unique: "b = body \<and> c = closing"
      if "es = b @ c" "output_ok b" "tail_ok target b c" for b c
    proof -
      have "\<forall>x\<in>set b. event_is_semantic_output x" using that(2) by (blast dest: output_ok_semantic)
      moreover have "c = [] \<or> \<not> event_is_semantic_output (hd c)"
        using that(3) by (cases c) (auto dest: tail_not_output)
      ultimately show ?thesis unfolding body_def closing_def that(1)
        by (cases c) (auto simp: takeWhile_append2 dropWhile_append2 takeWhile_eq_all_conv [THEN iffD2]
          dropWhile_eq_Nil_conv [THEN iffD2])
    qed
    have accepted: "if output_ok body
        then \<exists>v. fold_result stream_observe start body = Inr v \<and> follows target v body
        else \<exists>err. fold_result stream_observe start body = Inl err"
      unfolding start_def by (rule observe_body_exact) (rule semantic)
    have "validate_model_stream events = Inr s \<longleftrightarrow>
        output_ok body \<and> tail_ok target body closing \<and> s = tail_state body closing"
    proof (cases "output_ok body")
      case True
      with accepted obtain v where "fold_result stream_observe start body = Inr v"
        and v: "follows target v body" by auto
      then show ?thesis using observe_tail_exact [OF v other, of s] True
        by (simp add: validate_model_stream_def run es fold_result_append)
    next
      case False
      with accepted show ?thesis
        by (auto simp: validate_model_stream_def run es fold_result_append)
    qed
    then show ?thesis using es unique unfolding Cons e by blast
  qed
qed

end
