(* ===== verification/Model_Provider.thy ===== *)
theory Model_Provider
  imports Model_Stream
begin

text \<open>
  The provider boundary of ports/model_provider.rs: provider failures and their certainty, the retry
  classifier, the backoff, deadlines and the per-attempt control. Durations and monotonic instants are
  nanoseconds, bounded where the code checks for overflow.
\<close>

section \<open>Failures\<close>

datatype ProviderErrorKind =
    Authentication | Authorization | InvalidRequest | UnknownModel | RateLimited
  | TemporarilyUnavailable | TransportBeforeResponse | TransportAfterPossibleProcessing
  | TimeoutBeforeOutput | TimeoutAfterOutput | MalformedResponse | MalformedCompletedToolArguments
  | OutputTooLarge | UnsupportedResponseItem | ContextError | SafetyRefusal | Cancelled
  | ProviderOutcomeUnknown | InternalProviderError | ScriptMismatch | InvalidScriptProgram

fun transient_before_output :: "ProviderErrorKind \<Rightarrow> bool" where
  "transient_before_output ProviderErrorKind.RateLimited \<longleftrightarrow> True"
| "transient_before_output ProviderErrorKind.TemporarilyUnavailable \<longleftrightarrow> True"
| "transient_before_output ProviderErrorKind.TransportBeforeResponse \<longleftrightarrow> True"
| "transient_before_output ProviderErrorKind.TimeoutBeforeOutput \<longleftrightarrow> True"
| "transient_before_output _ \<longleftrightarrow> False"

datatype ProviderOutcomeCertainty =
    DefinitelyNotSent | DefiniteProviderFailure | DefinitelyCompleted | SemanticOutputObserved
  | ProviderOutcomeUnknown

fun certainty_normalized :: "ProviderOutcomeCertainty \<Rightarrow> Certainty" where
  "certainty_normalized ProviderOutcomeCertainty.ProviderOutcomeUnknown = Certainty.OutcomeUnknown"
| "certainty_normalized _ = Certainty.Definite"

definition DURATION_MAX :: nat where "DURATION_MAX = 2 ^ 64 * 10 ^ 9 - 1"
definition MAX_PROVIDER_ATTEMPTS :: nat where "MAX_PROVIDER_ATTEMPTS = 3"
definition PROVIDER_BACKOFF_BASE :: nat where "PROVIDER_BACKOFF_BASE = 250 * 10 ^ 6"
definition PROVIDER_BACKOFF_LOCAL_CAP :: nat where "PROVIDER_BACKOFF_LOCAL_CAP = 5 * 10 ^ 9"
definition PROVIDER_RETRY_AFTER_CAP :: nat where "PROVIDER_RETRY_AFTER_CAP = 30 * 10 ^ 9"
definition DEFAULT_PROVIDER_INVOCATION_LIMIT :: nat where
  "DEFAULT_PROVIDER_INVOCATION_LIMIT = 300 * 10 ^ 9"
definition DEFAULT_PROVIDER_IDLE_TIMEOUT :: nat where "DEFAULT_PROVIDER_IDLE_TIMEOUT = 60 * 10 ^ 9"

record ProviderError =
  pe_kind :: ProviderErrorKind
  pe_certainty :: ProviderOutcomeCertainty
  pe_retry_after :: "nat option"
  pe_http_status :: "int option"
  pe_request_id :: "string option"

definition provider_error_new :: "ProviderErrorKind \<Rightarrow> ProviderOutcomeCertainty \<Rightarrow> ProviderError" where
  "provider_error_new kind outcome =
     \<lparr>pe_kind = kind, pe_certainty = outcome, pe_retry_after = None, pe_http_status = None,
      pe_request_id = None\<rparr>"

definition with_retry_after ::
  "ProviderErrorKind \<Rightarrow> ProviderOutcomeCertainty \<Rightarrow> nat \<Rightarrow> ProviderError" where
  "with_retry_after kind outcome retry_after =
     (provider_error_new kind outcome)\<lparr>pe_retry_after := Some (min retry_after PROVIDER_RETRY_AFTER_CAP)\<rparr>"

definition with_http_evidence :: "ProviderError \<Rightarrow> int \<Rightarrow> string option \<Rightarrow> ProviderError" where
  "with_http_evidence error status request_id =
     error\<lparr>pe_http_status := (if 100 \<le> status \<and> status \<le> 599 then Some status else None),
           pe_request_id := request_id\<rparr>"

fun stream_terminal_kind :: "ProviderErrorKind \<Rightarrow> ModelStreamProviderErrorKind" where
  "stream_terminal_kind ProviderErrorKind.Cancelled = ModelStreamProviderErrorKind.Cancelled"
| "stream_terminal_kind ProviderErrorKind.ProviderOutcomeUnknown =
     ModelStreamProviderErrorKind.OutcomeUnknown"
| "stream_terminal_kind ProviderErrorKind.TransportAfterPossibleProcessing =
     ModelStreamProviderErrorKind.OutcomeUnknown"
| "stream_terminal_kind ProviderErrorKind.TimeoutBeforeOutput =
     ModelStreamProviderErrorKind.TimeoutBeforeOutput"
| "stream_terminal_kind ProviderErrorKind.TimeoutAfterOutput =
     ModelStreamProviderErrorKind.TimeoutAfterOutput"
| "stream_terminal_kind ProviderErrorKind.MalformedResponse = ModelStreamProviderErrorKind.ProtocolFailure"
| "stream_terminal_kind ProviderErrorKind.MalformedCompletedToolArguments =
     ModelStreamProviderErrorKind.ProtocolFailure"
| "stream_terminal_kind ProviderErrorKind.OutputTooLarge = ModelStreamProviderErrorKind.ProtocolFailure"
| "stream_terminal_kind ProviderErrorKind.UnsupportedResponseItem =
     ModelStreamProviderErrorKind.ProtocolFailure"
| "stream_terminal_kind ProviderErrorKind.RateLimited = ModelStreamProviderErrorKind.TransientUnavailable"
| "stream_terminal_kind ProviderErrorKind.TemporarilyUnavailable =
     ModelStreamProviderErrorKind.TransientUnavailable"
| "stream_terminal_kind ProviderErrorKind.TransportBeforeResponse =
     ModelStreamProviderErrorKind.TransientUnavailable"
| "stream_terminal_kind _ = ModelStreamProviderErrorKind.DefiniteFailure"

definition retryable_certainty :: "ProviderOutcomeCertainty \<Rightarrow> bool" where
  "retryable_certainty outcome \<longleftrightarrow>
     outcome = ProviderOutcomeCertainty.DefinitelyNotSent \<or>
     outcome = ProviderOutcomeCertainty.DefiniteProviderFailure"

definition normalized :: "ProviderError \<Rightarrow> NormalizedError" where
  "normalized error =
     (let status = Option.bind (pe_http_status error) provider_http;
          outcome = certainty_normalized (pe_certainty error) in
      if transient_before_output (pe_kind error) \<and> retryable_certainty (pe_certainty error)
      then provider_bounded_error outcome status
      else if pe_kind error = ProviderErrorKind.Cancelled then cancellation_error outcome
      else provider_error outcome status)"

definition provider_attempt_try_new :: "nat \<Rightarrow> ProviderError + nat" where
  "provider_attempt_try_new value =
     (if value = 0 \<or> value > MAX_PROVIDER_ATTEMPTS
      then Inl (provider_error_new ProviderErrorKind.InvalidRequest
                  ProviderOutcomeCertainty.DefinitelyNotSent)
      else Inr value)"

section \<open>Retry and backoff\<close>

datatype RetryReasonCode =
    ClassifiedTransientBeforeOutput | SemanticOutputObserved | NonretryableCategory
  | ProviderOutcomeAmbiguous | AttemptCapReached | Cancelled | DeadlineExhausted

record ProviderRetryEvidence =
  re_reason :: RetryReasonCode
  re_delay :: nat
  re_provider_retry_after :: "nat option"

record ProviderRetryDecision =
  rd_retryable :: bool
  rd_reason :: RetryReasonCode
  rd_certainty :: ProviderOutcomeCertainty
  rd_attempt_cap :: nat
  rd_provider_retry_after :: "nat option"

definition retry_reason :: "ProviderError \<Rightarrow> bool \<Rightarrow> nat \<Rightarrow> bool \<Rightarrow> bool \<Rightarrow> RetryReasonCode" where
  "retry_reason error semantic_output_observed current_attempt cancellation_requested deadline_exhausted =
     (if cancellation_requested \<or> pe_kind error = ProviderErrorKind.Cancelled
      then RetryReasonCode.Cancelled
      else if deadline_exhausted then RetryReasonCode.DeadlineExhausted
      else if semantic_output_observed \<or>
              pe_certainty error = ProviderOutcomeCertainty.SemanticOutputObserved
      then RetryReasonCode.SemanticOutputObserved
      else if pe_certainty error = ProviderOutcomeCertainty.ProviderOutcomeUnknown \<or>
              pe_kind error = ProviderErrorKind.ProviderOutcomeUnknown \<or>
              pe_kind error = ProviderErrorKind.TransportAfterPossibleProcessing
      then RetryReasonCode.ProviderOutcomeAmbiguous
      else if current_attempt \<ge> MAX_PROVIDER_ATTEMPTS then RetryReasonCode.AttemptCapReached
      else if transient_before_output (pe_kind error) \<and> retryable_certainty (pe_certainty error)
      then RetryReasonCode.ClassifiedTransientBeforeOutput
      else RetryReasonCode.NonretryableCategory)"

definition classify_provider_retry ::
  "ProviderError \<Rightarrow> bool \<Rightarrow> nat \<Rightarrow> bool \<Rightarrow> bool \<Rightarrow> ProviderRetryDecision" where
  "classify_provider_retry error semantic_output_observed current_attempt cancellation_requested
       deadline_exhausted =
     (let reason = retry_reason error semantic_output_observed current_attempt cancellation_requested
                     deadline_exhausted in
      \<lparr>rd_retryable = (reason = RetryReasonCode.ClassifiedTransientBeforeOutput), rd_reason = reason,
       rd_certainty = pe_certainty error, rd_attempt_cap = MAX_PROVIDER_ATTEMPTS,
       rd_provider_retry_after = pe_retry_after error\<rparr>)"

datatype BackoffDecision = Delay nat | BackoffCancelled | DeadlineInsufficient

text \<open>
  The jitter source is a parameter: one call with the upper bound in milliseconds. The shift is by at
  most 31 bits, so the factor fits in 32 bits; the product with the base is checked against the largest
  duration.
\<close>

definition local_ceiling :: "nat \<Rightarrow> nat" where
  "local_ceiling failed_attempt =
     (let factor = 2 ^ min (failed_attempt - 1) 31;
          product = PROVIDER_BACKOFF_BASE * factor in
      min (if product \<le> DURATION_MAX then product else PROVIDER_BACKOFF_LOCAL_CAP)
        PROVIDER_BACKOFF_LOCAL_CAP)"

definition backoff_millis :: "nat \<Rightarrow> nat option \<Rightarrow> nat" where
  "backoff_millis failed_attempt retry_after =
     (let ceiling = (case retry_after of Some value \<Rightarrow> min value PROVIDER_RETRY_AFTER_CAP
                     | None \<Rightarrow> local_ceiling failed_attempt) in
      min (ceiling div 10 ^ 6) (2 ^ 64 - 1))"

definition provider_backoff ::
  "nat \<Rightarrow> nat option \<Rightarrow> (nat \<Rightarrow> nat) \<Rightarrow> bool \<Rightarrow> nat option \<Rightarrow> BackoffDecision" where
  "provider_backoff failed_attempt retry_after jitter cancellation_requested remaining_budget =
     (if cancellation_requested then BackoffCancelled
      else
        let upper_millis = backoff_millis failed_attempt retry_after;
            sampled = min (jitter upper_millis) upper_millis;
            delay = sampled * 10 ^ 6 in
        if (case remaining_budget of Some remaining \<Rightarrow> delay \<ge> remaining | None \<Rightarrow> False)
        then DeadlineInsufficient else Delay delay)"

section \<open>Deadlines and control\<close>

definition instant_checked_add :: "nat \<Rightarrow> nat \<Rightarrow> nat option" where
  "instant_checked_add elapsed duration =
     (if elapsed + duration \<le> DURATION_MAX then Some (elapsed + duration) else None)"

definition checked_duration_since :: "nat \<Rightarrow> nat \<Rightarrow> nat option" where
  "checked_duration_since later earlier = (if earlier \<le> later then Some (later - earlier) else None)"

record InvocationDeadlineInputs =
  di_work_deadline :: "nat option"
  di_shutdown_deadline :: "nat option"
  di_provider_deadline :: nat
  di_retry_budget_deadline :: "nat option"

definition effective_deadline :: "InvocationDeadlineInputs \<Rightarrow> nat" where
  "effective_deadline d =
     fold min (List.map_filter id [di_work_deadline d, di_shutdown_deadline d, di_retry_budget_deadline d])
       (di_provider_deadline d)"

definition default_provider_deadline :: "nat \<Rightarrow> nat option" where
  "default_provider_deadline started_at = instant_checked_add started_at DEFAULT_PROVIDER_INVOCATION_LIMIT"

definition invocation_control_try_new :: "nat \<Rightarrow> nat \<Rightarrow> ProviderError + nat \<times> nat" where
  "invocation_control_try_new absolute_deadline idle_timeout =
     (if idle_timeout = 0 \<or> idle_timeout > DEFAULT_PROVIDER_IDLE_TIMEOUT
      then Inl (provider_error_new ProviderErrorKind.InvalidRequest
                  ProviderOutcomeCertainty.DefinitelyNotSent)
      else Inr (absolute_deadline, idle_timeout))"

section \<open>Retry is safe\<close>

lemma retry_reason_transient:
  "retry_reason error semantic attempt cancelled exhausted = RetryReasonCode.ClassifiedTransientBeforeOutput \<longleftrightarrow>
     \<not> cancelled \<and> \<not> exhausted \<and> \<not> semantic \<and> attempt < MAX_PROVIDER_ATTEMPTS \<and>
     transient_before_output (pe_kind error) \<and> retryable_certainty (pe_certainty error)"
  by (cases "pe_kind error") (auto simp: retry_reason_def retryable_certainty_def)

lemma retryable_iff:
  "rd_retryable (classify_provider_retry error semantic attempt cancelled exhausted) \<longleftrightarrow>
     \<not> cancelled \<and> \<not> exhausted \<and> \<not> semantic \<and> attempt < MAX_PROVIDER_ATTEMPTS \<and>
     transient_before_output (pe_kind error) \<and> retryable_certainty (pe_certainty error)"
  by (simp add: classify_provider_retry_def Let_def retry_reason_transient)

lemma backoff_millis_le:
  "backoff_millis attempt retry_after * 10 ^ 6 \<le>
     (case retry_after of Some value \<Rightarrow> min value PROVIDER_RETRY_AFTER_CAP
      | None \<Rightarrow> min (PROVIDER_BACKOFF_BASE * 2 ^ (attempt - 1)) PROVIDER_BACKOFF_LOCAL_CAP)"
proof -
  have millis: "min (c div 10 ^ 6) (2 ^ 64 - 1) * 10 ^ 6 \<le> c" for c :: nat
  proof -
    have "min (c div 10 ^ 6) (2 ^ 64 - 1) * 10 ^ 6 \<le> c div 10 ^ 6 * 10 ^ 6" by (rule mult_le_mono1) simp
    also have "\<dots> \<le> c" by (rule div_times_less_eq_dividend)
    finally show ?thesis .
  qed
  have power: "(2::nat) ^ min (attempt - 1) 31 \<le> 2 ^ (attempt - 1)"
    by (rule power_increasing) simp_all
  have "local_ceiling attempt \<le> min (PROVIDER_BACKOFF_BASE * 2 ^ (attempt - 1)) PROVIDER_BACKOFF_LOCAL_CAP"
  proof (cases "PROVIDER_BACKOFF_BASE * 2 ^ min (attempt - 1) 31 \<le> DURATION_MAX")
    case True
    have "PROVIDER_BACKOFF_BASE * 2 ^ min (attempt - 1) 31 \<le> PROVIDER_BACKOFF_BASE * 2 ^ (attempt - 1)"
      by (rule mult_le_mono2) (rule power)
    then have "min (PROVIDER_BACKOFF_BASE * 2 ^ min (attempt - 1) 31) PROVIDER_BACKOFF_LOCAL_CAP \<le>
        min (PROVIDER_BACKOFF_BASE * 2 ^ (attempt - 1)) PROVIDER_BACKOFF_LOCAL_CAP"
      by (rule min.mono) simp
    with True show ?thesis by (simp only: local_ceiling_def Let_def if_True)
  next
    case False
    have "PROVIDER_BACKOFF_BASE * 2 ^ min (attempt - 1) 31 \<le> PROVIDER_BACKOFF_BASE * 2 ^ 31"
      by (intro mult_le_mono2 power_increasing) simp_all
    also have "\<dots> \<le> DURATION_MAX" by (simp add: PROVIDER_BACKOFF_BASE_def DURATION_MAX_def)
    finally show ?thesis using False by simp
  qed
  then show ?thesis
    using millis [of "local_ceiling attempt"] millis
    by (auto simp: backoff_millis_def Let_def split: option.splits intro: order_trans)
qed

text \<open>
  C32. Retry policy. A failure is retried exactly when nothing was cancelled, the deadline is open, no
  output was seen, fewer than three attempts were made, and the failure is transient with a definite
  outcome. Such a failure never appears in a stream that already carried output, and it is normalized as
  a bounded retry. Whatever the jitter source returns, the delay of the backoff is at most the provider's
  hint capped at thirty seconds, or the doubling base capped at five seconds, and it ends before the
  remaining budget.
\<close>

theorem provider_retry_policy:
  "(rd_retryable (classify_provider_retry error semantic attempt cancelled exhausted) \<longleftrightarrow>
      \<not> cancelled \<and> \<not> exhausted \<and> \<not> semantic \<and> attempt < MAX_PROVIDER_ATTEMPTS \<and>
      transient_before_output (pe_kind error) \<and> retryable_certainty (pe_certainty error)) \<and>
   (rd_retryable (classify_provider_retry error semantic attempt cancelled exhausted) \<longrightarrow>
      retryability (normalized error) = Retryability.Bounded \<and>
      (body \<noteq> [] \<longrightarrow> \<not> closes_stream target body usage
         (StreamProviderError (stream_terminal_kind (pe_kind error))))) \<and>
   (provider_backoff attempt retry_after jitter cancelled remaining = Delay delay \<longrightarrow>
      delay \<le> (case retry_after of Some value \<Rightarrow> min value PROVIDER_RETRY_AFTER_CAP
               | None \<Rightarrow> min (PROVIDER_BACKOFF_BASE * 2 ^ (attempt - 1)) PROVIDER_BACKOFF_LOCAL_CAP) \<and>
      (case remaining of Some budget \<Rightarrow> delay < budget | None \<Rightarrow> True))"
  (is "?exact \<and> ?bounded \<and> ?backoff")
proof (intro conjI)
  show exact: ?exact
    by (rule retryable_iff)
  show ?bounded
    unfolding exact
    by (cases "pe_kind error")
       (auto simp: normalized_def provider_bounded_error_def generic_error_def Let_def)
  have sampled: "min (jitter m) m * 10 ^ 6 \<le> m * 10 ^ 6" for m :: nat by simp
  show ?backoff
    using order_trans [OF sampled backoff_millis_le [of attempt retry_after]]
    by (auto simp: provider_backoff_def Let_def split: if_splits option.splits)
qed

text \<open>A rate-limited first attempt is retried; the second attempt's jitter is capped at half a second.\<close>

theorem provider_retry_policy_witness:
  "rd_retryable (classify_provider_retry
      (provider_error_new ProviderErrorKind.RateLimited ProviderOutcomeCertainty.DefiniteProviderFailure)
      False 1 False False) \<and>
   provider_backoff 2 None (\<lambda>_. 700) False (Some (10 ^ 9)) = Delay (5 * 10 ^ 8) \<and>
   (5 * 10 ^ 8 :: nat) \<le> min (PROVIDER_BACKOFF_BASE * 2 ^ (2 - 1)) PROVIDER_BACKOFF_LOCAL_CAP"
proof -
  let ?error = "provider_error_new ProviderErrorKind.RateLimited
    ProviderOutcomeCertainty.DefiniteProviderFailure"
  have delay: "provider_backoff 2 None (\<lambda>_. 700) False (Some (10 ^ 9)) = Delay (5 * 10 ^ 8)"
    by (simp add: provider_backoff_def backoff_millis_def local_ceiling_def Let_def
      PROVIDER_BACKOFF_BASE_def PROVIDER_BACKOFF_LOCAL_CAP_def DURATION_MAX_def)
  note policy = provider_retry_policy [of ?error False 1 False False]
  have "rd_retryable (classify_provider_retry ?error False 1 False False)"
    by (rule policy [THEN conjunct1, THEN iffD2])
      (simp add: MAX_PROVIDER_ATTEMPTS_def provider_error_new_def retryable_certainty_def)
  moreover have "(5 * 10 ^ 8 :: nat) \<le> min (PROVIDER_BACKOFF_BASE * 2 ^ (2 - 1)) PROVIDER_BACKOFF_LOCAL_CAP"
    using provider_retry_policy [where attempt = 2 and retry_after = None and jitter = "\<lambda>_. 700"
        and cancelled = False and remaining = "Some (10 ^ 9)" and delay = "5 * 10 ^ 8",
      THEN conjunct2, THEN conjunct2, rule_format, OF delay] by simp
  ultimately show ?thesis using delay by simp
qed

end
