(* ===== verification/Model_Selection.thy ===== *)
theory Model_Selection
  imports Model_Contract
begin

text \<open>
  The startup target catalogue and the deterministic selection of application/model_selection.rs:
  building the catalogue from the validated configuration of bootstrap/config/validated.rs, ordering it
  by target id, looking a target up by binary search, and selecting exactly one target without fallback.
\<close>

section \<open>The catalogue\<close>

record ModelTargetSnapshot =
  ts_default_target :: string
  ts_targets :: "ModelTarget list"

datatype ModelTargetSnapshotError = DuplicateTarget | InvalidConfiguredTarget

abbreviation target_id :: "ModelTarget \<Rightarrow> string" where
  "target_id target \<equiv> pm_model_target_id (mt_reference target)"

fun adjacent_equal :: "'a list \<Rightarrow> bool" where
  "adjacent_equal (x # y # zs) \<longleftrightarrow> x = y \<or> adjacent_equal (y # zs)"
| "adjacent_equal _ \<longleftrightarrow> False"

definition snapshot_try_new ::
  "string \<Rightarrow> ModelTarget list \<Rightarrow> ModelTargetSnapshotError + ModelTargetSnapshot" where
  "snapshot_try_new default_target targets =
     (let targets = sort_key target_id targets in
      if adjacent_equal (map target_id targets) then Inl DuplicateTarget
      else Inr \<lparr>ts_default_target = default_target, ts_targets = targets\<rparr>)"

subsection \<open>Reading the configuration\<close>

record ModelTargetConfig =
  cf_id :: string
  cf_config_version :: nat
  cf_enabled :: bool
  cf_provider_model_id :: string
  cf_endpoint :: string
  cf_credential :: string
  cf_token_estimator :: string
  cf_context_window_tokens :: nat
  cf_max_output_tokens :: nat
  cf_requested_output_tokens :: nat
  cf_reasoning_continuation :: bool
  cf_text_input :: bool
  cf_text_output :: bool
  cf_custom_tool_calling :: bool
  cf_streaming :: bool
  cf_ordered_output_items :: bool
  cf_structured_output :: bool
  cf_capability_reasoning :: bool

text \<open>The last occurrence of \<open>_v\<close> splits the estimator name; a leading plus sign is accepted by the parser.\<close>

fun after_last_v :: "string \<Rightarrow> string option" where
  "after_last_v [] = None"
| "after_last_v (c # cs) =
     (case after_last_v cs of
        Some rest \<Rightarrow> Some rest
      | None \<Rightarrow> if c = CHR ''_'' \<and> cs \<noteq> [] \<and> hd cs = CHR ''v'' then Some (tl cs) else None)"

definition parse_u64 :: "string \<Rightarrow> nat option" where
  "parse_u64 text =
     (let digits = (if text \<noteq> [] \<and> hd text = CHR ''+'' then tl text else text);
          value = foldl (\<lambda>n d. 10 * n + (of_char d - 48)) 0 digits in
      if digits = [] \<or> \<not> list_all is_ascii_digit digits \<or> value \<ge> 2 ^ 64 then None else Some value)"

definition parse_estimator_version :: "string \<Rightarrow> ModelTargetSnapshotError + nat" where
  "parse_estimator_version value =
     and_then (ok_or (after_last_v value) InvalidConfiguredTarget) (\<lambda>digits.
     and_then (ok_or (parse_u64 digits) InvalidConfiguredTarget) (\<lambda>version.
     if version = 0 \<or> int version > i64_max then Inl InvalidConfiguredTarget else Inr version))"

definition provider_model_id_try_new :: "string \<Rightarrow> DomainValidationError + string" where
  "provider_model_id_try_new =
     bounded_reference_try_new (\<lambda>value max_len.
       value \<noteq> [] \<and> length value \<le> max_len \<and> trimmed value \<and>
       \<not> list_ex (\<lambda>b. (of_char b :: nat) < 32 \<or> (of_char b :: nat) = 127) value) 128"

abbreviation configured :: "'e + 'a \<Rightarrow> ModelTargetSnapshotError + 'a" where
  "configured m \<equiv> map_err (\<lambda>_. InvalidConfiguredTarget) m"

definition positive_token :: "nat \<Rightarrow> ModelTargetSnapshotError + TokenCount" where
  "positive_token value =
     (if int value > i64_max then Inl InvalidConfiguredTarget else configured (pri_try_new (int value)))"

definition configured_target :: "ModelTargetConfig \<Rightarrow> ModelTargetSnapshotError + ModelTarget" where
  "configured_target c =
     and_then (configured (provider_id_try_new ''openai'')) (\<lambda>provider_id.
     and_then (positive_token (cf_context_window_tokens c)) (\<lambda>context_window_tokens.
     and_then (positive_token (cf_max_output_tokens c)) (\<lambda>max_output_tokens.
     and_then (configured (model_target_id_try_new (cf_id c))) (\<lambda>model_target_id.
     and_then (configured (provider_model_id_try_new (cf_provider_model_id c))) (\<lambda>provider_model_id.
     and_then (positive_token (cf_config_version c)) (\<lambda>version.
     and_then (parse_estimator_version (cf_token_estimator c)) (\<lambda>estimator_version.
     and_then (configured (config_reference_endpoint (cf_endpoint c))) (\<lambda>endpoint.
     and_then (configured (config_reference_named (cf_credential c))) (\<lambda>account.
     and_then (positive_token (cf_requested_output_tokens c)) (\<lambda>requested_output_tokens.
     and_then (configured (estimator_try_new (cf_token_estimator c) (int estimator_version))) (\<lambda>estimator.
     configured (target_try_new
       \<lparr>mt_reference =
          \<lparr>pm_model_target_id = model_target_id, pm_provider_id = provider_id,
           pm_provider_model_id = provider_model_id, pm_target_configuration_version = version,
           pm_capabilities =
             \<lparr>cap_text_input = cf_text_input c, cap_text_output = cf_text_output c,
              cap_custom_tool_calling = cf_custom_tool_calling c, cap_streaming = cf_streaming c,
              cap_ordered_output_items = cf_ordered_output_items c,
              cap_structured_output = cf_structured_output c,
              cap_reasoning_continuation = cf_capability_reasoning c,
              cap_context_window_tokens = context_window_tokens,
              cap_max_output_tokens = max_output_tokens\<rparr>\<rparr>,
        mt_enabled = cf_enabled c, mt_endpoint_reference = endpoint, mt_account_reference = account,
        mt_requested_output_tokens = requested_output_tokens, mt_estimator = estimator,
        mt_reasoning_continuation = cf_reasoning_continuation c\<rparr>))))))))))))"

definition from_validated_config ::
  "string \<Rightarrow> ModelTargetConfig list \<Rightarrow> ModelTargetSnapshotError + ModelTargetSnapshot" where
  "from_validated_config default_target config =
     and_then (configured (model_target_id_try_new default_target)) (\<lambda>default_id.
     and_then (fold_result (\<lambda>targets c. map_ok (\<lambda>t. targets @ [t]) (configured_target c)) [] config)
       (snapshot_try_new default_id))"

section \<open>Selection\<close>

text \<open>The library's binary search over the half-open range \<open>[lo, hi)\<close>; keys are distinct, so any correct search agrees.\<close>

function binary_search :: "'k::linorder list \<Rightarrow> 'k \<Rightarrow> nat \<Rightarrow> nat \<Rightarrow> nat option" where
  "binary_search ks k lo hi =
     (if hi \<le> lo then None
      else let mid = (lo + hi) div 2 in
        if ks ! mid = k then Some mid
        else if ks ! mid < k then binary_search ks k (mid + 1) hi
        else binary_search ks k lo mid)"
  by pat_completeness auto

termination by (relation "measure (\<lambda>(_, _, lo, hi). hi - lo)") auto

declare binary_search.simps [simp del]

definition snapshot_target :: "ModelTargetSnapshot \<Rightarrow> string \<Rightarrow> ModelTarget option" where
  "snapshot_target s i =
     map_option (\<lambda>index. ts_targets s ! index)
       (binary_search (map target_id (ts_targets s)) i 0 (length (ts_targets s)))"

datatype ModelSelectionReason = Explicit | ConfiguredDefault

record ModelSelectionResult =
  sr_selected_target :: ModelTarget
  sr_reason :: ModelSelectionReason
  sr_considered_target_ids :: "string list"
  sr_required_capabilities :: RequiredModelCapabilities
  sr_target_configuration_version :: TargetConfigurationVersion

datatype ModelSelectionErrorKind =
    ExplicitTargetMissing | ExplicitTargetDisabled | ExplicitTargetIncapable
  | DefaultTargetMissing | DefaultTargetDisabled | DefaultTargetIncapable

definition select_exact ::
  "ModelTargetSnapshot \<Rightarrow> string \<Rightarrow> RequiredModelCapabilities \<Rightarrow> ModelSelectionReason \<Rightarrow>
     ModelSelectionErrorKind \<Rightarrow> ModelSelectionErrorKind \<Rightarrow> ModelSelectionErrorKind \<Rightarrow>
     ModelSelectionErrorKind + ModelSelectionResult" where
  "select_exact s i required reason missing disabled incapable =
     and_then (ok_or (snapshot_target s i) missing) (\<lambda>target.
     if \<not> mt_enabled target then Inl disabled
     else if \<not> satisfied_by required (pm_capabilities (mt_reference target)) then Inl incapable
     else Inr \<lparr>sr_selected_target = target, sr_reason = reason,
               sr_considered_target_ids = map target_id (ts_targets s),
               sr_required_capabilities = required,
               sr_target_configuration_version = pm_target_configuration_version (mt_reference target)\<rparr>)"

fun select ::
  "ModelTargetSnapshot \<Rightarrow> string option \<Rightarrow> RequiredModelCapabilities \<Rightarrow>
     ModelSelectionErrorKind + ModelSelectionResult" where
  "select s (Some explicit) required =
     select_exact s explicit required ModelSelectionReason.Explicit ExplicitTargetMissing
       ExplicitTargetDisabled ExplicitTargetIncapable"
| "select s None required =
     select_exact s (ts_default_target s) required ModelSelectionReason.ConfiguredDefault
       DefaultTargetMissing DefaultTargetDisabled DefaultTargetIncapable"

section \<open>Selection is a plain lookup\<close>

lemma adjacent_equal_sorted: "sorted ks \<Longrightarrow> adjacent_equal ks \<longleftrightarrow> \<not> distinct ks"
proof (induction ks rule: adjacent_equal.induct)
  case (1 x y zs)
  then have le: "x \<le> y" "\<And>z. z \<in> set zs \<Longrightarrow> y \<le> z" and tail: "sorted (y # zs)" by simp_all
  have "x \<in> set (y # zs) \<longleftrightarrow> x = y" using le antisym by auto
  with 1(1) [OF tail] show ?case by simp
qed simp_all

lemma binary_search_correct:
  assumes "sorted ks" "distinct ks" "hi \<le> length ks"
    and "\<And>i. i < length ks \<Longrightarrow> ks ! i = k \<Longrightarrow> lo \<le> i \<and> i < hi"
  shows "binary_search ks k lo hi = Some i \<longleftrightarrow> i < length ks \<and> ks ! i = k"
  using assms
proof (induction ks k lo hi rule: binary_search.induct)
  case (1 ks k lo hi)
  define mid where "mid = (lo + hi) div 2"
  show ?case
  proof (cases "hi \<le> lo")
    case True
    with 1(6) show ?thesis by (subst binary_search.simps) fastforce
  next
    case False
    then have mid: "mid < length ks" "lo \<le> mid" "mid < hi" using 1(5) by (auto simp: mid_def)
    note step = binary_search.simps [of ks k lo hi, folded mid_def, unfolded Let_def, simplified False if_False]
    note mono = sorted_nth_mono [OF 1(3)]
    consider "ks ! mid = k" | "ks ! mid < k" | "k < ks ! mid" by (rule linorder_cases)
    then show ?thesis
    proof cases
      case 1
      then show ?thesis using mid \<open>distinct ks\<close> by (auto simp: step nth_eq_iff_index_eq)
    next
      case 2
      have "mid + 1 \<le> i \<and> i < hi" if "i < length ks" "ks ! i = k" for i
        using that 1(6) [OF that] 2 mono [of i mid] mid by (fastforce simp: not_le)
      then show ?thesis
        using 2 less_imp_neq [OF 2] 1(1) [OF False mid_def [unfolded atomize_eq]] 1(3-5) by (simp add: step)
    next
      case 3
      have "lo \<le> i \<and> i < mid" if "i < length ks" "ks ! i = k" for i
        using that 1(6) [OF that] 3 mono [of mid i] mid by (fastforce simp: not_le)
      then show ?thesis
        using 3 less_imp_neq [OF 3] less_not_sym [OF 3] 1(2) [OF False mid_def [unfolded atomize_eq]] 1(3-5) mid
        by (simp add: step)
    qed
  qed
qed

lemma snapshot_target_find:
  assumes "snapshot_try_new default_target targets = Inr s"
  shows "snapshot_target s i = find (\<lambda>t. target_id t = i) targets"
proof -
  let ?sorted = "sort_key target_id targets"
  have s: "ts_targets s = ?sorted" and "\<not> adjacent_equal (map target_id ?sorted)"
    using assms by (auto simp: snapshot_try_new_def Let_def split: if_splits)
  then have distinct_sorted: "distinct (map target_id ?sorted)" by (simp add: adjacent_equal_sorted)
  then have distinct: "distinct (map target_id targets)"
    by (metis distinct_sort set_sort distinct_map)
  have found: "snapshot_target s i = Some t \<longleftrightarrow> t \<in> set targets \<and> target_id t = i" for t
  proof -
    have hit: "binary_search (map target_id ?sorted) i 0 (length ?sorted) = Some n \<longleftrightarrow>
        n < length ?sorted \<and> map target_id ?sorted ! n = i" for n
      using binary_search_correct [OF sorted_sort_key distinct_sorted, of "length ?sorted" i 0 n]
      by simp
    have "snapshot_target s i = Some t \<longleftrightarrow> (\<exists>n < length ?sorted. ?sorted ! n = t \<and> target_id t = i)"
      unfolding snapshot_target_def s map_option_eq_Some hit by auto
    also have "\<dots> \<longleftrightarrow> t \<in> set ?sorted \<and> target_id t = i" unfolding in_set_conv_nth by blast
    finally show ?thesis by simp
  qed
  have "find (\<lambda>t. target_id t = i) targets = Some t \<longleftrightarrow> t \<in> set targets \<and> target_id t = i" for t
    using distinct
  proof (induction targets)
    case (Cons a targets)
    then show ?case by (auto simp: image_iff)
  qed simp
  with found show ?thesis
    by (cases "snapshot_target s i"; cases "find (\<lambda>t. target_id t = i) targets") (metis option.distinct(1))+
qed

text \<open>
  C33. The catalogue is built exactly when no target id is configured twice. Selection over it is then a
  plain lookup in the configured list, in whatever order that list was: the explicit id, or the default
  when none is given, is the only target considered. A missing, a disabled and an incapable target are
  told apart in this order and there is no fallback; a selected target is enabled, satisfies the required
  capabilities and is returned with its own configuration version.
\<close>

theorem selection_exact:
  "((\<exists>s. snapshot_try_new default_target targets = Inr s) \<longleftrightarrow> distinct (map target_id targets)) \<and>
   (snapshot_try_new default_target targets = Inr s \<longrightarrow>
     select s explicit required =
       (case find (\<lambda>t. target_id t = (case explicit of Some i \<Rightarrow> i | None \<Rightarrow> default_target)) targets of
          None \<Rightarrow> Inl (if explicit = None then DefaultTargetMissing else ExplicitTargetMissing)
        | Some t \<Rightarrow>
            if \<not> mt_enabled t
            then Inl (if explicit = None then DefaultTargetDisabled else ExplicitTargetDisabled)
            else if \<not> satisfied_by required (pm_capabilities (mt_reference t))
            then Inl (if explicit = None then DefaultTargetIncapable else ExplicitTargetIncapable)
            else Inr \<lparr>sr_selected_target = t,
                      sr_reason = (if explicit = None then ModelSelectionReason.ConfiguredDefault
                                   else ModelSelectionReason.Explicit),
                      sr_considered_target_ids = sort (map target_id targets),
                      sr_required_capabilities = required,
                      sr_target_configuration_version =
                        pm_target_configuration_version (mt_reference t)\<rparr>))"
  (is "?built \<and> (?new \<longrightarrow> ?exact)")
proof (intro conjI impI)
  have "distinct (map target_id (sort_key target_id targets)) \<longleftrightarrow> distinct (map target_id targets)"
    by (simp add: distinct_map)
  then show ?built
    by (simp add: snapshot_try_new_def Let_def adjacent_equal_sorted)
next
  assume new: ?new
  then have s: "ts_default_target s = default_target" "ts_targets s = sort_key target_id targets"
    by (auto simp: snapshot_try_new_def Let_def split: if_splits)
  have ids: "map target_id (sort_key target_id targets) = sort (map target_id targets)"
    by (rule properties_for_sort [symmetric]) simp_all
  show ?exact
    by (cases explicit)
       (simp_all add: select_exact_def snapshot_target_find [OF new] s ids ok_or_def split: option.split)
qed

definition sample_target :: "string \<Rightarrow> bool \<Rightarrow> ModelTarget" where
  "sample_target i enabled =
     \<lparr>mt_reference =
        \<lparr>pm_model_target_id = i, pm_provider_id = ''openai'', pm_provider_model_id = ''m'',
         pm_target_configuration_version = PositiveReferenceInteger 1,
         pm_capabilities =
           \<lparr>cap_text_input = True, cap_text_output = True, cap_custom_tool_calling = True,
            cap_streaming = True, cap_ordered_output_items = True, cap_structured_output = False,
            cap_reasoning_continuation = False,
            cap_context_window_tokens = PositiveReferenceInteger 1000,
            cap_max_output_tokens = PositiveReferenceInteger 100\<rparr>\<rparr>,
      mt_enabled = enabled, mt_endpoint_reference = ''e'', mt_account_reference = ''c'',
      mt_requested_output_tokens = PositiveReferenceInteger 50,
      mt_estimator = \<lparr>te_id = ''bytes_v1'', te_version = 1\<rparr>, mt_reasoning_continuation = False\<rparr>"

definition sample_required :: RequiredModelCapabilities where
  "sample_required =
     \<lparr>rc_text_input = True, rc_text_output = True, rc_custom_tool_calling = True, rc_streaming = True,
      rc_ordered_output_items = True, rc_structured_output = False, rc_reasoning_continuation = False,
      rc_required_output_tokens = PositiveReferenceInteger 50\<rparr>"

text \<open>A catalogue configured out of order: the default is selected, the disabled explicit target is not replaced by it.\<close>

theorem selection_exact_witness:
  "\<exists>s. snapshot_try_new ''b'' [sample_target ''b'' True, sample_target ''a'' False] = Inr s \<and>
     select s (Some ''a'') sample_required = Inl ExplicitTargetDisabled \<and>
     (\<exists>r. select s None sample_required = Inr r \<and> sr_selected_target r = sample_target ''b'' True)"
proof -
  let ?targets = "[sample_target ''b'' True, sample_target ''a'' False]"
  have "distinct (map target_id ?targets)" by (simp add: sample_target_def)
  then obtain s where s: "snapshot_try_new ''b'' ?targets = Inr s"
    using selection_exact [of "''b''" ?targets] by blast
  note exact = selection_exact [of "''b''" ?targets s, THEN conjunct2, rule_format, OF s]
  have "select s (Some ''a'') sample_required = Inl ExplicitTargetDisabled"
    unfolding exact by (simp add: sample_target_def)
  moreover have "\<exists>r. select s None sample_required = Inr r \<and> sr_selected_target r = sample_target ''b'' True"
    unfolding exact by (simp add: sample_target_def sample_required_def satisfied_by_def)
  ultimately show ?thesis using s by blast
qed

end
