(* ===== verification/Call_History.thy ===== *)
theory Call_History
  imports Main "HOL-Library.State_Monad" "HOL-Library.Monad_Syntax"
begin

text \<open>
  Services that talk to stores, clocks and providers through ports. A computation is a state monad over
  the history of the port calls made so far. The environment answers each call by a function of that
  history, so a statement about every environment covers every behaviour of the ports. The predicate
  \<open>ensures\<close> states what every run of a computation returns and appends; its rules follow the program text.
\<close>

type_synonym ('c, 'a) service = "('c list, 'a) state"

definition ask :: "('c list \<Rightarrow> 'a) \<Rightarrow> ('a \<Rightarrow> 'c) \<Rightarrow> ('c, 'a) service" where
  "ask answer call = do {
     history \<leftarrow> State_Monad.get;
     let result = answer history;
     State_Monad.set (history @ [call result]);
     State_Monad.return result
   }"

definition tell :: "'c \<Rightarrow> ('c, unit) service" where
  "tell call = ask (\<lambda>_. ()) (\<lambda>_. call)"

definition ensures :: "('c, 'a) service \<Rightarrow> ('a \<Rightarrow> 'c list \<Rightarrow> bool) \<Rightarrow> bool" where
  "ensures m Q \<longleftrightarrow> (\<forall>h. \<exists>a calls. run_state m h = (a, h @ calls) \<and> Q a calls)"

text \<open>Recursion through a bind: the continuation is only reached with a result of the first part.\<close>

lemma bind_cong_results [fundef_cong]:
  assumes "m = m'" and "\<And>h a h'. run_state m' h = (a, h') \<Longrightarrow> f a = g a"
  shows "State_Monad.bind m f = State_Monad.bind m' g"
  using assms by (auto intro!: state_ext split: prod.splits)

named_theorems ensures_rules \<open>rules of the calculus, one per program construct\<close>

lemma ensures_return [ensures_rules]: "Q a [] \<Longrightarrow> ensures (State_Monad.return a) Q"
  by (simp add: ensures_def)

lemma ensures_bind_run:
  assumes m: "ensures m P"
    and f: "\<And>h a calls. run_state m h = (a, h @ calls) \<Longrightarrow> P a calls \<Longrightarrow>
        ensures (f a) (\<lambda>b calls'. Q b (calls @ calls'))"
  shows "ensures (State_Monad.bind m f) Q"
  unfolding ensures_def
proof
  fix h
  obtain a calls where run: "run_state m h = (a, h @ calls)" and "P a calls"
    using m unfolding ensures_def by blast
  then have "ensures (f a) (\<lambda>b calls'. Q b (calls @ calls'))" by (rule f)
  then obtain b calls' where "run_state (f a) (h @ calls) = (b, (h @ calls) @ calls')"
    and "Q b (calls @ calls')"
    unfolding ensures_def by blast
  with run show "\<exists>b calls. run_state (State_Monad.bind m f) h = (b, h @ calls) \<and> Q b calls" by auto
qed

lemma ensures_bind [ensures_rules]:
  "ensures m (\<lambda>a calls. ensures (f a) (\<lambda>b calls'. Q b (calls @ calls'))) \<Longrightarrow>
     ensures (State_Monad.bind m f) Q"
  by (rule ensures_bind_run)

lemma ensures_ask [ensures_rules]: "(\<And>a. Q a [call a]) \<Longrightarrow> ensures (ask answer call) Q"
  by (simp add: ensures_def ask_def Let_def)

lemma ensures_tell [ensures_rules]: "Q () [call] \<Longrightarrow> ensures (tell call) Q"
  by (simp add: tell_def ensures_ask)

lemma ensures_if [ensures_rules]:
  "(b \<Longrightarrow> ensures m Q) \<Longrightarrow> (\<not> b \<Longrightarrow> ensures n Q) \<Longrightarrow> ensures (if b then m else n) Q"
  by simp

lemma ensures_option [ensures_rules]:
  "(x = None \<Longrightarrow> ensures m Q) \<Longrightarrow> (\<And>y. x = Some y \<Longrightarrow> ensures (f y) Q) \<Longrightarrow>
   ensures (case x of None \<Rightarrow> m | Some y \<Rightarrow> f y) Q"
  by (cases x) simp_all

lemma ensures_sum [ensures_rules]:
  "(\<And>e. x = Inl e \<Longrightarrow> ensures (f e) Q) \<Longrightarrow> (\<And>y. x = Inr y \<Longrightarrow> ensures (g y) Q) \<Longrightarrow>
   ensures (case x of Inl e \<Rightarrow> f e | Inr y \<Rightarrow> g y) Q"
  by (cases x) simp_all

lemma ensures_prod [ensures_rules]:
  "(\<And>y z. x = (y, z) \<Longrightarrow> ensures (f y z) Q) \<Longrightarrow> ensures (case x of (y, z) \<Rightarrow> f y z) Q"
  by (cases x) simp

lemma ensures_let [ensures_rules]: "(\<And>y. y = x \<Longrightarrow> ensures (f y) Q) \<Longrightarrow> ensures (let y = x in f y) Q"
  by simp

lemma ensures_weaken:
  "ensures m P \<Longrightarrow> (\<And>a calls. P a calls \<Longrightarrow> Q a calls) \<Longrightarrow> ensures m Q"
  unfolding ensures_def by blast

lemma ensures_run:
  assumes "ensures m Q" and "run_state m h = (a, h')"
  shows "\<exists>calls. h' = h @ calls \<and> Q a calls"
  using assms unfolding ensures_def by (metis prod.inject)

end
