(* ===== verification/Model_Gateway.thy ===== *)
theory Model_Gateway
  imports Model_Provider Model_Selection Lifecycle_Work Lifecycle_Attempts Call_History
begin

text \<open>
  The model gateway of application/model_gateway.rs: the accumulator of one provider stream, one physical
  attempt, its completion or failure commit, and the retry loop over attempts. Ports (state store,
  provider, clock, draft sink, artifact store, jitter, cancellation receiver, identifier generator) are
  calls recorded in a history, answered by the environment. A \<open>tokio::select!\<close> is one call whose answer
  says which branch was ready. Tracing spans and failpoints are left out; the prepared context manifest
  of a begin request is passed through unread and left out of the record.
\<close>

section \<open>Requests to the state store\<close>

datatype JournalEventId = JournalEventId Uuid
datatype ArtifactId = ArtifactId Uuid

record WorkExpectation =
  we_work_id :: WorkId
  we_state :: WorkState
  we_version :: ProjectionVersion
  we_owner :: "RuntimeInstanceId option"
  we_attempt :: CurrentWorkAttempt
  we_cancellation :: "WorkCancellationReason option"

definition work_expectation :: "WorkLifecycleSnapshot \<Rightarrow> WorkExpectation" where
  "work_expectation s =
     \<lparr>we_work_id = wl_work_id s, we_state = wl_state s, we_version = wl_version s,
      we_owner = wl_owner s, we_attempt = wl_attempt s, we_cancellation = wl_cancellation s\<rparr>"

record EventIntent =
  ei_event_id :: JournalEventId
  ei_correlation_id :: CorrelationId
  ei_causation_event_id :: "JournalEventId option"

record BeginModelInvocationRequest =
  br_expected_work :: WorkExpectation
  br_attempt :: ModelAttemptReference
  br_selection_reason :: ModelSelectionReason
  br_required_capabilities :: RequiredModelCapabilities
  br_reasoning_continuation :: bool
  br_request_sha256 :: Sha256Digest
  br_retry_evidence :: "ProviderRetryEvidence option"
  br_started_at :: int
  br_work_next :: WorkLifecycleSnapshot
  br_invocation_event :: EventIntent
  br_work_event :: EventIntent

record MarkModelStreamingRequest =
  ms_expected_work :: WorkExpectation
  ms_model_invocation_id :: ModelInvocationId
  ms_model_state :: ModelInvocationState
  ms_first_byte_at :: int
  ms_first_output_at :: "int option"
  ms_provider_request_id :: "string option"
  ms_provider_response_id :: "string option"
  ms_draft_exposed :: bool
  ms_event :: EventIntent

datatype NormalizedModelOutputItem =
    NormalizedText string
  | NormalizedToolCall string string string
  | NormalizedStructuredData string
  | NormalizedRefusal string
  | NormalizedReasoningSummary string
  | NormalizedProviderOpaque string string Sha256Digest ArtifactId

record FinalizedArtifact =
  fa_sha256 :: Sha256Digest
  fa_captured :: nat
  fa_observed :: nat
  fa_truncated :: bool

record PreparedArtifact =
  pa_artifact_id :: ArtifactId
  pa_producing_work_id :: WorkId
  pa_producer :: ModelInvocationId
  pa_finalized :: FinalizedArtifact
  pa_index :: nat
  pa_created_at :: int
  pa_event :: EventIntent

datatype ModelUsageStatus = Reported | Unavailable | NotApplicableOrUnknown

record ModelTerminalOutcome =
  mo_state :: ModelInvocationState
  mo_response_sha256 :: "Sha256Digest option"
  mo_normalized_output :: "NormalizedModelOutputItem list option"
  mo_provider_request_id :: "string option"
  mo_provider_response_id :: "string option"
  mo_first_byte_at :: "int option"
  mo_first_output_at :: "int option"
  mo_completed_at :: int
  mo_usage :: "ModelUsage option"
  mo_usage_status :: ModelUsageStatus
  mo_provider_error_kind :: "ProviderErrorKind option"
  mo_provider_outcome_certainty :: ProviderOutcomeCertainty
  mo_billing_ambiguity :: bool
  mo_stop_reason :: "string option"
  mo_tool_call_count :: "nat option"
  mo_draft_exposed :: bool
  mo_normalized_error :: "NormalizedError option"

record FinishModelInvocationRequest =
  fr_expected_work :: WorkExpectation
  fr_model_invocation_id :: ModelInvocationId
  fr_model_state :: ModelInvocationState
  fr_outcome :: ModelTerminalOutcome
  fr_artifacts :: "PreparedArtifact list"
  fr_work_next :: WorkLifecycleSnapshot
  fr_model_event :: EventIntent
  fr_work_event :: EventIntent

section \<open>The gateway and its ports\<close>

datatype ModelGatewayError =
    InvalidComposition | InvalidInvocation | StateStore | Clock | Artifact | Lifecycle

record ModelGatewayLimits =
  gl_attempts_per_logical_invocation :: nat
  gl_attempts_per_work :: nat
  gl_provider_invocation_limit :: nat
  gl_stream_idle_limit :: nat
  gl_output_items_per_response :: nat
  gl_raw_tool_argument_bytes :: nat

definition MAX_PROVIDER_ATTEMPTS_PER_WORK :: nat where "MAX_PROVIDER_ATTEMPTS_PER_WORK = 32"
definition MAX_STREAM_EVENTS :: nat where "MAX_STREAM_EVENTS = 4096"

definition validate_limits :: "ModelGatewayLimits \<Rightarrow> ModelGatewayError + ModelGatewayLimits" where
  "validate_limits l =
     (if gl_attempts_per_logical_invocation l = 0 \<or>
         gl_attempts_per_logical_invocation l > MAX_PROVIDER_ATTEMPTS \<or>
         gl_attempts_per_work l = 0 \<or> gl_attempts_per_work l > MAX_PROVIDER_ATTEMPTS_PER_WORK \<or>
         gl_attempts_per_logical_invocation l > gl_attempts_per_work l \<or>
         gl_provider_invocation_limit l = 0 \<or>
         gl_provider_invocation_limit l > DEFAULT_PROVIDER_INVOCATION_LIMIT \<or>
         gl_stream_idle_limit l = 0 \<or> gl_stream_idle_limit l > DEFAULT_PROVIDER_IDLE_TIMEOUT \<or>
         gl_stream_idle_limit l > gl_provider_invocation_limit l \<or>
         gl_output_items_per_response l = 0 \<or> gl_output_items_per_response l > MAX_MODEL_OUTPUT_ITEMS \<or>
         gl_raw_tool_argument_bytes l = 0 \<or>
         gl_raw_tool_argument_bytes l > MAX_MODEL_TOOL_ARGUMENT_BYTES
      then Inl InvalidComposition else Inr l)"

record GatewayInvocation =
  gi_work :: WorkLifecycleSnapshot
  gi_request :: ModelRequest
  gi_logical_invocation_id :: LogicalInvocationId
  gi_context_manifest_id :: ContextManifestId
  gi_package_selection :: ModelSelectionResult
  gi_reasoning_continuation :: bool
  gi_selection :: ModelSelectionResult
  gi_agent_step :: AgentStepNo
  gi_correlation_id :: CorrelationId
  gi_causation_event_id :: JournalEventId
  gi_work_deadline :: nat
  gi_shutdown_deadline :: "nat option"
  gi_work_attempts_before_invocation :: nat

record DurableModelAttempt =
  da_model_invocation_id :: ModelInvocationId
  da_logical_invocation_id :: LogicalInvocationId
  da_attempt_no :: nat
  da_terminal_model_event_id :: JournalEventId
  da_terminal_work_event_id :: JournalEventId
  da_work :: WorkLifecycleSnapshot

datatype DurableModelOutcome =
    OutcomeCompleted ModelResponse DurableModelAttempt
  | OutcomeFailed ProviderErrorKind bool bool DurableModelAttempt
  | OutcomeInterrupted ProviderErrorKind DurableModelAttempt
  | CancelledBeforeAttempt WorkLifecycleSnapshot
  | DeadlineBeforeAttempt WorkLifecycleSnapshot

datatype PhysicalAttemptResult =
    AttemptCompleted ModelResponse DurableModelAttempt
  | AttemptFailed ProviderError bool bool DurableModelAttempt
  | AttemptInterrupted ProviderErrorKind DurableModelAttempt
  | Infrastructure ModelGatewayError

datatype CanonicalDraftDelta = DraftText string | DraftRefusal string
datatype DraftAbandonCause = ToolContinuation | Superseded | Cancelled | Failed | Interrupted | DeliveryLimit

datatype 'a selected = CancellationFirst | TimerFirst | Ready 'a

datatype GatewayCall =
    ReadCancellation bool
  | ReadMonotonic nat
  | ReadWall "int option"
  | Generate Uuid
  | CallBegin BeginModelInvocationRequest bool
  | CallMarkStreaming MarkModelStreamingRequest bool
  | CallFinish FinishModelInvocationRequest bool
  | CallLoadOwnedWork WorkId RuntimeInstanceId "(WorkLifecycleSnapshot \<times> JournalEventId) option"
  | CancelProvider
  | CallInvokeStream ModelRequest nat nat nat nat "(ProviderError + unit) selected"
  | CallNextEvent nat "(ProviderError + ModelStreamEvent option) selected"
  | CallOffer ModelInvocationId CanonicalDraftDelta bool
  | CallAbandon ModelInvocationId DraftAbandonCause
  | LockJitter "(nat \<Rightarrow> nat) option"
  | Sleep nat bool
  | CallCapture ArtifactId string "FinalizedArtifact option"

record gateway_env =
  ge_model :: model_env
  ge_provider_id :: string
  ge_capabilities :: "ModelTarget \<Rightarrow> ModelCapabilitySnapshot option"
  ge_cancelled :: "GatewayCall list \<Rightarrow> bool"
  ge_monotonic_now :: "GatewayCall list \<Rightarrow> nat"
  ge_utc_now :: "GatewayCall list \<Rightarrow> int option"
  ge_generate :: "GatewayCall list \<Rightarrow> Uuid"
  ge_begin :: "BeginModelInvocationRequest \<Rightarrow> GatewayCall list \<Rightarrow> bool"
  ge_mark_streaming :: "MarkModelStreamingRequest \<Rightarrow> GatewayCall list \<Rightarrow> bool"
  ge_finish :: "FinishModelInvocationRequest \<Rightarrow> GatewayCall list \<Rightarrow> bool"
  ge_load_owned_work ::
    "WorkId \<Rightarrow> RuntimeInstanceId \<Rightarrow> GatewayCall list \<Rightarrow> (WorkLifecycleSnapshot \<times> JournalEventId) option"
  ge_invoke_stream :: "nat \<Rightarrow> GatewayCall list \<Rightarrow> (ProviderError + unit) selected"
  ge_next_event :: "nat \<Rightarrow> GatewayCall list \<Rightarrow> (ProviderError + ModelStreamEvent option) selected"
  ge_offer :: "CanonicalDraftDelta \<Rightarrow> GatewayCall list \<Rightarrow> bool"
  ge_jitter :: "GatewayCall list \<Rightarrow> (nat \<Rightarrow> nat) option"
  ge_sleep :: "nat \<Rightarrow> GatewayCall list \<Rightarrow> bool"
  ge_capture :: "ArtifactId \<Rightarrow> string \<Rightarrow> GatewayCall list \<Rightarrow> FinalizedArtifact option"

type_synonym 'a gateway = "(GatewayCall, 'a) service"

definition wall_now :: "gateway_env \<Rightarrow> (ModelGatewayError + int) gateway" where
  "wall_now env = do {
     now \<leftarrow> ask (ge_utc_now env) ReadWall;
     State_Monad.return (ok_or now Clock)
   }"

definition remaining_duration :: "gateway_env \<Rightarrow> nat \<Rightarrow> nat gateway" where
  "remaining_duration env deadline = do {
     now \<leftarrow> ask (ge_monotonic_now env) ReadMonotonic;
     State_Monad.return (case checked_duration_since deadline now of Some d \<Rightarrow> d | None \<Rightarrow> 0)
   }"

definition generate_event :: "gateway_env \<Rightarrow> JournalEventId gateway" where
  "generate_event env = do {
     u \<leftarrow> ask (ge_generate env) Generate;
     State_Monad.return (JournalEventId u)
   }"

end
