(* ===== verification/Gateway_Attempt.thy ===== *)
theory Gateway_Attempt
  imports Model_Gateway
begin

text \<open>
  One physical attempt of application/model_gateway.rs: the stream accumulator, the commits that finish
  an attempt, and the event loop.
\<close>

section \<open>The stream accumulator\<close>

record CanonicalStreamAccumulator =
  ca_events :: "ModelStreamEvent list"
  ca_semantic_output_observed :: bool
  ca_provider_request_id :: "string option"
  ca_provider_response_id :: "string option"
  ca_usage :: "ModelUsage option"
  ca_tool_argument_bytes :: "(string \<times> nat) list"

definition accumulator_new :: CanonicalStreamAccumulator where
  "accumulator_new =
     \<lparr>ca_events = [], ca_semantic_output_observed = False, ca_provider_request_id = None,
      ca_provider_response_id = None, ca_usage = None, ca_tool_argument_bytes = []\<rparr>"

fun event_ordinal :: "ModelStreamEvent \<Rightarrow> nat option" where
  "event_ordinal (TextDelta n _) = Some n"
| "event_ordinal (ReasoningSummaryDelta n _) = Some n"
| "event_ordinal (ToolCallStarted n _ _) = Some n"
| "event_ordinal (ToolArgumentDelta n _ _) = Some n"
| "event_ordinal (ToolCallCompleted n _) = Some n"
| "event_ordinal (RefusalDelta n _) = Some n"
| "event_ordinal (RefusalCompleted n) = Some n"
| "event_ordinal (StreamStructuredData n _) = Some n"
| "event_ordinal _ = None"

fun oversized_call :: "nat \<Rightarrow> ModelOutputItem \<Rightarrow> bool" where
  "oversized_call limit (OutputToolCall call) \<longleftrightarrow> length (tc_raw_arguments call) > limit"
| "oversized_call limit _ \<longleftrightarrow> False"

definition argument_bytes :: "CanonicalStreamAccumulator \<Rightarrow> string \<Rightarrow> nat" where
  "argument_bytes a call_id = (case map_of (ca_tool_argument_bytes a) call_id of Some n \<Rightarrow> n | None \<Rightarrow> 0)"

text \<open>The result of the limit check and the accumulator afterwards: the byte counts change even on an error.\<close>

definition enforce_configured_content_limits ::
  "ModelGatewayLimits \<Rightarrow> CanonicalStreamAccumulator \<Rightarrow> ModelStreamEvent \<Rightarrow>
     ModelContractErrorKind option \<times> CanonicalStreamAccumulator" where
  "enforce_configured_content_limits l a event =
     (if (case event_ordinal event of Some n \<Rightarrow> n \<ge> gl_output_items_per_response l | None \<Rightarrow> False)
      then (Some ModelContractErrorKind.TooManyOutputItems, a)
      else case event of
        ToolCallStarted _ call_id _ \<Rightarrow>
          (None, a\<lparr>ca_tool_argument_bytes :=
                    AList.update call_id (argument_bytes a call_id) (ca_tool_argument_bytes a)\<rparr>)
      | ToolArgumentDelta _ call_id delta \<Rightarrow>
          (let bytes = argument_bytes a call_id + length delta in
           (if bytes > gl_raw_tool_argument_bytes l
            then Some ModelContractErrorKind.ToolArgumentsTooLarge else None,
            a\<lparr>ca_tool_argument_bytes := AList.update call_id bytes (ca_tool_argument_bytes a)\<rparr>))
      | ToolCallCompleted _ call \<Rightarrow>
          (if length (tc_raw_arguments call) > gl_raw_tool_argument_bytes l
           then Some ModelContractErrorKind.ToolArgumentsTooLarge else None, a)
      | StreamCompleted response \<Rightarrow>
          (if length (rs_output_items response) > gl_output_items_per_response l
           then Some ModelContractErrorKind.TooManyOutputItems
           else if list_ex (oversized_call (gl_raw_tool_argument_bytes l)) (rs_output_items response)
           then Some ModelContractErrorKind.ToolArgumentsTooLarge else None, a)
      | _ \<Rightarrow> (None, a))"

fun accepted_event :: "CanonicalStreamAccumulator \<Rightarrow> ModelStreamEvent \<Rightarrow> CanonicalStreamAccumulator" where
  "accepted_event a event =
     (let a = (case event of
                 ResponseStarted _ request_id response_id \<Rightarrow>
                   a\<lparr>ca_provider_request_id := request_id, ca_provider_response_id := response_id\<rparr>
               | Usage usage \<Rightarrow> a\<lparr>ca_usage := Some usage\<rparr>
               | _ \<Rightarrow> a) in
      a\<lparr>ca_semantic_output_observed := ca_semantic_output_observed a \<or> event_is_semantic_output event,
        ca_events := ca_events a @ [event]\<rparr>)"

fun contract_kind :: "ModelContractError \<Rightarrow> ModelContractErrorKind" where
  "contract_kind (ModelContractError kind) = kind"

definition accumulator_observe ::
  "ModelGatewayLimits \<Rightarrow> CanonicalStreamAccumulator \<Rightarrow> ModelStreamEvent \<Rightarrow>
     ModelContractErrorKind option \<times> CanonicalStreamAccumulator" where
  "accumulator_observe l a event =
     (if length (ca_events a) \<ge> MAX_STREAM_EVENTS
      then (Some ModelContractErrorKind.NormalizedOutputTooLarge, a)
      else case enforce_configured_content_limits l a event of
        (Some kind, a') \<Rightarrow> (Some kind, a')
      | (None, a') \<Rightarrow>
          let a'' = accepted_event a' event in
          (case validate_model_stream (ca_events a'') of
             Inl error \<Rightarrow> Some (contract_kind error)
           | Inr _ \<Rightarrow> None, a''))"

datatype StreamTerminal = TerminalCompleted ModelResponse | TerminalProviderError ModelStreamProviderErrorKind

definition accumulator_finish :: "CanonicalStreamAccumulator \<Rightarrow> ModelContractErrorKind + StreamTerminal" where
  "accumulator_finish a =
     and_then (map_err contract_kind (validate_model_stream (ca_events a))) (\<lambda>state.
     if ca_events a = [] then Inl ModelContractErrorKind.InvalidStreamOrdering
     else case last (ca_events a) of
       StreamCompleted response \<Rightarrow>
         if state = ModelStreamState.Completed
         then map_ok (\<lambda>_. TerminalCompleted response)
                (map_err contract_kind (require_supported_semantics response))
         else Inl ModelContractErrorKind.InvalidStreamOrdering
     | StreamProviderError kind \<Rightarrow> Inr (TerminalProviderError kind)
     | _ \<Rightarrow> Inl ModelContractErrorKind.InvalidStreamOrdering)"

fun draft_delta :: "ModelStreamEvent \<Rightarrow> CanonicalDraftDelta option" where
  "draft_delta (TextDelta _ delta) = Some (DraftText delta)"
| "draft_delta (RefusalDelta _ delta) = Some (DraftRefusal delta)"
| "draft_delta _ = None"

fun gateway_started_ids :: "ModelStreamEvent \<Rightarrow> string option \<times> string option" where
  "gateway_started_ids (ResponseStarted _ request_id response_id) = (request_id, response_id)"
| "gateway_started_ids _ = (None, None)"

fun contract_error_kind :: "ModelContractErrorKind \<Rightarrow> ProviderErrorKind" where
  "contract_error_kind ModelContractErrorKind.InvalidToolArguments =
     ProviderErrorKind.MalformedCompletedToolArguments"
| "contract_error_kind ModelContractErrorKind.ToolArgumentsTooLarge =
     ProviderErrorKind.MalformedCompletedToolArguments"
| "contract_error_kind ModelContractErrorKind.TooManyOutputItems = ProviderErrorKind.OutputTooLarge"
| "contract_error_kind ModelContractErrorKind.NormalizedOutputTooLarge = ProviderErrorKind.OutputTooLarge"
| "contract_error_kind ModelContractErrorKind.UnknownSemanticItem =
     ProviderErrorKind.UnsupportedResponseItem"
| "contract_error_kind _ = ProviderErrorKind.MalformedResponse"

fun stream_error :: "ModelStreamProviderErrorKind \<Rightarrow> bool \<Rightarrow> ProviderError" where
  "stream_error ModelStreamProviderErrorKind.DefiniteFailure semantic =
     provider_error_new ProviderErrorKind.InternalProviderError
       ProviderOutcomeCertainty.DefiniteProviderFailure"
| "stream_error ModelStreamProviderErrorKind.TransientUnavailable semantic =
     provider_error_new ProviderErrorKind.TemporarilyUnavailable
       ProviderOutcomeCertainty.DefiniteProviderFailure"
| "stream_error ModelStreamProviderErrorKind.Cancelled semantic =
     provider_error_new ProviderErrorKind.Cancelled ProviderOutcomeCertainty.ProviderOutcomeUnknown"
| "stream_error ModelStreamProviderErrorKind.OutcomeUnknown semantic =
     provider_error_new ProviderErrorKind.ProviderOutcomeUnknown
       ProviderOutcomeCertainty.ProviderOutcomeUnknown"
| "stream_error ModelStreamProviderErrorKind.TimeoutBeforeOutput semantic =
     provider_error_new ProviderErrorKind.TimeoutBeforeOutput
       ProviderOutcomeCertainty.ProviderOutcomeUnknown"
| "stream_error ModelStreamProviderErrorKind.TimeoutAfterOutput semantic =
     provider_error_new ProviderErrorKind.TimeoutAfterOutput
       ProviderOutcomeCertainty.SemanticOutputObserved"
| "stream_error ModelStreamProviderErrorKind.ProtocolFailure semantic =
     provider_error_new ProviderErrorKind.MalformedResponse
       (if semantic then ProviderOutcomeCertainty.SemanticOutputObserved
        else ProviderOutcomeCertainty.ProviderOutcomeUnknown)"

definition timeout_error :: "bool \<Rightarrow> ProviderError" where
  "timeout_error semantic =
     (if semantic
      then provider_error_new ProviderErrorKind.TimeoutAfterOutput
             ProviderOutcomeCertainty.SemanticOutputObserved
      else provider_error_new ProviderErrorKind.TimeoutBeforeOutput
             ProviderOutcomeCertainty.ProviderOutcomeUnknown)"

section \<open>Finishing an attempt\<close>

record AttemptContext =
  at_invocation :: GatewayInvocation
  at_work :: WorkLifecycleSnapshot
  at_attempt_id :: ModelInvocationId
  at_attempt_no :: nat
  at_deadline :: nat

record AttemptEvidence =
  av_model_state :: ModelInvocationState
  av_cause :: JournalEventId
  av_semantic_output_observed :: bool
  av_draft_exposed :: bool
  av_first_byte_at :: "int option"
  av_first_output_at :: "int option"
  av_provider_request_id :: "string option"
  av_provider_response_id :: "string option"
  av_usage :: "ModelUsage option"

definition before_stream :: "JournalEventId \<Rightarrow> AttemptEvidence" where
  "before_stream waiting_event =
     \<lparr>av_model_state = ModelInvocationState.Requesting, av_cause = waiting_event,
      av_semantic_output_observed = False, av_draft_exposed = False, av_first_byte_at = None,
      av_first_output_at = None, av_provider_request_id = None, av_provider_response_id = None,
      av_usage = None\<rparr>"

definition refresh_durable_cancellation ::
  "gateway_env \<Rightarrow> WorkLifecycleSnapshot \<Rightarrow> ModelInvocationId \<Rightarrow>
     (WorkLifecycleSnapshot \<times> JournalEventId) option gateway" where
  "refresh_durable_cancellation env work attempt_id =
     (case wl_owner work of
        None \<Rightarrow> State_Monad.return None
      | Some runtime_id \<Rightarrow> do {
          owned \<leftarrow> ask (ge_load_owned_work env (wl_work_id work) runtime_id)
                    (CallLoadOwnedWork (wl_work_id work) runtime_id);
          State_Monad.return (case owned of
             None \<Rightarrow> None
           | Some (lifecycle, latest) \<Rightarrow>
               if wl_state lifecycle \<noteq> WorkState.CancelRequested \<or>
                  wl_attempt lifecycle \<noteq> AttemptModel attempt_id
               then None else Some (lifecycle, latest))
        })"

definition observe_cancellation ::
  "gateway_env \<Rightarrow> AttemptContext \<Rightarrow> JournalEventId \<Rightarrow> (WorkLifecycleSnapshot \<times> JournalEventId) gateway" where
  "observe_cancellation env c cause = do {
     cancelled \<leftarrow> ask (ge_cancelled env) ReadCancellation;
     if cancelled
     then do {
       refreshed \<leftarrow> refresh_durable_cancellation env (at_work c) (at_attempt_id c);
       State_Monad.return (case refreshed of Some found \<Rightarrow> found | None \<Rightarrow> (at_work c, cause))
     }
     else State_Monad.return (at_work c, cause)
   }"

definition work_after :: "WorkLifecycleSnapshot \<Rightarrow> WorkTransitionRequest \<Rightarrow> ModelGatewayError + WorkLifecycleSnapshot" where
  "work_after work request =
     map_ok wd_next (map_err (\<lambda>_. Lifecycle) (decide_work_transition work (for_snapshot work) request))"

definition confirmed_cancel :: "WorkLifecycleSnapshot \<Rightarrow> ModelGatewayError + WorkLifecycleSnapshot" where
  "confirmed_cancel work =
     and_then (ok_or (wl_cancellation work) Lifecycle) (\<lambda>reason.
     work_after work (Cancel reason CleanupStatus.Confirmed))"

definition error_ambiguous :: "ProviderError \<Rightarrow> bool" where
  "error_ambiguous error \<longleftrightarrow>
     pe_certainty error = ProviderOutcomeCertainty.ProviderOutcomeUnknown \<or>
     pe_kind error = ProviderErrorKind.TransportAfterPossibleProcessing \<or>
     pe_kind error = ProviderErrorKind.ProviderOutcomeUnknown"

definition cancelled_unsent :: "ProviderError \<Rightarrow> bool" where
  "cancelled_unsent error \<longleftrightarrow>
     pe_kind error = ProviderErrorKind.Cancelled \<and>
     pe_certainty error = ProviderOutcomeCertainty.DefinitelyNotSent"

definition terminal_transition ::
  "WorkLifecycleSnapshot \<Rightarrow> ModelInvocationId \<Rightarrow> ProviderError \<Rightarrow> ModelGatewayError + WorkLifecycleSnapshot" where
  "terminal_transition work attempt_id error =
     (if error_ambiguous error
      then work_after work (Interrupt WorkInterruptionReason.ProviderOutcomeUnknown)
      else if cancelled_unsent error \<and> wl_state work = WorkState.CancelRequested then confirmed_cancel work
      else work_after work (ResumeFromModel attempt_id))"

definition usage_status :: "ModelUsage option \<Rightarrow> ModelUsageStatus" where
  "usage_status usage = (if usage = None then ModelUsageStatus.Unavailable else ModelUsageStatus.Reported)"

definition failed_outcome :: "ProviderError \<Rightarrow> AttemptEvidence \<Rightarrow> int \<Rightarrow> ModelTerminalOutcome" where
  "failed_outcome error ev completed_at =
     (let ambiguous = error_ambiguous error;
          state = (if ambiguous then ModelInvocationState.ProviderOutcomeUnknown
                   else if cancelled_unsent error then ModelInvocationState.CancelledLocally
                   else ModelInvocationState.Failed) in
      \<lparr>mo_state = state, mo_response_sha256 = None, mo_normalized_output = None,
       mo_provider_request_id = av_provider_request_id ev,
       mo_provider_response_id = av_provider_response_id ev,
       mo_first_byte_at = av_first_byte_at ev, mo_first_output_at = av_first_output_at ev,
       mo_completed_at = completed_at, mo_usage = av_usage ev, mo_usage_status = usage_status (av_usage ev),
       mo_provider_error_kind =
         Some (if ambiguous then ProviderErrorKind.ProviderOutcomeUnknown else pe_kind error),
       mo_provider_outcome_certainty =
         (if state = ModelInvocationState.Failed \<and> av_semantic_output_observed ev
          then ProviderOutcomeCertainty.SemanticOutputObserved else pe_certainty error),
       mo_billing_ambiguity = ambiguous, mo_stop_reason = None, mo_tool_call_count = None,
       mo_draft_exposed = av_draft_exposed ev,
       mo_normalized_error =
         Some (if ambiguous then provider_error Certainty.OutcomeUnknown None else normalized error)\<rparr>)"

definition durable_attempt ::
  "AttemptContext \<Rightarrow> JournalEventId \<Rightarrow> JournalEventId \<Rightarrow> WorkLifecycleSnapshot \<Rightarrow> DurableModelAttempt" where
  "durable_attempt c model_event work_event work_next =
     \<lparr>da_model_invocation_id = at_attempt_id c,
      da_logical_invocation_id = gi_logical_invocation_id (at_invocation c),
      da_attempt_no = at_attempt_no c, da_terminal_model_event_id = model_event,
      da_terminal_work_event_id = work_event, da_work = work_next\<rparr>"

definition finish_request ::
  "AttemptContext \<Rightarrow> WorkLifecycleSnapshot \<Rightarrow> ModelInvocationState \<Rightarrow> JournalEventId \<Rightarrow>
     ModelTerminalOutcome \<Rightarrow> PreparedArtifact list \<Rightarrow> WorkLifecycleSnapshot \<Rightarrow> JournalEventId \<Rightarrow>
     JournalEventId \<Rightarrow> FinishModelInvocationRequest" where
  "finish_request c work model_state cause outcome artifacts work_next model_event work_event =
     (let correlation = gi_correlation_id (at_invocation c) in
      \<lparr>fr_expected_work = work_expectation work, fr_model_invocation_id = at_attempt_id c,
       fr_model_state = model_state, fr_outcome = outcome, fr_artifacts = artifacts,
       fr_work_next = work_next,
       fr_model_event = \<lparr>ei_event_id = model_event, ei_correlation_id = correlation,
                         ei_causation_event_id = Some cause\<rparr>,
       fr_work_event = \<lparr>ei_event_id = work_event, ei_correlation_id = correlation,
                        ei_causation_event_id = Some model_event\<rparr>\<rparr>)"

definition finish_failed_attempt ::
  "gateway_env \<Rightarrow> AttemptContext \<Rightarrow> ProviderError \<Rightarrow> AttemptEvidence \<Rightarrow> PhysicalAttemptResult gateway" where
  "finish_failed_attempt env c error ev = do {
     (work, cause) \<leftarrow> observe_cancellation env c (av_cause ev);
     now \<leftarrow> wall_now env;
     case now of
       Inl e \<Rightarrow> State_Monad.return (Infrastructure e)
     | Inr completed_at \<Rightarrow>
         (case terminal_transition work (at_attempt_id c) error of
            Inl e \<Rightarrow> State_Monad.return (Infrastructure e)
          | Inr work_next \<Rightarrow> do {
              model_event \<leftarrow> generate_event env;
              work_event \<leftarrow> generate_event env;
              let request = finish_request c work (av_model_state ev) cause
                              (failed_outcome error ev completed_at) [] work_next model_event work_event;
              committed \<leftarrow> ask (ge_finish env request) (CallFinish request);
              let attempt = durable_attempt c model_event work_event work_next;
              State_Monad.return
                (if \<not> committed then Infrastructure StateStore
                 else if error_ambiguous error then AttemptInterrupted (pe_kind error) attempt
                 else AttemptFailed error (av_semantic_output_observed ev) (av_draft_exposed ev) attempt)
            })
   }"

definition finish_provider_error ::
  "gateway_env \<Rightarrow> AttemptContext \<Rightarrow> ProviderError \<Rightarrow> AttemptEvidence \<Rightarrow> PhysicalAttemptResult gateway" where
  "finish_provider_error env c error ev =
     finish_failed_attempt env c error
       (ev\<lparr>av_provider_request_id :=
             (case av_provider_request_id ev of None \<Rightarrow> pe_request_id error | Some i \<Rightarrow> Some i)\<rparr>)"

subsection \<open>Completed responses\<close>

definition capture_opaque ::
  "gateway_env \<Rightarrow> AttemptContext \<Rightarrow> ProviderOpaqueEvidence \<Rightarrow> nat \<Rightarrow> int \<Rightarrow>
     (ModelGatewayError + NormalizedModelOutputItem \<times> PreparedArtifact) gateway" where
  "capture_opaque env c opaque index created_at = do {
     u \<leftarrow> ask (ge_generate env) Generate;
     let artifact_id = ArtifactId u;
     let len = length (oe_opaque opaque);
     if int len > i64_max then State_Monad.return (Inl Artifact)
     else do {
       captured \<leftarrow> ask (ge_capture env artifact_id (oe_opaque opaque))
                    (CallCapture artifact_id (oe_opaque opaque));
       case captured of
         None \<Rightarrow> State_Monad.return (Inl Artifact)
       | Some finalized \<Rightarrow>
           if fa_sha256 finalized \<noteq> oe_sha256 opaque \<or> fa_captured finalized \<noteq> len \<or> fa_truncated finalized
           then State_Monad.return (Inl Artifact)
           else do {
             event \<leftarrow> generate_event env;
             State_Monad.return (Inr
               (NormalizedProviderOpaque (oe_provider_id opaque) (oe_type_label opaque) (oe_sha256 opaque)
                  artifact_id,
                \<lparr>pa_artifact_id = artifact_id, pa_producing_work_id = wl_work_id (at_work c),
                 pa_producer = at_attempt_id c, pa_finalized = finalized, pa_index = index,
                 pa_created_at = created_at,
                 pa_event = \<lparr>ei_event_id = event,
                             ei_correlation_id = gi_correlation_id (at_invocation c),
                             ei_causation_event_id = None\<rparr>\<rparr>))
           }
     }
   }"

text \<open>The loop over the output items, from the given index on.\<close>

fun normalize_items ::
  "gateway_env \<Rightarrow> AttemptContext \<Rightarrow> int \<Rightarrow> nat \<Rightarrow> ModelOutputItem list \<Rightarrow>
     (ModelGatewayError + NormalizedModelOutputItem list \<times> PreparedArtifact list) gateway" where
  "normalize_items env c created_at index [] = State_Monad.return (Inr ([], []))"
| "normalize_items env c created_at index (item # items) = do {
     first \<leftarrow> (case item of
        OutputText parts \<Rightarrow> State_Monad.return (Inr (NormalizedText (concat parts), []))
      | OutputToolCall call \<Rightarrow>
          State_Monad.return (case require_valid_arguments call of
             Inl _ \<Rightarrow> Inl InvalidInvocation
           | Inr arguments \<Rightarrow>
               Inr (NormalizedToolCall (tc_call_id call) (tc_name call) (me_to_vec (ge_model env) arguments), []))
      | OutputStructuredData data \<Rightarrow>
          State_Monad.return (Inr (NormalizedStructuredData (me_to_vec (ge_model env) data), []))
      | OutputRefusal parts \<Rightarrow> State_Monad.return (Inr (NormalizedRefusal (concat parts), []))
      | OutputReasoningSummary parts \<Rightarrow>
          State_Monad.return (Inr (NormalizedReasoningSummary (concat parts), []))
      | ProviderOpaque opaque \<Rightarrow> do {
          captured \<leftarrow> capture_opaque env c opaque index created_at;
          State_Monad.return (map_ok (\<lambda>(out, artifact). (out, [artifact])) captured)
        }
      | UnknownProviderItem _ \<Rightarrow> State_Monad.return (Inl InvalidInvocation));
     case first of
       Inl e \<Rightarrow> State_Monad.return (Inl e)
     | Inr (out, artifacts) \<Rightarrow> do {
         rest \<leftarrow> normalize_items env c created_at (index + 1) items;
         State_Monad.return (map_ok (\<lambda>(outs, more). (out # outs, artifacts @ more)) rest)
       }
   }"

fun captures :: "ProviderOpaqueEvidence \<Rightarrow> ModelOutputItem \<Rightarrow> bool" where
  "captures continuation (ProviderOpaque opaque) \<longleftrightarrow>
     oe_provider_id opaque = oe_provider_id continuation \<and>
     oe_type_label opaque = oe_type_label continuation \<and> oe_sha256 opaque = oe_sha256 continuation"
| "captures continuation _ \<longleftrightarrow> False"

definition prepare_normalized_output ::
  "gateway_env \<Rightarrow> AttemptContext \<Rightarrow> ModelResponse \<Rightarrow> int \<Rightarrow>
     (ModelGatewayError + NormalizedModelOutputItem list \<times> PreparedArtifact list) gateway" where
  "prepare_normalized_output env c response created_at = do {
     items \<leftarrow> normalize_items env c created_at 0 (rs_output_items response);
     case items of
       Inl e \<Rightarrow> State_Monad.return (Inl e)
     | Inr (outs, artifacts) \<Rightarrow>
         (case rs_provider_continuation response of
            None \<Rightarrow> State_Monad.return (Inr (outs, artifacts))
          | Some continuation \<Rightarrow>
              if list_ex (captures continuation) (rs_output_items response)
              then State_Monad.return (Inr (outs, artifacts))
              else do {
                captured \<leftarrow> capture_opaque env c continuation (length (rs_output_items response)) created_at;
                State_Monad.return
                  (map_ok (\<lambda>(out, artifact). (outs @ [out], artifacts @ [artifact])) captured)
              })
   }"

fun is_tool_call :: "ModelOutputItem \<Rightarrow> bool" where
  "is_tool_call (OutputToolCall _) \<longleftrightarrow> True"
| "is_tool_call _ \<longleftrightarrow> False"

definition completed_outcome ::
  "model_env \<Rightarrow> ModelResponse \<Rightarrow> NormalizedModelOutputItem list \<Rightarrow> AttemptEvidence \<Rightarrow> int \<Rightarrow> ModelTerminalOutcome" where
  "completed_outcome menv response outs ev completed_at =
     \<lparr>mo_state = ModelInvocationState.Completed,
      mo_response_sha256 = Some (me_hash_bytes menv (response_bytes menv response)),
      mo_normalized_output = Some outs, mo_provider_request_id = rs_provider_request_id response,
      mo_provider_response_id = rs_provider_response_id response,
      mo_first_byte_at = av_first_byte_at ev, mo_first_output_at = av_first_output_at ev,
      mo_completed_at = completed_at, mo_usage = rs_usage response,
      mo_usage_status = usage_status (rs_usage response), mo_provider_error_kind = None,
      mo_provider_outcome_certainty = ProviderOutcomeCertainty.DefinitelyCompleted,
      mo_billing_ambiguity = False, mo_stop_reason = Some (stop_reason_str (rs_stop_reason response)),
      mo_tool_call_count = Some (length (filter is_tool_call (rs_output_items response))),
      mo_draft_exposed = av_draft_exposed ev, mo_normalized_error = None\<rparr>"

definition completion_transition ::
  "WorkLifecycleSnapshot \<Rightarrow> ModelInvocationId \<Rightarrow> ModelGatewayError + WorkLifecycleSnapshot" where
  "completion_transition work attempt_id =
     (if wl_state work = WorkState.CancelRequested then confirmed_cancel work
      else work_after work (ResumeFromModel attempt_id))"

definition finish_completed_attempt ::
  "gateway_env \<Rightarrow> AttemptContext \<Rightarrow> ModelResponse \<Rightarrow> AttemptEvidence \<Rightarrow> PhysicalAttemptResult gateway" where
  "finish_completed_attempt env c response ev = do {
     (work, cause) \<leftarrow> observe_cancellation env c (av_cause ev);
     now \<leftarrow> wall_now env;
     case now of
       Inl e \<Rightarrow> State_Monad.return (Infrastructure e)
     | Inr completed_at \<Rightarrow> do {
         prepared \<leftarrow> prepare_normalized_output env (c\<lparr>at_work := work\<rparr>) response completed_at;
         case prepared of
           Inl _ \<Rightarrow>
             finish_failed_attempt env (c\<lparr>at_work := work\<rparr>)
               (provider_error_new ProviderErrorKind.ProviderOutcomeUnknown
                  ProviderOutcomeCertainty.ProviderOutcomeUnknown)
               (ev\<lparr>av_cause := cause, av_semantic_output_observed := True,
                   av_provider_request_id := rs_provider_request_id response,
                   av_provider_response_id := rs_provider_response_id response,
                   av_usage := rs_usage response\<rparr>)
         | Inr (outs, artifacts) \<Rightarrow>
             (case completion_transition work (at_attempt_id c) of
                Inl e \<Rightarrow> State_Monad.return (Infrastructure e)
              | Inr work_next \<Rightarrow> do {
                  model_event \<leftarrow> generate_event env;
                  work_event \<leftarrow> generate_event env;
                  let request = finish_request c work (av_model_state ev) cause
                                  (completed_outcome (ge_model env) response outs ev completed_at)
                                  artifacts work_next model_event work_event;
                  committed \<leftarrow> ask (ge_finish env request) (CallFinish request);
                  if \<not> committed then State_Monad.return (Infrastructure StateStore)
                  else do {
                    _ \<leftarrow> (if work_is_terminal (wl_state work_next)
                          then tell (CallAbandon (at_attempt_id c) DraftAbandonCause.Cancelled)
                          else State_Monad.return ());
                    State_Monad.return
                      (AttemptCompleted response (durable_attempt c model_event work_event work_next))
                  }
                })
       }
   }"

section \<open>The event loop\<close>

record StreamLoop =
  sl_accumulator :: CanonicalStreamAccumulator
  sl_model_state :: ModelInvocationState
  sl_last_attempt_event :: JournalEventId
  sl_first_byte_at :: "int option"
  sl_first_output_at :: "int option"
  sl_draft_exposed :: bool

definition stream_evidence :: "StreamLoop \<Rightarrow> AttemptEvidence" where
  "stream_evidence st =
     (let a = sl_accumulator st in
      \<lparr>av_model_state = sl_model_state st, av_cause = sl_last_attempt_event st,
       av_semantic_output_observed = ca_semantic_output_observed a,
       av_draft_exposed = sl_draft_exposed st, av_first_byte_at = sl_first_byte_at st,
       av_first_output_at = sl_first_output_at st,
       av_provider_request_id = ca_provider_request_id a,
       av_provider_response_id = ca_provider_response_id a, av_usage = ca_usage a\<rparr>)"

abbreviation stream_failed ::
  "gateway_env \<Rightarrow> AttemptContext \<Rightarrow> StreamLoop \<Rightarrow> ProviderError \<Rightarrow> PhysicalAttemptResult gateway" where
  "stream_failed env c st error \<equiv> finish_provider_error env c error (stream_evidence st)"

definition unfinished_certainty :: "StreamLoop \<Rightarrow> ProviderOutcomeCertainty" where
  "unfinished_certainty st =
     (if ca_semantic_output_observed (sl_accumulator st)
      then ProviderOutcomeCertainty.SemanticOutputObserved
      else ProviderOutcomeCertainty.ProviderOutcomeUnknown)"

definition mark_first_byte ::
  "gateway_env \<Rightarrow> AttemptContext \<Rightarrow> StreamLoop \<Rightarrow> ModelStreamEvent \<Rightarrow> int \<Rightarrow>
     (ModelGatewayError + StreamLoop) gateway" where
  "mark_first_byte env c st event observed_at =
     (if sl_first_byte_at st \<noteq> None then State_Monad.return (Inr st)
      else do {
        let (request_id, response_id) = gateway_started_ids event;
        streaming_event \<leftarrow> generate_event env;
        let request =
          \<lparr>ms_expected_work = work_expectation (at_work c), ms_model_invocation_id = at_attempt_id c,
           ms_model_state = ModelInvocationState.Requesting, ms_first_byte_at = observed_at,
           ms_first_output_at = (if event_is_semantic_output event then Some observed_at else None),
           ms_provider_request_id = request_id, ms_provider_response_id = response_id,
           ms_draft_exposed = False,
           ms_event = \<lparr>ei_event_id = streaming_event,
                       ei_correlation_id = gi_correlation_id (at_invocation c),
                       ei_causation_event_id = Some (sl_last_attempt_event st)\<rparr>\<rparr>;
        committed \<leftarrow> ask (ge_mark_streaming env request) (CallMarkStreaming request);
        State_Monad.return
          (if \<not> committed then Inl StateStore
           else Inr (st\<lparr>sl_first_byte_at := Some observed_at,
                        sl_model_state := ModelInvocationState.Streaming,
                        sl_last_attempt_event := streaming_event\<rparr>))
      })"

definition offer_draft ::
  "gateway_env \<Rightarrow> AttemptContext \<Rightarrow> StreamLoop \<Rightarrow> ModelStreamEvent \<Rightarrow> StreamLoop gateway" where
  "offer_draft env c st event =
     (case draft_delta event of
        None \<Rightarrow> State_Monad.return st
      | Some delta \<Rightarrow> do {
          exposed \<leftarrow> ask (ge_offer env delta) (CallOffer (at_attempt_id c) delta);
          State_Monad.return (if exposed then st\<lparr>sl_draft_exposed := True\<rparr> else st)
        })"

text \<open>A terminal event counts only after the provider stream closes; \<open>None\<close> is a cancelled or stalled tail.\<close>

definition await_close ::
  "gateway_env \<Rightarrow> ModelGatewayLimits \<Rightarrow> AttemptContext \<Rightarrow>
     (ProviderError + ModelStreamEvent option) option gateway" where
  "await_close env l c = do {
     remaining \<leftarrow> remaining_duration env (at_deadline c);
     let idle = min (gl_stream_idle_limit l) remaining;
     if idle = 0 then State_Monad.return None
     else do {
       trailing \<leftarrow> ask (ge_next_event env idle) (CallNextEvent idle);
       case trailing of
         Ready result \<Rightarrow> State_Monad.return (Some result)
       | _ \<Rightarrow> do { _ \<leftarrow> tell CancelProvider; State_Monad.return None }
     }
   }"

definition finish_stream ::
  "gateway_env \<Rightarrow> AttemptContext \<Rightarrow> StreamLoop \<Rightarrow> int \<Rightarrow> PhysicalAttemptResult gateway" where
  "finish_stream env c st observed_at =
     (case accumulator_finish (sl_accumulator st) of
        Inr (TerminalCompleted response) \<Rightarrow>
          finish_completed_attempt env c response
            (stream_evidence
               (if sl_first_output_at st = None \<and> rs_output_items response \<noteq> []
                then st\<lparr>sl_first_output_at := Some observed_at\<rparr> else st))
      | Inr (TerminalProviderError kind) \<Rightarrow>
          stream_failed env c st (stream_error kind (ca_semantic_output_observed (sl_accumulator st)))
      | Inl kind \<Rightarrow>
          stream_failed env c st
            (provider_error_new (contract_error_kind kind) (unfinished_certainty st)))"

definition close_stream ::
  "gateway_env \<Rightarrow> ModelGatewayLimits \<Rightarrow> AttemptContext \<Rightarrow> StreamLoop \<Rightarrow> int \<Rightarrow> PhysicalAttemptResult gateway" where
  "close_stream env l c st observed_at = do {
     trailing \<leftarrow> await_close env l c;
     case trailing of
       Some (Inr None) \<Rightarrow> finish_stream env c st observed_at
     | Some (Inr (Some _)) \<Rightarrow>
         stream_failed env c st
           (provider_error_new ProviderErrorKind.MalformedResponse
              (if ca_semantic_output_observed (sl_accumulator st)
               then ProviderOutcomeCertainty.SemanticOutputObserved
               else ProviderOutcomeCertainty.DefiniteProviderFailure))
     | _ \<Rightarrow>
         stream_failed env c st
           (provider_error_new ProviderErrorKind.ProviderOutcomeUnknown
              ProviderOutcomeCertainty.ProviderOutcomeUnknown)
   }"

text \<open>One received event: \<open>Inr\<close> is the state of the next iteration, \<open>Inl\<close> the result of the attempt.\<close>

definition receive_event ::
  "gateway_env \<Rightarrow> ModelGatewayLimits \<Rightarrow> AttemptContext \<Rightarrow> StreamLoop \<Rightarrow> ModelStreamEvent \<Rightarrow>
     (PhysicalAttemptResult + StreamLoop) gateway" where
  "receive_event env l c st event = do {
     now \<leftarrow> wall_now env;
     case now of
       Inl e \<Rightarrow> State_Monad.return (Inl (Infrastructure e))
     | Inr observed_at \<Rightarrow> do {
         marked \<leftarrow> mark_first_byte env c st event observed_at;
         case marked of
           Inl e \<Rightarrow> State_Monad.return (Inl (Infrastructure e))
         | Inr st \<Rightarrow> do {
             let st = (if event_is_semantic_output event \<and> sl_first_output_at st = None
                       then st\<lparr>sl_first_output_at := Some observed_at\<rparr> else st);
             st \<leftarrow> offer_draft env c st event;
             let (failure, accumulator) = accumulator_observe l (sl_accumulator st) event;
             let st = st\<lparr>sl_accumulator := accumulator\<rparr>;
             case failure of
               Some kind \<Rightarrow> do {
                 result \<leftarrow> stream_failed env c st
                   (provider_error_new (contract_error_kind kind) (unfinished_certainty st));
                 State_Monad.return (Inl result)
               }
             | None \<Rightarrow>
                 if \<not> event_is_terminal event then State_Monad.return (Inr st)
                 else do {
                   result \<leftarrow> close_stream env l c st observed_at;
                   State_Monad.return (Inl result)
                 }
           }
       }
   }"

definition stream_iteration ::
  "gateway_env \<Rightarrow> ModelGatewayLimits \<Rightarrow> AttemptContext \<Rightarrow> StreamLoop \<Rightarrow>
     (PhysicalAttemptResult + StreamLoop) gateway" where
  "stream_iteration env l c st = do {
     let semantic = ca_semantic_output_observed (sl_accumulator st);
     let failed = (\<lambda>error. do {
       result \<leftarrow> stream_failed env c st error;
       State_Monad.return (Inl result)
     });
     remaining \<leftarrow> remaining_duration env (at_deadline c);
     if remaining = 0 then do { _ \<leftarrow> tell CancelProvider; failed (timeout_error semantic) }
     else do {
       let idle = min (gl_stream_idle_limit l) remaining;
       next_event \<leftarrow> ask (ge_next_event env idle) (CallNextEvent idle);
       case next_event of
         CancellationFirst \<Rightarrow> do {
           _ \<leftarrow> tell CancelProvider;
           failed (provider_error_new ProviderErrorKind.Cancelled
                     ProviderOutcomeCertainty.ProviderOutcomeUnknown)
         }
       | TimerFirst \<Rightarrow> do { _ \<leftarrow> tell CancelProvider; failed (timeout_error semantic) }
       | Ready (Inl error) \<Rightarrow> failed error
       | Ready (Inr None) \<Rightarrow>
           failed (provider_error_new ProviderErrorKind.MalformedResponse (unfinished_certainty st))
       | Ready (Inr (Some event)) \<Rightarrow> receive_event env l c st event
     }
   }"

subsection \<open>The loop ends\<close>

lemma ensures_selected [ensures_rules]:
  "(x = CancellationFirst \<Longrightarrow> ensures m Q) \<Longrightarrow> (x = TimerFirst \<Longrightarrow> ensures n Q) \<Longrightarrow>
   (\<And>y. x = Ready y \<Longrightarrow> ensures (f y) Q) \<Longrightarrow>
   ensures (case x of CancellationFirst \<Rightarrow> m | TimerFirst \<Rightarrow> n | Ready y \<Rightarrow> f y) Q"
  by (cases x) simp_all

lemma enforce_keeps_events:
  "enforce_configured_content_limits l a event = (failure, a') \<Longrightarrow>
     ca_events a' = ca_events a \<and> ca_semantic_output_observed a' = ca_semantic_output_observed a"
  by (auto simp: enforce_configured_content_limits_def Let_def
    split: if_splits option.splits ModelStreamEvent.splits)

lemma accepted_event_fields [simp]:
  "ca_events (accepted_event a event) = ca_events a @ [event]"
  "ca_semantic_output_observed (accepted_event a event) \<longleftrightarrow>
     ca_semantic_output_observed a \<or> event_is_semantic_output event"
  by (cases event; simp)+

lemma accumulator_observe_accepted:
  assumes "accumulator_observe l a event = (None, a')"
  shows "ca_events a' = ca_events a @ [event]" "length (ca_events a) < MAX_STREAM_EVENTS"
    "ca_semantic_output_observed a' \<longleftrightarrow> ca_semantic_output_observed a \<or> event_is_semantic_output event"
  using assms
  by (auto simp: accumulator_observe_def Let_def simp del: accepted_event.simps
    split: if_splits option.splits prod.splits dest: enforce_keeps_events)

section \<open>What an attempt does\<close>

text \<open>Projections of a history: begin and finish calls with their answers, events received, drafts exposed.\<close>

fun begins :: "GatewayCall list \<Rightarrow> (BeginModelInvocationRequest \<times> bool) list" where
  "begins [] = []"
| "begins (CallBegin request ok # calls) = (request, ok) # begins calls"
| "begins (_ # calls) = begins calls"

fun finishes :: "GatewayCall list \<Rightarrow> (FinishModelInvocationRequest \<times> bool) list" where
  "finishes [] = []"
| "finishes (CallFinish request ok # calls) = (request, ok) # finishes calls"
| "finishes (_ # calls) = finishes calls"

fun received :: "GatewayCall list \<Rightarrow> ModelStreamEvent list" where
  "received [] = []"
| "received (CallNextEvent _ (Ready (Inr (Some event))) # calls) = event # received calls"
| "received (_ # calls) = received calls"

fun exposed :: "GatewayCall list \<Rightarrow> bool" where
  "exposed [] \<longleftrightarrow> False"
| "exposed (CallOffer _ _ True # calls) \<longleftrightarrow> True"
| "exposed (_ # calls) \<longleftrightarrow> exposed calls"

lemma history_append [simp]:
  "begins (xs @ ys) = begins xs @ begins ys"
  "finishes (xs @ ys) = finishes xs @ finishes ys"
  "received (xs @ ys) = received xs @ received ys"
  "exposed (xs @ ys) \<longleftrightarrow> exposed xs \<or> exposed ys"
  subgoal by (induction xs rule: begins.induct) auto
  subgoal by (induction xs rule: finishes.induct) auto
  subgoal by (induction xs rule: received.induct) auto
  subgoal by (induction xs rule: exposed.induct) auto
  done

definition silent :: "GatewayCall list \<Rightarrow> bool" where
  "silent calls \<longleftrightarrow> begins calls = [] \<and> finishes calls = [] \<and> received calls = [] \<and> \<not> exposed calls"

lemma silent_simps [simp]:
  "silent []" "silent (xs @ ys) \<longleftrightarrow> silent xs \<and> silent ys"
  "silent (ReadCancellation b # calls) \<longleftrightarrow> silent calls"
  "silent (ReadMonotonic n # calls) \<longleftrightarrow> silent calls"
  "silent (ReadWall w # calls) \<longleftrightarrow> silent calls"
  "silent (Generate u # calls) \<longleftrightarrow> silent calls"
  "silent (CallMarkStreaming m ok # calls) \<longleftrightarrow> silent calls"
  "silent (CallLoadOwnedWork work r x # calls) \<longleftrightarrow> silent calls"
  "silent (CancelProvider # calls) \<longleftrightarrow> silent calls"
  "silent (CallInvokeStream q a d t n opened # calls) \<longleftrightarrow> silent calls"
  "silent (CallAbandon attempt k # calls) \<longleftrightarrow> silent calls"
  "silent (LockJitter j # calls) \<longleftrightarrow> silent calls"
  "silent (Sleep delay ok # calls) \<longleftrightarrow> silent calls"
  "silent (CallCapture artifact s f # calls) \<longleftrightarrow> silent calls"
  by (auto simp: silent_def)

lemma silentD: "silent calls \<Longrightarrow> begins calls = [] \<and> finishes calls = [] \<and> received calls = [] \<and> \<not> exposed calls"
  by (simp add: silent_def)

lemma ensures_wall_now [ensures_rules]:
  "(\<And>r calls. silent calls \<Longrightarrow> Q r calls) \<Longrightarrow> ensures (wall_now env) Q"
  unfolding wall_now_def by (intro ensures_rules) simp

lemma ensures_remaining_duration [ensures_rules]:
  "(\<And>r calls. silent calls \<Longrightarrow> Q r calls) \<Longrightarrow> ensures (remaining_duration env deadline) Q"
  unfolding remaining_duration_def by (intro ensures_rules) simp

lemma ensures_generate_event [ensures_rules]:
  "(\<And>r calls. silent calls \<Longrightarrow> Q r calls) \<Longrightarrow> ensures (generate_event env) Q"
  unfolding generate_event_def by (intro ensures_rules) simp

lemma ensures_observe_cancellation [ensures_rules]:
  assumes "\<And>work cause' calls. silent calls \<Longrightarrow>
      work = at_work c \<or> wl_state work = WorkState.CancelRequested \<Longrightarrow> Q (work, cause') calls"
  shows "ensures (observe_cancellation env c cause) Q"
  unfolding observe_cancellation_def refresh_durable_cancellation_def
  by (intro ensures_rules) (auto intro!: assms split: option.splits)

lemma ensures_capture_opaque [ensures_rules]:
  "(\<And>r calls. silent calls \<Longrightarrow> Q r calls) \<Longrightarrow> ensures (capture_opaque env c opaque index created_at) Q"
  unfolding capture_opaque_def by (intro ensures_rules) simp_all

lemma ensures_normalize_items [ensures_rules]:
  "(\<And>r calls. silent calls \<Longrightarrow> Q r calls) \<Longrightarrow> ensures (normalize_items env c created_at index items) Q"
proof (induction items arbitrary: index Q)
  case Nil
  then show ?case by (auto intro: ensures_rules)
next
  case (Cons item items)
  have first: "ensures (normalize_items env c created_at index (item # items)) (\<lambda>_. silent)"
    unfolding normalize_items.simps
    by (cases item) (intro ensures_rules Cons.IH; auto)+
  show ?case by (rule ensures_weaken [OF first]) (rule Cons.prems)
qed

lemma ensures_prepare_normalized_output [ensures_rules]:
  "(\<And>r calls. silent calls \<Longrightarrow> Q r calls) \<Longrightarrow> ensures (prepare_normalized_output env c response created_at) Q"
  unfolding prepare_normalized_output_def by (intro ensures_rules) auto

text \<open>The commit of a finish call, and what each result of an attempt says about the calls of the attempt.\<close>

definition commits :: "AttemptContext \<Rightarrow> FinishModelInvocationRequest \<Rightarrow> DurableModelAttempt \<Rightarrow> bool" where
  "commits c f attempt \<longleftrightarrow>
     fr_model_invocation_id f = at_attempt_id c \<and> fr_work_next f = da_work attempt \<and>
     da_model_invocation_id attempt = at_attempt_id c \<and> da_attempt_no attempt = at_attempt_no c"

fun settles :: "AttemptContext \<Rightarrow> PhysicalAttemptResult \<Rightarrow> (FinishModelInvocationRequest \<times> bool) list \<Rightarrow> bool" where
  "settles c (Infrastructure _) fs \<longleftrightarrow> list_all (\<lambda>(_, ok). \<not> ok) fs"
| "settles c (AttemptCompleted response attempt) fs \<longleftrightarrow>
     (\<exists>f. fs = [(f, True)] \<and> commits c f attempt \<and>
          mo_state (fr_outcome f) = ModelInvocationState.Completed)"
| "settles c (AttemptFailed error semantic draft attempt) fs \<longleftrightarrow>
     (\<exists>f. fs = [(f, True)] \<and> commits c f attempt \<and> \<not> error_ambiguous error \<and>
          mo_state (fr_outcome f) =
            (if cancelled_unsent error then ModelInvocationState.CancelledLocally
             else ModelInvocationState.Failed) \<and>
          mo_provider_error_kind (fr_outcome f) = Some (pe_kind error) \<and>
          (\<not> semantic \<longrightarrow> mo_provider_outcome_certainty (fr_outcome f) = pe_certainty error) \<and>
          (\<not> cancelled_unsent error \<longrightarrow>
             work_after (at_work c) (ResumeFromModel (at_attempt_id c)) = Inr (fr_work_next f)))"
| "settles c (AttemptInterrupted kind attempt) fs \<longleftrightarrow>
     (\<exists>f. fs = [(f, True)] \<and> commits c f attempt \<and> mo_billing_ambiguity (fr_outcome f) \<and>
          mo_state (fr_outcome f) = ModelInvocationState.ProviderOutcomeUnknown \<and>
          wl_state (da_work attempt) = WorkState.Interrupted)"

lemma work_after_state:
  "work_after work request = Inr next_work \<Longrightarrow> wl_state next_work = target_state request"
  by (auto simp: work_after_def decide_work_transition_def result_iffs Let_def split: if_splits)

lemma resumed_waiting:
  "work_after work (ResumeFromModel attempt_id) = Inr next_work \<Longrightarrow> wl_state work \<noteq> WorkState.CancelRequested"
  by (auto simp: work_after_def decide_work_transition_def result_iffs Let_def split: if_splits)

lemma finish_failed_ensures:
  "ensures (finish_failed_attempt env c error ev)
     (\<lambda>r calls. begins calls = [] \<and> received calls = [] \<and> \<not> exposed calls \<and> settles c r (finishes calls) \<and>
       (case r of AttemptCompleted _ _ \<Rightarrow> False
        | AttemptFailed error' semantic draft _ \<Rightarrow>
            error' = error \<and> semantic = av_semantic_output_observed ev \<and> draft = av_draft_exposed ev
        | _ \<Rightarrow> True))"
  unfolding finish_failed_attempt_def
  by (intro ensures_rules)
     (auto dest!: silentD dest: work_after_state resumed_waiting simp: commits_def durable_attempt_def
       finish_request_def failed_outcome_def Let_def terminal_transition_def split: if_splits)

definition attempt_failure :: "AttemptContext \<Rightarrow> ProviderError \<Rightarrow> bool \<Rightarrow> bool \<Rightarrow> PhysicalAttemptResult \<Rightarrow> GatewayCall list \<Rightarrow> bool" where
  "attempt_failure c error semantic draft r calls \<longleftrightarrow>
     begins calls = [] \<and> received calls = [] \<and> \<not> exposed calls \<and> settles c r (finishes calls) \<and>
     (case r of AttemptCompleted _ _ \<Rightarrow> False
      | AttemptFailed error' semantic' draft' _ \<Rightarrow> error' = error \<and> semantic' = semantic \<and> draft' = draft
      | _ \<Rightarrow> True)"

lemma ensures_finish_failed [ensures_rules]:
  assumes "\<And>r calls. attempt_failure c error (av_semantic_output_observed ev) (av_draft_exposed ev) r calls \<Longrightarrow> Q r calls"
  shows "ensures (finish_failed_attempt env c error ev) Q"
  by (rule ensures_weaken [OF finish_failed_ensures]) (rule assms, simp add: attempt_failure_def)

lemma ensures_finish_provider_error [ensures_rules]:
  assumes "\<And>r calls. attempt_failure c error (av_semantic_output_observed ev) (av_draft_exposed ev) r calls \<Longrightarrow> Q r calls"
  shows "ensures (finish_provider_error env c error ev) Q"
  unfolding finish_provider_error_def by (rule ensures_finish_failed) (simp add: assms)

definition attempt_completion :: "AttemptContext \<Rightarrow> ModelResponse \<Rightarrow> PhysicalAttemptResult \<Rightarrow> GatewayCall list \<Rightarrow> bool" where
  "attempt_completion c response r calls \<longleftrightarrow>
     begins calls = [] \<and> received calls = [] \<and> \<not> exposed calls \<and> settles c r (finishes calls) \<and>
     (case r of AttemptCompleted response' _ \<Rightarrow> response' = response | AttemptFailed _ _ _ _ \<Rightarrow> False | _ \<Rightarrow> True)"

lemma unknown_never_failed:
  assumes "attempt_failure c (provider_error_new ProviderErrorKind.ProviderOutcomeUnknown
      ProviderOutcomeCertainty.ProviderOutcomeUnknown) semantic draft r calls"
  shows "attempt_completion c response r calls"
  using assms
  by (cases r) (auto simp: attempt_failure_def attempt_completion_def error_ambiguous_def provider_error_new_def)

lemma attempt_silent [simp]:
  "silent calls \<Longrightarrow> attempt_completion c response r (calls @ calls') = attempt_completion c response r calls'"
  "silent calls \<Longrightarrow> attempt_completion c response r (calls' @ calls) = attempt_completion c response r calls'"
  "attempt_completion (c\<lparr>at_work := work\<rparr>) response r calls = attempt_completion c response r calls"
  by (cases r; auto dest!: silentD simp: attempt_completion_def commits_def)+

lemma finish_completed_ensures:
  "ensures (finish_completed_attempt env c response ev) (attempt_completion c response)"
  unfolding finish_completed_attempt_def
  apply (intro ensures_rules)
  subgoal by (auto dest!: silentD simp: attempt_completion_def)
  subgoal by (simp, drule unknown_never_failed, simp)
  apply (auto dest!: silentD simp: attempt_completion_def commits_def durable_attempt_def finish_request_def
      completed_outcome_def Let_def)
  done

lemma ensures_finish_completed [ensures_rules]:
  "(\<And>r calls. attempt_completion c response r calls \<Longrightarrow> Q r calls) \<Longrightarrow>
     ensures (finish_completed_attempt env c response ev) Q"
  by (rule ensures_weaken [OF finish_completed_ensures])

subsection \<open>The event loop\<close>

definition output_free :: "ModelStreamEvent list \<Rightarrow> bool" where
  "output_free es \<longleftrightarrow> list_all (\<lambda>e. \<not> event_is_semantic_output e) es"

lemma output_free_append [simp]: "output_free (es @ fs) \<longleftrightarrow> output_free es \<and> output_free fs"
  by (simp add: output_free_def)

lemma output_free_simps [simp]:
  "output_free []" "output_free (e # es) \<longleftrightarrow> \<not> event_is_semantic_output e \<and> output_free es"
  by (simp_all add: output_free_def)

definition loop_wf :: "StreamLoop \<Rightarrow> bool" where
  "loop_wf st \<longleftrightarrow>
     (ca_semantic_output_observed (sl_accumulator st) \<longleftrightarrow> \<not> output_free (ca_events (sl_accumulator st)))"

text \<open>What the rest of an attempt guarantees, given the events and drafts of the loop so far.\<close>

definition stream_result ::
  "AttemptContext \<Rightarrow> ModelStreamEvent list \<Rightarrow> bool \<Rightarrow> PhysicalAttemptResult \<Rightarrow> GatewayCall list \<Rightarrow> bool" where
  "stream_result c events drafted r calls \<longleftrightarrow>
     begins calls = [] \<and> settles c r (finishes calls) \<and>
     (case r of
        AttemptCompleted response _ \<Rightarrow>
          validate_model_stream (events @ received calls) = Inr ModelStreamState.Completed \<and>
          last (events @ received calls) = StreamCompleted response
      | AttemptFailed error semantic draft _ \<Rightarrow>
          (transient_before_output (pe_kind error) \<and> \<not> semantic \<longrightarrow> output_free (events @ received calls)) \<and>
          (\<not> draft \<longrightarrow> \<not> drafted \<and> \<not> exposed calls)
      | _ \<Rightarrow> True)"

lemma failure_result:
  assumes "attempt_failure c error semantic draft r calls"
    and "begins pre = []" "finishes pre = []"
    and "transient_before_output (pe_kind error) \<Longrightarrow> \<not> semantic \<Longrightarrow> output_free (events @ received pre)"
    and "\<not> draft \<Longrightarrow> \<not> drafted \<and> \<not> exposed pre"
  shows "stream_result c events drafted r (pre @ calls)"
  using assms by (cases r) (auto simp: attempt_failure_def stream_result_def)

lemma completion_result:
  assumes "attempt_completion c response r calls"
    and "begins pre = []" "finishes pre = []"
    and "validate_model_stream (events @ received pre) = Inr ModelStreamState.Completed"
    and "last (events @ received pre) = StreamCompleted response"
  shows "stream_result c events drafted r (pre @ calls)"
  using assms by (cases r) (auto simp: attempt_completion_def stream_result_def)

lemma stream_result_append [simp]:
  "begins pre = [] \<Longrightarrow> finishes pre = [] \<Longrightarrow>
     stream_result c events drafted r (pre @ calls) \<longleftrightarrow>
     stream_result c (events @ received pre) (drafted \<or> exposed pre) r calls"
  by (cases r) (auto simp: stream_result_def)

lemma stream_result_Cons [simp]:
  "begins [x] = [] \<Longrightarrow> finishes [x] = [] \<Longrightarrow>
     stream_result c events drafted r (x # calls) \<longleftrightarrow>
     stream_result c (events @ received [x]) (drafted \<or> exposed [x]) r calls"
  using stream_result_append [of "[x]"] by simp

lemma infrastructure_result:
  "begins pre = [] \<Longrightarrow> finishes pre = [] \<Longrightarrow> stream_result c events drafted (Infrastructure e) pre"
  by (simp add: stream_result_def)

lemma ensures_mark_first_byte [ensures_rules]:
  assumes "\<And>e calls. silent calls \<Longrightarrow> Q (Inl e) calls"
    and "\<And>st' calls. silent calls \<Longrightarrow> sl_accumulator st' = sl_accumulator st \<Longrightarrow>
           sl_draft_exposed st' = sl_draft_exposed st \<Longrightarrow> Q (Inr st') calls"
  shows "ensures (mark_first_byte env c st event observed_at) Q"
  unfolding mark_first_byte_def by (intro ensures_rules) (auto intro!: assms)

lemma ensures_offer_draft [ensures_rules]:
  assumes "\<And>st' calls. begins calls = [] \<Longrightarrow> finishes calls = [] \<Longrightarrow> received calls = [] \<Longrightarrow>
      sl_accumulator st' = sl_accumulator st \<Longrightarrow>
      sl_draft_exposed st' = (sl_draft_exposed st \<or> exposed calls) \<Longrightarrow> Q st' calls"
  shows "ensures (offer_draft env c st event) Q"
  unfolding offer_draft_def by (intro ensures_rules) (auto intro!: assms)

lemma ensures_await_close [ensures_rules]:
  assumes "\<And>r calls. begins calls = [] \<Longrightarrow> finishes calls = [] \<Longrightarrow> \<not> exposed calls \<Longrightarrow>
      (r = Some (Inr None) \<Longrightarrow> received calls = []) \<Longrightarrow>
      received calls = (case r of Some (Inr (Some e)) \<Rightarrow> [e] | _ \<Rightarrow> []) \<Longrightarrow> Q r calls"
  shows "ensures (await_close env l c) Q"
  unfolding await_close_def
  by (intro ensures_rules) (auto dest!: silentD intro!: assms split: sum.splits option.splits)

lemma accumulator_finish_completed:
  assumes "accumulator_finish a = Inr (TerminalCompleted response)"
  shows "validate_model_stream (ca_events a) = Inr ModelStreamState.Completed"
    "last (ca_events a) = StreamCompleted response"
  using assms
  by (auto simp: accumulator_finish_def result_iffs split: if_splits ModelStreamEvent.splits)

lemma contract_error_not_transient [simp]: "\<not> transient_before_output (contract_error_kind kind)"
  by (cases kind) simp_all

lemma stream_evidence_fields [simp]:
  "av_semantic_output_observed (stream_evidence st) = ca_semantic_output_observed (sl_accumulator st)"
  "av_draft_exposed (stream_evidence st) = sl_draft_exposed st"
  by (simp_all add: stream_evidence_def Let_def)

lemma provider_error_new_fields [simp]:
  "pe_kind (provider_error_new kind outcome) = kind"
  "pe_certainty (provider_error_new kind outcome) = outcome"
  by (simp_all add: provider_error_new_def)

abbreviation loop_result :: "AttemptContext \<Rightarrow> StreamLoop \<Rightarrow> PhysicalAttemptResult \<Rightarrow> GatewayCall list \<Rightarrow> bool" where
  "loop_result c st \<equiv> stream_result c (ca_events (sl_accumulator st)) (sl_draft_exposed st)"

lemma stream_failed_ensures: "loop_wf st \<Longrightarrow> ensures (stream_failed env c st error) (loop_result c st)"
  by (intro ensures_rules) (drule failure_result [where pre = "[]"], auto simp: loop_wf_def)

lemma stream_failed_permanent:
  "\<not> transient_before_output (pe_kind error) \<Longrightarrow>
     ensures (stream_failed env c st error) (stream_result c events (sl_draft_exposed st))"
  by (intro ensures_rules) (drule failure_result [where pre = "[]"], auto)

lemma finish_stream_ensures:
  assumes wf: "loop_wf st"
  shows "ensures (finish_stream env c st observed_at) (loop_result c st)"
proof (cases "accumulator_finish (sl_accumulator st)")
  case (Inl kind)
  then show ?thesis by (simp add: finish_stream_def stream_failed_ensures [OF wf])
next
  case (Inr terminal)
  show ?thesis
  proof (cases terminal)
    case (TerminalCompleted response)
    note finished = accumulator_finish_completed [OF Inr [unfolded TerminalCompleted]]
    have "ensures (finish_completed_attempt env c response ev) (loop_result c st)" for ev
      by (rule ensures_finish_completed) (rule completion_result [where pre = "[]", simplified], simp_all add: finished)
    then show ?thesis by (simp add: finish_stream_def Inr TerminalCompleted)
  next
    case (TerminalProviderError kind)
    then show ?thesis by (simp add: finish_stream_def Inr stream_failed_ensures [OF wf])
  qed
qed

lemma close_stream_ensures:
  assumes wf: "loop_wf st"
  shows "ensures (close_stream env l c st observed_at) (loop_result c st)"
  unfolding close_stream_def
  by (rule ensures_bind, rule ensures_await_close)
     (auto intro!: stream_failed_ensures [OF wf] finish_stream_ensures [OF wf] stream_failed_permanent
       split: option.splits sum.splits)

lemma ensures_close_stream [ensures_rules]:
  "loop_wf st \<Longrightarrow> (\<And>r calls. loop_result c st r calls \<Longrightarrow> Q r calls) \<Longrightarrow>
     ensures (close_stream env l c st observed_at) Q"
  by (rule ensures_weaken [OF close_stream_ensures])

definition received_post ::
  "AttemptContext \<Rightarrow> StreamLoop \<Rightarrow> ModelStreamEvent \<Rightarrow> PhysicalAttemptResult + StreamLoop \<Rightarrow>
     GatewayCall list \<Rightarrow> bool" where
  "received_post c st event x calls \<longleftrightarrow>
     (case x of
        Inl r \<Rightarrow> stream_result c (ca_events (sl_accumulator st) @ [event]) (sl_draft_exposed st) r calls
      | Inr st' \<Rightarrow>
          begins calls = [] \<and> finishes calls = [] \<and> received calls = [] \<and>
          ca_events (sl_accumulator st') = ca_events (sl_accumulator st) @ [event] \<and>
          length (ca_events (sl_accumulator st)) < MAX_STREAM_EVENTS \<and> loop_wf st' \<and>
          sl_draft_exposed st' = (sl_draft_exposed st \<or> exposed calls))"

lemma first_output_fields [simp]:
  "sl_accumulator (if b then st\<lparr>sl_first_output_at := x\<rparr> else st) = sl_accumulator st"
  "sl_draft_exposed (if b then st\<lparr>sl_first_output_at := x\<rparr> else st) = sl_draft_exposed st"
  by simp_all

lemma loop_wf_accepted:
  assumes "loop_wf st" "sl_accumulator st' = sl_accumulator st"
    and "(None, a) = accumulator_observe l (sl_accumulator st) event"
  shows "loop_wf (st'\<lparr>sl_accumulator := a\<rparr>)"
  using assms accumulator_observe_accepted [OF assms(3) [symmetric]] by (auto simp: loop_wf_def)

lemma contract_failure_result:
  "attempt_failure c (provider_error_new (contract_error_kind kind) outcome) semantic draft r calls \<Longrightarrow>
     stream_result c events draft r calls"
  by (drule failure_result [where pre = "[]"]) auto

lemma receive_event_ensures:
  assumes wf: "loop_wf st"
  shows "ensures (receive_event env l c st event) (received_post c st event)"
  unfolding receive_event_def
  by (intro ensures_rules)
     (auto dest!: silentD simp: received_post_def infrastructure_result loop_wf_accepted [OF wf]
       dest: accumulator_observe_accepted [OF sym] intro: contract_failure_result)

lemma ensures_receive_event [ensures_rules]:
  "loop_wf st \<Longrightarrow> (\<And>x calls. received_post c st event x calls \<Longrightarrow> Q x calls) \<Longrightarrow>
     ensures (receive_event env l c st event) Q"
  by (rule ensures_weaken [OF receive_event_ensures])

definition iteration_post ::
  "AttemptContext \<Rightarrow> StreamLoop \<Rightarrow> PhysicalAttemptResult + StreamLoop \<Rightarrow> GatewayCall list \<Rightarrow> bool" where
  "iteration_post c st x calls \<longleftrightarrow>
     (case x of
        Inl r \<Rightarrow> loop_result c st r calls
      | Inr st' \<Rightarrow>
          begins calls = [] \<and> finishes calls = [] \<and>
          ca_events (sl_accumulator st') = ca_events (sl_accumulator st) @ received calls \<and>
          length (ca_events (sl_accumulator st)) < MAX_STREAM_EVENTS \<and> received calls \<noteq> [] \<and>
          loop_wf st' \<and> sl_draft_exposed st' = (sl_draft_exposed st \<or> exposed calls))"

lemma failure_loop_result:
  "attempt_failure c error (ca_semantic_output_observed (sl_accumulator st)) (sl_draft_exposed st) r calls \<Longrightarrow>
     loop_wf st \<Longrightarrow> loop_result c st r calls"
  by (drule failure_result [where pre = "[]"]) (auto simp: loop_wf_def)

lemma stream_iteration_ensures:
  assumes wf: "loop_wf st"
  shows "ensures (stream_iteration env l c st) (iteration_post c st)"
  unfolding stream_iteration_def Let_def
  by (intro ensures_rules wf)
     (auto dest!: silentD simp: iteration_post_def received_post_def
       intro: failure_loop_result [OF _ wf] split: sum.splits)

subsection \<open>The loop ends\<close>

lemma ensures_terminal [ensures_rules]:
  "(\<And>r. x = TerminalCompleted r \<Longrightarrow> ensures (f r) Q) \<Longrightarrow> (\<And>k. x = TerminalProviderError k \<Longrightarrow> ensures (g k) Q) \<Longrightarrow>
   ensures (case x of TerminalCompleted r \<Rightarrow> f r | TerminalProviderError k \<Rightarrow> g k) Q"
  by (cases x) simp_all

definition makes_progress :: "StreamLoop \<Rightarrow> PhysicalAttemptResult + StreamLoop \<Rightarrow> bool" where
  "makes_progress st x \<longleftrightarrow>
     (case x of Inl _ \<Rightarrow> True
      | Inr st' \<Rightarrow> length (ca_events (sl_accumulator st)) < MAX_STREAM_EVENTS \<and>
          length (ca_events (sl_accumulator st')) = Suc (length (ca_events (sl_accumulator st))))"

lemma receive_event_progress: "ensures (receive_event env l c st event) (\<lambda>x _. makes_progress st x)"
proof -
  have close: "ensures (close_stream env l c st' observed_at) (\<lambda>_ _. True)" for st' observed_at
    unfolding close_stream_def finish_stream_def by (intro ensures_rules TrueI)
  show ?thesis
    unfolding receive_event_def
    by (intro ensures_bind ensures_wall_now ensures_sum ensures_return ensures_mark_first_byte ensures_let
          ensures_offer_draft ensures_prod ensures_option ensures_if ensures_finish_provider_error
          ensures_weaken [OF close])
       (auto simp: makes_progress_def dest: accumulator_observe_accepted [OF sym])
qed

lemma stream_iteration_progress: "ensures (stream_iteration env l c st) (\<lambda>x _. makes_progress st x)"
  unfolding stream_iteration_def Let_def
  by (intro ensures_bind ensures_remaining_duration ensures_if ensures_tell ensures_ask ensures_selected
        ensures_sum ensures_option ensures_return ensures_finish_provider_error
        ensures_weaken [OF receive_event_progress])
     (auto simp: makes_progress_def)

function stream_loop ::
  "gateway_env \<Rightarrow> ModelGatewayLimits \<Rightarrow> AttemptContext \<Rightarrow> StreamLoop \<Rightarrow> PhysicalAttemptResult gateway" where
  "stream_loop env l c st = do {
     step \<leftarrow> stream_iteration env l c st;
     case step of
       Inl result \<Rightarrow> State_Monad.return result
     | Inr st' \<Rightarrow> stream_loop env l c st'
   }"
  by pat_completeness auto

termination
proof (relation "measure (\<lambda>(_, _, _, st). MAX_STREAM_EVENTS - length (ca_events (sl_accumulator st)))")
  fix env l c st history step history' st'
  assume "run_state (stream_iteration env l c st) history = (step, history')" and "step = Inr st'"
  then have "makes_progress st (Inr st')"
    using ensures_run [OF stream_iteration_progress] by blast
  then show "((env, l, c, st'), env, l, c, st) \<in>
      measure (\<lambda>(_, _, _, st). MAX_STREAM_EVENTS - length (ca_events (sl_accumulator st)))"
    by (simp add: makes_progress_def diff_less_mono2)
qed simp

declare stream_loop.simps [simp del]

lemma stream_loop_ensures:
  "loop_wf st \<Longrightarrow> ensures (stream_loop env l c st) (loop_result c st)"
proof (induction env l c st rule: stream_loop.induct)
  case (1 env l c st)
  show ?case
    unfolding stream_loop.simps [of env l c st]
  proof (rule ensures_bind_run [OF stream_iteration_ensures [OF 1(2)]])
    fix h step calls
    assume run: "run_state (stream_iteration env l c st) h = (step, h @ calls)"
      and post: "iteration_post c st step calls"
    show "ensures (case step of Inl result \<Rightarrow> State_Monad.return result | Inr st' \<Rightarrow> stream_loop env l c st')
        (\<lambda>r calls'. loop_result c st r (calls @ calls'))"
    proof (cases step)
      case (Inl result)
      with post show ?thesis by (simp add: iteration_post_def ensures_return)
    next
      case (Inr st')
      with post have "loop_wf st'" by (simp add: iteration_post_def)
      from 1(1) [OF run Inr this] show ?thesis
        using post by (auto simp: Inr iteration_post_def elim!: ensures_weaken)
    qed
  qed
qed

end
