(* ===== verification/Gateway_Invoke.thy ===== *)
theory Gateway_Invoke
  imports Gateway_Attempt
begin

text \<open>
  The model gateway of application/model_gateway.rs, continued: one physical attempt from its deadline to
  its result, the commit of an attempt's intent, and the retry loop of \<open>invoke\<close>, with what each returns and
  which calls it makes in every environment.
\<close>

section \<open>One physical attempt\<close>

definition stream_start :: "JournalEventId \<Rightarrow> StreamLoop" where
  "stream_start started_event =
     \<lparr>sl_accumulator = accumulator_new, sl_model_state = ModelInvocationState.Requesting,
      sl_last_attempt_event = started_event, sl_first_byte_at = None, sl_first_output_at = None,
      sl_draft_exposed = False\<rparr>"

definition attempt_deadline :: "GatewayInvocation \<Rightarrow> nat \<Rightarrow> nat" where
  "attempt_deadline invocation local_deadline =
     (let fixed = min (gi_work_deadline invocation) local_deadline in
      case gi_shutdown_deadline invocation of None \<Rightarrow> fixed | Some shutdown \<Rightarrow> min shutdown fixed)"

definition run_physical_attempt ::
  "gateway_env \<Rightarrow> ModelGatewayLimits \<Rightarrow> GatewayInvocation \<Rightarrow> WorkLifecycleSnapshot \<Rightarrow> nat \<Rightarrow>
     ModelInvocationId \<Rightarrow> JournalEventId \<Rightarrow> JournalEventId \<Rightarrow> PhysicalAttemptResult gateway" where
  "run_physical_attempt env l invocation work attempt_no attempt_id started_event waiting_event = do {
     started \<leftarrow> ask (ge_monotonic_now env) ReadMonotonic;
     case instant_checked_add started (gl_provider_invocation_limit l) of
       None \<Rightarrow> State_Monad.return (Infrastructure Clock)
     | Some local_deadline \<Rightarrow> do {
         let c = \<lparr>at_invocation = invocation, at_work = work, at_attempt_id = attempt_id,
                  at_attempt_no = attempt_no, at_deadline = attempt_deadline invocation local_deadline\<rparr>;
         case invocation_control_try_new (at_deadline c) (gl_stream_idle_limit l) of
           Inl _ \<Rightarrow> State_Monad.return (Infrastructure InvalidComposition)
         | Inr (deadline, idle) \<Rightarrow> do {
             let ev = before_stream waiting_event;
             remaining \<leftarrow> remaining_duration env (at_deadline c);
             if remaining = 0
             then finish_failed_attempt env c
                    (provider_error_new ProviderErrorKind.TimeoutBeforeOutput
                       ProviderOutcomeCertainty.DefinitelyNotSent) ev
             else do {
               cancelled \<leftarrow> ask (ge_cancelled env) ReadCancellation;
               if cancelled
               then do {
                 _ \<leftarrow> tell CancelProvider;
                 finish_failed_attempt env c
                   (provider_error_new ProviderErrorKind.Cancelled
                      ProviderOutcomeCertainty.DefinitelyNotSent) ev
               }
               else do {
                 opened \<leftarrow> ask (ge_invoke_stream env remaining)
                   (CallInvokeStream (gi_request invocation) attempt_no deadline idle remaining);
                 case opened of
                   CancellationFirst \<Rightarrow> do {
                     _ \<leftarrow> tell CancelProvider;
                     finish_failed_attempt env c
                       (provider_error_new ProviderErrorKind.Cancelled
                          ProviderOutcomeCertainty.ProviderOutcomeUnknown) ev
                   }
                 | TimerFirst \<Rightarrow> do {
                     _ \<leftarrow> tell CancelProvider;
                     finish_failed_attempt env c
                       (provider_error_new ProviderErrorKind.TimeoutBeforeOutput
                          ProviderOutcomeCertainty.ProviderOutcomeUnknown) ev
                   }
                 | Ready (Inl error) \<Rightarrow> finish_provider_error env c error ev
                 | Ready (Inr _) \<Rightarrow> do {
                     _ \<leftarrow> ask (ge_generate env) Generate;
                     stream_loop env l c (stream_start started_event)
                   }
               }
             }
           }
       }
   }"

text \<open>The same guarantees, for the whole attempt.\<close>

definition attempt_post ::
  "WorkLifecycleSnapshot \<Rightarrow> ModelInvocationId \<Rightarrow> PhysicalAttemptResult \<Rightarrow> GatewayCall list \<Rightarrow> bool" where
  "attempt_post work attempt_id r calls \<longleftrightarrow>
     (\<exists>c. at_work c = work \<and> at_attempt_id c = attempt_id \<and> stream_result c [] False r calls)"

lemma ensures_stream_loop [ensures_rules]:
  "loop_wf st \<Longrightarrow> (\<And>r calls. loop_result c st r calls \<Longrightarrow> Q r calls) \<Longrightarrow> ensures (stream_loop env l c st) Q"
  by (rule ensures_weaken [OF stream_loop_ensures])

lemma before_stream_result:
  "attempt_failure c error (av_semantic_output_observed (before_stream e)) (av_draft_exposed (before_stream e)) r calls \<Longrightarrow>
     stream_result c [] False r calls"
  by (drule failure_result [where pre = "[]"]) (auto simp: before_stream_def)

lemma loop_wf_start [simp]: "loop_wf (stream_start e)"
  by (simp add: loop_wf_def stream_start_def accumulator_new_def)

lemma stream_start_fields [simp]:
  "ca_events (sl_accumulator (stream_start e)) = []" "\<not> sl_draft_exposed (stream_start e)"
  by (simp_all add: stream_start_def accumulator_new_def)

lemma attempt_postI:
  "stream_result c [] False r calls \<Longrightarrow> at_work c = work \<Longrightarrow> at_attempt_id c = attempt_id \<Longrightarrow>
     attempt_post work attempt_id r calls"
  by (auto simp: attempt_post_def)

lemma attempt_post_infrastructure [simp]:
  "begins calls = [] \<Longrightarrow> finishes calls = [] \<Longrightarrow> attempt_post work attempt_id (Infrastructure e) calls"
  unfolding attempt_post_def
  by (rule exI [of _ "undefined\<lparr>at_work := work, at_attempt_id := attempt_id\<rparr>"])
     (simp add: infrastructure_result)

lemma attempt_post_silent [simp]:
  "silent pre \<Longrightarrow> attempt_post work attempt_id r (pre @ calls) = attempt_post work attempt_id r calls"
  "silent [x] \<Longrightarrow> attempt_post work attempt_id r (x # calls) = attempt_post work attempt_id r calls"
  using stream_result_append [of "[x]"] by (auto simp: attempt_post_def dest!: silentD)

lemma run_physical_attempt_ensures:
  "ensures (run_physical_attempt env l invocation work attempt_no attempt_id started_event waiting_event)
     (attempt_post work attempt_id)"
  unfolding run_physical_attempt_def
  by (intro ensures_rules loop_wf_start)
     (auto intro: attempt_postI attempt_postI [OF before_stream_result])

lemma ensures_run_physical_attempt [ensures_rules]:
  "(\<And>r calls. attempt_post work attempt_id r calls \<Longrightarrow> Q r calls) \<Longrightarrow>
     ensures (run_physical_attempt env l invocation work attempt_no attempt_id started_event waiting_event) Q"
  by (rule ensures_weaken [OF run_physical_attempt_ensures])

section \<open>The retry loop\<close>

record InvokeState =
  iv_work :: WorkLifecycleSnapshot
  iv_attempt_no :: nat
  iv_retry_of :: "ModelInvocationId option"
  iv_retry_evidence :: "ProviderRetryEvidence option"
  iv_preceding_event :: JournalEventId

definition u32_saturating_add :: "nat \<Rightarrow> nat \<Rightarrow> nat" where
  "u32_saturating_add a b = min (a + b) (2 ^ 32 - 1)"

definition validate_invocation ::
  "gateway_env \<Rightarrow> ModelGatewayLimits \<Rightarrow> GatewayInvocation \<Rightarrow> ModelGatewayError + unit" where
  "validate_invocation env l invocation =
     (let target = sr_selected_target (gi_selection invocation) in
      and_then (ok_or (ge_capabilities env target) InvalidInvocation) (\<lambda>capabilities.
      if wl_state (gi_work invocation) \<noteq> WorkState.Running \<or> wl_owner (gi_work invocation) = None \<or>
         wl_attempt (gi_work invocation) \<noteq> AttemptNone \<or>
         mr_target (gi_request invocation) \<noteq> target \<or>
         gi_package_selection invocation \<noteq> gi_selection invocation \<or>
         ge_provider_id env \<noteq> pm_provider_id (mt_reference target) \<or>
         capabilities \<noteq> pm_capabilities (mt_reference target) \<or>
         gi_work_attempts_before_invocation invocation \<ge> gl_attempts_per_work l
      then Inl InvalidInvocation else Inr ()))"

text \<open>Committing the intent of an attempt before any provider call: the new attempt's id, its two events and the waiting work.\<close>

definition begin_request ::
  "gateway_env \<Rightarrow> GatewayInvocation \<Rightarrow> InvokeState \<Rightarrow> RuntimeInstanceId \<Rightarrow> AttemptNo \<Rightarrow> ModelInvocationId \<Rightarrow>
     int \<Rightarrow> WorkLifecycleSnapshot \<Rightarrow> JournalEventId \<Rightarrow> JournalEventId \<Rightarrow> BeginModelInvocationRequest" where
  "begin_request env invocation st runtime_id attempt_no attempt_id started_at work_next started_event
       waiting_event =
     (let correlation = gi_correlation_id invocation in
      \<lparr>br_expected_work = work_expectation (iv_work st),
       br_attempt =
         \<lparr>ma_logical_invocation_id = gi_logical_invocation_id invocation,
          ma_model_invocation_id = attempt_id, ma_work_id = wl_work_id (iv_work st),
          ma_runtime_instance_id = runtime_id, ma_context_manifest_id = gi_context_manifest_id invocation,
          ma_agent_step_no = gi_agent_step invocation, ma_attempt_no = attempt_no,
          ma_provider_model = mt_reference (sr_selected_target (gi_selection invocation)),
          ma_retry_of = iv_retry_of st\<rparr>,
       br_selection_reason = sr_reason (gi_selection invocation),
       br_required_capabilities = sr_required_capabilities (gi_selection invocation),
       br_reasoning_continuation = gi_reasoning_continuation invocation,
       br_request_sha256 =
         me_hash_bytes (ge_model env) (request_bytes (ge_model env) (gi_request invocation)),
       br_retry_evidence = iv_retry_evidence st, br_started_at = started_at, br_work_next = work_next,
       br_invocation_event = \<lparr>ei_event_id = started_event, ei_correlation_id = correlation,
                              ei_causation_event_id = Some (iv_preceding_event st)\<rparr>,
       br_work_event = \<lparr>ei_event_id = waiting_event, ei_correlation_id = correlation,
                        ei_causation_event_id = Some started_event\<rparr>\<rparr>)"

definition begin_attempt ::
  "gateway_env \<Rightarrow> GatewayInvocation \<Rightarrow> InvokeState \<Rightarrow>
     (ModelGatewayError + ModelInvocationId \<times> JournalEventId \<times> JournalEventId \<times> WorkLifecycleSnapshot) gateway" where
  "begin_attempt env invocation st = do {
     u \<leftarrow> ask (ge_generate env) Generate;
     let attempt_id = ModelInvocationId u;
     now \<leftarrow> wall_now env;
     case now of
       Inl e \<Rightarrow> State_Monad.return (Inl e)
     | Inr started_at \<Rightarrow>
         (case wl_owner (iv_work st) of
            None \<Rightarrow> State_Monad.return (Inl InvalidInvocation)
          | Some runtime_id \<Rightarrow>
              (case work_after (iv_work st) (WaitForModel attempt_id) of
                 Inl e \<Rightarrow> State_Monad.return (Inl e)
               | Inr work_next \<Rightarrow> do {
                   started_event \<leftarrow> generate_event env;
                   waiting_event \<leftarrow> generate_event env;
                   case pi_try_new (int (iv_attempt_no st)) of
                     Inl _ \<Rightarrow> State_Monad.return (Inl InvalidInvocation)
                   | Inr attempt_no \<Rightarrow> do {
                       let request = begin_request env invocation st runtime_id attempt_no attempt_id
                                       started_at work_next started_event waiting_event;
                       committed \<leftarrow> ask (ge_begin env request) (CallBegin request);
                       State_Monad.return
                         (if committed then Inr (attempt_id, started_event, waiting_event, work_next)
                          else Inl StateStore)
                     }
                 }))
   }"

text \<open>After a definite failure: either the outcome of the invocation or the state of the next attempt.\<close>

definition retry_or_fail ::
  "gateway_env \<Rightarrow> ModelGatewayLimits \<Rightarrow> GatewayInvocation \<Rightarrow> InvokeState \<Rightarrow> ProviderError \<Rightarrow> bool \<Rightarrow> bool \<Rightarrow>
     DurableModelAttempt \<Rightarrow> ((ModelGatewayError + DurableModelOutcome) + InvokeState) gateway" where
  "retry_or_fail env l invocation st error semantic draft_exposed attempt = do {
     cancelled \<leftarrow> ask (ge_cancelled env) ReadCancellation;
     now \<leftarrow> ask (ge_monotonic_now env) ReadMonotonic;
     let decision = classify_provider_retry error semantic (iv_attempt_no st) cancelled
                      (now \<ge> gi_work_deadline invocation);
     let cap_reached = (iv_attempt_no st \<ge> gl_attempts_per_logical_invocation l \<or>
           u32_saturating_add (gi_work_attempts_before_invocation invocation) (iv_attempt_no st) \<ge>
             gl_attempts_per_work l);
     let transient = (transient_before_output (pe_kind error) \<and> retryable_certainty (pe_certainty error) \<and>
           \<not> semantic);
     if \<not> rd_retryable decision \<or> draft_exposed \<or> cap_reached
     then do {
       _ \<leftarrow> (if draft_exposed
             then tell (CallAbandon (da_model_invocation_id attempt)
                    (if pe_kind error = ProviderErrorKind.Cancelled then DraftAbandonCause.Cancelled
                     else DraftAbandonCause.Failed))
             else State_Monad.return ());
       State_Monad.return
         (Inl (Inr (OutcomeFailed (pe_kind error) semantic (transient \<and> cap_reached) attempt)))
     }
     else do {
       now \<leftarrow> ask (ge_monotonic_now env) ReadMonotonic;
       let remaining = checked_duration_since (gi_work_deadline invocation) now;
       jitter \<leftarrow> ask (ge_jitter env) LockJitter;
       case jitter of
         None \<Rightarrow> State_Monad.return (Inl (Inl InvalidComposition))
       | Some sample \<Rightarrow> do {
           cancelled \<leftarrow> ask (ge_cancelled env) ReadCancellation;
           case provider_backoff (iv_attempt_no st) (rd_provider_retry_after decision) sample cancelled
                  remaining of
             Delay delay \<Rightarrow> do {
               stopped \<leftarrow> (if delay = 0 then State_Monad.return False
                 else do {
                   left \<leftarrow> remaining_duration env (gi_work_deadline invocation);
                   ask (ge_sleep env (min delay left)) (Sleep (min delay left))
                 });
               if stopped
               then do {
                 cancelled \<leftarrow> ask (ge_cancelled env) ReadCancellation;
                 State_Monad.return (Inl (Inr
                   (if cancelled then CancelledBeforeAttempt (da_work attempt)
                    else DeadlineBeforeAttempt (da_work attempt))))
               }
               else State_Monad.return (Inr
                 \<lparr>iv_work = da_work attempt, iv_attempt_no = u32_saturating_add (iv_attempt_no st) 1,
                  iv_retry_of = Some (da_model_invocation_id attempt),
                  iv_retry_evidence = Some \<lparr>re_reason = rd_reason decision, re_delay = delay,
                                            re_provider_retry_after = rd_provider_retry_after decision\<rparr>,
                  iv_preceding_event = da_terminal_work_event_id attempt\<rparr>)
             }
           | _ \<Rightarrow> State_Monad.return (Inl (Inr (OutcomeFailed (pe_kind error) semantic True attempt)))
         }
     }
   }"

definition invoke_once ::
  "gateway_env \<Rightarrow> ModelGatewayLimits \<Rightarrow> GatewayInvocation \<Rightarrow> InvokeState \<Rightarrow>
     ((ModelGatewayError + DurableModelOutcome) + InvokeState) gateway" where
  "invoke_once env l invocation st =
     (if u32_saturating_add (gi_work_attempts_before_invocation invocation) (iv_attempt_no st) >
         gl_attempts_per_work l
      then State_Monad.return (Inl (Inl InvalidInvocation))
      else do {
        cancelled \<leftarrow> ask (ge_cancelled env) ReadCancellation;
        if cancelled then State_Monad.return (Inl (Inr (CancelledBeforeAttempt (iv_work st))))
        else do {
          now \<leftarrow> ask (ge_monotonic_now env) ReadMonotonic;
          if now \<ge> gi_work_deadline invocation
          then State_Monad.return (Inl (Inr (DeadlineBeforeAttempt (iv_work st))))
          else do {
            begun \<leftarrow> begin_attempt env invocation st;
            case begun of
              Inl e \<Rightarrow> State_Monad.return (Inl (Inl e))
            | Inr (attempt_id, started_event, waiting_event, work) \<Rightarrow>
                (case provider_attempt_try_new (iv_attempt_no st) of
                   Inl _ \<Rightarrow> State_Monad.return (Inl (Inl InvalidInvocation))
                 | Inr attempt_no \<Rightarrow> do {
                     result \<leftarrow> run_physical_attempt env l invocation work attempt_no attempt_id started_event
                                waiting_event;
                     case result of
                       AttemptCompleted response attempt \<Rightarrow>
                         State_Monad.return (Inl (Inr (OutcomeCompleted response attempt)))
                     | AttemptInterrupted kind attempt \<Rightarrow> do {
                         _ \<leftarrow> tell (CallAbandon (da_model_invocation_id attempt)
                                (if kind = ProviderErrorKind.Cancelled then DraftAbandonCause.Cancelled
                                 else DraftAbandonCause.Interrupted));
                         State_Monad.return (Inl (Inr (OutcomeInterrupted kind attempt)))
                       }
                     | AttemptFailed error semantic draft_exposed attempt \<Rightarrow>
                         if cancelled_unsent error
                         then do {
                           _ \<leftarrow> tell (CallAbandon (da_model_invocation_id attempt) DraftAbandonCause.Cancelled);
                           State_Monad.return (Inl (Inr (CancelledBeforeAttempt (da_work attempt))))
                         }
                         else retry_or_fail env l invocation st error semantic draft_exposed attempt
                     | Infrastructure e \<Rightarrow> do {
                         _ \<leftarrow> tell (CallAbandon attempt_id DraftAbandonCause.Interrupted);
                         State_Monad.return (Inl (Inl e))
                       }
                   })
          }
        }
      })"

subsection \<open>The retry loop ends\<close>

lemma ensures_attempt_result [ensures_rules]:
  "(\<And>a b. x = AttemptCompleted a b \<Longrightarrow> ensures (f a b) Q) \<Longrightarrow>
   (\<And>a b c d. x = AttemptFailed a b c d \<Longrightarrow> ensures (g a b c d) Q) \<Longrightarrow>
   (\<And>a b. x = AttemptInterrupted a b \<Longrightarrow> ensures (h a b) Q) \<Longrightarrow>
   (\<And>a. x = Infrastructure a \<Longrightarrow> ensures (k a) Q) \<Longrightarrow>
   ensures (case x of AttemptCompleted a b \<Rightarrow> f a b | AttemptFailed a b c d \<Rightarrow> g a b c d
            | AttemptInterrupted a b \<Rightarrow> h a b | Infrastructure a \<Rightarrow> k a) Q"
  by (cases x) simp_all

lemma ensures_backoff [ensures_rules]:
  "(\<And>d. x = Delay d \<Longrightarrow> ensures (f d) Q) \<Longrightarrow> (x = BackoffCancelled \<Longrightarrow> ensures m Q) \<Longrightarrow>
   (x = DeadlineInsufficient \<Longrightarrow> ensures n Q) \<Longrightarrow>
   ensures (case x of Delay d \<Rightarrow> f d | BackoffCancelled \<Rightarrow> m | DeadlineInsufficient \<Rightarrow> n) Q"
  by (cases x) simp_all

text \<open>What licenses the next attempt, and how its state follows from the failed one.\<close>

definition retry_licensed ::
  "ModelGatewayLimits \<Rightarrow> GatewayInvocation \<Rightarrow> InvokeState \<Rightarrow> ProviderError \<Rightarrow> bool \<Rightarrow> bool \<Rightarrow> bool" where
  "retry_licensed l invocation st error semantic draft_exposed \<longleftrightarrow>
     transient_before_output (pe_kind error) \<and> retryable_certainty (pe_certainty error) \<and>
     \<not> semantic \<and> \<not> draft_exposed \<and> iv_attempt_no st < MAX_PROVIDER_ATTEMPTS \<and>
     iv_attempt_no st < gl_attempts_per_logical_invocation l \<and>
     u32_saturating_add (gi_work_attempts_before_invocation invocation) (iv_attempt_no st) <
       gl_attempts_per_work l"

definition retry_post ::
  "ModelGatewayLimits \<Rightarrow> GatewayInvocation \<Rightarrow> InvokeState \<Rightarrow> ProviderError \<Rightarrow> bool \<Rightarrow> bool \<Rightarrow> DurableModelAttempt \<Rightarrow>
     (ModelGatewayError + DurableModelOutcome) + InvokeState \<Rightarrow> GatewayCall list \<Rightarrow> bool" where
  "retry_post l invocation st error semantic draft_exposed attempt x calls \<longleftrightarrow>
     silent calls \<and>
     (case x of
        Inl (Inl _) \<Rightarrow> True
      | Inl (Inr (OutcomeFailed kind semantic' _ attempt')) \<Rightarrow>
          kind = pe_kind error \<and> semantic' = semantic \<and> attempt' = attempt
      | Inl (Inr (CancelledBeforeAttempt work)) \<Rightarrow> work = da_work attempt
      | Inl (Inr (DeadlineBeforeAttempt work)) \<Rightarrow> work = da_work attempt
      | Inl (Inr _) \<Rightarrow> False
      | Inr st' \<Rightarrow>
          retry_licensed l invocation st error semantic draft_exposed \<and>
          iv_attempt_no st' = iv_attempt_no st + 1 \<and> iv_work st' = da_work attempt \<and>
          iv_retry_of st' = Some (da_model_invocation_id attempt) \<and>
          iv_preceding_event st' = da_terminal_work_event_id attempt)"

lemma retry_or_fail_ensures:
  "ensures (retry_or_fail env l invocation st error semantic draft_exposed attempt)
     (retry_post l invocation st error semantic draft_exposed attempt)"
  unfolding retry_or_fail_def
  by (intro ensures_rules)
     (auto simp: retry_post_def retry_licensed_def retryable_iff u32_saturating_add_def
       MAX_PROVIDER_ATTEMPTS_def dest: silentD)

lemma ensures_retry_or_fail [ensures_rules]:
  "(\<And>x calls. retry_post l invocation st error semantic draft_exposed attempt x calls \<Longrightarrow> Q x calls) \<Longrightarrow>
     ensures (retry_or_fail env l invocation st error semantic draft_exposed attempt) Q"
  by (rule ensures_weaken [OF retry_or_fail_ensures])

definition accepted :: "('r \<times> bool) list \<Rightarrow> 'r list" where
  "accepted answers = map fst (filter snd answers)"

lemma accepted_simps [simp]:
  "accepted [] = []" "accepted ((r, ok) # answers) = (if ok then r # accepted answers else accepted answers)"
  "accepted (xs @ ys) = accepted xs @ accepted ys"
  by (simp_all add: accepted_def)

lemma accepted_none: "list_all (\<lambda>(_, ok). \<not> ok) answers \<longleftrightarrow> accepted answers = []"
  by (induction answers) (auto split: if_splits)

text \<open>No output was received and no draft exposed before an accepted begin call.\<close>

fun accepted_begin :: "GatewayCall \<Rightarrow> bool" where
  "accepted_begin (CallBegin _ ok) \<longleftrightarrow> ok"
| "accepted_begin _ \<longleftrightarrow> False"

fun quiet_from :: "bool \<Rightarrow> GatewayCall list \<Rightarrow> bool" where
  "quiet_from clean [] \<longleftrightarrow> True"
| "quiet_from clean (call # calls) \<longleftrightarrow>
     (accepted_begin call \<longrightarrow> clean) \<and>
     quiet_from (clean \<and> output_free (received [call]) \<and> \<not> exposed [call]) calls"

lemma quiet_from_append:
  "quiet_from clean (xs @ ys) \<longleftrightarrow>
     quiet_from clean xs \<and> quiet_from (clean \<and> output_free (received xs) \<and> \<not> exposed xs) ys"
proof (induction xs arbitrary: clean)
  case (Cons call calls)
  have "received (call # calls) = received [call] @ received calls"
    "exposed (call # calls) \<longleftrightarrow> exposed [call] \<or> exposed calls"
    using history_append(3,4) [of "[call]" calls] by simp_all
  with Cons show ?case by (simp add: conj_ac)
qed simp

lemma quiet_from_no_begin: "accepted (begins xs) = [] \<Longrightarrow> quiet_from clean xs"
proof (induction xs arbitrary: clean)
  case (Cons call calls)
  have "begins (call # calls) = begins [call] @ begins calls"
    using history_append(1) [of "[call]" calls] by simp
  with Cons show ?case by (cases call) (auto split: if_splits)
qed simp

definition begins_attempt ::
  "gateway_env \<Rightarrow> GatewayInvocation \<Rightarrow> nat \<Rightarrow> ModelInvocationId option \<Rightarrow> WorkLifecycleSnapshot \<Rightarrow>
     BeginModelInvocationRequest \<Rightarrow> bool" where
  "begins_attempt env invocation n previous work b \<longleftrightarrow>
     ma_attempt_no (br_attempt b) = PositiveInteger (int n) \<and> ma_retry_of (br_attempt b) = previous \<and>
     ma_logical_invocation_id (br_attempt b) = gi_logical_invocation_id invocation \<and>
     ma_work_id (br_attempt b) = wl_work_id work \<and>
     wl_owner work = Some (ma_runtime_instance_id (br_attempt b)) \<and>
     ma_context_manifest_id (br_attempt b) = gi_context_manifest_id invocation \<and>
     ma_agent_step_no (br_attempt b) = gi_agent_step invocation \<and>
     br_request_sha256 b =
       me_hash_bytes (ge_model env) (request_bytes (ge_model env) (gi_request invocation)) \<and>
     br_expected_work b = work_expectation work \<and>
     work_after work (WaitForModel (ma_model_invocation_id (br_attempt b))) = Inr (br_work_next b)"

definition begin_post ::
  "gateway_env \<Rightarrow> GatewayInvocation \<Rightarrow> InvokeState \<Rightarrow>
     ModelGatewayError + ModelInvocationId \<times> JournalEventId \<times> JournalEventId \<times> WorkLifecycleSnapshot \<Rightarrow>
     GatewayCall list \<Rightarrow> bool" where
  "begin_post env invocation st x calls \<longleftrightarrow>
     finishes calls = [] \<and> received calls = [] \<and> \<not> exposed calls \<and> quiet_from True calls \<and>
     (case x of
        Inl _ \<Rightarrow> accepted (begins calls) = []
      | Inr (attempt_id, started_event, waiting_event, work) \<Rightarrow>
          \<exists>b. accepted (begins calls) = [b] \<and> ma_model_invocation_id (br_attempt b) = attempt_id \<and>
              br_work_next b = work \<and> begins_attempt env invocation (iv_attempt_no st) (iv_retry_of st) (iv_work st) b)"

lemma quiet_silent [simp]: "silent calls \<Longrightarrow> quiet_from clean (calls @ calls') = quiet_from clean calls'"
  by (auto dest!: silentD simp: quiet_from_append quiet_from_no_begin)

lemma begin_attempt_ensures: "ensures (begin_attempt env invocation st) (begin_post env invocation st)"
  unfolding begin_attempt_def
  by (intro ensures_rules)
     (auto dest: silentD simp: begin_post_def begins_attempt_def begin_request_def Let_def pi_try_new_def
       quiet_from_no_begin split: if_splits)

lemma ensures_begin_attempt [ensures_rules]:
  "(\<And>x calls. begin_post env invocation st x calls \<Longrightarrow> Q x calls) \<Longrightarrow>
     ensures (begin_attempt env invocation st) Q"
  by (rule ensures_weaken [OF begin_attempt_ensures])

text \<open>
  The contract of an invocation over its accepted begin and finish calls: each begin continues the
  numbering, links to the attempt before it and starts from the work that attempt left; every begin but
  possibly the last has its finish; an attempt that is followed by another was finished as a definite
  transient failure.
\<close>

definition retried :: "BeginModelInvocationRequest \<Rightarrow> FinishModelInvocationRequest \<Rightarrow> bool" where
  "retried b f \<longleftrightarrow>
     work_after (br_work_next b) (ResumeFromModel (ma_model_invocation_id (br_attempt b))) =
       Inr (fr_work_next f) \<and>
     mo_state (fr_outcome f) = ModelInvocationState.Failed \<and>
     (case mo_provider_error_kind (fr_outcome f) of
        Some kind \<Rightarrow> transient_before_output kind | None \<Rightarrow> False) \<and>
     retryable_certainty (mo_provider_outcome_certainty (fr_outcome f))"

fun attempts_chain ::
  "gateway_env \<Rightarrow> GatewayInvocation \<Rightarrow> nat \<Rightarrow> ModelInvocationId option \<Rightarrow> WorkLifecycleSnapshot \<Rightarrow>
     BeginModelInvocationRequest list \<Rightarrow> FinishModelInvocationRequest list \<Rightarrow> bool" where
  "attempts_chain env invocation n previous work [] fs \<longleftrightarrow> fs = []"
| "attempts_chain env invocation n previous work (b # bs) [] \<longleftrightarrow>
     begins_attempt env invocation n previous work b \<and> bs = []"
| "attempts_chain env invocation n previous work (b # bs) (f # fs) \<longleftrightarrow>
     begins_attempt env invocation n previous work b \<and>
     fr_model_invocation_id f = ma_model_invocation_id (br_attempt b) \<and> (bs \<noteq> [] \<longrightarrow> retried b f) \<and>
     attempts_chain env invocation (n + 1) (Some (ma_model_invocation_id (br_attempt b)))
       (fr_work_next f) bs fs"

definition settled_by ::
  "BeginModelInvocationRequest list \<Rightarrow> FinishModelInvocationRequest list \<Rightarrow> DurableModelAttempt \<Rightarrow>
     ModelInvocationState \<Rightarrow> bool" where
  "settled_by bs fs attempt state \<longleftrightarrow>
     fs \<noteq> [] \<and> length fs = length bs \<and> mo_state (fr_outcome (last fs)) = state \<and>
     da_model_invocation_id attempt = fr_model_invocation_id (last fs) \<and>
     da_work attempt = fr_work_next (last fs)"

fun outcome_post ::
  "WorkLifecycleSnapshot \<Rightarrow> DurableModelOutcome \<Rightarrow> BeginModelInvocationRequest list \<Rightarrow>
     FinishModelInvocationRequest list \<Rightarrow> ModelStreamEvent list \<Rightarrow> bool" where
  "outcome_post work (OutcomeCompleted response attempt) bs fs es \<longleftrightarrow>
     settled_by bs fs attempt ModelInvocationState.Completed \<and>
     (\<exists>earlier events. es = earlier @ events \<and> output_free earlier \<and>
        validate_model_stream events = Inr ModelStreamState.Completed \<and>
        last events = StreamCompleted response)"
| "outcome_post work (OutcomeFailed kind _ _ attempt) bs fs es \<longleftrightarrow>
     settled_by bs fs attempt ModelInvocationState.Failed \<and>
     mo_provider_error_kind (fr_outcome (last fs)) = Some kind"
| "outcome_post work (OutcomeInterrupted _ attempt) bs fs es \<longleftrightarrow>
     settled_by bs fs attempt ModelInvocationState.ProviderOutcomeUnknown \<and>
     wl_state (da_work attempt) = WorkState.Interrupted"
| "outcome_post work (CancelledBeforeAttempt work') bs fs es \<longleftrightarrow>
     length fs = length bs \<and> work' = (if fs = [] then work else fr_work_next (last fs))"
| "outcome_post work (DeadlineBeforeAttempt work') bs fs es \<longleftrightarrow>
     length fs = length bs \<and> work' = (if fs = [] then work else fr_work_next (last fs))"

definition invoke_post ::
  "gateway_env \<Rightarrow> ModelGatewayLimits \<Rightarrow> GatewayInvocation \<Rightarrow> InvokeState \<Rightarrow>
     ModelGatewayError + DurableModelOutcome \<Rightarrow> GatewayCall list \<Rightarrow> bool" where
  "invoke_post env l invocation st x calls \<longleftrightarrow>
     (let bs = accepted (begins calls); fs = accepted (finishes calls); n = iv_attempt_no st in
      quiet_from True calls \<and>
      attempts_chain env invocation n (iv_retry_of st) (iv_work st) bs fs \<and>
      (bs \<noteq> [] \<longrightarrow>
         u32_saturating_add (gi_work_attempts_before_invocation invocation) (n + length bs - 1) \<le>
           gl_attempts_per_work l \<and>
         (n \<le> gl_attempts_per_logical_invocation l \<longrightarrow>
           n + length bs - 1 \<le> gl_attempts_per_logical_invocation l)) \<and>
      (case x of Inl _ \<Rightarrow> True | Inr outcome \<Rightarrow> outcome_post (iv_work st) outcome bs fs (received calls)))"

definition once_post ::
  "gateway_env \<Rightarrow> ModelGatewayLimits \<Rightarrow> GatewayInvocation \<Rightarrow> InvokeState \<Rightarrow>
     (ModelGatewayError + DurableModelOutcome) + InvokeState \<Rightarrow> GatewayCall list \<Rightarrow> bool" where
  "once_post env l invocation st x calls \<longleftrightarrow>
     (case x of
        Inl result \<Rightarrow> invoke_post env l invocation st result calls
      | Inr st' \<Rightarrow> quiet_from True calls \<and> output_free (received calls) \<and> \<not> exposed calls \<and>
          (\<exists>b f. accepted (begins calls) = [b] \<and> accepted (finishes calls) = [f] \<and>
             begins_attempt env invocation (iv_attempt_no st) (iv_retry_of st) (iv_work st) b \<and>
             fr_model_invocation_id f = ma_model_invocation_id (br_attempt b) \<and> retried b f \<and>
             iv_attempt_no st < MAX_PROVIDER_ATTEMPTS \<and>
             iv_attempt_no st < gl_attempts_per_logical_invocation l \<and>
             u32_saturating_add (gi_work_attempts_before_invocation invocation) (iv_attempt_no st) <
               gl_attempts_per_work l \<and>
             iv_attempt_no st' = iv_attempt_no st + 1 \<and>
             iv_retry_of st' = Some (ma_model_invocation_id (br_attempt b)) \<and>
             iv_work st' = fr_work_next f))"

lemma begin_onlyD:
  assumes "begin_post env invocation st (Inr (attempt_id, started_event, waiting_event, work)) calls"
  shows "\<exists>b. accepted (begins calls) = [b] \<and> ma_model_invocation_id (br_attempt b) = attempt_id \<and>
    br_work_next b = work \<and> begins_attempt env invocation (iv_attempt_no st) (iv_retry_of st) (iv_work st) b \<and>
    accepted (finishes calls) = [] \<and> received calls = [] \<and> \<not> exposed calls \<and> quiet_from True calls"
  using assms by (auto simp: begin_post_def)

fun attempt_facts :: "WorkLifecycleSnapshot \<Rightarrow> ModelInvocationId \<Rightarrow> PhysicalAttemptResult \<Rightarrow> FinishModelInvocationRequest list \<Rightarrow> ModelStreamEvent list \<Rightarrow> bool \<Rightarrow> bool" where
  "attempt_facts work attempt_id (Infrastructure _) fs es drafted \<longleftrightarrow> fs = []"
| "attempt_facts work attempt_id (AttemptCompleted response attempt) fs es drafted \<longleftrightarrow>
     (\<exists>f. fs = [f] \<and> fr_model_invocation_id f = attempt_id \<and> da_model_invocation_id attempt = attempt_id \<and>
        da_work attempt = fr_work_next f \<and> mo_state (fr_outcome f) = ModelInvocationState.Completed \<and>
        validate_model_stream es = Inr ModelStreamState.Completed \<and> last es = StreamCompleted response)"
| "attempt_facts work attempt_id (AttemptFailed error semantic draft attempt) fs es drafted \<longleftrightarrow>
     (\<exists>f. fs = [f] \<and> fr_model_invocation_id f = attempt_id \<and> da_model_invocation_id attempt = attempt_id \<and>
        da_work attempt = fr_work_next f \<and>
        mo_state (fr_outcome f) = (if cancelled_unsent error then ModelInvocationState.CancelledLocally
                                   else ModelInvocationState.Failed) \<and>
        mo_provider_error_kind (fr_outcome f) = Some (pe_kind error) \<and>
        (\<not> semantic \<longrightarrow> mo_provider_outcome_certainty (fr_outcome f) = pe_certainty error \<and>
           (transient_before_output (pe_kind error) \<longrightarrow> output_free es)) \<and>
        (\<not> cancelled_unsent error \<longrightarrow>
           work_after work (ResumeFromModel attempt_id) = Inr (fr_work_next f)) \<and>
        (drafted \<longrightarrow> draft))"
| "attempt_facts work attempt_id (AttemptInterrupted kind attempt) fs es drafted \<longleftrightarrow>
     (\<exists>f. fs = [f] \<and> fr_model_invocation_id f = attempt_id \<and> da_model_invocation_id attempt = attempt_id \<and>
        da_work attempt = fr_work_next f \<and>
        mo_state (fr_outcome f) = ModelInvocationState.ProviderOutcomeUnknown \<and>
        wl_state (da_work attempt) = WorkState.Interrupted)"

lemma attempt_postD:
  assumes "attempt_post work attempt_id r calls"
  shows "accepted (begins calls) = [] \<and> quiet_from clean calls \<and>
    attempt_facts work attempt_id r (accepted (finishes calls)) (received calls) (exposed calls)"
proof -
  obtain c where c: "at_work c = work" "at_attempt_id c = attempt_id" "stream_result c [] False r calls"
    using assms by (auto simp: attempt_post_def)
  then have none: "accepted (begins calls) = []" by (simp add: stream_result_def)
  moreover have "attempt_facts work attempt_id r (accepted (finishes calls)) (received calls) (exposed calls)"
    using c by (cases r) (auto simp: stream_result_def accepted_none commits_def)
  ultimately show ?thesis by (simp add: quiet_from_no_begin)
qed

lemma completed_now:
  "validate_model_stream es = Inr ModelStreamState.Completed \<Longrightarrow> last es = StreamCompleted response \<Longrightarrow>
     \<exists>earlier events. es = earlier @ events \<and> output_free earlier \<and>
       validate_model_stream events = Inr ModelStreamState.Completed \<and> last events = StreamCompleted response"
  by (rule exI [of _ "[]"]) simp

lemmas invoke_simps =
  once_post_def invoke_post_def Let_def quiet_from_append quiet_from_no_begin settled_by_def

lemma invoke_once_ensures: "ensures (invoke_once env l invocation st) (once_post env l invocation st)"
  unfolding invoke_once_def
  apply (intro ensures_rules)
  subgoal by (simp add: invoke_simps)
  subgoal by (simp add: invoke_simps)
  subgoal by (simp add: invoke_simps)
  subgoal by (auto simp: invoke_simps begin_post_def)
  subgoal by (auto dest!: begin_onlyD simp: invoke_simps)
  subgoal
    by (hypsubst, drule begin_onlyD, drule attempt_postD [where clean = True])
       (auto simp: invoke_simps intro: completed_now)
  subgoal by (hypsubst, drule begin_onlyD, drule attempt_postD [where clean = True]) (auto simp: invoke_simps)
  subgoal
    by (hypsubst, drule begin_onlyD, drule attempt_postD [where clean = True])
       (auto simp: invoke_simps retry_post_def retry_licensed_def retried_def silent_def
         split: sum.splits DurableModelOutcome.splits)
  subgoal by (hypsubst, drule begin_onlyD, drule attempt_postD [where clean = True]) (auto simp: invoke_simps)
  subgoal by (hypsubst, drule begin_onlyD, drule attempt_postD [where clean = True]) (auto simp: invoke_simps)
  done

function invoke_loop ::
  "gateway_env \<Rightarrow> ModelGatewayLimits \<Rightarrow> GatewayInvocation \<Rightarrow> InvokeState \<Rightarrow>
     (ModelGatewayError + DurableModelOutcome) gateway" where
  "invoke_loop env l invocation st = do {
     step \<leftarrow> invoke_once env l invocation st;
     case step of
       Inl result \<Rightarrow> State_Monad.return result
     | Inr st' \<Rightarrow> invoke_loop env l invocation st'
   }"
  by pat_completeness auto

termination
proof (relation "measure (\<lambda>(_, _, _, st). MAX_PROVIDER_ATTEMPTS - iv_attempt_no st)")
  fix env l invocation st history step history' st'
  assume "run_state (invoke_once env l invocation st) history = (step, history')" and "step = Inr st'"
  then have "iv_attempt_no st < MAX_PROVIDER_ATTEMPTS \<and> iv_attempt_no st' = iv_attempt_no st + 1"
    using ensures_run [OF invoke_once_ensures] by (fastforce simp: once_post_def)
  then show "((env, l, invocation, st'), env, l, invocation, st) \<in>
      measure (\<lambda>(_, _, _, st). MAX_PROVIDER_ATTEMPTS - iv_attempt_no st)"
    by (simp add: diff_less_mono2)
qed simp

declare invoke_loop.simps [simp del]

definition invoke_start :: "GatewayInvocation \<Rightarrow> InvokeState" where
  "invoke_start invocation =
     \<lparr>iv_work = gi_work invocation, iv_attempt_no = 1, iv_retry_of = None, iv_retry_evidence = None,
      iv_preceding_event = gi_causation_event_id invocation\<rparr>"

definition invoke ::
  "gateway_env \<Rightarrow> ModelGatewayLimits \<Rightarrow> GatewayInvocation \<Rightarrow> (ModelGatewayError + DurableModelOutcome) gateway" where
  "invoke env l invocation =
     (case validate_invocation env l invocation of
        Inl e \<Rightarrow> State_Monad.return (Inl e)
      | Inr _ \<Rightarrow> do {
          cancelled \<leftarrow> ask (ge_cancelled env) ReadCancellation;
          if cancelled then State_Monad.return (Inr (CancelledBeforeAttempt (gi_work invocation)))
          else invoke_loop env l invocation (invoke_start invocation)
        })"

section \<open>Guarantees of an invocation\<close>

lemma outcome_post_extends:
  "outcome_post (fr_work_next f) outcome bs fs es' \<Longrightarrow> output_free es \<Longrightarrow>
     outcome_post work outcome (b # bs) (f # fs) (es @ es')"
  by (cases outcome) (auto simp: settled_by_def, metis append_assoc output_free_append)

lemma invoke_post_extends:
  assumes once: "once_post env l invocation st (Inr st') calls"
    and rest: "invoke_post env l invocation st' x calls'"
  shows "invoke_post env l invocation st x (calls @ calls')"
proof -
  obtain b f where "quiet_from True calls" "output_free (received calls)" "\<not> exposed calls"
      "accepted (begins calls) = [b]" "accepted (finishes calls) = [f]"
      "begins_attempt env invocation (iv_attempt_no st) (iv_retry_of st) (iv_work st) b"
      "fr_model_invocation_id f = ma_model_invocation_id (br_attempt b)" "retried b f"
      "iv_attempt_no st < gl_attempts_per_logical_invocation l"
      "u32_saturating_add (gi_work_attempts_before_invocation invocation) (iv_attempt_no st) <
         gl_attempts_per_work l"
      "iv_attempt_no st' = iv_attempt_no st + 1"
      "iv_retry_of st' = Some (ma_model_invocation_id (br_attempt b))" "iv_work st' = fr_work_next f"
    using once by (auto simp: once_post_def)
  with rest show ?thesis
    by (cases "accepted (begins calls') = []")
       (auto simp: invoke_post_def Let_def quiet_from_append intro: outcome_post_extends split: sum.splits)
qed

lemma invoke_loop_ensures: "ensures (invoke_loop env l invocation st) (invoke_post env l invocation st)"
proof (induction env l invocation st rule: invoke_loop.induct)
  case (1 env l invocation st)
  show ?case
    unfolding invoke_loop.simps [of env l invocation st]
  proof (rule ensures_bind_run [OF invoke_once_ensures])
    fix h step calls
    assume run: "run_state (invoke_once env l invocation st) h = (step, h @ calls)"
      and post: "once_post env l invocation st step calls"
    show "ensures (case step of Inl result \<Rightarrow> State_Monad.return result
          | Inr st' \<Rightarrow> invoke_loop env l invocation st')
        (\<lambda>x calls'. invoke_post env l invocation st x (calls @ calls'))"
    proof (cases step)
      case (Inl result)
      with post show ?thesis by (simp add: once_post_def ensures_return)
    next
      case (Inr st')
      from 1 [OF run Inr] post show ?thesis
        by (auto simp: Inr elim!: ensures_weaken intro: invoke_post_extends)
    qed
  qed
qed

lemma invoke_ensures: "ensures (invoke env l invocation) (invoke_post env l invocation (invoke_start invocation))"
  unfolding invoke_def
  by (intro ensures_rules ensures_weaken [OF invoke_loop_ensures])
     (auto simp: invoke_simps split: sum.splits, simp add: invoke_start_def)

end
