(* ===== verification/Gateway_Guarantees.thy ===== *)
theory Gateway_Guarantees
  imports Gateway_Invoke
begin

text \<open>
  The guarantees of an invocation of the model gateway, stated over the history of port calls that
  \<open>invoke\<close> leaves in an arbitrary environment, and a concrete run with a retry.
\<close>

section \<open>Counting received events\<close>

text \<open>Each attempt receives at most the events its accumulator accepts, one it refuses and one trailing event.\<close>

lemma received_none:
  "silent calls \<Longrightarrow> received calls = []"
  "attempt_failure c error semantic draft r calls \<Longrightarrow> received calls = []"
  "attempt_completion c response r calls \<Longrightarrow> received calls = []"
  by (simp_all add: silentD attempt_failure_def attempt_completion_def)

lemma finish_stream_received: "ensures (finish_stream env c st observed_at) (\<lambda>_ calls. received calls = [])"
  unfolding finish_stream_def by (intro ensures_rules received_none)

lemma close_stream_received: "ensures (close_stream env l c st observed_at) (\<lambda>_ calls. length (received calls) \<le> 1)"
  unfolding close_stream_def
  by (intro ensures_bind ensures_await_close ensures_option ensures_sum ensures_finish_provider_error
        ensures_weaken [OF finish_stream_received])
     (auto dest!: received_none)

definition bounded_step :: "nat \<Rightarrow> StreamLoop \<Rightarrow> PhysicalAttemptResult + StreamLoop \<Rightarrow> GatewayCall list \<Rightarrow> bool" where
  "bounded_step n st x calls \<longleftrightarrow>
     makes_progress st x \<and> length (received calls) \<le> (case x of Inl _ \<Rightarrow> Suc n | Inr _ \<Rightarrow> n)"

lemma receive_event_received: "ensures (receive_event env l c st event) (bounded_step 0 st)"
  unfolding receive_event_def
  by (intro ensures_bind ensures_wall_now ensures_sum ensures_return ensures_mark_first_byte ensures_let
        ensures_offer_draft ensures_prod ensures_option ensures_if ensures_finish_provider_error
        ensures_weaken [OF close_stream_received])
     (auto simp: bounded_step_def makes_progress_def dest!: received_none dest: accumulator_observe_accepted [OF sym])

lemma stream_iteration_received: "ensures (stream_iteration env l c st) (bounded_step 1 st)"
  unfolding stream_iteration_def Let_def
  by (intro ensures_bind ensures_remaining_duration ensures_if ensures_tell ensures_ask ensures_selected
        ensures_sum ensures_option ensures_return ensures_finish_provider_error
        ensures_weaken [OF receive_event_received])
     (auto simp: bounded_step_def makes_progress_def dest!: received_none split: sum.splits)

lemma stream_loop_received:
  "length (ca_events (sl_accumulator st)) \<le> MAX_STREAM_EVENTS \<Longrightarrow>
   ensures (stream_loop env l c st)
     (\<lambda>_ calls. length (received calls) + length (ca_events (sl_accumulator st)) \<le> MAX_STREAM_EVENTS + 2)"
proof (induction env l c st rule: stream_loop.induct)
  case (1 env l c st)
  show ?case
    unfolding stream_loop.simps [of env l c st]
  proof (rule ensures_bind_run [OF stream_iteration_received])
    fix h step calls
    assume run: "run_state (stream_iteration env l c st) h = (step, h @ calls)"
      and post: "bounded_step 1 st step calls"
    show "ensures (case step of Inl result \<Rightarrow> State_Monad.return result | Inr st' \<Rightarrow> stream_loop env l c st')
        (\<lambda>_ calls'. length (received (calls @ calls')) + length (ca_events (sl_accumulator st)) \<le>
           MAX_STREAM_EVENTS + 2)"
    proof (cases step)
      case (Inl result)
      with post 1(2) show ?thesis by (simp add: bounded_step_def ensures_return)
    next
      case (Inr st')
      with post have "length (ca_events (sl_accumulator st')) \<le> MAX_STREAM_EVENTS"
        by (simp add: bounded_step_def makes_progress_def)
      from 1(1) [OF run Inr this] show ?thesis
        using post by (auto simp: Inr bounded_step_def makes_progress_def elim!: ensures_weaken)
    qed
  qed
qed

lemma run_physical_attempt_received:
  "ensures (run_physical_attempt env l invocation work attempt_no attempt_id started_event waiting_event)
     (\<lambda>_ calls. length (received calls) \<le> MAX_STREAM_EVENTS + 2)"
proof -
  have loop: "ensures (stream_loop env l c (stream_start started_event))
      (\<lambda>_ calls. length (received calls) \<le> MAX_STREAM_EVENTS + 2)" for c
    using stream_loop_received [of "stream_start started_event"] by simp
  show ?thesis
    unfolding run_physical_attempt_def
    by (intro ensures_bind ensures_ask ensures_option ensures_return ensures_let ensures_sum ensures_prod
          ensures_remaining_duration ensures_if ensures_finish_failed ensures_finish_provider_error
          ensures_tell ensures_selected ensures_weaken [OF loop])
       (auto dest!: received_none)
qed

text \<open>So an invocation receives a bounded number of events for each attempt it begins.\<close>

definition paced :: "GatewayCall list \<Rightarrow> bool" where
  "paced calls \<longleftrightarrow> length (received calls) \<le> length (accepted (begins calls)) * (MAX_STREAM_EVENTS + 2)"

lemma paced_append: "paced xs \<Longrightarrow> paced ys \<Longrightarrow> paced (xs @ ys)"
  by (simp add: paced_def algebra_simps)

lemma invoke_once_paced: "ensures (invoke_once env l invocation st) (\<lambda>_. paced)"
  unfolding invoke_once_def
  by (intro ensures_if ensures_bind ensures_return ensures_ask ensures_begin_attempt ensures_sum ensures_prod
        ensures_weaken [OF run_physical_attempt_received] ensures_attempt_result ensures_tell
        ensures_retry_or_fail)
     (auto simp: paced_def begin_post_def retry_post_def dest!: received_none)

lemma invoke_loop_paced: "ensures (invoke_loop env l invocation st) (\<lambda>_. paced)"
proof (induction env l invocation st rule: invoke_loop.induct)
  case (1 env l invocation st)
  show ?case
    unfolding invoke_loop.simps [of env l invocation st]
  proof (rule ensures_bind_run [OF invoke_once_paced])
    fix h step calls
    assume run: "run_state (invoke_once env l invocation st) h = (step, h @ calls)" and post: "paced calls"
    show "ensures (case step of Inl result \<Rightarrow> State_Monad.return result
          | Inr st' \<Rightarrow> invoke_loop env l invocation st') (\<lambda>_ calls'. paced (calls @ calls'))"
    proof (cases step)
      case (Inl result)
      with post show ?thesis by (simp add: ensures_return)
    next
      case (Inr st')
      from 1 [OF run Inr] post show ?thesis
        by (auto simp: Inr elim!: ensures_weaken intro: paced_append)
    qed
  qed
qed

lemma invoke_paced: "ensures (invoke env l invocation) (\<lambda>_. paced)"
  unfolding invoke_def
  by (intro ensures_sum ensures_return ensures_bind ensures_ask ensures_if ensures_weaken [OF invoke_loop_paced])
     (simp_all add: paced_def)

section \<open>A run with a retry\<close>

text \<open>The provider refuses the first attempt for its rate and the second for its credentials; ids count calls.\<close>

definition sample_gateway :: gateway_env where
  "sample_gateway =
     \<lparr>ge_model = \<lparr>me_to_vec = (\<lambda>_. []), me_from_str = (\<lambda>_. None), me_hash_bytes = (\<lambda>_. []),
                 me_hyphenated = (\<lambda>_. [])\<rparr>,
      ge_provider_id = ''openai'', ge_capabilities = (\<lambda>t. Some (pm_capabilities (mt_reference t))),
      ge_cancelled = (\<lambda>_. False), ge_monotonic_now = (\<lambda>_. 0), ge_utc_now = (\<lambda>_. Some 0),
      ge_generate = (\<lambda>h. of_nat (length h)), ge_begin = (\<lambda>_ _. True), ge_mark_streaming = (\<lambda>_ _. True),
      ge_finish = (\<lambda>_ _. True), ge_load_owned_work = (\<lambda>_ _ _. None),
      ge_invoke_stream = (\<lambda>_ h. Ready (Inl (provider_error_new
        (if length (begins h) = 1 then ProviderErrorKind.RateLimited else ProviderErrorKind.Authentication)
        ProviderOutcomeCertainty.DefiniteProviderFailure))),
      ge_next_event = (\<lambda>_ _. TimerFirst), ge_offer = (\<lambda>_ _. False),
      ge_jitter = (\<lambda>_. Some (\<lambda>_. 0)), ge_sleep = (\<lambda>_ _. False), ge_capture = (\<lambda>_ _ _. None)\<rparr>"

definition sample_limits :: ModelGatewayLimits where
  "sample_limits =
     \<lparr>gl_attempts_per_logical_invocation = 3, gl_attempts_per_work = 32,
      gl_provider_invocation_limit = 100, gl_stream_idle_limit = 10,
      gl_output_items_per_response = 8, gl_raw_tool_argument_bytes = 64\<rparr>"

definition sample_selection :: ModelSelectionResult where
  "sample_selection =
     \<lparr>sr_selected_target = sample_target ''a'' True, sr_reason = ConfiguredDefault,
      sr_considered_target_ids = [''a''], sr_required_capabilities = sample_required,
      sr_target_configuration_version = PositiveReferenceInteger 1\<rparr>"

definition running_work :: "int \<Rightarrow> WorkLifecycleSnapshot" where
  "running_work version =
     \<lparr>wl_work_id = WorkId 1, wl_state = WorkState.Running, wl_version = ExactPositiveInteger version,
      wl_owner = Some (RuntimeInstanceId 2), wl_attempt = AttemptNone, wl_cancellation = None,
      wl_terminal = None\<rparr>"

definition waiting_work :: "ModelInvocationId \<Rightarrow> int \<Rightarrow> WorkLifecycleSnapshot" where
  "waiting_work attempt_id version = (running_work version)
     \<lparr>wl_state := WorkState.WaitingOnModel, wl_attempt := AttemptModel attempt_id\<rparr>"

definition sample_invocation :: GatewayInvocation where
  "sample_invocation =
     \<lparr>gi_work = running_work 2,
      gi_request = \<lparr>mr_logical_invocation_id = LogicalInvocationId 7, mr_target = sample_target ''a'' True,
        mr_ordered_input_items = [PriorAssistant []], mr_instructions = [], mr_tool_definitions = [],
        mr_requested_output_limit = PositiveReferenceInteger 50, mr_tool_choice_policy = NoTools,
        mr_reasoning_continuation = False, mr_context_manifest_id = ContextManifestId 8\<rparr>,
      gi_logical_invocation_id = LogicalInvocationId 7, gi_context_manifest_id = ContextManifestId 8,
      gi_package_selection = sample_selection, gi_reasoning_continuation = False,
      gi_selection = sample_selection, gi_agent_step = PositiveInteger 1,
      gi_correlation_id = CorrelationId 9, gi_causation_event_id = JournalEventId 10,
      gi_work_deadline = 10 ^ 12, gi_shutdown_deadline = None, gi_work_attempts_before_invocation = 0\<rparr>"

lemma bind_first_cong: "m = m' \<Longrightarrow> State_Monad.bind m f = State_Monad.bind m' f"
  by simp

lemma sample_limits_valid: "validate_limits sample_limits = Inr sample_limits"
  by (simp add: validate_limits_def sample_limits_def MAX_PROVIDER_ATTEMPTS_def
      MAX_PROVIDER_ATTEMPTS_PER_WORK_def DEFAULT_PROVIDER_INVOCATION_LIMIT_def
      DEFAULT_PROVIDER_IDLE_TIMEOUT_def MAX_MODEL_OUTPUT_ITEMS_def MAX_MODEL_TOOL_ARGUMENT_BYTES_def)

lemma sample_valid: "validate_invocation sample_gateway sample_limits sample_invocation = Inr ()"
  by (simp add: validate_invocation_def sample_gateway_def sample_limits_def sample_invocation_def
      sample_selection_def running_work_def sample_target_def)

lemma sample_transitions:
  assumes "0 < v" "v < 100"
  shows "work_after (running_work v) (WaitForModel attempt_id) = Inr (waiting_work attempt_id (v + 1))"
    and "work_after (waiting_work attempt_id v) (ResumeFromModel attempt_id) = Inr (running_work (v + 1))"
  using assms
  by (simp_all add: work_after_def decide_work_transition_def running_work_def waiting_work_def
      validate_work_shape_def check_guard_def for_snapshot_def epi_checked_increment_def i64_defs)

lemma sample_works [simp]:
  "wl_owner (running_work v) = Some (RuntimeInstanceId 2)" "wl_work_id (running_work v) = WorkId 1"
  "wl_owner (waiting_work i v) = Some (RuntimeInstanceId 2)" "wl_state (waiting_work i v) = WorkState.WaitingOnModel"
  by (simp_all add: running_work_def waiting_work_def)

lemma sample_ports:
  "ge_cancelled sample_gateway h = False" "ge_monotonic_now sample_gateway h = 0"
  "ge_utc_now sample_gateway h = Some 0" "ge_generate sample_gateway h = of_nat (length h)"
  "ge_begin sample_gateway b h" "ge_finish sample_gateway f h" "ge_jitter sample_gateway h = Some (\<lambda>_. 0)"
  "ge_invoke_stream sample_gateway d h = Ready (Inl (provider_error_new
     (if length (begins h) = 1 then ProviderErrorKind.RateLimited else ProviderErrorKind.Authentication)
     ProviderOutcomeCertainty.DefiniteProviderFailure))"
  by (simp_all add: sample_gateway_def)

lemma sample_fields:
  "gi_work sample_invocation = running_work 2" "gi_work_deadline sample_invocation = 10 ^ 12"
  "gi_shutdown_deadline sample_invocation = None" "gi_work_attempts_before_invocation sample_invocation = 0"
  "gl_attempts_per_logical_invocation sample_limits = 3" "gl_attempts_per_work sample_limits = 32"
  "gl_provider_invocation_limit sample_limits = 100" "gl_stream_idle_limit sample_limits = 10"
  by (simp_all add: sample_invocation_def sample_limits_def)

lemmas sample_simps = Let_def ask_def tell_def wall_now_def generate_event_def remaining_duration_def
  observe_cancellation_def sample_transitions sample_ports sample_fields
  begin_attempt_def begin_request_def pi_try_new_def invoke_start_def sample_works
  provider_attempt_try_new_def MAX_PROVIDER_ATTEMPTS_def invoke_once_def u32_saturating_add_def
  run_physical_attempt_def instant_checked_add_def DURATION_MAX_def attempt_deadline_def
  invocation_control_try_new_def checked_duration_since_def finish_provider_error_def finish_failed_attempt_def
  terminal_transition_def error_ambiguous_def cancelled_unsent_def provider_error_new_def durable_attempt_def
  before_stream_def retry_or_fail_def classify_provider_retry_def provider_backoff_def retry_reason_def retryable_certainty_def
  DEFAULT_PROVIDER_IDLE_TIMEOUT_def

lemma sample_first:
  "\<exists>b calls evidence event.
     run_state (invoke_once sample_gateway sample_limits sample_invocation (invoke_start sample_invocation))
         [ReadCancellation False] =
       (Inr \<lparr>iv_work = running_work 4, iv_attempt_no = 2, iv_retry_of = Some (ModelInvocationId 3),
             iv_retry_evidence = evidence, iv_preceding_event = event\<rparr>, ReadCancellation False # calls) \<and>
     begins calls = [(b, True)] \<and> ma_model_invocation_id (br_attempt b) = ModelInvocationId 3 \<and>
     10 < length calls \<and> length calls < 100"
  by (simp add: sample_simps cong: bind_first_cong)

lemma sample_second:
  assumes "length (begins h) = 1" "iv_attempt_no st = 2" "iv_work st = running_work 4"
  shows "\<exists>b calls attempt.
     run_state (invoke_once sample_gateway sample_limits sample_invocation st) h =
       (Inl (Inr (OutcomeFailed ProviderErrorKind.Authentication False False attempt)), h @ calls) \<and>
     begins calls = [(b, True)] \<and>
     ma_model_invocation_id (br_attempt b) = ModelInvocationId (of_nat (length h) + 2)"
  by (simp add: sample_simps assms cong: bind_first_cong)

lemma gateway_sample_run:
  "\<exists>b b' calls attempt.
     run_state (invoke sample_gateway sample_limits sample_invocation) [] =
       (Inr (OutcomeFailed ProviderErrorKind.Authentication False False attempt), calls) \<and>
     accepted (begins calls) = [b, b'] \<and>
     ma_model_invocation_id (br_attempt b) \<noteq> ma_model_invocation_id (br_attempt b')"
proof -
  let ?once = "invoke_once sample_gateway sample_limits sample_invocation"
  let ?loop = "invoke_loop sample_gateway sample_limits sample_invocation"
  obtain b first st where run: "run_state (?once (invoke_start sample_invocation)) [ReadCancellation False] =
        (Inr st, ReadCancellation False # first)"
    and b: "begins first = [(b, True)]" "ma_model_invocation_id (br_attempt b) = ModelInvocationId 3"
    and st: "iv_attempt_no st = 2" "iv_work st = running_work 4"
    and len: "10 < length first" "length first < 100"
    using sample_first by fastforce
  obtain b' second attempt where run': "run_state (?once st) (ReadCancellation False # first) =
        (Inl (Inr (OutcomeFailed ProviderErrorKind.Authentication False False attempt)),
         ReadCancellation False # first @ second)"
    and b': "begins second = [(b', True)]"
      "ma_model_invocation_id (br_attempt b') = ModelInvocationId (of_nat (length first) + 3)"
    using sample_second [of "ReadCancellation False # first" st] b(1) st by (auto simp: add.commute)
  have "run_state (?loop st) (ReadCancellation False # first) =
      (Inr (OutcomeFailed ProviderErrorKind.Authentication False False attempt),
       ReadCancellation False # first @ second)"
    by (subst invoke_loop.simps) (simp add: run')
  then have "run_state (?loop (invoke_start sample_invocation)) [ReadCancellation False] =
      (Inr (OutcomeFailed ProviderErrorKind.Authentication False False attempt),
       ReadCancellation False # first @ second)"
    by (subst invoke_loop.simps) (simp add: run)
  then have "run_state (invoke sample_gateway sample_limits sample_invocation) [] =
      (Inr (OutcomeFailed ProviderErrorKind.Authentication False False attempt),
       ReadCancellation False # first @ second)"
    by (simp add: invoke_def sample_valid ask_def sample_ports)
  moreover have "ma_model_invocation_id (br_attempt b) \<noteq> ma_model_invocation_id (br_attempt b')"
    using b(2) b'(2) len by (auto simp: word_of_nat_eq_0_iff dest!: dvd_imp_le)
  ultimately show ?thesis using b(1) b'(1) by fastforce
qed

section \<open>The guarantees\<close>

lemma limits_bounds:
  assumes "validate_limits l = Inr l"
  shows "1 \<le> gl_attempts_per_logical_invocation l" "gl_attempts_per_work l < 2 ^ 32 - 1"
  using assms
  by (auto simp: validate_limits_def MAX_PROVIDER_ATTEMPTS_PER_WORK_def split: if_splits)

lemma limits_cap: "validate_limits l = Inr l \<Longrightarrow> gl_attempts_per_logical_invocation l \<le> MAX_PROVIDER_ATTEMPTS"
  by (simp add: validate_limits_def split: if_splits)

lemma within_work_limit: "u32_saturating_add a b \<le> m \<Longrightarrow> m < 2 ^ 32 - 1 \<Longrightarrow> a + b \<le> m"
  by (simp add: u32_saturating_add_def split: if_splits)

lemma invoke_runs:
  assumes "run_state (invoke env l invocation) history = (result, history')"
  obtains calls where "history' = history @ calls"
    and "invoke_post env l invocation (invoke_start invocation) result calls"
  using ensures_run [OF invoke_ensures assms] by blast

lemma invoke_start_fields [simp]:
  "iv_attempt_no (invoke_start invocation) = 1" "iv_retry_of (invoke_start invocation) = None"
  "iv_work (invoke_start invocation) = gi_work invocation"
  by (simp_all add: invoke_start_def)

lemma invoke_post_start:
  assumes "invoke_post env l invocation (invoke_start invocation) result calls" and "validate_limits l = Inr l"
  shows "length (accepted (begins calls)) \<le> gl_attempts_per_logical_invocation l"
    and "accepted (begins calls) \<noteq> [] \<Longrightarrow>
      gi_work_attempts_before_invocation invocation + length (accepted (begins calls)) \<le> gl_attempts_per_work l"
  using assms(1) limits_bounds [OF assms(2)]
  by (cases "accepted (begins calls) = []"; auto simp: invoke_post_def Let_def intro: within_work_limit)+

text \<open>
  C34. Whatever the store, the clock, the identity generator and the provider answer, the attempts an
  invocation commits form one chain: numbered from one, each linked to the attempt before it, each
  begun from the work the previous finish left and waiting on its own identity, each finished before
  the next begins, and a next one only after a definite transient failure that resumed the work. Their number
  respects the limit per invocation and, together with the attempts before it, the limit per work item.
\<close>

theorem gateway_attempts_safe:
  assumes "validate_limits l = Inr l"
    and "run_state (invoke env l invocation) history = (result, history')"
  shows "\<exists>calls. history' = history @ calls \<and>
    attempts_chain env invocation 1 None (gi_work invocation)
      (accepted (begins calls)) (accepted (finishes calls)) \<and>
    length (accepted (begins calls)) \<le> gl_attempts_per_logical_invocation l \<and>
    (accepted (begins calls) \<noteq> [] \<longrightarrow>
       gi_work_attempts_before_invocation invocation + length (accepted (begins calls)) \<le> gl_attempts_per_work l)"
proof -
  obtain calls where h: "history' = history @ calls"
    and post: "invoke_post env l invocation (invoke_start invocation) result calls"
    using assms(2) by (rule invoke_runs)
  have "attempts_chain env invocation 1 None (gi_work invocation)
      (accepted (begins calls)) (accepted (finishes calls))"
    using post by (simp add: invoke_post_def Let_def)
  with h invoke_post_start [OF post assms(1)] show ?thesis by blast
qed

theorem gateway_attempts_safe_witness:
  "\<exists>result calls. run_state (invoke sample_gateway sample_limits sample_invocation) [] = (result, calls) \<and>
     length (accepted (begins calls)) = 2 \<and>
     attempts_chain sample_gateway sample_invocation 1 None (gi_work sample_invocation)
       (accepted (begins calls)) (accepted (finishes calls))"
proof -
  obtain b b' calls attempt where run: "run_state (invoke sample_gateway sample_limits sample_invocation) [] =
      (Inr (OutcomeFailed ProviderErrorKind.Authentication False False attempt), calls)"
    and bs: "accepted (begins calls) = [b, b']"
    using gateway_sample_run by blast
  with gateway_attempts_safe [OF sample_limits_valid run] show ?thesis by auto
qed

text \<open>
  C35. An outcome of an invocation is the outcome its last finish committed: a completed one carries the
  response of a valid completed stream that no output preceded, a failed one the kind of the
  committed error, an interrupted one an unknown provider outcome and interrupted work. No outcome
  leaves an attempt begun and not finished, and the work it returns is the work last committed.
\<close>

theorem gateway_outcome_settled:
  assumes "run_state (invoke env l invocation) history = (Inr outcome, history')"
  shows "\<exists>calls. history' = history @ calls \<and>
    length (accepted (finishes calls)) = length (accepted (begins calls)) \<and>
    outcome_post (gi_work invocation) outcome
      (accepted (begins calls)) (accepted (finishes calls)) (received calls)"
proof -
  obtain calls where "history' = history @ calls"
    and "invoke_post env l invocation (invoke_start invocation) (Inr outcome) calls"
    using assms by (rule invoke_runs)
  then show ?thesis by (cases outcome) (auto simp: invoke_post_def Let_def settled_by_def)
qed

theorem gateway_outcome_settled_witness:
  "\<exists>attempt calls. run_state (invoke sample_gateway sample_limits sample_invocation) [] =
       (Inr (OutcomeFailed ProviderErrorKind.Authentication False False attempt), calls) \<and>
     length (accepted (finishes calls)) = 2 \<and>
     mo_state (fr_outcome (last (accepted (finishes calls)))) = ModelInvocationState.Failed \<and>
     da_work attempt = fr_work_next (last (accepted (finishes calls)))"
proof -
  obtain b b' calls attempt where run: "run_state (invoke sample_gateway sample_limits sample_invocation) [] =
      (Inr (OutcomeFailed ProviderErrorKind.Authentication False False attempt), calls)"
    and bs: "accepted (begins calls) = [b, b']"
    using gateway_sample_run by blast
  with gateway_outcome_settled [OF run] show ?thesis by (auto simp: settled_by_def)
qed

text \<open>
  C36. No attempt is begun once the provider has sent semantic output or a draft was shown to a client:
  before every accepted begin of an invocation its history holds neither.
\<close>

theorem gateway_retry_quiet:
  assumes "run_state (invoke env l invocation) history = (result, history @ before @ CallBegin request True # rest)"
  shows "output_free (received before) \<and> \<not> exposed before"
proof -
  obtain calls where "history @ before @ CallBegin request True # rest = history @ calls"
    and "invoke_post env l invocation (invoke_start invocation) result calls"
    using assms by (rule invoke_runs)
  then show ?thesis by (auto simp: invoke_post_def Let_def quiet_from_append)
qed

lemma accepted_begin_split:
  "accepted (begins calls) = bs @ b # bs' \<Longrightarrow>
     \<exists>before rest. calls = before @ CallBegin b True # rest \<and> accepted (begins before) = bs"
proof (induction calls arbitrary: bs)
  case (Cons call calls)
  show ?case
  proof (cases "accepted (begins [call])")
    case Nil
    with Cons.prems have "accepted (begins calls) = bs @ b # bs'"
      using history_append(1) [of "[call]" calls] by simp
    then obtain before rest where "calls = before @ CallBegin b True # rest" "accepted (begins before) = bs"
      using Cons.IH by blast
    with Nil show ?thesis
      using history_append(1) [of "[call]" before] by (intro exI [of _ "call # before"] exI [of _ rest]) auto
  next
    case (Cons c cs)
    then have call: "call = CallBegin c True" "cs = []" by (cases call; auto split: if_splits)+
    show ?thesis
    proof (cases bs)
      case Nil
      with Cons.prems call show ?thesis by (intro exI [of _ "[]"] exI [of _ calls]) auto
    next
      case (Cons d ds)
      then have "accepted (begins calls) = ds @ b # bs'" and "d = c" using Cons.prems call by auto
      then obtain before rest where "calls = before @ CallBegin b True # rest" "accepted (begins before) = ds"
        using Cons.IH by blast
      with Cons call \<open>d = c\<close> show ?thesis by (intro exI [of _ "call # before"] exI [of _ rest]) auto
    qed
  qed
qed simp

theorem gateway_retry_quiet_witness:
  "\<exists>result before request rest.
     run_state (invoke sample_gateway sample_limits sample_invocation) [] =
       (result, [] @ before @ CallBegin request True # rest) \<and>
     length (accepted (begins before)) = 1 \<and> output_free (received before) \<and> \<not> exposed before"
proof -
  obtain b b' calls attempt where run: "run_state (invoke sample_gateway sample_limits sample_invocation) [] =
      (Inr (OutcomeFailed ProviderErrorKind.Authentication False False attempt), calls)"
    and "accepted (begins calls) = [b] @ b' # []"
    using gateway_sample_run by force
  then obtain before rest where calls: "calls = before @ CallBegin b' True # rest"
    and "accepted (begins before) = [b]"
    using accepted_begin_split by blast
  moreover have "run_state (invoke sample_gateway sample_limits sample_invocation) [] =
      (Inr (OutcomeFailed ProviderErrorKind.Authentication False False attempt),
       [] @ before @ CallBegin b' True # rest)"
    using run calls by simp
  moreover note gateway_retry_quiet [OF this]
  ultimately show ?thesis by (metis One_nat_def length_Cons list.size(3))
qed

text \<open>
  C37. An invocation ends in every environment, also when the provider never closes its stream: it
  returns after at most the configured number of attempts, having received at most
  \<open>MAX_STREAM_EVENTS + 2\<close> events in each.
\<close>

theorem gateway_terminates:
  assumes "validate_limits l = Inr l"
  shows "\<exists>result calls. run_state (invoke env l invocation) history = (result, history @ calls) \<and>
    length (accepted (begins calls)) \<le> gl_attempts_per_logical_invocation l \<and>
    length (received calls) \<le> gl_attempts_per_logical_invocation l * (MAX_STREAM_EVENTS + 2)"
proof -
  obtain result history' where run: "run_state (invoke env l invocation) history = (result, history')"
    by fastforce
  obtain calls where h: "history' = history @ calls"
    and post: "invoke_post env l invocation (invoke_start invocation) result calls"
    using run by (rule invoke_runs)
  have "paced calls" using ensures_run [OF invoke_paced run] h by auto
  moreover note bound = invoke_post_start(1) [OF post assms]
  ultimately have "length (received calls) \<le> gl_attempts_per_logical_invocation l * (MAX_STREAM_EVENTS + 2)"
    unfolding paced_def by (meson le_trans mult_le_mono1)
  with run h bound show ?thesis by blast
qed

theorem gateway_terminates_witness:
  "\<exists>result calls. run_state (invoke sample_gateway sample_limits sample_invocation) [] = (result, [] @ calls) \<and>
     length (accepted (begins calls)) \<le> 3 \<and> length (received calls) \<le> 3 * 4098"
  using gateway_terminates [OF sample_limits_valid, of sample_gateway sample_invocation "[]"]
  by (simp add: sample_fields MAX_STREAM_EVENTS_def)

end
