(* ===== verification/Gateway_Ledger.thy ===== *)
theory Gateway_Ledger
  imports Gateway_Invoke
begin

text \<open>
  The commits of the gateway against the state of the attempt they address. The committed attempt is
  open or none is; a begin opens one, the first mark of a stream and the finish name the open attempt and
  the state it is in, and the finish carries the evidence its outcome needs. The lemmas show that
  every accepted commit of an invocation is of this form, in every environment.
\<close>

section \<open>The ledger of the committed attempt\<close>

abbreviation begin_id :: "BeginModelInvocationRequest \<Rightarrow> ModelInvocationId" where
  "begin_id b \<equiv> ma_model_invocation_id (br_attempt b)"

text \<open>The domain transition a finish stands for, with the evidence its outcome carries.\<close>

definition finish_transition :: "ModelTerminalOutcome \<Rightarrow> ModelTransitionRequest option" where
  "finish_transition outcome =
     (case mo_state outcome of
        ModelInvocationState.Completed \<Rightarrow>
          Some (CompleteModel (mo_response_sha256 outcome \<noteq> None \<and> mo_normalized_output outcome \<noteq> None))
      | ModelInvocationState.Failed \<Rightarrow>
          Some (FailModel (\<not> mo_billing_ambiguity outcome \<and>
            mo_provider_outcome_certainty outcome \<noteq> ProviderOutcomeCertainty.ProviderOutcomeUnknown))
      | ModelInvocationState.CancelledLocally \<Rightarrow>
          Some (CancelLocally (mo_provider_outcome_certainty outcome = ProviderOutcomeCertainty.DefinitelyNotSent))
      | ModelInvocationState.ProviderOutcomeUnknown \<Rightarrow> Some MarkProviderOutcomeUnknown
      | _ \<Rightarrow> None)"

definition evidenced :: "ModelTerminalOutcome \<Rightarrow> bool" where
  "evidenced outcome \<longleftrightarrow>
     (\<exists>request effect. finish_transition outcome = Some request \<and> model_effect request = Inr effect)"

type_synonym open_entry = "(ModelInvocationId \<times> ModelInvocationState) option"

fun ledger :: "open_entry \<Rightarrow> GatewayCall \<Rightarrow> open_entry option" where
  "ledger p (CallBegin b True) =
     (if p = None then Some (Some (begin_id b, ModelInvocationState.Requesting)) else None)"
| "ledger p (CallMarkStreaming m True) =
     (if p = Some (ms_model_invocation_id m, ms_model_state m) \<and>
         ms_model_state m = ModelInvocationState.Requesting
      then Some (Some (ms_model_invocation_id m, ModelInvocationState.Streaming)) else None)"
| "ledger p (CallFinish f True) =
     (if p = Some (fr_model_invocation_id f, fr_model_state f) \<and> evidenced (fr_outcome f)
      then Some None else None)"
| "ledger p _ = Some p"

fun track :: "open_entry \<Rightarrow> GatewayCall list \<Rightarrow> open_entry option" where
  "track p [] = Some p"
| "track p (call # calls) = Option.bind (ledger p call) (\<lambda>q. track q calls)"

lemma track_append [simp]: "track p (xs @ ys) = Option.bind (track p xs) (\<lambda>q. track q ys)"
  by (induction xs arbitrary: p) (auto simp: bind_eq_None_conv split: Option.bind_split)

text \<open>Calls that leave the ledger alone.\<close>

definition unledgered :: "GatewayCall list \<Rightarrow> bool" where
  "unledgered calls \<longleftrightarrow> (\<forall>p. track p calls = Some p)"

lemma unledgeredD [simp]: "unledgered calls \<Longrightarrow> track p calls = Some p"
  by (simp add: unledgered_def)

lemma unledgered_append [intro]: "unledgered xs \<Longrightarrow> unledgered ys \<Longrightarrow> unledgered (xs @ ys)"
  by (simp add: unledgered_def)

lemma unledgered_Cons [simp]: "(\<And>p. ledger p call = Some p) \<Longrightarrow> unledgered (call # calls) = unledgered calls"
  by (simp add: unledgered_def)

lemma unledgered_Nil [simp]: "unledgered []"
  by (simp add: unledgered_def)

lemmas plain_rules = ensures_return ensures_bind ensures_ask ensures_tell ensures_if ensures_option
  ensures_sum ensures_prod ensures_let ensures_selected ensures_attempt_result ensures_backoff

lemma wall_now_ledger: "ensures (wall_now env) (\<lambda>_. unledgered)"
  unfolding wall_now_def by (intro plain_rules) auto

lemma remaining_duration_ledger: "ensures (remaining_duration env deadline) (\<lambda>_. unledgered)"
  unfolding remaining_duration_def by (intro plain_rules) auto

lemma generate_event_ledger: "ensures (generate_event env) (\<lambda>_. unledgered)"
  unfolding generate_event_def by (intro plain_rules) auto

lemma observe_cancellation_ledger: "ensures (observe_cancellation env c cause) (\<lambda>_. unledgered)"
  unfolding observe_cancellation_def refresh_durable_cancellation_def by (intro plain_rules) auto

lemma capture_opaque_ledger: "ensures (capture_opaque env c opaque index created_at) (\<lambda>_. unledgered)"
  unfolding capture_opaque_def by (intro plain_rules ensures_weaken [OF generate_event_ledger]) auto

lemma normalize_items_ledger: "ensures (normalize_items env c created_at index items) (\<lambda>_. unledgered)"
proof (induction items arbitrary: index)
  case (Cons item items)
  show ?case
    unfolding normalize_items.simps
    by (cases item) (intro plain_rules ensures_weaken [OF capture_opaque_ledger] ensures_weaken [OF Cons.IH]; auto)+
qed (auto intro: ensures_return)

lemma prepare_normalized_output_ledger:
  "ensures (prepare_normalized_output env c response created_at) (\<lambda>_. unledgered)"
  unfolding prepare_normalized_output_def
  by (intro plain_rules ensures_weaken [OF normalize_items_ledger] ensures_weaken [OF capture_opaque_ledger]) auto

lemma await_close_ledger: "ensures (await_close env l c) (\<lambda>_. unledgered)"
  unfolding await_close_def by (intro plain_rules ensures_weaken [OF remaining_duration_ledger]) auto

lemma retry_or_fail_ledger:
  "ensures (retry_or_fail env l invocation st error semantic draft_exposed attempt) (\<lambda>_. unledgered)"
  unfolding retry_or_fail_def by (intro plain_rules ensures_weaken [OF remaining_duration_ledger]) auto

lemmas unledgered_rules = ensures_weaken [OF wall_now_ledger] ensures_weaken [OF remaining_duration_ledger]
  ensures_weaken [OF generate_event_ledger] ensures_weaken [OF observe_cancellation_ledger]
  ensures_weaken [OF prepare_normalized_output_ledger] ensures_weaken [OF await_close_ledger]

section \<open>One attempt\<close>

text \<open>From the open attempt, the calls keep the ledger, and settle the attempt unless the infrastructure failed.\<close>

definition closes :: "ModelInvocationId \<Rightarrow> ModelInvocationState \<Rightarrow> PhysicalAttemptResult \<Rightarrow> GatewayCall list \<Rightarrow> bool" where
  "closes i state r calls \<longleftrightarrow>
     (\<exists>p. track (Some (i, state)) calls = Some p \<and> ((\<forall>e. r \<noteq> Infrastructure e) \<longrightarrow> p = None))"

lemma closes_unledgered: "unledgered xs \<Longrightarrow> closes i state r ys \<Longrightarrow> closes i state r (xs @ ys)"
  by (simp add: closes_def)

lemma closes_Cons: "(\<And>p. ledger p call = Some p) \<Longrightarrow> closes i state r calls \<Longrightarrow> closes i state r (call # calls)"
  by (simp add: closes_def)

lemma failed_outcome_evidenced: "evidenced (failed_outcome error ev completed_at)"
  by (simp add: evidenced_def finish_transition_def failed_outcome_def Let_def error_ambiguous_def cancelled_unsent_def)

lemma completed_outcome_evidenced: "evidenced (completed_outcome menv response outs ev completed_at)"
  by (simp add: evidenced_def finish_transition_def completed_outcome_def)

lemma finish_failed_ledger:
  "ensures (finish_failed_attempt env c error ev) (closes (at_attempt_id c) (av_model_state ev))"
  unfolding finish_failed_attempt_def
  by (intro plain_rules unledgered_rules)
     (auto simp: closes_def finish_request_def Let_def failed_outcome_evidenced)

lemma finish_provider_error_ledger:
  "ensures (finish_provider_error env c error ev) (closes (at_attempt_id c) (av_model_state ev))"
  unfolding finish_provider_error_def by (rule ensures_weaken [OF finish_failed_ledger]) simp

lemma finish_completed_ledger:
  "ensures (finish_completed_attempt env c response ev) (closes (at_attempt_id c) (av_model_state ev))"
  unfolding finish_completed_attempt_def
  by (intro plain_rules unledgered_rules ensures_weaken [OF finish_failed_ledger])
     (auto simp: closes_def finish_request_def Let_def completed_outcome_evidenced)

section \<open>The stream\<close>

definition streams :: "StreamLoop \<Rightarrow> bool" where
  "streams st \<longleftrightarrow> sl_model_state st =
     (if sl_first_byte_at st = None then ModelInvocationState.Requesting else ModelInvocationState.Streaming)"

text \<open>A step of the stream: it settles the attempt, or the ledger follows the state of the loop.\<close>

definition follows_loop :: "ModelInvocationId \<Rightarrow> StreamLoop \<Rightarrow> PhysicalAttemptResult + StreamLoop \<Rightarrow> GatewayCall list \<Rightarrow> bool" where
  "follows_loop i st x calls \<longleftrightarrow>
     (case x of
        Inl r \<Rightarrow> closes i (sl_model_state st) r calls
      | Inr st' \<Rightarrow> streams st' \<and> track (Some (i, sl_model_state st)) calls = Some (Some (i, sl_model_state st')))"

lemma stream_evidence_state [simp]: "av_model_state (stream_evidence st) = sl_model_state st"
  by (simp add: stream_evidence_def Let_def)

lemma stream_failed_ledger: "ensures (stream_failed env c st error) (closes (at_attempt_id c) (sl_model_state st))"
  using finish_provider_error_ledger [of env c error "stream_evidence st"] by simp

lemma mark_first_byte_ledger:
  "streams st \<Longrightarrow>
   ensures (mark_first_byte env c st event observed_at)
     (\<lambda>x calls. case x of
        Inl _ \<Rightarrow> unledgered calls
      | Inr st' \<Rightarrow> follows_loop (at_attempt_id c) st (Inr st') calls)"
  unfolding mark_first_byte_def Let_def
  by (intro plain_rules unledgered_rules) (auto simp: follows_loop_def streams_def)

lemma offer_draft_ledger:
  "ensures (offer_draft env c st event)
     (\<lambda>st' calls. unledgered calls \<and> sl_model_state st' = sl_model_state st \<and> sl_first_byte_at st' = sl_first_byte_at st)"
  unfolding offer_draft_def by (intro plain_rules) auto

lemma finish_stream_ledger:
  "ensures (finish_stream env c st observed_at) (closes (at_attempt_id c) (sl_model_state st))"
proof -
  have completed: "ensures (finish_completed_attempt env c response
      (stream_evidence (if b then st\<lparr>sl_first_output_at := Some observed_at\<rparr> else st)))
      (closes (at_attempt_id c) (sl_model_state st))" for response b
    by (rule ensures_weaken [OF finish_completed_ledger]) (simp split: if_splits)
  show ?thesis
    unfolding finish_stream_def
    by (intro plain_rules ensures_terminal completed stream_failed_ledger)
qed

lemma close_stream_ledger:
  "ensures (close_stream env l c st observed_at) (closes (at_attempt_id c) (sl_model_state st))"
  unfolding close_stream_def
  by (intro plain_rules unledgered_rules ensures_weaken [OF finish_stream_ledger] ensures_weaken [OF stream_failed_ledger])
     (auto intro: closes_unledgered)

lemma closes_follows:
  "track (Some (i, state)) xs = Some (Some (i, state')) \<Longrightarrow> closes i state' r ys \<Longrightarrow> closes i state r (xs @ ys)"
  by (simp add: closes_def)

lemma first_output_state [simp]:
  "sl_model_state (if b then st\<lparr>sl_first_output_at := x\<rparr> else st) = sl_model_state st"
  "sl_first_byte_at (if b then st\<lparr>sl_first_output_at := x\<rparr> else st) = sl_first_byte_at st"
  by simp_all

lemma receive_event_ledger:
  "streams st \<Longrightarrow> ensures (receive_event env l c st event) (follows_loop (at_attempt_id c) st)"
  unfolding receive_event_def
  by (intro plain_rules unledgered_rules ensures_weaken [OF mark_first_byte_ledger]
        ensures_weaken [OF offer_draft_ledger] ensures_weaken [OF close_stream_ledger]
        ensures_weaken [OF stream_failed_ledger])
     (auto simp: follows_loop_def streams_def closes_def)

lemma stream_iteration_ledger:
  "streams st \<Longrightarrow> ensures (stream_iteration env l c st) (follows_loop (at_attempt_id c) st)"
  unfolding stream_iteration_def Let_def
  by (intro plain_rules unledgered_rules ensures_weaken [OF receive_event_ledger]
        ensures_weaken [OF stream_failed_ledger])
     (auto simp: follows_loop_def closes_def split: sum.splits)

lemma stream_loop_ledger:
  "streams st \<Longrightarrow> ensures (stream_loop env l c st) (closes (at_attempt_id c) (sl_model_state st))"
proof (induction env l c st rule: stream_loop.induct)
  case (1 env l c st)
  show ?case
    unfolding stream_loop.simps [of env l c st]
  proof (rule ensures_bind_run [OF stream_iteration_ledger [OF 1(2)]])
    fix h step calls
    assume run: "run_state (stream_iteration env l c st) h = (step, h @ calls)"
      and post: "follows_loop (at_attempt_id c) st step calls"
    show "ensures (case step of Inl result \<Rightarrow> State_Monad.return result | Inr st' \<Rightarrow> stream_loop env l c st')
        (\<lambda>r calls'. closes (at_attempt_id c) (sl_model_state st) r (calls @ calls'))"
    proof (cases step)
      case (Inl result)
      with post show ?thesis by (simp add: follows_loop_def ensures_return)
    next
      case (Inr st')
      with post have "streams st'" by (simp add: follows_loop_def)
      from 1(1) [OF run Inr this] show ?thesis
        using post by (auto simp: Inr follows_loop_def elim!: ensures_weaken intro: closes_follows)
    qed
  qed
qed

section \<open>The invocation\<close>

lemma run_physical_attempt_ledger:
  "ensures (run_physical_attempt env l invocation work attempt_no attempt_id started_event waiting_event)
     (closes attempt_id ModelInvocationState.Requesting)"
proof -
  have loop: "ensures (stream_loop env l c (stream_start started_event))
      (closes (at_attempt_id c) ModelInvocationState.Requesting)" for c
    using stream_loop_ledger [of "stream_start started_event"] by (simp add: streams_def stream_start_def)
  show ?thesis
    unfolding run_physical_attempt_def
    by (intro plain_rules unledgered_rules ensures_weaken [OF loop] ensures_weaken [OF finish_failed_ledger]
          ensures_weaken [OF finish_provider_error_ledger])
       (auto simp: closes_def before_stream_def)
qed

lemma begin_attempt_ledger:
  "ensures (begin_attempt env invocation st)
     (\<lambda>x calls. track None calls = Some (case x of Inl _ \<Rightarrow> None | Inr (i, _) \<Rightarrow> Some (i, ModelInvocationState.Requesting)))"
  unfolding begin_attempt_def
  by (intro plain_rules unledgered_rules) (auto simp: begin_request_def Let_def)

text \<open>An invocation that goes on, or that has an outcome, leaves no attempt open.\<close>

lemma invoke_once_ledger:
  "ensures (invoke_once env l invocation st)
     (\<lambda>x calls. \<exists>p. track None calls = Some p \<and> ((\<forall>e. x \<noteq> Inl (Inl e)) \<longrightarrow> p = None))"
  unfolding invoke_once_def
  by (intro plain_rules ensures_weaken [OF begin_attempt_ledger] ensures_weaken [OF run_physical_attempt_ledger]
        ensures_weaken [OF retry_or_fail_ledger])
     (auto simp: closes_def)

lemma invoke_loop_ledger:
  "ensures (invoke_loop env l invocation st)
     (\<lambda>x calls. \<exists>p. track None calls = Some p \<and> ((\<forall>e. x \<noteq> Inl e) \<longrightarrow> p = None))"
proof (induction env l invocation st rule: invoke_loop.induct)
  case (1 env l invocation st)
  show ?case
    unfolding invoke_loop.simps [of env l invocation st]
  proof (rule ensures_bind_run [OF invoke_once_ledger])
    fix h step calls
    assume run: "run_state (invoke_once env l invocation st) h = (step, h @ calls)"
      and post: "\<exists>p. track None calls = Some p \<and> ((\<forall>e. step \<noteq> Inl (Inl e)) \<longrightarrow> p = None)"
    show "ensures (case step of Inl result \<Rightarrow> State_Monad.return result
          | Inr st' \<Rightarrow> invoke_loop env l invocation st')
        (\<lambda>x calls'. \<exists>p. track None (calls @ calls') = Some p \<and> ((\<forall>e. x \<noteq> Inl e) \<longrightarrow> p = None))"
    proof (cases step)
      case (Inl result)
      with post show ?thesis by (simp add: ensures_return)
    next
      case (Inr st')
      from 1 [OF run Inr] show ?thesis
        using post by (simp add: Inr)
    qed
  qed
qed

lemma invoke_ledger:
  "ensures (invoke env l invocation)
     (\<lambda>x calls. \<exists>p. track None calls = Some p \<and> ((\<forall>e. x \<noteq> Inl e) \<longrightarrow> p = None))"
  unfolding invoke_def
  by (intro plain_rules ensures_weaken [OF invoke_loop_ledger]) auto

end
