(* ===== verification/Gateway_Chain.thy ===== *)
theory Gateway_Chain
  imports Gateway_Ledger
begin

text \<open>
  The commits of the gateway replayed on the lifecycles of domain/lifecycle.rs. Every accepted begin, first
  mark and finish is applied to the lifecycles as the domain transition it stands for, and the replay never fails:
  what the gateway commits is a retry chain that the domain decides for itself.
\<close>

section \<open>The replay of the commits\<close>

text \<open>
  The lifecycles of the attempts, newest first. A mark and a finish address the newest attempt in the state
  they expect; the domain decides the transition. Calls that commit nothing leave the lifecycles alone.
\<close>

definition advance_newest ::
  "ModelInvocationLifecycle list \<Rightarrow> ModelInvocationId \<Rightarrow> ModelInvocationState \<Rightarrow> ModelTransitionRequest \<Rightarrow>
     LifecycleTransitionError + ModelInvocationLifecycle list" where
  "advance_newest ls i state request =
     (case ls of
        [] \<Rightarrow> Inl (Conflict LifecycleConflictKind.WrongCurrentAttempt)
      | l # earlier \<Rightarrow>
          if ma_model_invocation_id (ml_reference l) \<noteq> i
          then Inl (Conflict LifecycleConflictKind.WrongCurrentAttempt)
          else if ml_state l \<noteq> state then Inl (Conflict LifecycleConflictKind.StaleState)
          else map_ok (\<lambda>next_l. next_l # earlier) (model_step l request))"

definition commit_call ::
  "ModelInvocationLifecycle list \<Rightarrow> GatewayCall \<Rightarrow> LifecycleTransitionError + ModelInvocationLifecycle list" where
  "commit_call ls call =
     (case call of
        CallBegin b True \<Rightarrow>
          (case ls of
             [] \<Rightarrow> map_ok (\<lambda>l. [l]) (model_start (br_attempt b))
           | l # _ \<Rightarrow> map_ok (\<lambda>next_l. next_l # ls) (decide_next_model_attempt l (br_attempt b) ls))
      | CallMarkStreaming m True \<Rightarrow>
          advance_newest ls (ms_model_invocation_id m) (ms_model_state m) ObserveFirstProviderDelta
      | CallFinish f True \<Rightarrow>
          (case finish_transition (fr_outcome f) of
             None \<Rightarrow> Inl (Conflict LifecycleConflictKind.IllegalTransition)
           | Some request \<Rightarrow> advance_newest ls (fr_model_invocation_id f) (fr_model_state f) request)
      | _ \<Rightarrow> Inr ls)"

definition pending :: "ModelInvocationLifecycle list \<Rightarrow> open_entry" where
  "pending ls =
     (case ls of
        [] \<Rightarrow> None
      | l # _ \<Rightarrow> if model_is_terminal (ml_state l) then None
                 else Some (ma_model_invocation_id (ml_reference l), ml_state l))"

definition settled_part :: "ModelInvocationLifecycle list \<Rightarrow> ModelInvocationLifecycle list" where
  "settled_part ls = (if pending ls = None then ls else tl ls)"

abbreviation finish_state :: "FinishModelInvocationRequest \<Rightarrow> ModelInvocationState" where
  "finish_state f \<equiv> mo_state (fr_outcome f)"

definition replayed :: "GatewayCall list \<Rightarrow> ModelInvocationLifecycle list \<Rightarrow> bool" where
  "replayed calls ls \<longleftrightarrow>
     fold_result commit_call [] calls = Inr ls \<and>
     map ml_reference ls = rev (map br_attempt (accepted (begins calls))) \<and>
     map ml_state (settled_part ls) = rev (map finish_state (accepted (finishes calls))) \<and>
     track None calls = Some (pending ls) \<and> (ls \<noteq> [] \<longrightarrow> attempt_chain ls)"

section \<open>The committed begins are candidates of the domain\<close>

lemma work_after_work_id: "work_after work request = Inr next_work \<Longrightarrow> wl_work_id next_work = wl_work_id work"
  by (auto simp: work_after_def decide_work_transition_def result_iffs Let_def split: if_splits)

definition continues :: "BeginModelInvocationRequest \<Rightarrow> BeginModelInvocationRequest list \<Rightarrow> BeginModelInvocationRequest \<Rightarrow> bool" where
  "continues p earlier b \<longleftrightarrow>
     begin_id b \<notin> begin_id ` set (p # earlier) \<and>
     pi_get (ma_attempt_no (br_attempt b)) = pi_get (ma_attempt_no (br_attempt p)) + 1 \<and>
     (\<forall>e \<in> set earlier. pi_get (ma_attempt_no (br_attempt e)) < pi_get (ma_attempt_no (br_attempt p))) \<and>
     0 < pi_get (ma_attempt_no (br_attempt p)) \<and> pi_get (ma_attempt_no (br_attempt b)) \<le> i64_max \<and>
     ma_logical_invocation_id (br_attempt b) = ma_logical_invocation_id (br_attempt p) \<and>
     ma_work_id (br_attempt b) = ma_work_id (br_attempt p) \<and>
     ma_context_manifest_id (br_attempt b) = ma_context_manifest_id (br_attempt p) \<and>
     ma_agent_step_no (br_attempt b) = ma_agent_step_no (br_attempt p) \<and>
     ma_retry_of (br_attempt b) = Some (begin_id p)"

lemma pi_eq_iff: "x = y \<longleftrightarrow> pi_get x = pi_get y"
  by (cases x; cases y) simp

lemma next_attempt_accepted:
  assumes "continues p earlier b" and "model_is_terminal (ml_state l)" and "ml_reference l = br_attempt p"
    and refs: "map ml_reference ls = map br_attempt earlier"
  shows "decide_next_model_attempt l (br_attempt b) (l # ls) =
      Inr \<lparr>ml_reference = br_attempt b, ml_state = ModelInvocationState.Requesting\<rparr>"
proof -
  note c = assms(1) [unfolded continues_def]
  have inc: "pi_checked_increment (ma_attempt_no (br_attempt p)) = Inr (ma_attempt_no (br_attempt b))"
    using c by (auto simp: pi_checked_increment_Inr_iff pi_eq_iff i64_defs)
  have old: "\<exists>e \<in> set earlier. ml_reference k = br_attempt e" if "k \<in> set ls" for k
    using that arg_cong [OF refs, of set] by (auto simp: image_iff)
  have fresh: "ma_model_invocation_id (ml_reference k) \<noteq> begin_id b" if "k \<in> set ls" for k
    using c old [OF that] by (force simp: image_iff)
  have number: "ma_attempt_no (ml_reference k) \<noteq> ma_attempt_no (br_attempt b)" if "k \<in> set ls" for k
    using c old [OF that] by (auto simp: pi_eq_iff)
  show ?thesis
    using c fresh number assms(2,3)
    by (auto simp: decide_next_model_attempt_def Let_def list_ex_iff inc model_start_def pi_eq_iff
        validate_model_reference_shape_def)
qed

definition fits :: "BeginModelInvocationRequest list \<Rightarrow> BeginModelInvocationRequest \<Rightarrow> bool" where
  "fits bs b \<longleftrightarrow>
     (if bs = [] then ma_attempt_no (br_attempt b) = PositiveInteger 1 \<and> ma_retry_of (br_attempt b) = None
      else continues (last bs) (butlast bs) b)"

lemma chain_split:
  "attempts_chain env invocation n previous work (xs @ b # ys) fs \<Longrightarrow>
   \<exists>w. begins_attempt env invocation (n + length xs)
         (if xs = [] then previous else Some (begin_id (last xs))) w b \<and> wl_work_id w = wl_work_id work"
proof (induction xs arbitrary: n previous work fs)
  case Nil
  then show ?case by (cases fs) auto
next
  case (Cons x xs)
  then obtain f gs where x: "begins_attempt env invocation n previous work x" and f: "retried x f"
    and rest: "attempts_chain env invocation (n + 1) (Some (begin_id x)) (fr_work_next f) (xs @ b # ys) gs"
    by (cases fs) auto
  have "wl_work_id (fr_work_next f) = wl_work_id work"
    using f x by (auto simp: retried_def begins_attempt_def dest!: work_after_work_id)
  with Cons.IH [OF rest] show ?case by (auto split: if_splits)
qed

lemma chain_fits:
  assumes chain: "attempts_chain env invocation 1 None work bs fs" and bs: "bs = xs @ b # ys"
    and "distinct (map begin_id bs)" and "int (length bs) \<le> i64_max"
  shows "fits xs b"
proof (cases xs rule: rev_cases)
  case Nil
  with chain_split [OF chain [unfolded bs]] show ?thesis by (auto simp: fits_def begins_attempt_def)
next
  case (snoc earlier p)
  obtain v where v: "begins_attempt env invocation (2 + length earlier) (Some (begin_id p)) v b"
      "wl_work_id v = wl_work_id work"
    using chain_split [OF chain [unfolded bs]] snoc by auto
  obtain w where w: "\<exists>previous. begins_attempt env invocation (1 + length earlier) previous w p"
      "wl_work_id w = wl_work_id work"
    using chain_split [of env invocation 1 None work earlier p "b # ys" fs] chain bs snoc by auto
  have below: "pi_get (ma_attempt_no (br_attempt e)) < int (1 + length earlier)" if e: "e \<in> set earlier" for e
  proof -
    obtain as cs where split: "earlier = as @ e # cs" using split_list [OF e] by blast
    have "\<exists>w previous. begins_attempt env invocation (1 + length as) previous w e"
      using chain_split [of env invocation 1 None work as e "cs @ p # b # ys" fs] chain bs snoc split by auto
    then show ?thesis by (auto simp: begins_attempt_def split)
  qed
  show ?thesis
    using v w below assms(3,4) snoc bs by (auto simp: fits_def continues_def begins_attempt_def)
qed

lemma chain_finishes:
  "attempts_chain env invocation n previous work bs fs \<Longrightarrow>
     length bs \<le> Suc (length fs) \<and> length fs \<le> length bs \<and>
     (\<forall>f \<in> set (take (length bs - 1) fs). finish_state f = ModelInvocationState.Failed)"
  by (induction env invocation n previous work bs fs rule: attempts_chain.induct)
     (auto simp: retried_def take_Cons' neq_Nil_conv split: if_splits)

section \<open>The replay succeeds\<close>

lemma replayed_begin:
  assumes r: "replayed xs ls" and t: "track None (xs @ [CallBegin b True]) \<noteq> None"
    and f: "fits (accepted (begins xs)) b"
  shows "replayed (xs @ [CallBegin b True])
    (\<lparr>ml_reference = br_attempt b, ml_state = ModelInvocationState.Requesting\<rparr> # ls)"
proof -
  let ?new = "\<lparr>ml_reference = br_attempt b, ml_state = ModelInvocationState.Requesting\<rparr>"
  note r = r [unfolded replayed_def]
  have idle: "pending ls = None" using r t by (auto split: if_splits)
  have "commit_call ls (CallBegin b True) = Inr (?new # ls) \<and> attempt_chain (?new # ls)"
  proof (cases ls)
    case Nil
    then have "model_start (br_attempt b) = Inr ?new" "ma_attempt_no (br_attempt b) = PositiveInteger 1"
      using f r by (auto simp: fits_def model_start_def validate_model_reference_shape_def)
    with Nil attempt_chain.first show ?thesis by (auto simp: commit_call_def)
  next
    case (Cons l earlier)
    have "map ml_reference (l # earlier) = rev (map br_attempt (accepted (begins xs)))" using r Cons by simp
    then obtain es p where bs: "accepted (begins xs) = es @ [p]" and "ml_reference l = br_attempt p"
      and "map ml_reference earlier = map br_attempt (rev es)"
      by (cases "accepted (begins xs)" rule: rev_cases) (auto simp: rev_map)
    moreover have "continues p (rev es) b" using f bs by (simp add: fits_def continues_def)
    moreover have "model_is_terminal (ml_state l)" using idle Cons by (simp add: pending_def split: if_splits)
    ultimately have "decide_next_model_attempt l (br_attempt b) (l # earlier) = Inr ?new"
      by (metis next_attempt_accepted)
    with Cons r show ?thesis by (auto simp: commit_call_def intro: attempt_chain.retry)
  qed
  then show ?thesis
    using r idle by (simp add: replayed_def fold_result_append settled_part_def pending_def)
qed

lemma model_step_effect:
  "model_effect request = Inr effect \<Longrightarrow> is_legal_model_pair (ml_state l) (model_target_state request) \<Longrightarrow>
     model_step l request = Inr \<lparr>ml_reference = ml_reference l, ml_state = model_target_state request\<rparr>"
  by (auto simp: model_step_def map_ok_Inr_iff decide_model_transition_Inr_iff)

lemma pendingD:
  "pending ls = Some (i, state) \<Longrightarrow>
     \<exists>l earlier. ls = l # earlier \<and> ma_model_invocation_id (ml_reference l) = i \<and> ml_state l = state \<and>
       \<not> model_is_terminal state"
  by (auto simp: pending_def split: list.splits if_splits)

lemma replayed_mark:
  assumes r: "replayed xs ls" and t: "track None (xs @ [CallMarkStreaming m True]) \<noteq> None"
  shows "\<exists>ls'. replayed (xs @ [CallMarkStreaming m True]) ls'"
proof -
  note r = r [unfolded replayed_def]
  have "pending ls = Some (ms_model_invocation_id m, ms_model_state m)"
    and state: "ms_model_state m = ModelInvocationState.Requesting"
    using r t by (auto split: if_splits)
  then obtain l earlier where ls: "ls = l # earlier"
    and l: "ma_model_invocation_id (ml_reference l) = ms_model_invocation_id m"
      "ml_state l = ModelInvocationState.Requesting"
    by (auto dest!: pendingD)
  let ?new = "\<lparr>ml_reference = ml_reference l, ml_state = ModelInvocationState.Streaming\<rparr>"
  have step: "model_step l ObserveFirstProviderDelta = Inr ?new"
    using model_step_effect [of ObserveFirstProviderDelta] l by simp
  have "attempt_chain (?new # earlier)" using attempt_chain.progress [OF _ step] r ls by blast
  then have "replayed (xs @ [CallMarkStreaming m True]) (?new # earlier)"
    using r ls l state step
    by (simp add: replayed_def fold_result_append commit_call_def advance_newest_def settled_part_def pending_def)
  then show ?thesis by blast
qed

lemma finish_transition_target:
  "finish_transition outcome = Some request \<Longrightarrow>
     model_target_state request = mo_state outcome \<and> model_is_terminal (mo_state outcome) \<and>
     (\<not> model_is_terminal state \<longrightarrow> is_legal_model_pair state (mo_state outcome))"
  by (cases "mo_state outcome"; cases state) (auto simp: finish_transition_def)

lemma replayed_finish:
  assumes r: "replayed xs ls" and t: "track None (xs @ [CallFinish f True]) \<noteq> None"
  shows "\<exists>ls'. replayed (xs @ [CallFinish f True]) ls'"
proof -
  note r = r [unfolded replayed_def]
  have p: "pending ls = Some (fr_model_invocation_id f, fr_model_state f)" and evidence: "evidenced (fr_outcome f)"
    using r t by (auto split: if_splits)
  then obtain request effect where request: "finish_transition (fr_outcome f) = Some request"
    and effect: "model_effect request = Inr effect"
    by (auto simp: evidenced_def)
  obtain l earlier where ls: "ls = l # earlier"
    and l: "ma_model_invocation_id (ml_reference l) = fr_model_invocation_id f"
      "ml_state l = fr_model_state f" "\<not> model_is_terminal (fr_model_state f)"
    using pendingD [OF p] by auto
  let ?new = "\<lparr>ml_reference = ml_reference l, ml_state = finish_state f\<rparr>"
  note target = finish_transition_target [OF request, of "fr_model_state f"]
  have step: "model_step l request = Inr ?new"
    using model_step_effect [OF effect, of l] target l by simp
  have "attempt_chain (?new # earlier)" using attempt_chain.progress [OF _ step] r ls by blast
  then have "replayed (xs @ [CallFinish f True]) (?new # earlier)"
    using r ls l step request target evidence
    by (simp add: replayed_def fold_result_append commit_call_def advance_newest_def settled_part_def pending_def)
  then show ?thesis by blast
qed

lemma replayed_step:
  assumes r: "replayed xs ls" and t: "track None (xs @ [call]) \<noteq> None"
    and f: "\<And>b. call = CallBegin b True \<Longrightarrow> fits (accepted (begins xs)) b"
  shows "\<exists>ls'. replayed (xs @ [call]) ls'"
proof -
  consider b where "call = CallBegin b True" | m where "call = CallMarkStreaming m True"
    | g where "call = CallFinish g True"
    | "commit_call ls call = Inr ls" "accepted (begins [call]) = []" "accepted (finishes [call]) = []"
      "ledger (pending ls) call = Some (pending ls)"
    by (cases "(pending ls, call)" rule: ledger.cases) (auto simp: commit_call_def)
  then show ?thesis
  proof cases
    case 1
    with replayed_begin [OF r] t f show ?thesis by blast
  next
    case 2
    with replayed_mark [OF r] t show ?thesis by blast
  next
    case 3
    with replayed_finish [OF r] t show ?thesis by blast
  next
    case 4
    with r have "replayed (xs @ [call]) ls" by (simp add: replayed_def fold_result_append)
    then show ?thesis by blast
  qed
qed

lemma replay_calls:
  assumes "track None (xs @ ys) \<noteq> None"
    and "\<And>as b bs. accepted (begins (xs @ ys)) = as @ b # bs \<Longrightarrow> fits as b"
  shows "\<exists>ls. replayed xs ls"
  using assms
proof (induction xs arbitrary: ys rule: rev_induct)
  case Nil
  show ?case by (rule exI [of _ "[]"]) (simp add: replayed_def settled_part_def pending_def)
next
  case (snoc call xs)
  have "\<exists>ls. replayed xs ls" by (rule snoc.IH [of "call # ys"]) (use snoc.prems in simp_all)
  then obtain ls where "replayed xs ls" ..
  then show ?case
    by (rule replayed_step) (use snoc.prems in \<open>auto split: Option.bind_splits\<close>)
qed

text \<open>So the replay of a whole chain: all attempts but the newest failed.\<close>

lemma settled_failed:
  assumes r: "replayed calls ls" and chain: "attempts_chain env invocation n previous work
      (accepted (begins calls)) (accepted (finishes calls))"
  shows "\<forall>l \<in> set (tl ls). ml_state l = ModelInvocationState.Failed"
proof -
  let ?bs = "accepted (begins calls)" and ?fs = "accepted (finishes calls)"
  have len: "length ls = length ?bs" using r by (metis length_map length_rev replayed_def)
  have states: "map ml_state (settled_part ls) = rev (map finish_state ?fs)" using r by (simp add: replayed_def)
  then have fs: "length (settled_part ls) = length ?fs" by (metis length_map length_rev)
  have "map ml_state (tl ls) = rev (map finish_state (take (length ?bs - 1) ?fs))"
  proof (cases "pending ls")
    case None
    then have "map ml_state (tl ls) = tl (rev (map finish_state ?fs))"
      using states by (simp add: settled_part_def map_tl)
    also have "\<dots> = rev (butlast (map finish_state ?fs))" by (metis butlast_rev rev_swap)
    finally show ?thesis using None len fs by (simp add: settled_part_def butlast_conv_take take_map)
  next
    case (Some i)
    then show ?thesis using states len fs by (simp add: settled_part_def)
  qed
  moreover have "set (map finish_state (take (length ?bs - 1) ?fs)) \<subseteq> {ModelInvocationState.Failed}"
    using chain_finishes [OF chain] by auto
  ultimately have "set (map ml_state (tl ls)) \<subseteq> {ModelInvocationState.Failed}" by simp
  then show ?thesis by auto
qed

end
