(* ===== verification/Scheduler.thy ===== *)
theory Scheduler
  imports Model_Gateway "HOL-Library.AList"
begin

text \<open>
  The work scheduler of application/scheduler.rs: the task registry, the durable scan that claims work
  and forwards cancellations, the reconciliation of joined runners, and the loop that selects between
  its commands, joined runners and scans. The loop is a step relation over its state and the
  history of port calls, so every interleaving of commands, joins, wakes and ticks is a run.
\<close>

section \<open>The loop state and its ports\<close>

datatype WorkRunnerExit = TerminalCommitted | CancellationConfirmed | Abnormal

datatype SchedulerError = StateStoreFailure | ClockFailure | Health | TaskJoin | Invariant

datatype SchedulerCommand = BeginShutdown | PrepareDeadline | AbortDurablyClassified

datatype SchedulerReadiness = RemainLiveUnready | ReadyAfterInitialScan

record RegistryEntry =
  ry_runtime_instance_id :: RuntimeInstanceId
  ry_cancellation :: bool
  ry_task_id :: nat

record RegistryEntrySnapshot =
  rv_work_id :: WorkId
  rv_runtime_instance_id :: RuntimeInstanceId
  rv_cancellation_requested :: bool

record ClaimNextWorkRequest =
  cn_runtime_id :: RuntimeInstanceId
  cn_claimed_at :: int
  cn_event_id :: JournalEventId

record InterruptOwnedWorkRequest =
  io_work_id :: WorkId
  io_runtime_id :: RuntimeInstanceId
  io_interrupted_at :: int
  io_event_id :: JournalEventId

record FinishCancellationRequest =
  fc_work_id :: WorkId
  fc_runtime_id :: RuntimeInstanceId
  fc_confirmed_at :: int
  fc_event_id :: JournalEventId

record CancelRequestedWork =
  cr_work_id :: WorkId
  cr_current_attempt :: CurrentWorkAttempt

text \<open>
  The tasks of the join set that have not been joined, each with the work its future returns; the
  registry and the reverse map are association lists. \<open>sc_initial_scan\<close> is what was sent to the waiter
  of the first scan.
\<close>

record SchedulerLoop =
  sc_tasks :: "(nat \<times> WorkId) list"
  sc_registry :: "(WorkId \<times> RegistryEntry) list"
  sc_task_to_work :: "(nat \<times> WorkId) list"
  sc_view :: "(WorkId \<times> RegistryEntrySnapshot) list"
  sc_claiming :: bool
  sc_shutting_down :: bool
  sc_fatal_error :: "SchedulerError option"
  sc_deadline_frozen :: bool
  sc_control_open :: bool
  sc_initial_scan_completed :: bool
  sc_initial_scan :: "(SchedulerError + unit) option"

text \<open>
  A claimed work item passes through to the runner; the scheduler only reads its identity. A
  cancellation signal reaches the entry only while the runner still holds its receiver.
\<close>

datatype SchedulerCall =
    ReadNow "int option"
  | NewEventId Uuid
  | CallListCancelRequested RuntimeInstanceId "CancelRequestedWork list option"
  | CallInterrupt InterruptOwnedWorkRequest bool
  | CallFinishCancellation FinishCancellationRequest bool
  | CallClaim ClaimNextWorkRequest "WorkId option option"
  | StartRunner WorkId bool
  | SpawnTask WorkId nat
  | SignalCancel WorkId bool
  | RunnerJoined nat WorkId "WorkRunnerExit option"
  | MarkReady bool
  | MarkFatal

record scheduler_env =
  se_utc_now :: "SchedulerCall list \<Rightarrow> int option"
  se_generate :: "SchedulerCall list \<Rightarrow> Uuid"
  se_list :: "SchedulerCall list \<Rightarrow> CancelRequestedWork list option"
  se_interrupt :: "InterruptOwnedWorkRequest \<Rightarrow> SchedulerCall list \<Rightarrow> bool"
  se_finish :: "FinishCancellationRequest \<Rightarrow> SchedulerCall list \<Rightarrow> bool"
  se_claim :: "ClaimNextWorkRequest \<Rightarrow> SchedulerCall list \<Rightarrow> WorkId option option"
  se_start :: "WorkId \<Rightarrow> SchedulerCall list \<Rightarrow> bool"
  se_spawn :: "SchedulerCall list \<Rightarrow> nat"
  se_signal :: "WorkId \<Rightarrow> SchedulerCall list \<Rightarrow> bool"
  se_exit :: "nat \<Rightarrow> SchedulerCall list \<Rightarrow> WorkRunnerExit option"
  se_mark_ready :: "SchedulerCall list \<Rightarrow> bool"
  se_runtime :: RuntimeInstanceId
  se_readiness :: SchedulerReadiness

type_synonym 'a scheduler = "(SchedulerCall, 'a) service"

section \<open>Operations\<close>

definition scheduler_start :: SchedulerLoop where
  "scheduler_start =
     \<lparr>sc_tasks = [], sc_registry = [], sc_task_to_work = [], sc_view = [], sc_claiming = True,
      sc_shutting_down = False, sc_fatal_error = None, sc_deadline_frozen = False, sc_control_open = True,
      sc_initial_scan_completed = False, sc_initial_scan = None\<rparr>"

definition entry_view :: "WorkId \<times> RegistryEntry \<Rightarrow> WorkId \<times> RegistryEntrySnapshot" where
  "entry_view = (\<lambda>(w, entry). (w,
     \<lparr>rv_work_id = w, rv_runtime_instance_id = ry_runtime_instance_id entry,
      rv_cancellation_requested = ry_cancellation entry\<rparr>))"

definition update_view :: "SchedulerLoop \<Rightarrow> SchedulerLoop" where
  "update_view st = st\<lparr>sc_view := map entry_view (sc_registry st)\<rparr>"

definition scheduler_now :: "scheduler_env \<Rightarrow> (SchedulerError + int) scheduler" where
  "scheduler_now env = do {
     now \<leftarrow> ask (se_utc_now env) ReadNow;
     State_Monad.return (ok_or now ClockFailure)
   }"

definition interrupt_runner :: "scheduler_env \<Rightarrow> WorkId \<Rightarrow> (SchedulerError + unit) scheduler" where
  "interrupt_runner env w = do {
     now \<leftarrow> scheduler_now env;
     case now of
       Inl e \<Rightarrow> State_Monad.return (Inl e)
     | Inr interrupted_at \<Rightarrow> do {
         event \<leftarrow> ask (se_generate env) NewEventId;
         let request = \<lparr>io_work_id = w, io_runtime_id = se_runtime env, io_interrupted_at = interrupted_at,
                        io_event_id = JournalEventId event\<rparr>;
         committed \<leftarrow> ask (se_interrupt env request) (CallInterrupt request);
         State_Monad.return (if committed then Inr () else Inl StateStoreFailure)
       }
   }"

definition confirm_cancellation :: "scheduler_env \<Rightarrow> WorkId \<Rightarrow> (SchedulerError + unit) scheduler" where
  "confirm_cancellation env w = do {
     now \<leftarrow> scheduler_now env;
     case now of
       Inl e \<Rightarrow> State_Monad.return (Inl e)
     | Inr confirmed_at \<Rightarrow> do {
         event \<leftarrow> ask (se_generate env) NewEventId;
         let request = \<lparr>fc_work_id = w, fc_runtime_id = se_runtime env, fc_confirmed_at = confirmed_at,
                        fc_event_id = JournalEventId event\<rparr>;
         committed \<leftarrow> ask (se_finish env request) (CallFinishCancellation request);
         State_Monad.return (if committed then Inr () else Inl StateStoreFailure)
       }
   }"

definition signal_entry :: "scheduler_env \<Rightarrow> WorkId \<times> RegistryEntry \<Rightarrow> (WorkId \<times> RegistryEntry) scheduler" where
  "signal_entry env = (\<lambda>(w, entry). do {
     delivered \<leftarrow> ask (se_signal env w) (SignalCancel w);
     State_Monad.return (w, if delivered then entry\<lparr>ry_cancellation := True\<rparr> else entry)
   })"

fun signal_entries :: "scheduler_env \<Rightarrow> (WorkId \<times> RegistryEntry) list \<Rightarrow> (WorkId \<times> RegistryEntry) list scheduler" where
  "signal_entries env [] = State_Monad.return []"
| "signal_entries env (e # es) = do {
     e' \<leftarrow> signal_entry env e;
     es' \<leftarrow> signal_entries env es;
     State_Monad.return (e' # es')
   }"

fun scan_cancellations ::
  "scheduler_env \<Rightarrow> SchedulerLoop \<Rightarrow> CancelRequestedWork list \<Rightarrow>
     ((SchedulerError + unit) \<times> SchedulerLoop) scheduler" where
  "scan_cancellations env st [] = State_Monad.return (Inr (), st)"
| "scan_cancellations env st (c # cs) =
     (case map_of (sc_registry st) (cr_work_id c) of
        Some entry \<Rightarrow> do {
          e \<leftarrow> signal_entry env (cr_work_id c, entry);
          scan_cancellations env
            (update_view (st\<lparr>sc_registry := AList.update (fst e) (snd e) (sc_registry st)\<rparr>)) cs
        }
      | None \<Rightarrow>
          if cr_current_attempt c = AttemptNone
          then do {
            r \<leftarrow> interrupt_runner env (cr_work_id c);
            case r of
              Inl e \<Rightarrow> State_Monad.return (Inl e, st)
            | Inr _ \<Rightarrow> scan_cancellations env st cs
          }
          else scan_cancellations env st cs)"

definition register_runner :: "scheduler_env \<Rightarrow> SchedulerLoop \<Rightarrow> WorkId \<Rightarrow> nat \<Rightarrow> SchedulerLoop" where
  "register_runner env st w t =
     update_view (st\<lparr>sc_tasks := sc_tasks st @ [(t, w)],
       sc_registry := AList.update w \<lparr>ry_runtime_instance_id = se_runtime env, ry_cancellation = False,
                                      ry_task_id = t\<rparr> (sc_registry st),
       sc_task_to_work := AList.update t w (sc_task_to_work st)\<rparr>)"

definition claim_work ::
  "scheduler_env \<Rightarrow> SchedulerLoop \<Rightarrow> ((SchedulerError + unit) \<times> SchedulerLoop) scheduler" where
  "claim_work env st = do {
     now \<leftarrow> scheduler_now env;
     case now of
       Inl e \<Rightarrow> State_Monad.return (Inl e, st)
     | Inr claimed_at \<Rightarrow>
         if \<not> sc_claiming st then State_Monad.return (Inr (), st)
         else do {
           event \<leftarrow> ask (se_generate env) NewEventId;
           let request = \<lparr>cn_runtime_id = se_runtime env, cn_claimed_at = claimed_at,
                          cn_event_id = JournalEventId event\<rparr>;
           claimed \<leftarrow> ask (se_claim env request) (CallClaim request);
           case claimed of
             None \<Rightarrow> State_Monad.return (Inl StateStoreFailure, st)
           | Some None \<Rightarrow> State_Monad.return (Inr (), st)
           | Some (Some w) \<Rightarrow> do {
               started \<leftarrow> ask (se_start env w) (StartRunner w);
               if \<not> started then do { r \<leftarrow> interrupt_runner env w; State_Monad.return (r, st) }
               else do {
                 t \<leftarrow> ask (se_spawn env) (SpawnTask w);
                 State_Monad.return (Inr (), register_runner env st w t)
               }
             }
         }
   }"

definition scan_once ::
  "scheduler_env \<Rightarrow> SchedulerLoop \<Rightarrow> ((SchedulerError + unit) \<times> SchedulerLoop) scheduler" where
  "scan_once env st = do {
     listed \<leftarrow> ask (se_list env) (CallListCancelRequested (se_runtime env));
     case listed of
       None \<Rightarrow> State_Monad.return (Inl StateStoreFailure, st)
     | Some cs \<Rightarrow> do {
         (r, st) \<leftarrow> scan_cancellations env st cs;
         case r of
           Inl e \<Rightarrow> State_Monad.return (Inl e, st)
         | Inr _ \<Rightarrow> if sc_registry st = [] then claim_work env st else State_Monad.return (Inr (), st)
       }
   }"

text \<open>A joined runner: its task and, unless the task failed, the work and exit its future returned.\<close>

datatype JoinedRunner = JoinOk nat WorkId WorkRunnerExit | JoinError nat

text \<open>\<open>None\<close> reconciles durably; \<open>Some ts\<close> are the tasks already classified durably.\<close>

type_synonym JoinDisposition = "nat list option"

definition joined_task :: "SchedulerLoop \<Rightarrow> JoinedRunner \<Rightarrow> SchedulerError + (WorkId \<times> nat \<times> WorkRunnerExit option)" where
  "joined_task st joined =
     (case joined of
        JoinOk t w exit \<Rightarrow>
          if map_of (sc_task_to_work st) t \<noteq> Some w then Inl Invariant else Inr (w, t, Some exit)
      | JoinError t \<Rightarrow> map_ok (\<lambda>w. (w, t, None)) (ok_or (map_of (sc_task_to_work st) t) Invariant))"

fun joined_id :: "JoinedRunner \<Rightarrow> nat" where
  "joined_id (JoinOk t w exit) = t"
| "joined_id (JoinError t) = t"

definition observe_join ::
  "scheduler_env \<Rightarrow> SchedulerLoop \<Rightarrow> JoinedRunner \<Rightarrow> JoinDisposition \<Rightarrow>
     ((SchedulerError + unit) \<times> JoinDisposition \<times> SchedulerLoop) scheduler" where
  "observe_join env st joined disposition =
     (let found = joined_task st joined;
          st = st\<lparr>sc_task_to_work := AList.delete (joined_id joined) (sc_task_to_work st)\<rparr> in
      case found of
        Inl e \<Rightarrow> State_Monad.return (Inl e, disposition, st)
      | Inr (w, t, exit) \<Rightarrow>
          let entry = map_of (sc_registry st) w;
              st = st\<lparr>sc_registry := AList.delete w (sc_registry st)\<rparr> in
          if (case entry of None \<Rightarrow> True
              | Some entry \<Rightarrow> ry_task_id entry \<noteq> t \<or> ry_runtime_instance_id entry \<noteq> se_runtime env)
          then State_Monad.return (Inl Invariant, disposition, st)
          else
            let st = update_view st in
            case disposition of
              Some ts \<Rightarrow>
                State_Monad.return
                  (if t \<in> set ts then Inr () else Inl Invariant, Some (removeAll t ts), st)
            | None \<Rightarrow>
                case exit of
                  Some TerminalCommitted \<Rightarrow> State_Monad.return (Inr (), None, st)
                | Some CancellationConfirmed \<Rightarrow> do {
                    r \<leftarrow> confirm_cancellation env w;
                    State_Monad.return (r, None, st)
                  }
                | _ \<Rightarrow> do {
                    r \<leftarrow> interrupt_runner env w;
                    State_Monad.return (r, None, st)
                  })"

definition take_joined ::
  "scheduler_env \<Rightarrow> SchedulerLoop \<Rightarrow> nat \<times> WorkId \<Rightarrow> (JoinedRunner \<times> SchedulerLoop) scheduler" where
  "take_joined env st = (\<lambda>(t, w). do {
     exit \<leftarrow> ask (se_exit env t) (RunnerJoined t w);
     State_Monad.return
       (case exit of Some e \<Rightarrow> JoinOk t w e | None \<Rightarrow> JoinError t,
        st\<lparr>sc_tasks := remove1 (t, w) (sc_tasks st)\<rparr>)
   })"

section \<open>The loop\<close>

datatype LoopOutcome = Continue SchedulerLoop | Returned "SchedulerError + unit"

definition report_initial_scan :: "SchedulerError + unit \<Rightarrow> SchedulerLoop \<Rightarrow> SchedulerLoop" where
  "report_initial_scan r st =
     (if sc_initial_scan st = None then st\<lparr>sc_initial_scan := Some r\<rparr> else st)"

definition insert_fatal :: "SchedulerError \<Rightarrow> SchedulerLoop \<Rightarrow> SchedulerLoop" where
  "insert_fatal e st = (if sc_fatal_error st = None then st\<lparr>sc_fatal_error := Some e\<rparr> else st)"

definition scheduler_result :: "SchedulerLoop \<Rightarrow> SchedulerError + unit" where
  "scheduler_result st = (case sc_fatal_error st of None \<Rightarrow> Inr () | Some e \<Rightarrow> Inl e)"

definition request_shutdown :: "scheduler_env \<Rightarrow> SchedulerLoop \<Rightarrow> SchedulerLoop scheduler" where
  "request_shutdown env st = do {
     entries \<leftarrow> signal_entries env (sc_registry st);
     State_Monad.return (update_view (st\<lparr>sc_shutting_down := True, sc_registry := entries\<rparr>))
   }"

text \<open>The aborted tasks are joined one by one; every one of them counts as classified.\<close>

fun join_aborted ::
  "scheduler_env \<Rightarrow> SchedulerLoop \<Rightarrow> JoinDisposition \<Rightarrow> (nat \<times> WorkId) list \<Rightarrow>
     ((SchedulerError + unit) \<times> JoinDisposition \<times> SchedulerLoop) scheduler" where
  "join_aborted env st disposition [] = State_Monad.return (Inr (), disposition, st)"
| "join_aborted env st disposition (task # tasks) = do {
     (joined, st) \<leftarrow> take_joined env st task;
     (r, disposition, st) \<leftarrow> observe_join env st joined disposition;
     case r of
       Inl e \<Rightarrow> State_Monad.return (Inl e, disposition, st)
     | Inr _ \<Rightarrow> join_aborted env st disposition tasks
   }"

definition on_command :: "scheduler_env \<Rightarrow> SchedulerLoop \<Rightarrow> SchedulerCommand option \<Rightarrow> LoopOutcome scheduler" where
  "on_command env st command =
     (case command of
        Some BeginShutdown \<Rightarrow> do {
          st \<leftarrow> request_shutdown env st;
          State_Monad.return (Continue st)
        }
      | Some PrepareDeadline \<Rightarrow> State_Monad.return (Continue (st\<lparr>sc_deadline_frozen := True\<rparr>))
      | Some AbortDurablyClassified \<Rightarrow> do {
          (r, disposition, st) \<leftarrow>
            join_aborted env st (Some (map fst (sc_task_to_work st))) (sc_tasks st);
          State_Monad.return (Returned
            (case r of
               Inl e \<Rightarrow> Inl e
             | Inr _ \<Rightarrow>
                 if disposition \<noteq> Some [] \<or> sc_registry st \<noteq> [] \<or> sc_task_to_work st \<noteq> []
                 then Inl Invariant else scheduler_result st))
        }
      | None \<Rightarrow> do {
          st \<leftarrow> request_shutdown env
            (insert_fatal TaskJoin (st\<lparr>sc_control_open := False, sc_claiming := False\<rparr>));
          State_Monad.return (Continue st)
        })"

definition on_joined :: "scheduler_env \<Rightarrow> SchedulerLoop \<Rightarrow> nat \<times> WorkId \<Rightarrow> LoopOutcome scheduler" where
  "on_joined env st task = do {
     (joined, st) \<leftarrow> take_joined env st task;
     (r, _, st) \<leftarrow> observe_join env st joined None;
     case r of
       Inr _ \<Rightarrow> State_Monad.return (Continue st)
     | Inl e \<Rightarrow> do {
         _ \<leftarrow> tell MarkFatal;
         State_Monad.return (Continue
           (insert_fatal e ((report_initial_scan (Inl e) st)\<lparr>sc_claiming := False\<rparr>)))
       }
   }"

definition on_scan :: "scheduler_env \<Rightarrow> SchedulerLoop \<Rightarrow> LoopOutcome scheduler" where
  "on_scan env st = do {
     (r, st) \<leftarrow> scan_once env st;
     case r of
       Inl e \<Rightarrow> do {
         _ \<leftarrow> tell MarkFatal;
         State_Monad.return (Continue
           ((report_initial_scan (Inl e) st)\<lparr>sc_claiming := False, sc_fatal_error := Some e\<rparr>))
       }
     | Inr _ \<Rightarrow>
         if sc_initial_scan_completed st then State_Monad.return (Continue st)
         else do {
           let st = st\<lparr>sc_initial_scan_completed := True\<rparr>;
           ready \<leftarrow> (if se_readiness env = ReadyAfterInitialScan then ask (se_mark_ready env) MarkReady
                    else State_Monad.return True);
           if ready then State_Monad.return (Continue (report_initial_scan (Inr ()) st))
           else do {
             _ \<leftarrow> tell MarkFatal;
             State_Monad.return (Continue (report_initial_scan (Inl Health)
               (st\<lparr>sc_claiming := False, sc_fatal_error := Some Health\<rparr>)))
           }
         }
   }"

text \<open>
  The select loop. Any enabled branch may be the next one to be ready, and the handle may stop
  claiming between any two of them.
\<close>

type_synonym scheduler_config = "LoopOutcome \<times> SchedulerCall list"

definition drained :: "SchedulerLoop \<Rightarrow> bool" where
  "drained st \<longleftrightarrow> sc_shutting_down st \<and> sc_tasks st = []"

inductive loop_step :: "scheduler_env \<Rightarrow> scheduler_config \<Rightarrow> scheduler_config \<Rightarrow> bool" for env where
  leave: "drained st \<Longrightarrow> loop_step env (Continue st, h) (Returned (scheduler_result st), h)"
| command: "\<not> drained st \<Longrightarrow> sc_control_open st \<Longrightarrow> run_state (on_command env st c) h = (out, h') \<Longrightarrow>
    loop_step env (Continue st, h) (out, h')"
| joined: "\<not> drained st \<Longrightarrow> \<not> sc_deadline_frozen st \<Longrightarrow> task \<in> set (sc_tasks st) \<Longrightarrow>
    run_state (on_joined env st task) h = (out, h') \<Longrightarrow> loop_step env (Continue st, h) (out, h')"
| scanned: "\<not> drained st \<Longrightarrow> \<not> sc_deadline_frozen st \<Longrightarrow> sc_fatal_error st = None \<Longrightarrow>
    run_state (on_scan env st) h = (out, h') \<Longrightarrow> loop_step env (Continue st, h) (out, h')"

inductive scheduler_step :: "scheduler_env \<Rightarrow> scheduler_config \<Rightarrow> scheduler_config \<Rightarrow> bool" for env where
  loop: "loop_step env c c' \<Longrightarrow> scheduler_step env c c'"
| stop_claiming: "scheduler_step env (Continue st, h) (Continue (st\<lparr>sc_claiming := False\<rparr>), h)"

inductive_cases scheduler_stepE: "scheduler_step env c c'"
inductive_cases loop_stepE: "loop_step env (Continue st, h) c'"
inductive_simps loop_step_returned: "loop_step env (Returned r, h) c'"

section \<open>Invariant of the loop\<close>

definition in_flight :: "SchedulerLoop \<Rightarrow> WorkId option" where
  "in_flight st = (case sc_tasks st of [] \<Rightarrow> None | (_, w) # _ \<Rightarrow> Some w)"

definition registered :: "scheduler_env \<Rightarrow> SchedulerLoop \<Rightarrow> bool" where
  "registered env st \<longleftrightarrow>
     sc_view st = map entry_view (sc_registry st) \<and>
     (sc_tasks st = [] \<and> sc_registry st = [] \<and> sc_task_to_work st = [] \<or>
      (\<exists>t w cancelled. sc_tasks st = [(t, w)] \<and> sc_task_to_work st = [(t, w)] \<and>
         sc_registry st =
           [(w, \<lparr>ry_runtime_instance_id = se_runtime env, ry_cancellation = cancelled, ry_task_id = t\<rparr>)]))"

lemma registered_cases [consumes 1, case_names idle running]:
  assumes "registered env st"
  obtains "sc_tasks st = []" "sc_registry st = []" "sc_task_to_work st = []" "sc_view st = []"
  | t w cancelled where "sc_tasks st = [(t, w)]" "sc_task_to_work st = [(t, w)]"
      "sc_registry st =
         [(w, \<lparr>ry_runtime_instance_id = se_runtime env, ry_cancellation = cancelled, ry_task_id = t\<rparr>)]"
      "sc_view st = map entry_view (sc_registry st)"
  using assms unfolding registered_def by auto

text \<open>The runners started and joined by a history: at most one in flight, and work claimed only with none.\<close>

fun flight_step :: "WorkId option \<Rightarrow> SchedulerCall \<Rightarrow> WorkId option option" where
  "flight_step f (CallClaim _ _) = (if f = None then Some None else None)"
| "flight_step f (StartRunner w started) = (if f = None then Some (if started then Some w else None) else None)"
| "flight_step f (RunnerJoined _ w _) = (if f = Some w then Some None else None)"
| "flight_step f _ = Some f"

fun flights :: "WorkId option \<Rightarrow> SchedulerCall list \<Rightarrow> WorkId option option" where
  "flights f [] = Some f"
| "flights f (call # calls) = Option.bind (flight_step f call) (\<lambda>g. flights g calls)"

lemma flights_append [simp]: "flights f (xs @ ys) = Option.bind (flights f xs) (\<lambda>g. flights g ys)"
  by (induction xs arbitrary: f) auto

fun claims :: "SchedulerCall \<Rightarrow> bool" where
  "claims (CallClaim _ _) \<longleftrightarrow> True"
| "claims (StartRunner _ _) \<longleftrightarrow> True"
| "claims _ \<longleftrightarrow> False"

definition unclaiming :: "SchedulerCall list \<Rightarrow> bool" where
  "unclaiming calls \<longleftrightarrow> list_all (\<lambda>c. \<not> claims c) calls"

definition neutral :: "SchedulerCall list \<Rightarrow> bool" where
  "neutral calls \<longleftrightarrow> unclaiming calls \<and> (\<forall>f. flights f calls = Some f)"

lemma neutral_simps [simp]:
  "neutral []" "neutral xs \<Longrightarrow> neutral ys \<Longrightarrow> neutral (xs @ ys)"
  "neutral [ReadNow n]" "neutral [NewEventId u]" "neutral [CallListCancelRequested r cs]"
  "neutral [CallInterrupt i ok]" "neutral [CallFinishCancellation f ok]" "neutral [SignalCancel w ok]"
  "neutral [MarkReady ok]" "neutral [MarkFatal]" "neutral [SpawnTask w t]"
  by (simp_all add: neutral_def unclaiming_def)

lemma neutral_Cons [simp]: "neutral [x] \<Longrightarrow> neutral xs \<Longrightarrow> neutral (x # xs)"
  using neutral_simps(2) [of "[x]" xs] by simp

lemma neutralD [simp]: "neutral calls \<Longrightarrow> unclaiming calls" "neutral calls \<Longrightarrow> flights f calls = Some f"
  by (simp_all add: neutral_def)

lemma unclaiming_append [simp]: "unclaiming (xs @ ys) \<longleftrightarrow> unclaiming xs \<and> unclaiming ys"
  by (simp add: unclaiming_def)

text \<open>Neutral calls, and a fault that is not the internal invariant.\<close>

definition plain :: "SchedulerError + 'a \<Rightarrow> SchedulerCall list \<Rightarrow> bool" where
  "plain r calls \<longleftrightarrow> neutral calls \<and> r \<noteq> Inl Invariant"

lemma ensures_scheduler_now [ensures_rules]:
  "(\<And>r calls. plain r calls \<Longrightarrow> Q r calls) \<Longrightarrow> ensures (scheduler_now env) Q"
  unfolding scheduler_now_def by (intro ensures_rules) (auto simp: plain_def ok_or_def split: option.splits)

lemma ensures_interrupt_runner [ensures_rules]:
  assumes "\<And>r calls. plain r calls \<Longrightarrow> Q r calls"
  shows "ensures (interrupt_runner env w) Q"
  unfolding interrupt_runner_def by (intro ensures_rules assms) (auto simp: plain_def)

lemma ensures_confirm_cancellation [ensures_rules]:
  assumes "\<And>r calls. plain r calls \<Longrightarrow> Q r calls"
  shows "ensures (confirm_cancellation env w) Q"
  unfolding confirm_cancellation_def by (intro ensures_rules assms) (auto simp: plain_def)


text \<open>What a step leaves alone: everything but the tasks, the maps over them and the view.\<close>

definition same_control :: "SchedulerLoop \<Rightarrow> SchedulerLoop \<Rightarrow> bool" where
  "same_control st st' \<longleftrightarrow>
     sc_claiming st' = sc_claiming st \<and> sc_shutting_down st' = sc_shutting_down st \<and>
     sc_fatal_error st' = sc_fatal_error st \<and> sc_deadline_frozen st' = sc_deadline_frozen st \<and>
     sc_control_open st' = sc_control_open st"

lemma same_control_simps [simp]:
  "same_control st st" "same_control st (update_view st') = same_control st st'"
  "same_control st (st'\<lparr>sc_registry := rs\<rparr>) = same_control st st'"
  "same_control st (st'\<lparr>sc_tasks := ts\<rparr>) = same_control st st'"
  "same_control st (st'\<lparr>sc_task_to_work := tw\<rparr>) = same_control st st'"
  by (simp_all add: same_control_def update_view_def)

definition keeps_runner :: "scheduler_env \<Rightarrow> SchedulerLoop \<Rightarrow> SchedulerLoop \<Rightarrow> bool" where
  "keeps_runner env st st' \<longleftrightarrow> registered env st' \<and> sc_tasks st' = sc_tasks st \<and> same_control st st'"

lemma ensures_signal_entry [ensures_rules]:
  assumes "\<And>delivered calls. neutral calls \<Longrightarrow>
    Q (w, if delivered then entry\<lparr>ry_cancellation := True\<rparr> else entry) calls"
  shows "ensures (signal_entry env (w, entry)) Q"
  unfolding signal_entry_def prod.case by (intro ensures_rules assms) simp

lemma signalled_keeps_runner:
  assumes "registered env st" and "map_of (sc_registry st) w = Some entry"
  shows "keeps_runner env st (update_view (st\<lparr>sc_registry :=
    AList.update w (if b then entry\<lparr>ry_cancellation := True\<rparr> else entry) (sc_registry st)\<rparr>))"
  using assms(1)
proof (cases rule: registered_cases)
  case (running t w' cancelled)
  with assms(2) show ?thesis
    by (auto simp: keeps_runner_def registered_def update_view_def same_control_def split: if_splits)
qed (use assms(2) in simp)

lemma keeps_runner_trans: "keeps_runner env st st' \<Longrightarrow> keeps_runner env st' st'' \<Longrightarrow> keeps_runner env st st''"
  by (simp add: keeps_runner_def same_control_def)

definition scan_post :: "scheduler_env \<Rightarrow> SchedulerLoop \<Rightarrow> (SchedulerError + unit) \<times> SchedulerLoop \<Rightarrow> SchedulerCall list \<Rightarrow> bool" where
  "scan_post env st x calls \<longleftrightarrow> plain (fst x) calls \<and> keeps_runner env st (snd x)"

lemma scan_post_prefix:
  "neutral calls \<Longrightarrow> keeps_runner env st st' \<Longrightarrow> scan_post env st' x calls' \<Longrightarrow> scan_post env st x (calls @ calls')"
  by (auto simp: scan_post_def plain_def intro: keeps_runner_trans)

lemma keeps_runner_refl: "registered env st \<Longrightarrow> keeps_runner env st st"
  by (simp add: keeps_runner_def)

lemma scan_cancellations_ensures:
  "registered env st \<Longrightarrow> ensures (scan_cancellations env st cs) (scan_post env st)"
proof (induction cs arbitrary: st)
  case Nil
  then show ?case by (simp add: ensures_return scan_post_def plain_def keeps_runner_refl)
next
  case (Cons c cs)
  have rest: "ensures (scan_cancellations env st' cs) (\<lambda>x calls'. scan_post env st x (calls @ calls'))"
    if "neutral calls" "keeps_runner env st st'" for calls st'
    by (rule ensures_weaken [OF Cons.IH scan_post_prefix]) (use that in \<open>simp_all add: keeps_runner_def\<close>)
  note self = keeps_runner_refl [OF Cons.prems]
  show ?case
  proof (cases "map_of (sc_registry st) (cr_work_id c)")
    case None
    then show ?thesis
      using Cons.IH [OF Cons.prems]
      by (auto simp: plain_def intro!: ensures_rules rest self) (auto simp: scan_post_def plain_def self)
  next
    case (Some entry)
    note signalled = signalled_keeps_runner [OF Cons.prems, where b = True, simplified]
      signalled_keeps_runner [OF Cons.prems, where b = False, simplified]
    from Some show ?thesis
      by (auto simp del: fun_upd_apply intro!: ensures_rules rest signalled [OF Some])
  qed
qed

lemma ensures_scan_cancellations [ensures_rules]:
  "registered env st \<Longrightarrow> (\<And>x calls. scan_post env st x calls \<Longrightarrow> Q x calls) \<Longrightarrow>
     ensures (scan_cancellations env st cs) Q"
  by (rule ensures_weaken [OF scan_cancellations_ensures])

text \<open>One branch of the loop: the registry stays exact and the history stays one flight at a time.\<close>

definition branch_post :: "scheduler_env \<Rightarrow> SchedulerLoop \<Rightarrow> SchedulerLoop \<Rightarrow> SchedulerCall list \<Rightarrow> bool" where
  "branch_post env st st' calls \<longleftrightarrow>
     registered env st' \<and> flights (in_flight st) calls = Some (in_flight st') \<and>
     (\<not> sc_claiming st \<or> sc_tasks st \<noteq> [] \<longrightarrow> unclaiming calls)"

lemma registered_empty: "registered env st \<Longrightarrow> sc_registry st = [] \<longleftrightarrow> sc_tasks st = []"
  by (cases rule: registered_cases) auto

lemma registered_register:
  assumes "registered env st" "sc_registry st = []"
  shows "registered env (register_runner env st w t)" "in_flight (register_runner env st w t) = Some w"
    "same_control st (register_runner env st w t)"
  using assms by (auto simp: registered_def register_runner_def update_view_def in_flight_def same_control_def)

lemma claim_work_ensures:
  assumes "registered env st" "sc_registry st = []"
  shows "ensures (claim_work env st)
    (\<lambda>x calls. branch_post env st (snd x) calls \<and> same_control st (snd x) \<and> fst x \<noteq> Inl Invariant)"
proof -
  have none: "in_flight st = None" "sc_tasks st = []"
    using assms registered_empty [OF assms(1)] by (simp_all add: in_flight_def)
  show ?thesis
    unfolding claim_work_def
    by (intro ensures_rules)
       (auto simp: plain_def branch_post_def none assms registered_register)
qed

lemma claimed_append:
  "scan_post env st (r, st') calls \<Longrightarrow> branch_post env st' st'' calls' \<Longrightarrow> branch_post env st st'' (calls @ calls')"
  by (auto simp: scan_post_def plain_def keeps_runner_def branch_post_def in_flight_def same_control_def)

lemma scanned_only:
  "scan_post env st (r, st') calls \<Longrightarrow> branch_post env st st' calls"
  by (auto simp: scan_post_def plain_def keeps_runner_def branch_post_def in_flight_def)

definition scan_once_post :: "scheduler_env \<Rightarrow> SchedulerLoop \<Rightarrow> (SchedulerError + unit) \<times> SchedulerLoop \<Rightarrow> SchedulerCall list \<Rightarrow> bool" where
  "scan_once_post env st x calls \<longleftrightarrow>
     branch_post env st (snd x) calls \<and> same_control st (snd x) \<and> fst x \<noteq> Inl Invariant"

lemma branch_post_listed [simp]:
  "branch_post env st st' (CallListCancelRequested r a # calls) = branch_post env st st' calls"
  by (simp add: branch_post_def unclaiming_def)

lemma scan_once_ensures:
  assumes "registered env st"
  shows "ensures (scan_once env st) (scan_once_post env st)"
proof -
  have claim: "ensures (claim_work env st')
      (\<lambda>x calls'. branch_post env st (snd x) (calls @ calls') \<and> same_control st (snd x) \<and> fst x \<noteq> Inl Invariant)"
    if "scan_post env st (r, st') calls" "sc_registry st' = []" for r st' calls
    by (rule ensures_weaken [OF claim_work_ensures])
       (use that claimed_append [OF that(1)] in \<open>auto simp: scan_post_def keeps_runner_def same_control_def\<close>)
  have scanned: "branch_post env st st' calls \<and> same_control st st' \<and> r \<noteq> Inl Invariant"
    if "scan_post env st (r, st') calls" for r st' calls
    using that scanned_only [OF that] by (auto simp: scan_post_def keeps_runner_def plain_def)
  show ?thesis
    unfolding scan_once_def
    by (intro ensures_rules assms)
       (auto simp: scan_once_post_def branch_post_def [of env st st "[]"] assms dest: scanned intro!: claim)
qed

section \<open>The loop keeps its invariant\<close>

definition scheduler_inv :: "scheduler_env \<Rightarrow> SchedulerLoop \<Rightarrow> bool" where
  "scheduler_inv env st \<longleftrightarrow>
     registered env st \<and> sc_fatal_error st \<noteq> Some Invariant \<and>
     (sc_fatal_error st \<noteq> None \<longrightarrow> \<not> sc_claiming st) \<and> (\<not> sc_control_open st \<longrightarrow> sc_shutting_down st)"

definition step_post :: "scheduler_env \<Rightarrow> SchedulerLoop \<Rightarrow> LoopOutcome \<Rightarrow> SchedulerCall list \<Rightarrow> bool" where
  "step_post env st out calls \<longleftrightarrow>
     (case out of
        Returned r \<Rightarrow> r \<noteq> Inl Invariant \<and> unclaiming calls
      | Continue st' \<Rightarrow>
          branch_post env st st' calls \<and> scheduler_inv env st' \<and>
          (\<not> sc_claiming st \<longrightarrow> \<not> sc_claiming st') \<and> (sc_shutting_down st \<longrightarrow> sc_shutting_down st'))"

lemma report_initial_scan_fields [simp]:
  "sc_tasks (report_initial_scan r st) = sc_tasks st" "sc_registry (report_initial_scan r st) = sc_registry st"
  "sc_task_to_work (report_initial_scan r st) = sc_task_to_work st" "sc_view (report_initial_scan r st) = sc_view st"
  "sc_claiming (report_initial_scan r st) = sc_claiming st"
  "sc_shutting_down (report_initial_scan r st) = sc_shutting_down st"
  "sc_fatal_error (report_initial_scan r st) = sc_fatal_error st"
  "sc_control_open (report_initial_scan r st) = sc_control_open st"
  by (simp_all add: report_initial_scan_def)

lemma insert_fatal_fields [simp]:
  "sc_tasks (insert_fatal e st) = sc_tasks st" "sc_registry (insert_fatal e st) = sc_registry st"
  "sc_task_to_work (insert_fatal e st) = sc_task_to_work st" "sc_view (insert_fatal e st) = sc_view st"
  "sc_claiming (insert_fatal e st) = sc_claiming st"
  "sc_shutting_down (insert_fatal e st) = sc_shutting_down st"
  "sc_fatal_error (insert_fatal e st) = (if sc_fatal_error st = None then Some e else sc_fatal_error st)"
  "sc_control_open (insert_fatal e st) = sc_control_open st"
  by (simp_all add: insert_fatal_def)

text \<open>The invariant and the flight depend on the tasks, the maps and the view only.\<close>

lemma control_invisible [simp]:
  "registered env (st\<lparr>sc_claiming := b\<rparr>) = registered env st"
  "registered env (st\<lparr>sc_shutting_down := b\<rparr>) = registered env st"
  "registered env (st\<lparr>sc_fatal_error := e\<rparr>) = registered env st"
  "registered env (st\<lparr>sc_deadline_frozen := b\<rparr>) = registered env st"
  "registered env (st\<lparr>sc_control_open := b\<rparr>) = registered env st"
  "registered env (st\<lparr>sc_initial_scan_completed := b\<rparr>) = registered env st"
  "registered env (report_initial_scan r st) = registered env st"
  "registered env (insert_fatal x st) = registered env st"
  "in_flight (st\<lparr>sc_claiming := b\<rparr>) = in_flight st"
  "in_flight (st\<lparr>sc_shutting_down := b\<rparr>) = in_flight st"
  "in_flight (st\<lparr>sc_fatal_error := e\<rparr>) = in_flight st"
  "in_flight (st\<lparr>sc_deadline_frozen := b\<rparr>) = in_flight st"
  "in_flight (st\<lparr>sc_control_open := b\<rparr>) = in_flight st"
  "in_flight (st\<lparr>sc_initial_scan_completed := b\<rparr>) = in_flight st"
  "in_flight (report_initial_scan r st) = in_flight st"
  "in_flight (insert_fatal x st) = in_flight st"
  by (simp_all add: registered_def in_flight_def)

lemma branch_control_invisible [simp]:
  "branch_post env st0 (st\<lparr>sc_claiming := b\<rparr>) calls = branch_post env st0 st calls"
  "branch_post env st0 (st\<lparr>sc_shutting_down := b\<rparr>) calls = branch_post env st0 st calls"
  "branch_post env st0 (st\<lparr>sc_fatal_error := e\<rparr>) calls = branch_post env st0 st calls"
  "branch_post env st0 (st\<lparr>sc_deadline_frozen := b\<rparr>) calls = branch_post env st0 st calls"
  "branch_post env st0 (st\<lparr>sc_control_open := b\<rparr>) calls = branch_post env st0 st calls"
  "branch_post env st0 (st\<lparr>sc_initial_scan_completed := b\<rparr>) calls = branch_post env st0 st calls"
  "branch_post env st0 (report_initial_scan r st) calls = branch_post env st0 st calls"
  "branch_post env st0 (insert_fatal x st) calls = branch_post env st0 st calls"
  by (simp_all add: branch_post_def)

lemma branch_post_neutral:
  "neutral calls' \<Longrightarrow> branch_post env st st' (calls @ calls') = branch_post env st st' calls"
  by (auto simp: branch_post_def bind_eq_Some_conv)

lemma branch_registered: "branch_post env st st' calls \<Longrightarrow> registered env st'"
  by (simp add: branch_post_def)

lemma on_scan_ensures:
  assumes "scheduler_inv env st"
  shows "ensures (on_scan env st) (step_post env st)"
proof -
  have reg: "registered env st" using assms by (simp add: scheduler_inv_def)
  have scan: "ensures (scan_once env st) Q" if "\<And>x calls. scan_once_post env st x calls \<Longrightarrow> Q x calls" for Q
    by (rule ensures_weaken [OF scan_once_ensures [OF reg] that])
  show ?thesis
    unfolding on_scan_def
    by (intro ensures_bind scan ensures_prod ensures_sum ensures_tell ensures_return ensures_if ensures_let ensures_ask)
       (use assms in \<open>auto simp: scan_once_post_def step_post_def branch_post_neutral scheduler_inv_def same_control_def
          branch_registered\<close>)
qed

text \<open>Joining the runner in flight empties the registry; only the durable reconciliation can fail.\<close>

lemma registered_idle:
  "sc_tasks st = [] \<Longrightarrow> sc_registry st = [] \<Longrightarrow> sc_task_to_work st = [] \<Longrightarrow> registered env (update_view st)"
  by (simp add: registered_def update_view_def)

lemma update_view_fields [simp]:
  "sc_tasks (update_view st) = sc_tasks st" "sc_registry (update_view st) = sc_registry st"
  "sc_task_to_work (update_view st) = sc_task_to_work st" "sc_claiming (update_view st) = sc_claiming st"
  "sc_shutting_down (update_view st) = sc_shutting_down st" "sc_fatal_error (update_view st) = sc_fatal_error st"
  "sc_control_open (update_view st) = sc_control_open st"
  by (simp_all add: update_view_def)

definition join_post ::
  "SchedulerLoop \<Rightarrow> (SchedulerError + unit) \<times> JoinDisposition \<times> SchedulerLoop \<Rightarrow> SchedulerCall list \<Rightarrow> bool" where
  "join_post st = (\<lambda>(r, _, st') calls.
     plain r calls \<and> sc_tasks st' = [] \<and> sc_registry st' = [] \<and> sc_task_to_work st' = [] \<and> sc_view st' = [] \<and>
     same_control st st')"

lemma observe_join_ensures:
  assumes "sc_tasks st = []" "sc_task_to_work st = [(t, w)]"
    and "sc_registry st = [(w, \<lparr>ry_runtime_instance_id = se_runtime env, ry_cancellation = c, ry_task_id = t\<rparr>)]"
    and "joined = JoinError t \<or> (\<exists>exit. joined = JoinOk t w exit)"
  shows "ensures (observe_join env st joined None) (join_post st)"
    and "ensures (observe_join env st joined (Some [t]))
      (\<lambda>x calls. join_post st x calls \<and> fst x = Inr () \<and> fst (snd x) = Some [])"
proof -
  have found: "joined_task st joined = Inr (w, t, case joined of JoinOk _ _ e \<Rightarrow> Some e | _ \<Rightarrow> None)"
    "joined_id joined = t"
    using assms by (auto simp: joined_task_def)
  have interrupt: "ensures (interrupt_runner env w) (\<lambda>r. plain r)"
    and confirm: "ensures (confirm_cancellation env w) (\<lambda>r. plain r)"
    by (intro ensures_rules, assumption)+
  show "ensures (observe_join env st joined None) (join_post st)"
    unfolding observe_join_def found Let_def
    by (auto simp: assms join_post_def plain_def same_control_def update_view_def
        intro!: ensures_rules ensures_weaken [OF interrupt] ensures_weaken [OF confirm]
        split: JoinedRunner.splits WorkRunnerExit.splits)
  show "ensures (observe_join env st joined (Some [t]))
      (\<lambda>x calls. join_post st x calls \<and> fst x = Inr () \<and> fst (snd x) = Some [])"
    unfolding observe_join_def found Let_def
    by (auto simp: assms join_post_def plain_def same_control_def update_view_def intro!: ensures_rules)
qed

lemma ensures_take_joined:
  assumes "sc_tasks st = [(t, w)]"
    and "\<And>joined exit. joined = JoinError t \<or> (\<exists>exit. joined = JoinOk t w exit) \<Longrightarrow>
      Q (joined, st\<lparr>sc_tasks := []\<rparr>) [RunnerJoined t w exit]"
  shows "ensures (take_joined env st (t, w)) Q"
  unfolding take_joined_def prod.case
  by (intro ensures_rules) (auto simp: assms(1) intro: assms(2) split: option.splits)

lemma joined_post:
  assumes "scheduler_inv env st" "sc_tasks st = [(t, w)]"
    and "join_post (st\<lparr>sc_tasks := []\<rparr>) (r, d, st') calls"
  shows "branch_post env st st' (RunnerJoined t w exit # calls)" "registered env st'" "same_control st st'"
    "r \<noteq> Inl Invariant"
  using assms
  by (auto simp: join_post_def plain_def branch_post_def registered_def in_flight_def unclaiming_def
      same_control_def neutral_def)

lemma on_joined_ensures:
  assumes inv: "scheduler_inv env st" and task: "task \<in> set (sc_tasks st)"
  shows "ensures (on_joined env st task) (step_post env st)"
proof -
  from inv have "registered env st" by (simp add: scheduler_inv_def)
  then show ?thesis
  proof (cases rule: registered_cases)
    case (running t w c)
    have join: "ensures (observe_join env (st\<lparr>sc_tasks := []\<rparr>) joined None) Q"
      if "joined = JoinError t \<or> (\<exists>exit. joined = JoinOk t w exit)"
        "\<And>x calls. join_post (st\<lparr>sc_tasks := []\<rparr>) x calls \<Longrightarrow> Q x calls" for joined Q
      by (rule ensures_weaken [OF observe_join_ensures(1) that(2)]) (use running that(1) in simp_all)
    note post = joined_post [OF inv running(1)]
    have step: "step_post env st (Continue st') (RunnerJoined t w exit # calls)"
      if "join_post (st\<lparr>sc_tasks := []\<rparr>) (Inr x, d, st') calls" for x d st' exit calls
      using post [OF that] inv by (auto simp: step_post_def scheduler_inv_def same_control_def)
    have fail: "step_post env st (Continue (insert_fatal e ((report_initial_scan (Inl e) st')\<lparr>sc_claiming := False\<rparr>)))
        (RunnerJoined t w exit # calls @ [MarkFatal])"
      if "join_post (st\<lparr>sc_tasks := []\<rparr>) (Inl e, d, st') calls" for e d st' exit calls
      using post [OF that] inv branch_post_neutral [of "[MarkFatal]" env st st' "RunnerJoined t w exit # calls"]
      by (auto simp: step_post_def scheduler_inv_def same_control_def)
    from task running have "task = (t, w)" by simp
    then show ?thesis
      unfolding on_joined_def
      by (auto intro!: ensures_bind ensures_take_joined [OF running(1)] join ensures_tell ensures_return
            split: sum.splits) (rule fail step, assumption)+
  qed (use task in simp)
qed

lemma signal_entries_ensures:
  assumes "registered env st"
  shows "ensures (signal_entries env (sc_registry st))
    (\<lambda>entries calls. neutral calls \<and> registered env (update_view (st\<lparr>sc_registry := entries\<rparr>)))"
  using assms
proof (cases rule: registered_cases)
  case idle
  then show ?thesis by (simp add: ensures_return registered_def update_view_def)
next
  case (running t w c)
  then show ?thesis
    by (auto intro!: ensures_rules simp: registered_def update_view_def split: if_splits)
qed

lemma ensures_request_shutdown:
  assumes "registered env st"
    and "\<And>st' calls. neutral calls \<Longrightarrow> registered env st' \<Longrightarrow> sc_tasks st' = sc_tasks st \<Longrightarrow>
      sc_shutting_down st' \<Longrightarrow> sc_claiming st' = sc_claiming st \<Longrightarrow> sc_fatal_error st' = sc_fatal_error st \<Longrightarrow>
      sc_control_open st' = sc_control_open st \<Longrightarrow> Q st' calls"
  shows "ensures (request_shutdown env st) Q"
  unfolding request_shutdown_def
proof (rule ensures_bind, rule ensures_weaken [OF signal_entries_ensures [OF assms(1)]], rule ensures_return)
  fix entries calls
  assume "neutral calls \<and> registered env (update_view (st\<lparr>sc_registry := entries\<rparr>))"
  then show "Q (update_view (st\<lparr>sc_shutting_down := True, sc_registry := entries\<rparr>)) (calls @ [])"
    by (intro assms(2)) (auto simp: registered_def update_view_def)
qed

lemma branch_post_same:
  "neutral calls \<Longrightarrow> registered env st' \<Longrightarrow> sc_tasks st' = sc_tasks st \<Longrightarrow> branch_post env st st' calls"
  by (simp add: branch_post_def in_flight_def)

lemma abort_ensures:
  assumes inv: "scheduler_inv env st"
  shows "ensures (join_aborted env st (Some (map fst (sc_task_to_work st))) (sc_tasks st))
    (\<lambda>x calls. fst x = Inr () \<and> fst (snd x) = Some [] \<and> sc_registry (snd (snd x)) = [] \<and>
       sc_task_to_work (snd (snd x)) = [] \<and> sc_fatal_error (snd (snd x)) = sc_fatal_error st \<and> unclaiming calls)"
proof -
  from inv have "registered env st" by (simp add: scheduler_inv_def)
  then show ?thesis
  proof (cases rule: registered_cases)
    case idle
    then show ?thesis by (simp add: ensures_return unclaiming_def)
  next
    case (running t w c)
    have join: "ensures (observe_join env (st\<lparr>sc_tasks := []\<rparr>) joined (Some [t])) Q"
      if "joined = JoinError t \<or> (\<exists>exit. joined = JoinOk t w exit)"
        "\<And>x calls. join_post (st\<lparr>sc_tasks := []\<rparr>) x calls \<and> fst x = Inr () \<and> fst (snd x) = Some [] \<Longrightarrow> Q x calls"
      for joined Q
      by (rule ensures_weaken [OF observe_join_ensures(2) that(2)]) (use running that(1) in simp_all)
    have post: "ensures (observe_join env (st\<lparr>sc_tasks := []\<rparr>) joined (Some [t]) \<bind>
          (\<lambda>(r, disposition, st). case r of
             Inl e \<Rightarrow> State_Monad.return (Inl e, disposition, st)
           | Inr _ \<Rightarrow> State_Monad.return (Inr (), disposition, st)))
        (\<lambda>x calls. fst x = Inr () \<and> fst (snd x) = Some [] \<and> sc_registry (snd (snd x)) = [] \<and>
           sc_task_to_work (snd (snd x)) = [] \<and> sc_fatal_error (snd (snd x)) = sc_fatal_error st \<and>
           unclaiming (RunnerJoined t w exit # calls))"
      if "joined = JoinError t \<or> (\<exists>exit. joined = JoinOk t w exit)" for joined exit
      by (rule ensures_bind, rule join [OF that], clarsimp)
         (rule ensures_return, simp add: join_post_def plain_def neutral_def unclaiming_def same_control_def)
    show ?thesis
      unfolding running(1,2) list.map fst_conv join_aborted.simps
      by (rule ensures_bind, rule ensures_take_joined [OF running(1)]) (simp add: post)
  qed
qed

lemma on_command_ensures:
  assumes inv: "scheduler_inv env st"
  shows "ensures (on_command env st command) (step_post env st)"
proof (cases command)
  case None
  from inv show ?thesis
    by (auto simp: None on_command_def step_post_def scheduler_inv_def branch_post_same
        intro!: ensures_bind ensures_request_shutdown ensures_return split: if_splits)
next
  case (Some c)
  show ?thesis
  proof (cases c)
    case BeginShutdown
    with inv Some show ?thesis
      by (auto simp: on_command_def step_post_def scheduler_inv_def branch_post_same
          intro!: ensures_bind ensures_request_shutdown ensures_return)
  next
    case PrepareDeadline
    with inv Some show ?thesis
      by (simp add: on_command_def step_post_def scheduler_inv_def branch_post_same ensures_return)
  next
    case AbortDurablyClassified
    with inv Some show ?thesis
      by (auto simp: on_command_def step_post_def scheduler_inv_def scheduler_result_def
          intro!: ensures_bind ensures_weaken [OF abort_ensures [OF inv]] ensures_return split: option.splits)
  qed
qed

lemma run_post:
  assumes "ensures m (step_post env st)" and "run_state m h = (out, h')"
  shows "\<exists>calls. h' = h @ calls \<and> step_post env st out calls"
  using ensures_run [OF assms] .

lemma loop_step_post:
  assumes inv: "scheduler_inv env st" and step: "loop_step env (Continue st, h) (out, h')"
  shows "\<exists>calls. h' = h @ calls \<and> step_post env st out calls"
  using step
proof cases
  case leave
  with inv show ?thesis
    by (auto simp: step_post_def scheduler_inv_def scheduler_result_def unclaiming_def split: option.splits)
next
  case (command c)
  show ?thesis by (rule run_post [OF on_command_ensures [OF inv] command(3)])
next
  case (joined task)
  show ?thesis by (rule run_post [OF on_joined_ensures [OF inv joined(3)] joined(4)])
next
  case scanned
  show ?thesis by (rule run_post [OF on_scan_ensures [OF inv] scanned(4)])
qed

lemma scheduler_step_post:
  assumes inv: "scheduler_inv env st" and step: "scheduler_step env (Continue st, h) (out, h')"
  shows "\<exists>calls. h' = h @ calls \<and> step_post env st out calls"
  using step
proof cases
  case loop
  then show ?thesis by (rule loop_step_post [OF inv])
next
  case stop_claiming
  with inv show ?thesis by (auto simp: step_post_def scheduler_inv_def branch_post_same)
qed

definition scheduler_reaches :: "scheduler_env \<Rightarrow> scheduler_config \<Rightarrow> bool" where
  "scheduler_reaches env = (scheduler_step env)\<^sup>*\<^sup>* (Continue scheduler_start, [])"

lemma no_step_returned: "\<not> scheduler_step env (Returned r, h) c"
  by (auto elim: scheduler_stepE simp: loop_step_returned)

lemma reached_inv:
  assumes "scheduler_reaches env c"
  shows "case c of (Continue st, h) \<Rightarrow> scheduler_inv env st \<and> flights None h = Some (in_flight st)
    | (Returned r, h) \<Rightarrow> r \<noteq> Inl Invariant"
  using assms unfolding scheduler_reaches_def
proof (induction rule: rtranclp_induct)
  case base
  show ?case by (simp add: scheduler_start_def scheduler_inv_def registered_def in_flight_def)
next
  case (step c c')
  obtain out h where c: "c = (out, h)" by (cases c)
  obtain out' h' where c': "c' = (out', h')" by (cases c')
  show ?case
  proof (cases out)
    case (Continue st)
    with step.IH have inv: "scheduler_inv env st" "flights None h = Some (in_flight st)" by (simp_all add: c)
    from scheduler_step_post [OF inv(1) step.hyps(2) [unfolded c c' Continue]]
    obtain calls where "h' = h @ calls" "step_post env st out' calls" by blast
    with inv show ?thesis by (auto simp: c' step_post_def branch_post_def split: LoopOutcome.splits)
  next
    case (Returned r)
    with step.hyps(2) no_step_returned show ?thesis by (simp add: c)
  qed
qed

section \<open>Guarantees of the scheduler\<close>

text \<open>
  C39. In every interleaving of commands, joins, wakes, ticks and a stop of claiming, and whatever the
  store, the clock, the runners and the health register answer: at most one runner is in flight, it is
  registered exactly once under its task and its work, the published view is the registry, work is claimed and a
  runner started only when none is in flight and only after the one before was joined, and the
  loop never reports its internal invariant as broken.
\<close>

theorem scheduler_single_flight:
  assumes "scheduler_reaches env (out, h)"
  shows "case out of
      Continue st \<Rightarrow> registered env st \<and> flights None h = Some (in_flight st)
    | Returned r \<Rightarrow> r \<noteq> Inl Invariant"
  using reached_inv [OF assms] by (auto simp: scheduler_inv_def split: LoopOutcome.splits)

definition quiescent :: "SchedulerLoop \<Rightarrow> bool" where
  "quiescent st \<longleftrightarrow> \<not> sc_claiming st \<or> sc_shutting_down st \<or> sc_fatal_error st \<noteq> None"

lemma quiescent_step:
  assumes inv: "scheduler_inv env st" and quiet: "quiescent st"
    and step: "scheduler_step env (Continue st, h) (out, h')"
  shows "\<exists>calls. h' = h @ calls \<and> unclaiming calls \<and>
    (case out of Continue st' \<Rightarrow> scheduler_inv env st' \<and> quiescent st' | Returned _ \<Rightarrow> True)"
proof -
  obtain calls where calls: "h' = h @ calls" "step_post env st out calls"
    using scheduler_step_post [OF inv step] by blast
  have claiming: "\<not> sc_claiming st \<or> sc_shutting_down st" using inv quiet by (auto simp: quiescent_def scheduler_inv_def)
  have "unclaiming calls"
  proof (cases "sc_claiming st \<and> sc_tasks st = []")
    case True
    with claiming have "drained st" by (simp add: drained_def)
    with step calls(1) show ?thesis
      by (auto elim!: scheduler_stepE loop_stepE simp: unclaiming_def)
  next
    case False
    with calls(2) show ?thesis by (auto simp: step_post_def branch_post_def split: LoopOutcome.splits)
  qed
  with calls claiming show ?thesis by (auto simp: step_post_def quiescent_def split: LoopOutcome.splits)
qed

text \<open>
  C10. Once claiming was stopped, shutdown has begun or a fatal error was recorded, no continuation of
  the run asks the store for work or starts a runner.
\<close>

theorem scheduler_quiesces:
  assumes "scheduler_reaches env (Continue st, h)"
    and "\<not> sc_claiming st \<or> sc_shutting_down st \<or> sc_fatal_error st \<noteq> None"
    and "(scheduler_step env)\<^sup>*\<^sup>* (Continue st, h) (out, h')"
  shows "\<exists>calls. h' = h @ calls \<and> list_all (\<lambda>c. \<not> claims c) calls"
proof -
  have start: "scheduler_inv env st" "quiescent st"
    using reached_inv [OF assms(1)] assms(2) by (simp_all add: quiescent_def)
  have "\<exists>calls. snd c = h @ calls \<and> unclaiming calls \<and>
      (case fst c of Continue st' \<Rightarrow> scheduler_inv env st' \<and> quiescent st' | Returned _ \<Rightarrow> True)"
    if "(scheduler_step env)\<^sup>*\<^sup>* (Continue st, h) c" for c
    using that
  proof (induction rule: rtranclp_induct)
    case base
    with start show ?case by (simp add: unclaiming_def)
  next
    case (step c c')
    obtain st' where "c = (Continue st', snd c)"
      using step.hyps(2) no_step_returned by (metis LoopOutcome.exhaust prod.collapse)
    then have c: "fst c = Continue st'" "scheduler_step env (Continue st', snd c) (fst c', snd c')"
      using step.hyps(2) by (metis fst_conv, metis prod.collapse)
    with step.IH quiescent_step [OF _ _ c(2)] show ?case by fastforce
  qed
  from this [OF assms(3)] show ?thesis by (auto simp: unclaiming_def)
qed

text \<open>
  C40. The loop always has an enabled branch, except in one case: the shutdown deadline has frozen it, the
  control channel is closed, and a runner is still in flight. There every branch of the selection is disabled.
\<close>

theorem scheduler_stuck_iff:
  assumes "scheduler_reaches env (Continue st, h)"
  shows "(\<nexists>c. loop_step env (Continue st, h) c) \<longleftrightarrow>
    sc_deadline_frozen st \<and> \<not> sc_control_open st \<and> sc_tasks st \<noteq> []"
proof -
  have inv: "\<not> sc_control_open st \<Longrightarrow> sc_shutting_down st"
    using reached_inv [OF assms] by (simp add: scheduler_inv_def)
  have leave: "\<exists>c. loop_step env (Continue st, h) c" if "drained st"
    using loop_step.leave [OF that] by blast
  have command: "\<exists>c. loop_step env (Continue st, h) c" if "\<not> drained st" "sc_control_open st"
    using loop_step.command [OF that, of env None h] by (metis prod.exhaust)
  have joined: "\<exists>c. loop_step env (Continue st, h) c"
    if "\<not> drained st" "\<not> sc_deadline_frozen st" "sc_tasks st \<noteq> []"
    using loop_step.joined [OF that(1,2), of "hd (sc_tasks st)" env h] that(3) by (metis hd_in_set prod.exhaust)
  show ?thesis
  proof
    assume none: "\<nexists>c. loop_step env (Continue st, h) c"
    then have "\<not> drained st" using leave by blast
    moreover from this none have "\<not> sc_control_open st" using command by blast
    moreover from calculation have "sc_tasks st \<noteq> []" using inv by (auto simp: drained_def)
    moreover from calculation none have "sc_deadline_frozen st" using joined by blast
    ultimately show "sc_deadline_frozen st \<and> \<not> sc_control_open st \<and> sc_tasks st \<noteq> []" by simp
  next
    assume "sc_deadline_frozen st \<and> \<not> sc_control_open st \<and> sc_tasks st \<noteq> []"
    then show "\<nexists>c. loop_step env (Continue st, h) c" by (auto elim!: loop_stepE simp: drained_def)
  qed
qed

section \<open>A run into the disabled selection\<close>

definition sample_scheduler :: scheduler_env where
  "sample_scheduler =
     \<lparr>se_utc_now = (\<lambda>_. Some 0), se_generate = (\<lambda>_. 0), se_list = (\<lambda>_. Some []), se_interrupt = (\<lambda>_ _. True),
      se_finish = (\<lambda>_ _. True), se_claim = (\<lambda>_ _. Some (Some (WorkId 5))), se_start = (\<lambda>_ _. True),
      se_spawn = (\<lambda>_. 7), se_signal = (\<lambda>_ _. True), se_exit = (\<lambda>_ _. None), se_mark_ready = (\<lambda>_. True),
      se_runtime = RuntimeInstanceId 2, se_readiness = ReadyAfterInitialScan\<rparr>"

text \<open>A scan starts a runner; the deadline freezes the loop; the handle is dropped.\<close>

lemma sample_scheduler_runs:
  "\<exists>st h st' h'. scheduler_reaches sample_scheduler (Continue st, h) \<and> sc_tasks st = [(7, WorkId 5)] \<and>
     sc_deadline_frozen st \<and> scheduler_step sample_scheduler (Continue st, h) (Continue st', h') \<and>
     sc_tasks st' = [(7, WorkId 5)] \<and> sc_deadline_frozen st' \<and> \<not> sc_control_open st' \<and> sc_shutting_down st'"
proof -
  obtain st1 h1 where scan: "run_state (on_scan sample_scheduler scheduler_start) [] = (Continue st1, h1)"
    and st1: "sc_tasks st1 = [(7, WorkId 5)]" "sc_control_open st1" "\<not> sc_shutting_down st1"
      "sc_fatal_error st1 = None"
    by (simp add: on_scan_def scan_once_def claim_work_def scheduler_now_def ask_def Let_def sample_scheduler_def
        scheduler_start_def register_runner_def update_view_def report_initial_scan_def)
  let ?st2 = "st1\<lparr>sc_deadline_frozen := True\<rparr>"
  obtain st3 h3 where closed: "run_state (on_command sample_scheduler ?st2 None) h1 = (Continue st3, h3)"
    and st3: "sc_tasks st3 = [(7, WorkId 5)]" "sc_deadline_frozen st3" "\<not> sc_control_open st3" "sc_shutting_down st3"
  proof -
    obtain entries h3 where "run_state (signal_entries sample_scheduler (sc_registry st1)) h1 = (entries, h3)"
      by fastforce
    with st1 that show thesis by (simp add: on_command_def request_shutdown_def update_view_def insert_fatal_def)
  qed
  have "scheduler_step sample_scheduler (Continue scheduler_start, []) (Continue st1, h1)"
    by (rule scheduler_step.loop, rule loop_step.scanned [OF _ _ _ scan]) (simp_all add: scheduler_start_def drained_def)
  moreover have "scheduler_step sample_scheduler (Continue st1, h1) (Continue ?st2, h1)"
    by (rule scheduler_step.loop, rule loop_step.command [where c = "Some PrepareDeadline"])
       (simp_all add: drained_def st1 on_command_def)
  ultimately have "scheduler_reaches sample_scheduler (Continue ?st2, h1)"
    unfolding scheduler_reaches_def by (meson rtranclp.rtrancl_into_rtrancl rtranclp.rtrancl_refl)
  moreover have "scheduler_step sample_scheduler (Continue ?st2, h1) (Continue st3, h3)"
    by (rule scheduler_step.loop, rule loop_step.command [OF _ _ closed]) (simp_all add: drained_def st1)
  ultimately show ?thesis using st1 st3 by (intro exI [of _ ?st2] exI [of _ h1] exI [of _ st3] exI [of _ h3]) simp
qed

theorem scheduler_single_flight_witness:
  "\<exists>st h. scheduler_reaches sample_scheduler (Continue st, h) \<and> in_flight st = Some (WorkId 5) \<and>
     registered sample_scheduler st \<and> flights None h = Some (Some (WorkId 5))"
proof -
  obtain st h where run: "scheduler_reaches sample_scheduler (Continue st, h)"
    and "sc_tasks st = [(7, WorkId 5)]"
    using sample_scheduler_runs by blast
  with scheduler_single_flight [OF run] show ?thesis
    by (intro exI [of _ st] exI [of _ h]) (auto simp: in_flight_def)
qed

theorem scheduler_quiesces_witness:
  "\<exists>st h out h' calls. scheduler_reaches sample_scheduler (Continue st, h) \<and> sc_shutting_down st \<and>
     (scheduler_step sample_scheduler)\<^sup>*\<^sup>* (Continue st, h) (out, h') \<and> h' = h @ calls \<and>
     list_all (\<lambda>c. \<not> claims c) calls"
proof -
  obtain st h where run: "scheduler_reaches sample_scheduler (Continue st, h)" and "sc_shutting_down st"
    using sample_scheduler_runs unfolding scheduler_reaches_def by (meson rtranclp.rtrancl_into_rtrancl)
  with scheduler_quiesces [OF run, of "Continue st" h] show ?thesis by blast
qed

theorem scheduler_stuck_iff_witness:
  "\<exists>st h. scheduler_reaches sample_scheduler (Continue st, h) \<and> (\<nexists>c. loop_step sample_scheduler (Continue st, h) c)"
proof -
  obtain st h where run: "scheduler_reaches sample_scheduler (Continue st, h)"
    and "sc_deadline_frozen st" "\<not> sc_control_open st" "sc_tasks st = [(7, WorkId 5)]"
    using sample_scheduler_runs unfolding scheduler_reaches_def by (meson rtranclp.rtrancl_into_rtrancl)
  with scheduler_stuck_iff [OF run] show ?thesis by auto
qed

end
