(* ===== verification/Agent_Loop.thy ===== *)
theory Agent_Loop
  imports Gateway_Guarantees Delivery_Planner Commands Scheduler
begin

text \<open>
  The agent loop of application/agent_loop.rs, the runner the scheduler starts for a claimed work item:
  its limits, one step from the durable snapshot to the outcome of a model invocation, the commit of a
  final answer or a failure, the batch of tool calls, and the loop over steps. The loop calls the model
  gateway and the delivery planner of this development; the state store, the context assembler, the
  tool service, the clock and the cancellation receiver are ports whose calls are recorded. Records
  keep the fields the loop reads or writes; tracing and failpoints are left out.
\<close>

section \<open>Limits and composition\<close>

datatype AgentLoopError = AgentInvalidComposition | AgentStateStore | AgentClock | AgentLifecycle | AgentContent

definition MAX_MODEL_STEPS_PER_WORK :: nat where "MAX_MODEL_STEPS_PER_WORK = 16"
definition MAX_TOOL_CALLS_PER_WORK :: nat where "MAX_TOOL_CALLS_PER_WORK = 32"

text \<open>Durations are nanoseconds.\<close>

definition MAX_WORK_DURATION :: nat where "MAX_WORK_DURATION = 30 * 60 * 10 ^ 9"

record AgentLoopLimits =
  al_model_steps_per_work :: nat
  al_provider_attempts_per_work :: nat
  al_tool_calls_per_work :: nat
  al_work_duration :: nat

definition agent_limits_validate :: "AgentLoopLimits \<Rightarrow> AgentLoopError + AgentLoopLimits" where
  "agent_limits_validate l =
     (if al_model_steps_per_work l = 0 \<or> al_model_steps_per_work l > MAX_MODEL_STEPS_PER_WORK \<or>
         al_provider_attempts_per_work l = 0 \<or>
         al_provider_attempts_per_work l > MAX_PROVIDER_ATTEMPTS_PER_WORK \<or>
         al_provider_attempts_per_work l < al_model_steps_per_work l \<or>
         al_tool_calls_per_work l = 0 \<or> al_tool_calls_per_work l > MAX_TOOL_CALLS_PER_WORK \<or>
         al_work_duration l = 0 \<or> al_work_duration l > MAX_WORK_DURATION
      then Inl AgentInvalidComposition else Inr l)"

datatype WorkspaceId = WorkspaceId Uuid

record WorkstationIdentity =
  wsi_workstation_id :: WorkstationId
  wsi_craxii_id :: CraxiiId
  wsi_generation :: WorkstationGeneration

record WorkspaceIdentity =
  wpi_workspace_id :: WorkspaceId
  wpi_craxii_id :: CraxiiId
  wpi_workstation_id :: WorkstationId

record AgentLoopRuntimeContext =
  rc_workstation :: WorkstationIdentity
  rc_workspace :: WorkspaceIdentity

definition agent_loop_new ::
  "AgentLoopRuntimeContext \<Rightarrow> AgentLoopLimits \<Rightarrow> AgentLoopError + AgentLoopRuntimeContext \<times> AgentLoopLimits" where
  "agent_loop_new ctx l =
     (if wpi_workstation_id (rc_workspace ctx) \<noteq> wsi_workstation_id (rc_workstation ctx) \<or>
         wpi_craxii_id (rc_workspace ctx) \<noteq> wsi_craxii_id (rc_workstation ctx)
      then Inl AgentInvalidComposition
      else map_ok (\<lambda>l. (ctx, l)) (agent_limits_validate l))"

section \<open>Messages\<close>

datatype UserId = UserId Uuid
datatype DeviceId = DeviceId Uuid

datatype MessageRole = User | Assistant | System

datatype MessageProvenance =
    NativeUser UserId DeviceId ClientMessageId
  | ChannelUser UserId InboundDeliveryId
  | ProducedByWork WorkId
  | SystemProvenance

record MessageInput =
  ms_message_id :: MessageId
  ms_craxii_id :: CraxiiId
  ms_conversation_id :: ConversationId
  ms_role :: MessageRole
  ms_content :: MessageContent
  ms_author_user_id :: "UserId option"
  ms_produced_by_work_id :: "WorkId option"
  ms_device_id :: "DeviceId option"
  ms_client_message_id :: "ClientMessageId option"
  ms_inbound_delivery_id :: "InboundDeliveryId option"
  ms_committed_at :: UtcTimestamp

record Message =
  message_input :: MessageInput
  message_provenance :: MessageProvenance
  message_content_sha256 :: Sha256Digest

definition provenance_of ::
  "MessageRole \<Rightarrow> UserId option \<Rightarrow> WorkId option \<Rightarrow> DeviceId option \<Rightarrow> ClientMessageId option \<Rightarrow>
     InboundDeliveryId option \<Rightarrow> MessageProvenance option" where
  "provenance_of role author_user_id produced_by_work_id device_id client_message_id inbound_delivery_id =
     (case role of
        User \<Rightarrow>
          (case (author_user_id, produced_by_work_id, device_id, client_message_id, inbound_delivery_id) of
             (Some author, None, Some device, Some client, None) \<Rightarrow> Some (NativeUser author device client)
           | (Some author, None, None, None, Some inbound) \<Rightarrow> Some (ChannelUser author inbound)
           | _ \<Rightarrow> None)
      | Assistant \<Rightarrow>
          (case (author_user_id, produced_by_work_id, device_id, client_message_id, inbound_delivery_id) of
             (None, Some work, None, None, None) \<Rightarrow> Some (ProducedByWork work)
           | _ \<Rightarrow> None)
      | System \<Rightarrow>
          (case (author_user_id, produced_by_work_id, device_id, client_message_id, inbound_delivery_id) of
             (None, None, None, None, None) \<Rightarrow> Some SystemProvenance
           | _ \<Rightarrow> None))"

definition message_try_new ::
  "(string \<Rightarrow> Sha256Digest) \<Rightarrow> MessageInput \<Rightarrow> DomainValidationError + Message" where
  "message_try_new hash_bytes input =
     (case provenance_of (ms_role input) (ms_author_user_id input) (ms_produced_by_work_id input)
             (ms_device_id input) (ms_client_message_id input) (ms_inbound_delivery_id input) of
        None \<Rightarrow> Inl (DomainValidationError InvalidMessageProvenance)
      | Some provenance \<Rightarrow>
          Inr \<lparr>message_input = input, message_provenance = provenance,
               message_content_sha256 = content_sha256 hash_bytes (ms_content input)\<rparr>)"

section \<open>Requests and ports\<close>

record WorkItem =
  wi_work_id :: WorkId
  wi_craxii_id :: CraxiiId
  wi_conversation_id :: ConversationId
  wi_workspace_id :: WorkspaceId
  wi_reply_binding_id :: "ConversationBindingId option"
  wi_correlation_id :: CorrelationId

record ClaimedWork =
  cw_work :: WorkItem
  cw_lifecycle :: WorkLifecycleSnapshot

record OwnedWorkState =
  ow_work :: WorkItem
  ow_lifecycle :: WorkLifecycleSnapshot
  ow_latest_work_event_id :: JournalEventId
  ow_model_attempt_count :: nat
  ow_tool_call_count :: nat

record TerminalizeOwnedWorkRequest =
  tr_expected_work :: WorkExpectation
  tr_work_next :: WorkLifecycleSnapshot
  tr_terminal_at :: UtcTimestamp
  tr_event :: EventIntent

record CommitAssistantCompletionRequest =
  cr_expected_work :: WorkExpectation
  cr_model_invocation_id :: ModelInvocationId
  cr_model_state :: ModelInvocationState
  cr_assistant_message :: Message
  cr_assistant_event :: EventIntent
  cr_completion_event :: EventIntent
  cr_work_next :: WorkLifecycleSnapshot
  cr_deliveries :: "OutboundDelivery list"

record ToolExecutionCall =
  tx_craxii_id :: CraxiiId
  tx_work :: WorkLifecycleSnapshot
  tx_runtime_instance_id :: RuntimeInstanceId
  tx_source_model_invocation_id :: ModelInvocationId
  tx_source_model_event_id :: JournalEventId
  tx_agent_step_no :: AgentStepNo
  tx_tool_ordinal :: ToolOrdinal
  tx_provider_tool_call_id :: "string option"
  tx_tool_name :: string
  tx_raw_arguments :: string
  tx_correlation_id :: CorrelationId
  tx_workstation_id :: WorkstationId
  tx_workstation_generation :: WorkstationGeneration
  tx_workspace :: WorkspaceIdentity
  tx_work_deadline :: nat
  tx_shutdown_deadline :: "nat option"

record ToolCancellationNotice =
  tn_expected_work :: WorkExpectation
  tn_reason :: WorkCancellationReason

datatype ToolExecutionServiceErrorKind =
    ToolInvalidComposition | InvalidCallContext | CancelledBeforeIntent | ToolStateStore | ToolClock
  | ToolArtifact | ToolOutcomeUnknown | HandlerPanickedBeforeHandoff | HandlerPanickedAfterPossibleHandoff

datatype ContextAssemblyErrorKind =
    Source | InvalidVersions | InvalidInstructions | InvalidSelection | DuplicateSource | ToolsetMismatch
  | ToolPairing | UnknownModelOutput | MissingArtifact | CorruptArtifact | EstimatorMismatch
  | EstimatorFailure | ContextArithmeticOverflow | ContextLimitExceeded | ContractViolation
  | ContextClockFailure | ReconstructionDrift

text \<open>\<open>ContextAssemblyError::normalized\<close>.\<close>

definition context_normalized :: "ContextAssemblyErrorKind \<Rightarrow> NormalizedError" where
  "context_normalized kind =
     (if kind = ContextLimitExceeded then context_limit_exceeded else context_error)"

record ContextPackage =
  cp_request :: ModelRequest
  cp_logical_invocation_id :: LogicalInvocationId
  cp_context_manifest_id :: ContextManifestId
  cp_selection :: ModelSelectionResult
  cp_reasoning_continuation :: bool

type_synonym tool_result = "ToolExecutionServiceErrorKind + unit"
type_synonym gateway_run = "(ModelGatewayError + DurableModelOutcome) \<times> GatewayCall list"

text \<open>
  \<open>ToolRaced\<close> is the biased \<open>select!\<close> over the cancellation and the running call, \<open>None\<close> when the
  cancellation was ready first; \<open>ToolAwaited\<close> is the wait for the call after the notice was sent.
\<close>

datatype AgentCall =
    AgentMonotonic nat
  | AgentWall "int option"
  | AgentGenerate Uuid
  | GenerateDeliveryIds "nat \<Rightarrow> OutboundDeliveryId"
  | AgentCancellation bool
  | LoadOwned WorkId RuntimeInstanceId "OwnedWorkState option"
  | AssembleContext WorkId ModelSelectionResult "ContextAssemblyErrorKind + ContextPackage"
  | GatewayInvoked GatewayInvocation gateway_run
  | AgentAbandon ModelInvocationId DraftAbandonCause
  | LoadRoute WorkId ConversationBindingId "DeliveryRoute option"
  | Terminalize TerminalizeOwnedWorkRequest bool
  | CommitCompletion CommitAssistantCompletionRequest bool
  | FinalizeDrafts WorkId
  | WakeDelivery
  | ToolRaced ToolExecutionCall "tool_result option"
  | ToolAwaited ToolCancellationNotice tool_result

text \<open>The gateway behaves as an environment of its own, which may depend on everything called before.\<close>

record agent_env =
  ae_context :: AgentLoopRuntimeContext
  ae_targets :: ModelTargetSnapshot
  ae_required :: RequiredModelCapabilities
  ae_profiles :: ChannelDeliveryProfileRegistry
  ae_gateway_limits :: ModelGatewayLimits
  ae_gateway :: "AgentCall list \<Rightarrow> gateway_env"
  ae_monotonic_now :: "AgentCall list \<Rightarrow> nat"
  ae_utc_now :: "AgentCall list \<Rightarrow> int option"
  ae_generate :: "AgentCall list \<Rightarrow> Uuid"
  ae_requested :: "AgentCall list \<Rightarrow> bool"
  ae_load_owned :: "WorkId \<Rightarrow> RuntimeInstanceId \<Rightarrow> AgentCall list \<Rightarrow> OwnedWorkState option"
  ae_assemble ::
    "WorkId \<Rightarrow> ModelSelectionResult \<Rightarrow> AgentCall list \<Rightarrow> ContextAssemblyErrorKind + ContextPackage"
  ae_load_route :: "WorkId \<Rightarrow> ConversationBindingId \<Rightarrow> AgentCall list \<Rightarrow> DeliveryRoute option"
  ae_terminalize :: "TerminalizeOwnedWorkRequest \<Rightarrow> AgentCall list \<Rightarrow> bool"
  ae_commit_completion :: "CommitAssistantCompletionRequest \<Rightarrow> AgentCall list \<Rightarrow> bool"
  ae_tool :: "ToolExecutionCall \<Rightarrow> AgentCall list \<Rightarrow> tool_result option"
  ae_tool_awaited :: "ToolCancellationNotice \<Rightarrow> AgentCall list \<Rightarrow> tool_result"
  ae_hash_bytes :: "string \<Rightarrow> Sha256Digest"
  ae_add_seconds :: "UtcTimestamp \<Rightarrow> int \<Rightarrow> UtcTimestamp option"
  ae_delivery_ids :: "AgentCall list \<Rightarrow> nat \<Rightarrow> OutboundDeliveryId"
  ae_json_string :: "Json \<Rightarrow> string option"

type_synonym 'a agent = "(AgentCall, 'a) service"

section \<open>Classification of failures and answers\<close>

definition provider_failure_reason :: "ProviderErrorKind \<Rightarrow> bool \<Rightarrow> bool \<Rightarrow> WorkFailureReason" where
  "provider_failure_reason kind semantic_output_observed retries_exhausted =
     (if semantic_output_observed then InvalidModelOutput ModelOutputFailure.ProviderFailed
      else if retries_exhausted then ProviderExhausted
      else if kind = ProviderErrorKind.TimeoutBeforeOutput then Limit LifecycleLimit.ModelInvocationTime
      else if kind = ProviderErrorKind.ContextError then Limit LifecycleLimit.Context
      else if kind = ProviderErrorKind.Authentication then Definite_failure authentication_error
      else Definite_failure (provider_error Certainty.Definite None))"

definition content_block :: "string \<Rightarrow> AgentLoopError + ContentBlock" where
  "content_block value = map_err (\<lambda>_. AgentContent) (text_block value)"

text \<open>The body of the loop over the output items; the text of a block is the concatenation of its parts.\<close>

fun assistant_item ::
  "(Json \<Rightarrow> string option) \<Rightarrow> WorkCompletionReason \<Rightarrow> ContentBlock list \<Rightarrow> ModelOutputItem \<Rightarrow>
     AgentLoopError + ContentBlock list" where
  "assistant_item to_string WorkCompletionReason.Answered blocks (OutputText parts) =
     map_ok (\<lambda>b. blocks @ [b]) (content_block (concat parts))"
| "assistant_item to_string WorkCompletionReason.Answered blocks (OutputStructuredData data) =
     and_then (ok_or (to_string data) AgentContent) (\<lambda>value.
     map_ok (\<lambda>b. blocks @ [b]) (content_block value))"
| "assistant_item to_string WorkCompletionReason.Refused blocks (OutputRefusal parts) =
     map_ok (\<lambda>b. blocks @ [b]) (content_block (concat parts))"
| "assistant_item to_string _ blocks (OutputReasoningSummary _) = Inr blocks"
| "assistant_item to_string _ blocks (ProviderOpaque _) = Inr blocks"
| "assistant_item to_string _ blocks _ = Inl AgentContent"

definition assistant_content ::
  "(Json \<Rightarrow> string option) \<Rightarrow> ModelResponse \<Rightarrow> WorkCompletionReason \<Rightarrow> AgentLoopError + MessageContent" where
  "assistant_content to_string response completion =
     and_then (fold_result (assistant_item to_string completion) [] (rs_output_items response)) (\<lambda>blocks.
     map_err (\<lambda>_. AgentContent) (content_try_new blocks))"

section \<open>Durable failure and completion\<close>

definition load_owned :: "agent_env \<Rightarrow> WorkId \<Rightarrow> RuntimeInstanceId \<Rightarrow> (AgentLoopError + OwnedWorkState) agent" where
  "load_owned env work_id runtime_id = do {
     owned \<leftarrow> ask (ae_load_owned env work_id runtime_id) (LoadOwned work_id runtime_id);
     State_Monad.return (ok_or owned AgentStateStore)
   }"

definition fail_snapshot ::
  "agent_env \<Rightarrow> WorkLifecycleSnapshot \<Rightarrow> CorrelationId \<Rightarrow> WorkFailureReason \<Rightarrow> WorkRunnerExit agent" where
  "fail_snapshot env work correlation_id reason =
     (if wl_state work \<noteq> WorkState.Running then State_Monad.return Abnormal
      else case decide_work_transition work (for_snapshot work) (Fail reason CleanupStatus.NotRequired) of
        Inl _ \<Rightarrow> State_Monad.return Abnormal
      | Inr failed \<Rightarrow>
          (case wl_owner work of
             None \<Rightarrow> State_Monad.return Abnormal
           | Some runtime_id \<Rightarrow> do {
               current \<leftarrow> load_owned env (wl_work_id work) runtime_id;
               case current of
                 Inl _ \<Rightarrow> State_Monad.return Abnormal
               | Inr current \<Rightarrow>
                   if wl_state (ow_lifecycle current) \<noteq> wl_state work \<or>
                      wl_version (ow_lifecycle current) \<noteq> wl_version work \<or>
                      wl_attempt (ow_lifecycle current) \<noteq> wl_attempt work
                   then State_Monad.return Abnormal
                   else do {
                     now \<leftarrow> ask (ae_utc_now env) AgentWall;
                     case now of
                       None \<Rightarrow> State_Monad.return Abnormal
                     | Some terminal_at \<Rightarrow> do {
                         event \<leftarrow> ask (ae_generate env) AgentGenerate;
                         let request =
                           \<lparr>tr_expected_work = work_expectation work, tr_work_next = wd_next failed,
                            tr_terminal_at = terminal_at,
                            tr_event = \<lparr>ei_event_id = JournalEventId event,
                              ei_correlation_id = correlation_id,
                              ei_causation_event_id = Some (ow_latest_work_event_id current)\<rparr>\<rparr>;
                         stored \<leftarrow> ask (ae_terminalize env request) (Terminalize request);
                         State_Monad.return (if stored then TerminalCommitted else Abnormal)
                       }
                   }
             }))"

definition fail_owned :: "agent_env \<Rightarrow> OwnedWorkState \<Rightarrow> WorkFailureReason \<Rightarrow> WorkRunnerExit agent" where
  "fail_owned env owned reason =
     fail_snapshot env (ow_lifecycle owned) (wi_correlation_id (ow_work owned)) reason"

text \<open>The outbound parts of a message: none for native work, otherwise a nonempty plan over the loaded route.\<close>

definition plan_deliveries ::
  "agent_env \<Rightarrow> WorkItem \<Rightarrow> Message \<Rightarrow> (WorkRunnerExit + OutboundDelivery list) agent" where
  "plan_deliveries env work_item message =
     (case wi_reply_binding_id work_item of
        None \<Rightarrow> State_Monad.return (Inr [])
      | Some binding_id \<Rightarrow> do {
          route \<leftarrow> ask (ae_load_route env (wi_work_id work_item) binding_id)
                    (LoadRoute (wi_work_id work_item) binding_id);
          case route of
            None \<Rightarrow> State_Monad.return (Inl Abnormal)
          | Some route \<Rightarrow> do {
              ids \<leftarrow> ask (ae_delivery_ids env) GenerateDeliveryIds;
              let input = message_input message;
              State_Monad.return (case plan_assistant_delivery ids (ae_hash_bytes env) (ae_add_seconds env)
                  (ms_message_id input) (ms_content input) (ms_produced_by_work_id input)
                  (ms_committed_at input) route (ae_profiles env) of
                Inr deliveries \<Rightarrow> if deliveries \<noteq> [] then Inr deliveries else Inl Abnormal
              | Inl _ \<Rightarrow> Inl Abnormal)
            }
        })"

definition assistant_message ::
  "WorkItem \<Rightarrow> Uuid \<Rightarrow> MessageContent \<Rightarrow> UtcTimestamp \<Rightarrow> MessageInput" where
  "assistant_message work_item message_id content committed_at =
     \<lparr>ms_message_id = MessageId message_id, ms_craxii_id = wi_craxii_id work_item,
      ms_conversation_id = wi_conversation_id work_item, ms_role = Assistant, ms_content = content,
      ms_author_user_id = None, ms_produced_by_work_id = Some (wi_work_id work_item),
      ms_device_id = None, ms_client_message_id = None, ms_inbound_delivery_id = None,
      ms_committed_at = committed_at\<rparr>"

definition commit_answer ::
  "agent_env \<Rightarrow> WorkItem \<Rightarrow> DurableModelAttempt \<Rightarrow> Message \<Rightarrow> WorkLifecycleSnapshot \<Rightarrow>
     OutboundDelivery list \<Rightarrow> WorkRunnerExit agent" where
  "commit_answer env work_item attempt message completed deliveries = do {
     assistant_event \<leftarrow> ask (ae_generate env) AgentGenerate;
     completion_event \<leftarrow> ask (ae_generate env) AgentGenerate;
     let request =
       \<lparr>cr_expected_work = work_expectation (da_work attempt),
        cr_model_invocation_id = da_model_invocation_id attempt,
        cr_model_state = ModelInvocationState.Completed, cr_assistant_message = message,
        cr_assistant_event = \<lparr>ei_event_id = JournalEventId assistant_event,
          ei_correlation_id = wi_correlation_id work_item,
          ei_causation_event_id = Some (da_terminal_model_event_id attempt)\<rparr>,
        cr_completion_event = \<lparr>ei_event_id = JournalEventId completion_event,
          ei_correlation_id = wi_correlation_id work_item,
          ei_causation_event_id = Some (JournalEventId assistant_event)\<rparr>,
        cr_work_next = completed, cr_deliveries = deliveries\<rparr>;
     stored \<leftarrow> ask (ae_commit_completion env request) (CommitCompletion request);
     if stored
     then do {
       tell (FinalizeDrafts (wi_work_id work_item));
       (if deliveries \<noteq> [] then tell WakeDelivery else State_Monad.return ());
       State_Monad.return TerminalCommitted
     }
     else do {
       tell (AgentAbandon (da_model_invocation_id attempt) DraftAbandonCause.Interrupted);
       State_Monad.return Abnormal
     }
   }"

definition commit_completion ::
  "agent_env \<Rightarrow> WorkItem \<Rightarrow> ModelResponse \<Rightarrow> DurableModelAttempt \<Rightarrow> WorkCompletionReason \<Rightarrow>
     WorkRunnerExit agent" where
  "commit_completion env work_item response attempt reason =
     (case assistant_content (ae_json_string env) response reason of
        Inl _ \<Rightarrow> do {
          tell (AgentAbandon (da_model_invocation_id attempt) DraftAbandonCause.Failed);
          fail_snapshot env (da_work attempt) (wi_correlation_id work_item)
            (InvalidModelOutput ModelOutputFailure.ProviderFailed)
        }
      | Inr content \<Rightarrow> do {
          now \<leftarrow> ask (ae_utc_now env) AgentWall;
          case now of
            None \<Rightarrow> State_Monad.return Abnormal
          | Some committed_at \<Rightarrow>
              (case decide_work_transition (da_work attempt) (for_snapshot (da_work attempt))
                      (Complete reason SATISFIED) of
                 Inl _ \<Rightarrow> State_Monad.return Abnormal
               | Inr completed \<Rightarrow> do {
                   message_id \<leftarrow> ask (ae_generate env) AgentGenerate;
                   case message_try_new (ae_hash_bytes env)
                          (assistant_message work_item message_id content committed_at) of
                     Inl _ \<Rightarrow> State_Monad.return Abnormal
                   | Inr message \<Rightarrow> do {
                       planned \<leftarrow> plan_deliveries env work_item message;
                       case planned of
                         Inl exit \<Rightarrow> State_Monad.return exit
                       | Inr deliveries \<Rightarrow>
                           commit_answer env work_item attempt message (wd_next completed) deliveries
                     }
                 })
        })"

section \<open>The batch of tool calls\<close>

fun output_tool_call :: "ModelOutputItem \<Rightarrow> CanonicalModelToolCall option" where
  "output_tool_call (OutputToolCall call) = Some call"
| "output_tool_call _ = None"

record ToolBatch =
  tb_work_item :: WorkItem
  tb_attempt :: DurableModelAttempt
  tb_agent_step :: AgentStepNo
  tb_runtime_id :: RuntimeInstanceId
  tb_work_deadline :: nat

definition tool_call_request ::
  "agent_env \<Rightarrow> ToolBatch \<Rightarrow> WorkLifecycleSnapshot \<Rightarrow> ToolOrdinal \<Rightarrow> CanonicalModelToolCall \<Rightarrow> ToolExecutionCall" where
  "tool_call_request env batch current_work ordinal call =
     \<lparr>tx_craxii_id = wi_craxii_id (tb_work_item batch), tx_work = current_work,
      tx_runtime_instance_id = tb_runtime_id batch,
      tx_source_model_invocation_id = da_model_invocation_id (tb_attempt batch),
      tx_source_model_event_id = da_terminal_model_event_id (tb_attempt batch),
      tx_agent_step_no = tb_agent_step batch, tx_tool_ordinal = ordinal,
      tx_provider_tool_call_id = Some (tc_call_id call), tx_tool_name = tc_name call,
      tx_raw_arguments = tc_raw_arguments call,
      tx_correlation_id = wi_correlation_id (tb_work_item batch),
      tx_workstation_id = wsi_workstation_id (rc_workstation (ae_context env)),
      tx_workstation_generation = wsi_generation (rc_workstation (ae_context env)),
      tx_workspace = rc_workspace (ae_context env), tx_work_deadline = tb_work_deadline batch,
      tx_shutdown_deadline = None\<rparr>"

text \<open>
  The \<open>select!\<close> of one call: its result with whether a cancellation was forwarded, or the exit taken
  when the cancellation cannot be read back from the store.
\<close>

definition await_tool ::
  "agent_env \<Rightarrow> ToolBatch \<Rightarrow> ToolExecutionCall \<Rightarrow> (WorkRunnerExit + bool \<times> tool_result) agent" where
  "await_tool env batch request = do {
     raced \<leftarrow> ask (ae_tool env request) (ToolRaced request);
     case raced of
       Some result \<Rightarrow> State_Monad.return (Inr (False, result))
     | None \<Rightarrow> do {
         owned \<leftarrow> load_owned env (wi_work_id (tb_work_item batch)) (tb_runtime_id batch);
         case owned of
           Inl _ \<Rightarrow> State_Monad.return (Inl Abnormal)
         | Inr owned \<Rightarrow>
             if wl_state (ow_lifecycle owned) \<noteq> WorkState.CancelRequested
             then State_Monad.return (Inl Abnormal)
             else case wl_cancellation (ow_lifecycle owned) of
               None \<Rightarrow> State_Monad.return (Inl Abnormal)
             | Some reason \<Rightarrow> do {
                 let notice = \<lparr>tn_expected_work = work_expectation (ow_lifecycle owned), tn_reason = reason\<rparr>;
                 result \<leftarrow> ask (ae_tool_awaited env notice) (ToolAwaited notice);
                 State_Monad.return (Inr (True, result))
               }
       }
   }"

text \<open>One iteration of the loop over the calls, with the zero-based index of the call.\<close>

definition run_tool ::
  "agent_env \<Rightarrow> ToolBatch \<Rightarrow> WorkLifecycleSnapshot \<Rightarrow> nat \<Rightarrow> CanonicalModelToolCall \<Rightarrow>
     (WorkRunnerExit + WorkLifecycleSnapshot) agent" where
  "run_tool env batch current_work index call = do {
     requested \<leftarrow> ask (ae_requested env) AgentCancellation;
     if requested then State_Monad.return (Inl CancellationConfirmed)
     else do {
       now \<leftarrow> ask (ae_monotonic_now env) AgentMonotonic;
       if now \<ge> tb_work_deadline batch
       then do {
         exit \<leftarrow> fail_snapshot env current_work (wi_correlation_id (tb_work_item batch))
                   (Limit LifecycleLimit.TotalWorkTime);
         State_Monad.return (Inl exit)
       }
       else case pi_try_new (min (int index + 1) i64_max) of
         Inl _ \<Rightarrow> State_Monad.return (Inl Abnormal)
       | Inr ordinal \<Rightarrow> do {
           awaited \<leftarrow> await_tool env batch (tool_call_request env batch current_work ordinal call);
           case awaited of
             Inl exit \<Rightarrow> State_Monad.return (Inl exit)
           | Inr (forwarded, Inr _) \<Rightarrow>
               if forwarded then State_Monad.return (Inl TerminalCommitted)
               else do {
                 owned \<leftarrow> load_owned env (wi_work_id (tb_work_item batch)) (tb_runtime_id batch);
                 State_Monad.return (map_err (\<lambda>_. Abnormal) (map_ok ow_lifecycle owned))
               }
           | Inr (forwarded, Inl kind) \<Rightarrow>
               State_Monad.return (Inl (if kind = ToolOutcomeUnknown then TerminalCommitted
                 else if forwarded \<and> kind = CancelledBeforeIntent then CancellationConfirmed
                 else Abnormal))
         }
     }
   }"

fun run_tools ::
  "agent_env \<Rightarrow> ToolBatch \<Rightarrow> WorkLifecycleSnapshot \<Rightarrow> nat \<Rightarrow> CanonicalModelToolCall list \<Rightarrow>
     (WorkRunnerExit + unit) agent" where
  "run_tools env batch current_work index [] = State_Monad.return (Inr ())"
| "run_tools env batch current_work index (call # calls) = do {
     step \<leftarrow> run_tool env batch current_work index call;
     case step of
       Inl exit \<Rightarrow> State_Monad.return (Inl exit)
     | Inr next \<Rightarrow> run_tools env batch next (Suc index) calls
   }"

text \<open>\<open>Inr ()\<close> is \<open>ToolBatchOutcome::Continue\<close>.\<close>

definition ending :: "WorkRunnerExit agent \<Rightarrow> (WorkRunnerExit + 'a) agent" where
  "ending m = do { exit \<leftarrow> m; State_Monad.return (Inl exit) }"

definition execute_tool_batch ::
  "agent_env \<Rightarrow> AgentLoopLimits \<Rightarrow> ToolBatch \<Rightarrow> ModelResponse \<Rightarrow> (WorkRunnerExit + unit) agent" where
  "execute_tool_batch env l batch response =
     (let calls = List.map_filter output_tool_call (rs_output_items response) in
      if calls = [] \<or> list_ex (\<lambda>call. isl (require_valid_arguments call)) calls
      then ending (fail_snapshot env (da_work (tb_attempt batch)) (wi_correlation_id (tb_work_item batch))
             (InvalidModelOutput ModelOutputFailure.ProviderFailed))
      else do {
        owned \<leftarrow> load_owned env (wi_work_id (tb_work_item batch)) (tb_runtime_id batch);
        case owned of
          Inl _ \<Rightarrow> State_Monad.return (Inl Abnormal)
        | Inr owned \<Rightarrow>
            if int (length calls) > u64_max
            then ending (fail_owned env owned (Limit LifecycleLimit.ToolCalls))
            else if int (ow_tool_call_count owned + length calls) > u64_max \<or>
                    ow_tool_call_count owned + length calls > al_tool_calls_per_work l
            then ending (fail_owned env owned (Limit LifecycleLimit.ToolCalls))
            else run_tools env batch (da_work (tb_attempt batch)) 0 calls
      })"

section \<open>One step of the loop\<close>

text \<open>The durable snapshot the step starts from, or the exit taken before any model is asked.\<close>

definition admit_step ::
  "agent_env \<Rightarrow> AgentLoopLimits \<Rightarrow> WorkItem \<Rightarrow> RuntimeInstanceId \<Rightarrow> nat \<Rightarrow> AgentStepNo \<Rightarrow>
     (WorkRunnerExit + OwnedWorkState) agent" where
  "admit_step env l work_item runtime_id work_deadline agent_step = do {
     owned \<leftarrow> load_owned env (wi_work_id work_item) runtime_id;
     case owned of
       Inl _ \<Rightarrow> State_Monad.return (Inl Abnormal)
     | Inr owned \<Rightarrow>
         let lifecycle = ow_lifecycle owned in
         if wl_state lifecycle = WorkState.CancelRequested
         then State_Monad.return (Inl (if wl_attempt lifecycle = AttemptNone then CancellationConfirmed
                                       else Abnormal))
         else if wl_state lifecycle \<noteq> WorkState.Running \<or> wl_owner lifecycle \<noteq> Some runtime_id \<or>
                 wl_attempt lifecycle \<noteq> AttemptNone
         then State_Monad.return (Inl Abnormal)
         else do {
           requested \<leftarrow> ask (ae_requested env) AgentCancellation;
           if requested then State_Monad.return (Inl CancellationConfirmed)
           else do {
             now \<leftarrow> ask (ae_monotonic_now env) AgentMonotonic;
             if now \<ge> work_deadline then ending (fail_owned env owned (Limit LifecycleLimit.TotalWorkTime))
             else if pi_get agent_step > int (al_model_steps_per_work l)
             then ending (fail_owned env owned (Limit LifecycleLimit.AgentLoopSteps))
             else if ow_model_attempt_count owned \<ge> al_provider_attempts_per_work l
             then ending (fail_owned env owned (Limit LifecycleLimit.ModelAttempts))
             else if ow_tool_call_count owned > al_tool_calls_per_work l
             then ending (fail_owned env owned (Limit LifecycleLimit.ToolCalls))
             else State_Monad.return (Inr owned)
           }
         }
   }"

definition prepare_invocation ::
  "agent_env \<Rightarrow> OwnedWorkState \<Rightarrow> nat \<Rightarrow> AgentStepNo \<Rightarrow> (WorkRunnerExit + GatewayInvocation) agent" where
  "prepare_invocation env owned work_deadline agent_step =
     (case select (ae_targets env) None (ae_required env) of
        Inl _ \<Rightarrow> ending (fail_owned env owned (Definite_failure model_selection_error))
      | Inr selection \<Rightarrow> do {
          context \<leftarrow> ask (ae_assemble env (wi_work_id (ow_work owned)) selection)
                      (AssembleContext (wi_work_id (ow_work owned)) selection);
          case context of
            Inl kind \<Rightarrow>
              ending (fail_owned env owned
                (if kind = ContextLimitExceeded then Limit LifecycleLimit.Context
                 else Definite_failure (context_normalized kind)))
          | Inr package \<Rightarrow>
              if ow_model_attempt_count owned \<ge> 2 ^ 32
              then ending (fail_owned env owned (Limit LifecycleLimit.ModelAttempts))
              else State_Monad.return (Inr
                \<lparr>gi_work = ow_lifecycle owned, gi_request = cp_request package,
                 gi_logical_invocation_id = cp_logical_invocation_id package,
                 gi_context_manifest_id = cp_context_manifest_id package,
                 gi_package_selection = cp_selection package,
                 gi_reasoning_continuation = cp_reasoning_continuation package,
                 gi_selection = selection, gi_agent_step = agent_step,
                 gi_correlation_id = wi_correlation_id (ow_work owned),
                 gi_causation_event_id = ow_latest_work_event_id owned,
                 gi_work_deadline = work_deadline, gi_shutdown_deadline = None,
                 gi_work_attempts_before_invocation = ow_model_attempt_count owned\<rparr>)
        })"

definition invoke_gateway :: "agent_env \<Rightarrow> GatewayInvocation \<Rightarrow> gateway_run agent" where
  "invoke_gateway env invocation =
     ask (\<lambda>history. run_state (invoke (ae_gateway env history) (ae_gateway_limits env) invocation) [])
         (GatewayInvoked invocation)"

definition settle_response ::
  "agent_env \<Rightarrow> AgentLoopLimits \<Rightarrow> ToolBatch \<Rightarrow> ModelResponse \<Rightarrow> (WorkRunnerExit + unit) agent" where
  "settle_response env l batch response =
     (let attempt = tb_attempt batch; work_item = tb_work_item batch;
          abandon = (\<lambda>cause. tell (AgentAbandon (da_model_invocation_id attempt) cause));
          invalid = (\<lambda>failure. ending (fail_snapshot env (da_work attempt) (wi_correlation_id work_item)
                      (InvalidModelOutput failure))) in
      if work_is_terminal (wl_state (da_work attempt)) then State_Monad.return (Inl TerminalCommitted)
      else case rs_stop_reason response of
        ModelStopReason.Completed \<Rightarrow>
          ending (commit_completion env work_item response attempt WorkCompletionReason.Answered)
      | ModelStopReason.Refusal \<Rightarrow>
          ending (commit_completion env work_item response attempt WorkCompletionReason.Refused)
      | ModelStopReason.ToolContinuation \<Rightarrow> do {
          abandon DraftAbandonCause.ToolContinuation;
          execute_tool_batch env l batch response
        }
      | ModelStopReason.IncompleteProviderLimit \<Rightarrow> do {
          abandon DraftAbandonCause.Failed;
          invalid ModelOutputFailure.Incomplete
        }
      | ModelStopReason.Cancelled \<Rightarrow> do {
          abandon DraftAbandonCause.Cancelled;
          invalid ModelOutputFailure.ProviderFailed
        }
      | ModelStopReason.ProviderFailure \<Rightarrow> do {
          abandon DraftAbandonCause.Failed;
          invalid ModelOutputFailure.ProviderFailed
        })"

definition settle_outcome ::
  "agent_env \<Rightarrow> AgentLoopLimits \<Rightarrow> WorkItem \<Rightarrow> RuntimeInstanceId \<Rightarrow> nat \<Rightarrow> AgentStepNo \<Rightarrow>
     DurableModelOutcome \<Rightarrow> (WorkRunnerExit + unit) agent" where
  "settle_outcome env l work_item runtime_id work_deadline agent_step outcome =
     (case outcome of
        OutcomeInterrupted _ _ \<Rightarrow> State_Monad.return (Inl TerminalCommitted)
      | CancelledBeforeAttempt work \<Rightarrow>
          State_Monad.return (Inl (if work_is_terminal (wl_state work) then TerminalCommitted
                                   else CancellationConfirmed))
      | DeadlineBeforeAttempt work \<Rightarrow>
          ending (fail_snapshot env work (wi_correlation_id work_item) (Limit LifecycleLimit.TotalWorkTime))
      | OutcomeFailed kind semantic_output_observed retries_exhausted attempt \<Rightarrow>
          ending (fail_snapshot env (da_work attempt) (wi_correlation_id work_item)
            (provider_failure_reason kind semantic_output_observed retries_exhausted))
      | OutcomeCompleted response attempt \<Rightarrow>
          settle_response env l
            \<lparr>tb_work_item = work_item, tb_attempt = attempt, tb_agent_step = agent_step,
             tb_runtime_id = runtime_id, tb_work_deadline = work_deadline\<rparr> response)"

definition agent_iteration ::
  "agent_env \<Rightarrow> AgentLoopLimits \<Rightarrow> WorkItem \<Rightarrow> RuntimeInstanceId \<Rightarrow> nat \<Rightarrow> AgentStepNo \<Rightarrow>
     (WorkRunnerExit + AgentStepNo) agent" where
  "agent_iteration env l work_item runtime_id work_deadline agent_step = do {
     admitted \<leftarrow> admit_step env l work_item runtime_id work_deadline agent_step;
     case admitted of
       Inl exit \<Rightarrow> State_Monad.return (Inl exit)
     | Inr owned \<Rightarrow> do {
         prepared \<leftarrow> prepare_invocation env owned work_deadline agent_step;
         case prepared of
           Inl exit \<Rightarrow> State_Monad.return (Inl exit)
         | Inr invocation \<Rightarrow> do {
             run \<leftarrow> invoke_gateway env invocation;
             case fst run of
               Inl _ \<Rightarrow> State_Monad.return (Inl Abnormal)
             | Inr outcome \<Rightarrow> do {
                 settled \<leftarrow> settle_outcome env l work_item runtime_id work_deadline agent_step outcome;
                 State_Monad.return (and_then settled (\<lambda>_.
                   map_err (\<lambda>_. Abnormal) (pi_checked_increment agent_step)))
               }
           }
       }
   }"

section \<open>The loop\<close>

lemma run_ending: "run_state (ending m) h = (Inr a, h') \<longleftrightarrow> False"
  by (simp add: ending_def split: prod.splits)

lemma admit_step_limit:
  assumes "run_state (admit_step env l work_item runtime_id work_deadline agent_step) h = (Inr owned, h')"
  shows "pi_get agent_step \<le> int (al_model_steps_per_work l)"
  using assms
  by (auto simp: admit_step_def load_owned_def Let_def run_ending split: prod.splits sum.splits if_splits)

lemma agent_iteration_progress:
  assumes "run_state (agent_iteration env l work_item runtime_id work_deadline agent_step) h = (Inr next, h')"
  shows "pi_get agent_step \<le> int (al_model_steps_per_work l) \<and> pi_get next = pi_get agent_step + 1"
  using assms
  by (auto simp: agent_iteration_def pi_checked_increment_def i64_checked_add_def result_iffs
      dest: admit_step_limit split: prod.splits sum.splits if_splits option.splits)

function agent_loop ::
  "agent_env \<Rightarrow> AgentLoopLimits \<Rightarrow> WorkItem \<Rightarrow> RuntimeInstanceId \<Rightarrow> nat \<Rightarrow> AgentStepNo \<Rightarrow> WorkRunnerExit agent" where
  "agent_loop env l work_item runtime_id work_deadline agent_step = do {
     step \<leftarrow> agent_iteration env l work_item runtime_id work_deadline agent_step;
     case step of
       Inl exit \<Rightarrow> State_Monad.return exit
     | Inr next \<Rightarrow> agent_loop env l work_item runtime_id work_deadline next
   }"
  by pat_completeness auto
termination
proof (relation "measure (\<lambda>(_, l, _, _, _, step). nat (int (al_model_steps_per_work l) + 1 - pi_get step))")
  fix env l work_item runtime_id work_deadline agent_step h step h' "next"
  assume "run_state (agent_iteration env l work_item runtime_id work_deadline agent_step) h = (step, h')"
    and "step = Inr next"
  with agent_iteration_progress
  show "((env, l, work_item, runtime_id, work_deadline, next), env, l, work_item, runtime_id, work_deadline, agent_step)
      \<in> measure (\<lambda>(_, l, _, _, _, step). nat (int (al_model_steps_per_work l) + 1 - pi_get step))"
    by fastforce
qed simp

declare agent_loop.simps [simp del]

definition run_claimed :: "agent_env \<Rightarrow> AgentLoopLimits \<Rightarrow> ClaimedWork \<Rightarrow> WorkRunnerExit agent" where
  "run_claimed env l claimed = do {
     now \<leftarrow> ask (ae_monotonic_now env) AgentMonotonic;
     case instant_checked_add now (al_work_duration l) of
       None \<Rightarrow> State_Monad.return Abnormal
     | Some work_deadline \<Rightarrow>
         (case wl_owner (cw_lifecycle claimed) of
            None \<Rightarrow> State_Monad.return Abnormal
          | Some runtime_id \<Rightarrow>
              if wi_work_id (cw_work claimed) \<noteq> wl_work_id (cw_lifecycle claimed) \<or>
                 wi_craxii_id (cw_work claimed) \<noteq> wpi_craxii_id (rc_workspace (ae_context env)) \<or>
                 wi_workspace_id (cw_work claimed) \<noteq> wpi_workspace_id (rc_workspace (ae_context env))
              then State_Monad.return Abnormal
              else case pi_try_new 1 of
                Inl _ \<Rightarrow> State_Monad.return Abnormal
              | Inr agent_step \<Rightarrow> agent_loop env l (cw_work claimed) runtime_id work_deadline agent_step)
   }"

end
