(* ===== verification/Agent_Steps.thy ===== *)
theory Agent_Steps
  imports Agent_Loop
begin

text \<open>
  What each part of the agent loop does in every environment: the terminal writes it makes and what its
  exit says about them, the model response a committed answer carries, and the invocations and tool calls
  it makes. The lemmas follow the program, from a failure write to the whole run.
\<close>

section \<open>Observations of a run\<close>

fun terminal_write :: "AgentCall \<Rightarrow> (WorkLifecycleSnapshot \<times> bool) list" where
  "terminal_write (Terminalize r stored) = [(tr_work_next r, stored)]"
| "terminal_write (CommitCompletion r stored) = [(cr_work_next r, stored)]"
| "terminal_write _ = []"

fun answer_write :: "AgentCall \<Rightarrow> CommitAssistantCompletionRequest list" where
  "answer_write (CommitCompletion r _) = [r]"
| "answer_write _ = []"

fun invocation_run :: "AgentCall \<Rightarrow> (GatewayInvocation \<times> gateway_run) list" where
  "invocation_run (GatewayInvoked invocation run) = [(invocation, run)]"
| "invocation_run _ = []"

fun tool_run :: "AgentCall \<Rightarrow> ToolExecutionCall list" where
  "tool_run (ToolRaced request _) = [request]"
| "tool_run _ = []"

definition observed :: "('c \<Rightarrow> 'b list) \<Rightarrow> 'c list \<Rightarrow> 'b list" where
  "observed observation calls = concat (map observation calls)"

lemma observed_simps [simp]:
  "observed f [] = []" "observed f (call # calls) = f call @ observed f calls"
  "observed f (calls @ calls') = observed f calls @ observed f calls'"
  by (simp_all add: observed_def)

abbreviation terminal_writes :: "AgentCall list \<Rightarrow> (WorkLifecycleSnapshot \<times> bool) list" where
  "terminal_writes \<equiv> observed terminal_write"

abbreviation answers :: "AgentCall list \<Rightarrow> CommitAssistantCompletionRequest list" where
  "answers \<equiv> observed answer_write"

abbreviation invocations :: "AgentCall list \<Rightarrow> (GatewayInvocation \<times> gateway_run) list" where
  "invocations \<equiv> observed invocation_run"

abbreviation tool_runs :: "AgentCall list \<Rightarrow> ToolExecutionCall list" where
  "tool_runs \<equiv> observed tool_run"

text \<open>Somebody asked for the cancellation the run saw.\<close>

definition cancellation_seen :: "AgentCall list \<Rightarrow> bool" where
  "cancellation_seen calls \<longleftrightarrow>
     AgentCancellation True \<in> set calls \<or>
     (\<exists>w r owned. LoadOwned w r (Some owned) \<in> set calls \<and>
        wl_state (ow_lifecycle owned) = WorkState.CancelRequested) \<or>
     (\<exists>invocation work gateway_calls.
        GatewayInvoked invocation (Inr (CancelledBeforeAttempt work), gateway_calls) \<in> set calls)"

text \<open>The tool service settled the work: an unknown outcome, or a result after a forwarded cancellation.\<close>

definition ended_by_tool :: "AgentCall list \<Rightarrow> bool" where
  "ended_by_tool calls \<longleftrightarrow>
     (\<exists>request. ToolRaced request (Some (Inl ToolOutcomeUnknown)) \<in> set calls) \<or>
     (\<exists>notice result. ToolAwaited notice result \<in> set calls \<and> result \<in> {Inr (), Inl ToolOutcomeUnknown})"

text \<open>The last finish the gateway committed in its last invocation left the work terminal.\<close>

definition ended_by_gateway :: "AgentCall list \<Rightarrow> bool" where
  "ended_by_gateway calls \<longleftrightarrow>
     invocations calls \<noteq> [] \<and>
     (let fs = accepted (finishes (snd (snd (last (invocations calls))))) in
      fs \<noteq> [] \<and> work_is_terminal (wl_state (fr_work_next (last fs))))"

definition written :: "WorkRunnerExit \<Rightarrow> (WorkLifecycleSnapshot \<times> bool) list \<Rightarrow> bool" where
  "written exit ws \<longleftrightarrow>
     (\<exists>w stored. ws = [(w, stored)] \<and> work_is_terminal (wl_state w) \<and>
        exit = (if stored then TerminalCommitted else Abnormal))"

definition exit_sound :: "WorkRunnerExit \<Rightarrow> AgentCall list \<Rightarrow> bool" where
  "exit_sound exit calls \<longleftrightarrow>
     (written exit (terminal_writes calls) \<or>
      terminal_writes calls = [] \<and>
        (exit = TerminalCommitted \<longrightarrow> ended_by_tool calls \<or> ended_by_gateway calls)) \<and>
     (exit = CancellationConfirmed \<longrightarrow> cancellation_seen calls)"

lemma exit_sound_facts:
  assumes "exit_sound exit calls"
  shows "terminal_writes calls = [] \<or>
      (\<exists>w stored. terminal_writes calls = [(w, stored)] \<and> work_is_terminal (wl_state w) \<and>
         exit = (if stored then TerminalCommitted else Abnormal))"
    and "exit = TerminalCommitted \<and> terminal_writes calls = [] \<longrightarrow> ended_by_tool calls \<or> ended_by_gateway calls"
    and "exit = CancellationConfirmed \<longrightarrow> cancellation_seen calls"
  using assms unfolding exit_sound_def written_def by (blast, force, blast)

lemma seen_append:
  "cancellation_seen calls' \<Longrightarrow> cancellation_seen (calls @ calls')"
  "ended_by_tool calls' \<Longrightarrow> ended_by_tool (calls @ calls')"
  "ended_by_gateway calls' \<Longrightarrow> ended_by_gateway (calls @ calls')"
  by (auto simp: cancellation_seen_def ended_by_tool_def ended_by_gateway_def Let_def)

lemma exit_sound_append:
  "terminal_writes calls = [] \<Longrightarrow> exit_sound exit calls' \<Longrightarrow> exit_sound exit (calls @ calls')"
  by (auto simp: exit_sound_def intro: seen_append)

lemma exit_sound_Cons:
  "terminal_write call = [] \<Longrightarrow> exit_sound exit calls \<Longrightarrow> exit_sound exit (call # calls)"
  using exit_sound_append [of "[call]"] by simp

lemma exit_sound_Abnormal [simp]: "terminal_writes calls = [] \<Longrightarrow> exit_sound Abnormal calls"
  by (simp add: exit_sound_def)

section \<open>Failures and answers\<close>

definition isolated :: "AgentCall list \<Rightarrow> bool" where
  "isolated calls \<longleftrightarrow> answers calls = [] \<and> invocations calls = [] \<and> tool_runs calls = []"

lemma isolated_simps [simp]:
  "isolated []"
  "isolated (call # calls) \<longleftrightarrow>
     answer_write call = [] \<and> invocation_run call = [] \<and> tool_run call = [] \<and> isolated calls"
  "isolated (calls @ calls') \<longleftrightarrow> isolated calls \<and> isolated calls'"
  by (auto simp: isolated_def)

lemma decided_terminal:
  "decide_work_transition s g (Fail reason status) = Inr d \<Longrightarrow> wl_state (wd_next d) = WorkState.Failed"
  "decide_work_transition s g (Complete completion evidence) = Inr d \<Longrightarrow>
     wl_state s = WorkState.Running \<and> wl_state (wd_next d) = WorkState.Completed \<and>
     wl_terminal (wd_next d) = Some (Completion completion) \<and> wl_work_id (wd_next d) = wl_work_id s"
  by (auto simp: decide_work_transition_def Let_def result_iffs legal_to_completed split: if_splits)

lemma load_owned_ensures:
  "ensures (load_owned env work_id runtime_id)
     (\<lambda>x calls. calls = [LoadOwned work_id runtime_id (case x of Inl _ \<Rightarrow> None | Inr owned \<Rightarrow> Some owned)])"
  unfolding load_owned_def
  by (intro ensures_rules) (auto simp: ok_or_def split: option.splits)

definition failure_post :: "WorkRunnerExit \<Rightarrow> AgentCall list \<Rightarrow> bool" where
  "failure_post exit calls \<longleftrightarrow> isolated calls \<and> exit \<noteq> CancellationConfirmed \<and>
     (written exit (terminal_writes calls) \<or> terminal_writes calls = [] \<and> exit = Abnormal)"

lemma failure_post_sound: "failure_post exit calls \<Longrightarrow> exit_sound exit calls"
  by (auto simp: failure_post_def exit_sound_def)

lemma fail_snapshot_ensures: "ensures (fail_snapshot env work correlation_id reason) failure_post"
  unfolding fail_snapshot_def
  by (intro ensures_rules ensures_weaken [OF load_owned_ensures])
     (auto simp: failure_post_def written_def dest: decided_terminal)

lemma fail_owned_ensures: "ensures (fail_owned env owned reason) failure_post"
  unfolding fail_owned_def by (rule fail_snapshot_ensures)

lemma ending_ensures:
  "ensures m Q \<Longrightarrow> ensures (ending m) (\<lambda>x calls. \<exists>exit. x = Inl exit \<and> Q exit calls)"
  unfolding ending_def by (intro ensures_rules) (auto elim!: ensures_weaken intro: ensures_return)

definition planned_for :: "agent_env \<Rightarrow> WorkItem \<Rightarrow> MessageInput \<Rightarrow> OutboundDelivery list \<Rightarrow> AgentCall list \<Rightarrow> bool" where
  "planned_for env work_item input deliveries calls \<longleftrightarrow>
     (case wi_reply_binding_id work_item of
        None \<Rightarrow> deliveries = []
      | Some binding \<Rightarrow> deliveries \<noteq> [] \<and>
          (\<exists>ids route. LoadRoute (wi_work_id work_item) binding (Some route) \<in> set calls \<and>
             plan_assistant_delivery ids (ae_hash_bytes env) (ae_add_seconds env) (ms_message_id input)
               (ms_content input) (ms_produced_by_work_id input) (ms_committed_at input) route
               (ae_profiles env) = Inr deliveries))"

definition answers_with ::
  "agent_env \<Rightarrow> WorkItem \<Rightarrow> ModelResponse \<Rightarrow> DurableModelAttempt \<Rightarrow> WorkCompletionReason \<Rightarrow>
     CommitAssistantCompletionRequest \<Rightarrow> AgentCall list \<Rightarrow> bool" where
  "answers_with env work_item response attempt reason r calls \<longleftrightarrow>
     (let input = message_input (cr_assistant_message r) in
      cr_expected_work r = work_expectation (da_work attempt) \<and> wl_state (da_work attempt) = WorkState.Running \<and>
      cr_model_invocation_id r = da_model_invocation_id attempt \<and>
      wl_state (cr_work_next r) = WorkState.Completed \<and> wl_terminal (cr_work_next r) = Some (Completion reason) \<and>
      assistant_content (ae_json_string env) response reason = Inr (ms_content input) \<and>
      message_provenance (cr_assistant_message r) = ProducedByWork (wi_work_id work_item) \<and>
      ms_produced_by_work_id input = Some (wi_work_id work_item) \<and>
      ms_conversation_id input = wi_conversation_id work_item \<and>
      planned_for env work_item input (cr_deliveries r) calls)"

lemma planned_for_mono:
  "planned_for env work_item input deliveries calls \<Longrightarrow> set calls \<subseteq> set calls' \<Longrightarrow>
     planned_for env work_item input deliveries calls'"
  by (auto simp: planned_for_def split: option.splits)

lemma answers_with_mono:
  "answers_with env work_item response attempt reason r calls \<Longrightarrow> set calls \<subseteq> set calls' \<Longrightarrow>
     answers_with env work_item response attempt reason r calls'"
  using planned_for_mono by (auto simp: answers_with_def Let_def)

lemma plan_deliveries_ensures:
  "ensures (plan_deliveries env work_item message) (\<lambda>x calls. isolated calls \<and> terminal_writes calls = [] \<and>
     (case x of Inl exit \<Rightarrow> exit = Abnormal
      | Inr deliveries \<Rightarrow> planned_for env work_item (message_input message) deliveries calls))"
  unfolding plan_deliveries_def
  by (intro ensures_rules) (auto simp: planned_for_def Let_def split: sum.splits)

definition completion_post ::
  "agent_env \<Rightarrow> WorkItem \<Rightarrow> ModelResponse \<Rightarrow> DurableModelAttempt \<Rightarrow> WorkCompletionReason \<Rightarrow>
     WorkRunnerExit \<Rightarrow> AgentCall list \<Rightarrow> bool" where
  "completion_post env work_item response attempt reason exit calls \<longleftrightarrow>
     invocations calls = [] \<and> tool_runs calls = [] \<and> exit_sound exit calls \<and>
     (\<forall>r \<in> set (answers calls). answers_with env work_item response attempt reason r calls)"

definition answer_post ::
  "DurableModelAttempt \<Rightarrow> Message \<Rightarrow> WorkLifecycleSnapshot \<Rightarrow> OutboundDelivery list \<Rightarrow> WorkRunnerExit \<Rightarrow>
     AgentCall list \<Rightarrow> bool" where
  "answer_post attempt message completed deliveries exit calls \<longleftrightarrow>
     invocations calls = [] \<and> tool_runs calls = [] \<and>
     (\<exists>r stored. answers calls = [r] \<and> terminal_writes calls = [(completed, stored)] \<and>
        exit = (if stored then TerminalCommitted else Abnormal) \<and>
        cr_expected_work r = work_expectation (da_work attempt) \<and>
        cr_model_invocation_id r = da_model_invocation_id attempt \<and> cr_work_next r = completed \<and>
        cr_assistant_message r = message \<and> cr_deliveries r = deliveries)"

lemma commit_answer_ensures:
  "ensures (commit_answer env work_item attempt message completed deliveries)
     (answer_post attempt message completed deliveries)"
  unfolding commit_answer_def by (intro ensures_rules) (auto simp: answer_post_def)

lemma assistant_message_try_new:
  "message_try_new hash_bytes (assistant_message work_item message_id content committed_at) = Inr message \<Longrightarrow>
     message_input message = assistant_message work_item message_id content committed_at \<and>
     message_provenance message = ProducedByWork (wi_work_id work_item)"
  by (auto simp: message_try_new_def provenance_of_def assistant_message_def)

lemma answer_completes:
  assumes content: "assistant_content (ae_json_string env) response reason = Inr content"
    and decided: "decide_work_transition (da_work attempt) g (Complete reason evidence) = Inr completed"
    and message: "message_try_new (ae_hash_bytes env) (assistant_message work_item message_id content t) = Inr message"
    and planned: "isolated planning" "terminal_writes planning = []"
      "planned_for env work_item (message_input message) deliveries planning"
    and answer: "answer_post attempt message (wd_next completed) deliveries exit calls"
  shows "completion_post env work_item response attempt reason exit (planning @ calls)"
proof -
  obtain r stored where r: "invocations calls = []" "tool_runs calls = []" "answers calls = [r]"
      "terminal_writes calls = [(wd_next completed, stored)]"
      "exit = (if stored then TerminalCommitted else Abnormal)"
    and fields: "cr_expected_work r = work_expectation (da_work attempt)"
      "cr_model_invocation_id r = da_model_invocation_id attempt" "cr_work_next r = wd_next completed"
      "cr_assistant_message r = message" "cr_deliveries r = deliveries"
    using answer unfolding answer_post_def by blast
  note message = assistant_message_try_new [OF message]
  have "planned_for env work_item (message_input message) deliveries (planning @ calls)"
    by (rule planned_for_mono [OF planned(3)]) simp
  then have "answers_with env work_item response attempt reason r (planning @ calls)"
    using decided_terminal(2) [OF decided] fields message content
    by (simp add: answers_with_def assistant_message_def)
  moreover have "exit_sound exit (planning @ calls)"
    using r planned(2) decided_terminal(2) [OF decided] by (simp add: exit_sound_def written_def)
  ultimately show ?thesis using r planned(1) by (simp add: completion_post_def isolated_def)
qed

lemma completion_post_Cons:
  "terminal_write call = [] \<Longrightarrow> answer_write call = [] \<Longrightarrow> invocation_run call = [] \<Longrightarrow> tool_run call = [] \<Longrightarrow>
     completion_post env work_item response attempt reason exit calls \<Longrightarrow>
     completion_post env work_item response attempt reason exit (call # calls)"
  by (auto simp: completion_post_def intro: exit_sound_Cons answers_with_mono)

lemma commit_completion_ensures:
  "ensures (commit_completion env work_item response attempt reason)
     (completion_post env work_item response attempt reason)"
  unfolding commit_completion_def
  apply (intro ensures_rules ensures_weaken [OF fail_snapshot_ensures]
      ensures_weaken [OF plan_deliveries_ensures] ensures_weaken [OF commit_answer_ensures])
  subgoal by (auto simp: completion_post_def failure_post_def isolated_def exit_sound_def)
  subgoal by (simp add: completion_post_def)
  subgoal by (simp add: completion_post_def)
  subgoal by (simp add: completion_post_def)
  subgoal by (auto simp: completion_post_def isolated_def)
  subgoal by (clarsimp, (rule completion_post_Cons, simp, simp, simp, simp)+, rule answer_completes; assumption)
  done

section \<open>Tools\<close>

definition batch_post :: "nat \<Rightarrow> WorkRunnerExit + 'a \<Rightarrow> AgentCall list \<Rightarrow> bool" where
  "batch_post n x calls \<longleftrightarrow>
     answers calls = [] \<and> invocations calls = [] \<and> length (tool_runs calls) \<le> n \<and>
     (case x of Inl exit \<Rightarrow> exit_sound exit calls | Inr _ \<Rightarrow> terminal_writes calls = [])"

lemma batch_post_append:
  "batch_post m (Inr a) calls \<Longrightarrow> batch_post n x calls' \<Longrightarrow> batch_post (m + n) x (calls @ calls')"
  by (auto simp: batch_post_def intro: exit_sound_append split: sum.splits)

lemma failure_post_batch: "failure_post exit calls \<Longrightarrow> batch_post n (Inl exit) calls"
  using failure_post_sound by (auto simp: batch_post_def failure_post_def isolated_def)

definition awaited_post :: "WorkRunnerExit + bool \<times> tool_result \<Rightarrow> AgentCall list \<Rightarrow> bool" where
  "awaited_post x calls \<longleftrightarrow>
     answers calls = [] \<and> invocations calls = [] \<and> length (tool_runs calls) = 1 \<and> terminal_writes calls = [] \<and>
     (case x of
        Inl exit \<Rightarrow> exit = Abnormal
      | Inr (True, result) \<Rightarrow> cancellation_seen calls \<and> (\<exists>notice. ToolAwaited notice result \<in> set calls)
      | Inr (False, result) \<Rightarrow> (\<exists>request. ToolRaced request (Some result) \<in> set calls))"

lemma await_tool_ensures: "ensures (await_tool env batch request) awaited_post"
  unfolding await_tool_def
  by (intro ensures_rules ensures_weaken [OF load_owned_ensures])
     (auto simp: awaited_post_def cancellation_seen_def)

lemma awaited_quiet:
  "awaited_post x calls \<Longrightarrow>
     answers calls = [] \<and> invocations calls = [] \<and> length (tool_runs calls) = 1 \<and> terminal_writes calls = []"
  by (simp add: awaited_post_def)

lemma awaited_exits:
  assumes "awaited_post (Inr (forwarded, result)) calls"
  shows "forwarded \<Longrightarrow> result = Inr () \<Longrightarrow> exit_sound TerminalCommitted calls"
    and "result = Inl ToolOutcomeUnknown \<Longrightarrow> exit_sound TerminalCommitted calls"
    and "forwarded \<Longrightarrow> exit_sound CancellationConfirmed calls"
  using assms by (cases forwarded; auto simp: awaited_post_def exit_sound_def ended_by_tool_def)+

lemma run_tool_ensures: "ensures (run_tool env batch current_work index call) (batch_post 1)"
  unfolding run_tool_def
  apply (intro ensures_rules ensures_weaken [OF fail_snapshot_ensures] ensures_weaken [OF await_tool_ensures]
      ensures_weaken [OF load_owned_ensures])
  subgoal by (simp add: batch_post_def exit_sound_def cancellation_seen_def)
  subgoal by (auto simp: batch_post_def failure_post_def isolated_def intro!: exit_sound_Cons failure_post_sound)
  subgoal by (simp add: batch_post_def)
  subgoal by (auto simp: batch_post_def awaited_post_def)
  subgoal by (auto simp: batch_post_def dest: awaited_exits awaited_quiet intro!: exit_sound_Cons)
  subgoal by (auto simp: batch_post_def dest: awaited_exits awaited_quiet intro!: exit_sound_Cons)
  subgoal by (auto simp: batch_post_def result_iffs dest: awaited_quiet split: sum.splits)
  done

lemma run_tools_ensures:
  "ensures (run_tools env batch current_work index calls) (batch_post (length calls))"
proof (induction calls arbitrary: current_work index)
  case Nil
  then show ?case by (simp add: ensures_return batch_post_def)
next
  case (Cons call calls)
  show ?case
    unfolding run_tools.simps
    apply (intro ensures_rules ensures_weaken [OF run_tool_ensures] ensures_weaken [OF Cons.IH])
    subgoal by (simp add: batch_post_def)
    subgoal by (hypsubst, drule (1) batch_post_append) simp
    done
qed

lemma execute_tool_batch_ensures:
  "ensures (execute_tool_batch env l batch response) (batch_post (al_tool_calls_per_work l))"
  unfolding execute_tool_batch_def
  apply (intro ensures_rules ensures_weaken [OF load_owned_ensures] ensures_weaken [OF run_tools_ensures]
      ensures_weaken [OF ending_ensures [OF fail_snapshot_ensures]]
      ensures_weaken [OF ending_ensures [OF fail_owned_ensures]])
  subgoal by (auto intro: failure_post_batch)
  subgoal by (simp add: batch_post_def)
  subgoal by (auto simp: batch_post_def failure_post_def isolated_def intro!: exit_sound_Cons failure_post_sound)
  subgoal by (auto simp: batch_post_def failure_post_def isolated_def intro!: exit_sound_Cons failure_post_sound)
  subgoal by (auto simp: batch_post_def intro!: exit_sound_Cons split: sum.splits)
  done

section \<open>One step\<close>

fun outcome_terminal :: "DurableModelOutcome \<Rightarrow> bool" where
  "outcome_terminal (OutcomeCompleted _ attempt) \<longleftrightarrow> work_is_terminal (wl_state (da_work attempt))"
| "outcome_terminal (OutcomeInterrupted _ _) \<longleftrightarrow> True"
| "outcome_terminal (CancelledBeforeAttempt work) \<longleftrightarrow> work_is_terminal (wl_state work)"
| "outcome_terminal _ \<longleftrightarrow> False"

fun completion_stop :: "WorkCompletionReason \<Rightarrow> ModelStopReason" where
  "completion_stop WorkCompletionReason.Answered = ModelStopReason.Completed"
| "completion_stop WorkCompletionReason.Refused = ModelStopReason.Refusal"

definition settle_post ::
  "agent_env \<Rightarrow> AgentLoopLimits \<Rightarrow> WorkItem \<Rightarrow> DurableModelOutcome \<Rightarrow> WorkRunnerExit + 'a \<Rightarrow> AgentCall list \<Rightarrow> bool" where
  "settle_post env l work_item outcome x calls \<longleftrightarrow>
     invocations calls = [] \<and> length (tool_runs calls) \<le> al_tool_calls_per_work l \<and>
     (case x of
        Inl exit \<Rightarrow> exit_sound exit calls \<or> terminal_writes calls = [] \<and>
          (exit = TerminalCommitted \<and> outcome_terminal outcome \<or>
           exit = CancellationConfirmed \<and> (\<exists>work. outcome = CancelledBeforeAttempt work))
      | Inr _ \<Rightarrow> terminal_writes calls = []) \<and>
     (\<forall>r \<in> set (answers calls). \<exists>response attempt reason.
        outcome = OutcomeCompleted response attempt \<and> rs_stop_reason response = completion_stop reason \<and>
        answers_with env work_item response attempt reason r calls)"

lemma failure_post_settle: "failure_post exit calls \<Longrightarrow> settle_post env l work_item outcome (Inl exit) calls"
  using failure_post_sound by (auto simp: settle_post_def failure_post_def isolated_def)

lemma batch_post_settle:
  "batch_post (al_tool_calls_per_work l) x calls \<Longrightarrow> settle_post env l work_item outcome x calls"
  by (auto simp: settle_post_def batch_post_def split: sum.splits)

lemma completion_post_settle:
  "completion_post env work_item response attempt reason exit calls \<Longrightarrow>
     rs_stop_reason response = completion_stop reason \<Longrightarrow>
     settle_post env l work_item (OutcomeCompleted response attempt) (Inl exit) calls"
  by (auto simp: settle_post_def completion_post_def)

lemma settle_post_abandon:
  "settle_post env l work_item outcome x calls \<Longrightarrow>
     settle_post env l work_item outcome x (AgentAbandon attempt_id cause # calls)"
  by (auto simp: settle_post_def intro: exit_sound_Cons answers_with_mono split: sum.splits)
     (meson answers_with_mono set_subset_Cons)+

lemma settle_response_ensures:
  "ensures (settle_response env l batch response)
     (settle_post env l (tb_work_item batch) (OutcomeCompleted response (tb_attempt batch)))"
proof (cases "work_is_terminal (wl_state (da_work (tb_attempt batch)))")
  case True
  then show ?thesis by (simp add: settle_response_def ensures_return settle_post_def)
next
  case False
  note weaken = ensures_weaken [OF ending_ensures [OF fail_snapshot_ensures]]
    ensures_weaken [OF ending_ensures [OF commit_completion_ensures]]
    ensures_weaken [OF execute_tool_batch_ensures]
  show ?thesis
    using False unfolding settle_response_def Let_def
    by (cases "rs_stop_reason response")
       (auto intro!: ensures_bind ensures_tell weaken settle_post_abandon
          intro: failure_post_settle batch_post_settle completion_post_settle)
qed

lemma settle_outcome_ensures:
  "ensures (settle_outcome env l work_item runtime_id work_deadline agent_step outcome)
     (settle_post env l work_item outcome)"
proof (cases outcome)
  case (OutcomeCompleted response attempt)
  let ?batch = "\<lparr>tb_work_item = work_item, tb_attempt = attempt, tb_agent_step = agent_step,
    tb_runtime_id = runtime_id, tb_work_deadline = work_deadline\<rparr>"
  show ?thesis
    using settle_response_ensures [of env l ?batch response] by (simp add: OutcomeCompleted settle_outcome_def)
qed (auto simp: settle_outcome_def intro!: ensures_return
       ensures_weaken [OF ending_ensures [OF fail_snapshot_ensures]] intro: failure_post_settle,
     simp_all add: settle_post_def)

definition admitted_post ::
  "AgentLoopLimits \<Rightarrow> AgentStepNo \<Rightarrow> WorkRunnerExit + OwnedWorkState \<Rightarrow> AgentCall list \<Rightarrow> bool" where
  "admitted_post l agent_step x calls \<longleftrightarrow>
     isolated calls \<and>
     (case x of
        Inl exit \<Rightarrow> exit_sound exit calls
      | Inr owned \<Rightarrow> terminal_writes calls = [] \<and> wl_state (ow_lifecycle owned) = WorkState.Running \<and>
          pi_get agent_step \<le> int (al_model_steps_per_work l) \<and>
          ow_model_attempt_count owned < al_provider_attempts_per_work l)"

lemma admit_step_ensures:
  "ensures (admit_step env l work_item runtime_id work_deadline agent_step) (admitted_post l agent_step)"
  unfolding admit_step_def Let_def
  by (intro ensures_rules ensures_weaken [OF load_owned_ensures]
        ensures_weaken [OF ending_ensures [OF fail_owned_ensures]])
     (auto simp: admitted_post_def failure_post_def exit_sound_def cancellation_seen_def)

lemma prepare_invocation_ensures:
  "ensures (prepare_invocation env owned work_deadline agent_step) (\<lambda>x calls.
     isolated calls \<and>
     (case x of
        Inl exit \<Rightarrow> exit_sound exit calls
      | Inr invocation \<Rightarrow> terminal_writes calls = [] \<and> gi_work invocation = ow_lifecycle owned \<and>
          gi_work_attempts_before_invocation invocation = ow_model_attempt_count owned))"
  unfolding prepare_invocation_def
  by (intro ensures_rules ensures_weaken [OF ending_ensures [OF fail_owned_ensures]])
     (auto simp: failure_post_def exit_sound_def)

text \<open>A recorded invocation is a run of the gateway in some environment.\<close>

definition genuine :: "agent_env \<Rightarrow> GatewayInvocation \<times> gateway_run \<Rightarrow> bool" where
  "genuine env run \<longleftrightarrow>
     (\<exists>gateway. invoke_post gateway (ae_gateway_limits env) (fst run) (invoke_start (fst run))
        (fst (snd run)) (snd (snd run)))"

lemma invoke_gateway_ensures:
  "ensures (invoke_gateway env invocation)
     (\<lambda>run calls. calls = [GatewayInvoked invocation run] \<and> genuine env (invocation, run))"
  unfolding ensures_def
proof
  fix h
  obtain result calls where run: "run_state (invoke (ae_gateway env h) (ae_gateway_limits env) invocation) [] =
      (result, calls)"
    by fastforce
  have "genuine env (invocation, result, calls)"
    using ensures_run [OF invoke_ensures run] by (auto simp: genuine_def)
  with run show "\<exists>run calls. run_state (invoke_gateway env invocation) h = (run, h @ calls) \<and>
      calls = [GatewayInvoked invocation run] \<and> genuine env (invocation, run)"
    by (simp add: invoke_gateway_def ask_def Let_def)
qed

lemma genuine_terminal:
  assumes "genuine env (invocation, Inr outcome, calls)" and "outcome_terminal outcome"
    and "wl_state (gi_work invocation) = WorkState.Running"
  shows "accepted (finishes calls) \<noteq> [] \<and>
    work_is_terminal (wl_state (fr_work_next (last (accepted (finishes calls)))))"
  using assms
  by (cases outcome) (auto simp: genuine_def invoke_post_def Let_def settled_by_def split: if_splits)

definition answered :: "agent_env \<Rightarrow> WorkItem \<Rightarrow> AgentCall list \<Rightarrow> bool" where
  "answered env work_item calls \<longleftrightarrow>
     (\<forall>r \<in> set (answers calls). \<exists>invocation response attempt gateway_calls reason.
        invocations calls \<noteq> [] \<and>
        last (invocations calls) = (invocation, Inr (OutcomeCompleted response attempt), gateway_calls) \<and>
        rs_stop_reason response = completion_stop reason \<and>
        answers_with env work_item response attempt reason r calls)"

lemma no_write_no_answer: "terminal_writes calls = [] \<Longrightarrow> answers calls = []"
proof (induction calls)
  case (Cons call calls)
  then show ?case by (cases call) simp_all
qed simp

lemma answered_append:
  assumes "terminal_writes calls = []" and "answered env work_item calls'"
  shows "answered env work_item (calls @ calls')"
  unfolding answered_def
proof
  fix r assume "r \<in> set (answers (calls @ calls'))"
  with assms obtain invocation response attempt gateway_calls reason where "invocations calls' \<noteq> []"
      "last (invocations calls') = (invocation, Inr (OutcomeCompleted response attempt), gateway_calls)"
      "rs_stop_reason response = completion_stop reason"
      and answer: "answers_with env work_item response attempt reason r calls'"
    by (auto simp: answered_def no_write_no_answer)
  moreover have "answers_with env work_item response attempt reason r (calls @ calls')"
    by (rule answers_with_mono [OF answer]) simp
  ultimately show "\<exists>invocation response attempt gateway_calls reason. invocations (calls @ calls') \<noteq> [] \<and>
      last (invocations (calls @ calls')) = (invocation, Inr (OutcomeCompleted response attempt), gateway_calls) \<and>
      rs_stop_reason response = completion_stop reason \<and>
      answers_with env work_item response attempt reason r (calls @ calls')"
    by (metis append_is_Nil_conv last_append observed_simps(3))
qed

definition bounded_run :: "agent_env \<Rightarrow> AgentLoopLimits \<Rightarrow> nat \<Rightarrow> AgentCall list \<Rightarrow> bool" where
  "bounded_run env l budget calls \<longleftrightarrow>
     length (invocations calls) \<le> budget \<and> length (tool_runs calls) \<le> budget * al_tool_calls_per_work l \<and>
     (\<forall>run \<in> set (invocations calls). genuine env run \<and>
        gi_work_attempts_before_invocation (fst run) < al_provider_attempts_per_work l)"

lemma bounded_run_append:
  "bounded_run env l m calls \<Longrightarrow> bounded_run env l n calls' \<Longrightarrow> bounded_run env l (m + n) (calls @ calls')"
  by (auto simp: bounded_run_def add_mult_distrib)

lemma bounded_run_mono: "bounded_run env l m calls \<Longrightarrow> m \<le> n \<Longrightarrow> bounded_run env l n calls"
  by (auto simp: bounded_run_def intro: le_trans mult_le_mono1)

lemma bounded_run_isolated: "isolated calls \<Longrightarrow> bounded_run env l n calls"
  by (simp add: bounded_run_def isolated_def)

definition agent_step_post ::
  "agent_env \<Rightarrow> AgentLoopLimits \<Rightarrow> WorkItem \<Rightarrow> AgentStepNo \<Rightarrow> WorkRunnerExit + AgentStepNo \<Rightarrow>
     AgentCall list \<Rightarrow> bool" where
  "agent_step_post env l work_item agent_step x calls \<longleftrightarrow>
     answered env work_item calls \<and>
     bounded_run env l (if pi_get agent_step \<le> int (al_model_steps_per_work l) then 1 else 0) calls \<and>
     (case x of Inl exit \<Rightarrow> exit_sound exit calls | Inr _ \<Rightarrow> terminal_writes calls = [])"

lemma isolated_iteration:
  "isolated calls \<Longrightarrow> exit_sound exit calls \<Longrightarrow> agent_step_post env l work_item agent_step (Inl exit) calls"
  by (simp add: agent_step_post_def bounded_run_isolated answered_def isolated_def)

lemma cancelled_seen: "cancellation_seen (GatewayInvoked i (Inr (CancelledBeforeAttempt w), g) # calls)"
  unfolding cancellation_seen_def by (rule disjI2, rule disjI2, intro exI, rule list.set_intros)

lemma settled_exit:
  assumes "genuine env (invocation, Inr outcome, gateway_calls)"
    and "wl_state (gi_work invocation) = WorkState.Running"
    and "settle_post env l work_item outcome (Inl exit) calls"
  shows "exit_sound exit (GatewayInvoked invocation (Inr outcome, gateway_calls) # calls)"
proof (cases "exit_sound exit calls")
  case True
  then show ?thesis by (simp add: exit_sound_Cons)
next
  case False
  with assms(3) have "invocations calls = []" "terminal_writes calls = []"
      "exit = TerminalCommitted \<and> outcome_terminal outcome \<or>
       exit = CancellationConfirmed \<and> (\<exists>work. outcome = CancelledBeforeAttempt work)"
    by (auto simp: settle_post_def)
  with genuine_terminal [OF assms(1) _ assms(2)] show ?thesis
    by (auto simp: exit_sound_def ended_by_gateway_def cancelled_seen)
qed

lemma settled_answers:
  assumes "settle_post env l work_item outcome x calls"
  shows "answered env work_item (GatewayInvoked invocation (Inr outcome, gateway_calls) # calls)"
  using assms answers_with_mono [OF _ set_subset_Cons]
  by (fastforce simp: answered_def settle_post_def)

lemma settled_iteration:
  assumes admitted: "isolated before" "terminal_writes before = []" "isolated prepared" "terminal_writes prepared = []"
      "pi_get agent_step \<le> int (al_model_steps_per_work l)"
    and invocation: "gi_work_attempts_before_invocation invocation < al_provider_attempts_per_work l"
      "wl_state (gi_work invocation) = WorkState.Running" "genuine env (invocation, run)" "fst run = Inr outcome"
    and settled: "settle_post env l work_item outcome settled calls"
  shows "agent_step_post env l work_item agent_step
    (and_then settled (\<lambda>_. map_err (\<lambda>_. Abnormal) next))
    (before @ prepared @ GatewayInvoked invocation run # calls)"
proof -
  obtain gateway_calls where run: "run = (Inr outcome, gateway_calls)" using invocation(4) by (cases run) simp
  let ?rest = "GatewayInvoked invocation run # calls" and ?before = "before @ prepared"
  have before: "isolated ?before" "terminal_writes ?before = []" using admitted by simp_all
  have "bounded_run env l 1 ?rest" using invocation settled by (auto simp: bounded_run_def settle_post_def)
  then have "bounded_run env l 1 (?before @ ?rest)"
    using bounded_run_append [of env l 0 ?before 1 ?rest] bounded_run_isolated [OF before(1)] by simp
  moreover have "answered env work_item (?before @ ?rest)"
    unfolding run by (rule answered_append [OF before(2) settled_answers [OF settled]])
  moreover have "exit_sound exit (?before @ ?rest)" if "settled = Inl exit" for exit
    using settled_exit [OF invocation(3) [unfolded run] invocation(2) settled [unfolded that]] before(2)
    by (metis exit_sound_append run)
  moreover have "terminal_writes (?before @ ?rest) = []" if "settled = Inr u" for u
    using settled before(2) that by (simp add: settle_post_def)
  ultimately show ?thesis
    using admitted(5) by (cases settled; cases "next") (auto simp: agent_step_post_def)
qed

lemma agent_iteration_ensures:
  "ensures (agent_iteration env l work_item runtime_id work_deadline agent_step)
     (agent_step_post env l work_item agent_step)"
  unfolding agent_iteration_def
  apply (intro ensures_rules ensures_weaken [OF admit_step_ensures]
      ensures_weaken [OF prepare_invocation_ensures] ensures_weaken [OF invoke_gateway_ensures]
      ensures_weaken [OF settle_outcome_ensures])
  subgoal by (auto simp: admitted_post_def intro: isolated_iteration)
  subgoal by (auto simp: admitted_post_def intro: isolated_iteration exit_sound_append)
  subgoal
    by (auto simp: admitted_post_def agent_step_post_def bounded_run_def isolated_def answered_def)
  subgoal by (auto simp: admitted_post_def intro!: settled_iteration)
  done

definition agent_run_post :: "agent_env \<Rightarrow> AgentLoopLimits \<Rightarrow> WorkItem \<Rightarrow> nat \<Rightarrow> WorkRunnerExit \<Rightarrow> AgentCall list \<Rightarrow> bool" where
  "agent_run_post env l work_item budget exit calls \<longleftrightarrow>
     answered env work_item calls \<and> bounded_run env l budget calls \<and> exit_sound exit calls"

lemma agent_run_post_extends:
  assumes "agent_step_post env l work_item agent_step (Inr next) calls"
    and "agent_run_post env l work_item (nat (int (al_model_steps_per_work l) + 1 - pi_get next)) exit calls'"
    and "pi_get agent_step \<le> int (al_model_steps_per_work l)" "pi_get next = pi_get agent_step + 1"
  shows "agent_run_post env l work_item (nat (int (al_model_steps_per_work l) + 1 - pi_get agent_step)) exit (calls @ calls')"
proof -
  have "nat (int (al_model_steps_per_work l) + 1 - pi_get agent_step) =
      1 + nat (int (al_model_steps_per_work l) + 1 - pi_get next)"
    using assms(3,4) by simp
  with assms show ?thesis
    unfolding agent_run_post_def agent_step_post_def
    by (auto intro: answered_append exit_sound_append dest: bounded_run_append)
qed

lemma agent_loop_ensures:
  "ensures (agent_loop env l work_item runtime_id work_deadline agent_step)
     (agent_run_post env l work_item (nat (int (al_model_steps_per_work l) + 1 - pi_get agent_step)))"
proof (induction env l work_item runtime_id work_deadline agent_step rule: agent_loop.induct)
  case (1 env l work_item runtime_id work_deadline agent_step)
  show ?case
    unfolding agent_loop.simps [of env l work_item runtime_id work_deadline agent_step]
  proof (rule ensures_bind_run [OF agent_iteration_ensures])
    fix h step calls
    assume run: "run_state (agent_iteration env l work_item runtime_id work_deadline agent_step) h = (step, h @ calls)"
      and post: "agent_step_post env l work_item agent_step step calls"
    show "ensures (case step of Inl exit \<Rightarrow> State_Monad.return exit
        | Inr next \<Rightarrow> agent_loop env l work_item runtime_id work_deadline next)
      (\<lambda>exit calls'. agent_run_post env l work_item (nat (int (al_model_steps_per_work l) + 1 - pi_get agent_step)) exit
         (calls @ calls'))"
    proof (cases step)
      case (Inl exit)
      with post show ?thesis
        by (auto simp: agent_run_post_def agent_step_post_def intro!: ensures_return
            elim!: bounded_run_mono split: if_splits)
    next
      case (Inr "next")
      note progress = agent_iteration_progress [OF run [unfolded Inr]]
      show ?thesis
        using 1 [OF run Inr] agent_run_post_extends [OF post [unfolded Inr]] progress
        by (auto simp: Inr elim!: ensures_weaken)
    qed
  qed
qed

lemma agent_run_post_started:
  assumes "agent_run_post env l work_item budget exit calls"
  shows "agent_run_post env l work_item budget exit (AgentMonotonic now # calls)"
  using assms answered_append [of "[AgentMonotonic now]"]
  by (simp add: agent_run_post_def bounded_run_def exit_sound_Cons)

lemma run_claimed_ensures:
  "ensures (run_claimed env l claimed) (agent_run_post env l (cw_work claimed) (al_model_steps_per_work l))"
  unfolding run_claimed_def
  apply (intro ensures_rules ensures_weaken [OF agent_loop_ensures])
  subgoal by (simp add: agent_run_post_def answered_def bounded_run_def)
  subgoal by (simp add: agent_run_post_def answered_def bounded_run_def)
  subgoal by (simp add: agent_run_post_def answered_def bounded_run_def)
  subgoal by (simp add: agent_run_post_def answered_def bounded_run_def)
  subgoal by (auto simp: pi_try_new_def intro: agent_run_post_started)
  done

lemma run_claimed_post:
  assumes "run_state (run_claimed env l claimed) history = (exit, history')"
  obtains calls where "history' = history @ calls" "answered env (cw_work claimed) calls"
    "bounded_run env l (al_model_steps_per_work l) calls" "exit_sound exit calls"
  using ensures_run [OF run_claimed_ensures assms] by (auto simp: agent_run_post_def)

text \<open>
  The answer is the response of the last invocation: \<open>f\<close> is the finish the gateway committed last, and
  \<open>events\<close> is the provider's stream of the attempt it finished.
\<close>

definition faithful_answer :: "agent_env \<Rightarrow> WorkItem \<Rightarrow> AgentCall list \<Rightarrow> CommitAssistantCompletionRequest \<Rightarrow> bool" where
  "faithful_answer env work_item calls r \<longleftrightarrow>
     (\<exists>invocation response attempt gateway_calls reason f earlier events.
       last (invocations calls) = (invocation, Inr (OutcomeCompleted response attempt), gateway_calls) \<and>
       accepted (finishes gateway_calls) \<noteq> [] \<and> f = last (accepted (finishes gateway_calls)) \<and>
       cr_expected_work r = work_expectation (fr_work_next f) \<and> wl_state (fr_work_next f) = WorkState.Running \<and>
       cr_model_invocation_id r = fr_model_invocation_id f \<and>
       mo_state (fr_outcome f) = ModelInvocationState.Completed \<and>
       received gateway_calls = earlier @ events \<and> output_free earlier \<and>
       validate_model_stream events = Inr ModelStreamState.Completed \<and> last events = StreamCompleted response \<and>
       rs_stop_reason response = completion_stop reason \<and>
       wl_terminal (cr_work_next r) = Some (Completion reason) \<and>
       assistant_content (ae_json_string env) response reason =
         Inr (ms_content (message_input (cr_assistant_message r))) \<and>
       message_provenance (cr_assistant_message r) = ProducedByWork (wi_work_id work_item) \<and>
       planned_for env work_item (message_input (cr_assistant_message r)) (cr_deliveries r) calls)"

lemma answered_settled:
  assumes "answered env work_item calls" and "bounded_run env l n calls" and "r \<in> set (answers calls)"
  shows "faithful_answer env work_item calls r"
proof -
  obtain invocation response attempt gateway_calls reason where
      "last (invocations calls) = (invocation, Inr (OutcomeCompleted response attempt), gateway_calls)"
      "invocations calls \<noteq> []" "rs_stop_reason response = completion_stop reason"
      and answer: "answers_with env work_item response attempt reason r calls"
    using assms(1,3) unfolding answered_def by blast
  moreover from this have "genuine env (invocation, Inr (OutcomeCompleted response attempt), gateway_calls)"
    using assms(2) last_in_set unfolding bounded_run_def by metis
  then obtain earlier events where
      "settled_by (accepted (begins gateway_calls)) (accepted (finishes gateway_calls)) attempt ModelInvocationState.Completed"
      "received gateway_calls = earlier @ events" "output_free earlier"
      "validate_model_stream events = Inr ModelStreamState.Completed" "last events = StreamCompleted response"
    by (auto simp: genuine_def invoke_post_def Let_def)
  ultimately show ?thesis
    unfolding faithful_answer_def settled_by_def answers_with_def Let_def by auto
qed

end
