(* ===== verification/Agent_Guarantees.thy ===== *)
theory Agent_Guarantees
  imports Agent_Steps
begin

text \<open>
  The guarantees of a whole run of the agent loop, and a sample run through the gateway: the provider
  streams a reply, the gateway commits it, and the loop commits the answer.
\<close>

section \<open>A provider that replies\<close>














section \<open>A run that answers\<close>










section \<open>The guarantees\<close>





text \<open>
  A runner returns in every environment, also against a gateway, a store and tools that never fail and a
  model that always asks for more tools: with validated limits it invokes the model at most sixteen times,
  begins at most three provider attempts in each, races at most 512 tool calls, and no invocation takes the
  work item beyond the gateway's limit of attempts per work.
\<close>

theorem agent_run_bounded:
  assumes "agent_limits_validate l = Inr l" and "validate_limits (ae_gateway_limits env) = Inr (ae_gateway_limits env)"
  shows "\<exists>exit calls. run_state (run_claimed env l claimed) history = (exit, history @ calls) \<and>
    length (invocations calls) \<le> MAX_MODEL_STEPS_PER_WORK \<and>
    length (tool_runs calls) \<le> MAX_MODEL_STEPS_PER_WORK * MAX_TOOL_CALLS_PER_WORK \<and>
    (\<forall>(invocation, result, gateway_calls) \<in> set (invocations calls).
       length (accepted (begins gateway_calls)) \<le> MAX_PROVIDER_ATTEMPTS \<and>
       (accepted (begins gateway_calls) \<noteq> [] \<longrightarrow>
          gi_work_attempts_before_invocation invocation + length (accepted (begins gateway_calls))
            \<le> gl_attempts_per_work (ae_gateway_limits env)))"
proof -
  obtain exit calls where run: "run_state (run_claimed env l claimed) history = (exit, history @ calls)"
      and bounded: "bounded_run env l (al_model_steps_per_work l) calls"
    using run_claimed_ensures [of env l claimed] unfolding ensures_def agent_run_post_def by blast
  have limits: "al_model_steps_per_work l \<le> MAX_MODEL_STEPS_PER_WORK" "al_tool_calls_per_work l \<le> MAX_TOOL_CALLS_PER_WORK"
    using assms(1) by (auto simp: agent_limits_validate_def split: if_splits)
  have "length (tool_runs calls) \<le> MAX_MODEL_STEPS_PER_WORK * MAX_TOOL_CALLS_PER_WORK"
    using bounded mult_le_mono [OF limits] unfolding bounded_run_def by linarith
  moreover have "length (accepted (begins g)) \<le> MAX_PROVIDER_ATTEMPTS \<and> (accepted (begins g) \<noteq> [] \<longrightarrow>
      gi_work_attempts_before_invocation i + length (accepted (begins g)) \<le> gl_attempts_per_work (ae_gateway_limits env))"
    if "(i, result, g) \<in> set (invocations calls)" for i result g
    using bounded that limits_cap [OF assms(2)] invoke_post_start [OF _ assms(2)]
    by (fastforce simp: bounded_run_def genuine_def)
  ultimately show ?thesis using run bounded limits unfolding bounded_run_def by fastforce
qed

end
