(* ===== verification/Sse_Decoder.thy ===== *)
theory Sse_Decoder
  imports Model_Provider Model_Selection
begin

text \<open>
  The server-sent-event decoder of adapters/openai/sse.rs: buffering of arbitrary byte chunks, line
  splitting, the four fields, dispatch of events and the three bounds. An operation that fails returns its
  error; the decoder is not used after that.
\<close>

section \<open>UTF-8\<close>

definition byte_in :: "nat \<Rightarrow> nat \<Rightarrow> char \<Rightarrow> bool" where
  "byte_in a b c \<longleftrightarrow> a \<le> of_char c \<and> of_char c \<le> b"

abbreviation continuation_byte :: "char \<Rightarrow> bool" where
  "continuation_byte \<equiv> byte_in 128 191"

fun valid_utf8 :: "string \<Rightarrow> bool" where
  "valid_utf8 [] \<longleftrightarrow> True"
| "valid_utf8 (a # bs) \<longleftrightarrow>
     (if byte_in 0 127 a then valid_utf8 bs
      else if byte_in 194 223 a
      then (case bs of b # cs \<Rightarrow> continuation_byte b \<and> valid_utf8 cs | _ \<Rightarrow> False)
      else if byte_in 224 239 a
      then (case bs of
              b # c # ds \<Rightarrow>
                byte_in (if of_char a = (224 :: nat) then 160 else 128) (if of_char a = (237 :: nat) then 159 else 191) b \<and>
                continuation_byte c \<and> valid_utf8 ds
            | _ \<Rightarrow> False)
      else if byte_in 240 244 a
      then (case bs of
              b # c # d # es \<Rightarrow>
                byte_in (if of_char a = (240 :: nat) then 144 else 128) (if of_char a = (244 :: nat) then 143 else 191) b \<and>
                continuation_byte c \<and> continuation_byte d \<and> valid_utf8 es
            | _ \<Rightarrow> False)
      else False)"

section \<open>The decoder\<close>

definition MAX_STREAM_BYTES :: nat where "MAX_STREAM_BYTES = 8 * 1024 * 1024"
definition MAX_SSE_EVENT_BYTES :: nat where "MAX_SSE_EVENT_BYTES = 512 * 1024"
definition MAX_SSE_EVENTS :: nat where "MAX_SSE_EVENTS = 4096"

record SseEvent =
  sev_event :: "string option"
  sev_data :: string

record SseDecoder =
  sse_buffer :: string
  sse_total_bytes :: nat
  sse_event_name :: "string option"
  sse_data_lines :: "string list"
  sse_event_bytes :: nat
  sse_event_count :: nat
  sse_ready :: "SseEvent list"

definition sse_new :: SseDecoder where
  "sse_new = \<lparr>sse_buffer = [], sse_total_bytes = 0, sse_event_name = None, sse_data_lines = [],
              sse_event_bytes = 0, sse_event_count = 0, sse_ready = []\<rparr>"

definition malformed :: ProviderError where
  "malformed = provider_error_new ProviderErrorKind.MalformedResponse ProviderOutcomeCertainty.ProviderOutcomeUnknown"

definition too_large :: ProviderError where
  "too_large = provider_error_new ProviderErrorKind.OutputTooLarge ProviderOutcomeCertainty.ProviderOutcomeUnknown"

definition usize_checked_add :: "nat \<Rightarrow> nat \<Rightarrow> nat option" where
  "usize_checked_add a b = (if a + b < 2 ^ 64 then Some (a + b) else None)"

definition join_lines :: "string list \<Rightarrow> string" where
  "join_lines ls = (case ls of [] \<Rightarrow> [] | l # ls \<Rightarrow> l @ concat (map (\<lambda>l. CHR 0x0A # l) ls))"

definition dispatch :: "SseDecoder \<Rightarrow> ProviderError + SseDecoder" where
  "dispatch d =
     (if sse_data_lines d = [] then Inl malformed
      else and_then (ok_or (usize_checked_add (sse_event_count d) 1) too_large) (\<lambda>count.
        if count > MAX_SSE_EVENTS then Inl too_large
        else Inr (d\<lparr>sse_event_count := count,
                    sse_ready := sse_ready d @ [\<lparr>sev_event = sse_event_name d, sev_data = join_lines (sse_data_lines d)\<rparr>],
                    sse_event_name := None, sse_data_lines := [], sse_event_bytes := 0\<rparr>)))"

definition pending_event :: "SseDecoder \<Rightarrow> bool" where
  "pending_event d \<longleftrightarrow> sse_event_name d \<noteq> None \<or> sse_data_lines d \<noteq> []"

definition split_field :: "string \<Rightarrow> string \<times> string" where
  "split_field line =
     (if CHR '':'' \<in> set line
      then let field = takeWhile (\<lambda>c. c \<noteq> CHR '':'') line;
               value = tl (dropWhile (\<lambda>c. c \<noteq> CHR '':'') line) in
        (field, case value of c # cs \<Rightarrow> if c = CHR '' '' then cs else value | [] \<Rightarrow> value)
      else (line, []))"

text \<open>One line without its terminator.\<close>

definition consume_line :: "SseDecoder \<Rightarrow> string \<Rightarrow> ProviderError + SseDecoder" where
  "consume_line d line =
     (if \<not> valid_utf8 line then Inl malformed
      else if line = [] then if pending_event d then dispatch d else Inr d
      else if hd line = CHR '':'' then Inr d
      else and_then (ok_or (usize_checked_add (sse_event_bytes d) (length line)) too_large) (\<lambda>bytes.
        if bytes > MAX_SSE_EVENT_BYTES then Inl too_large
        else
          let d = d\<lparr>sse_event_bytes := bytes\<rparr>;
              (field, value) = split_field line in
          if field = ''event''
          then if value = [] \<or> sse_event_name d \<noteq> None then Inl malformed
               else Inr (d\<lparr>sse_event_name := Some value\<rparr>)
          else if field = ''data'' then Inr (d\<lparr>sse_data_lines := sse_data_lines d @ [value]\<rparr>)
          else if field = ''id'' then if CHR 0x00 \<in> set value then Inl malformed else Inr d
          else if field = ''retry'' then if parse_u64 value = None then Inl malformed else Inr d
          else Inl malformed))"

definition chomp :: "string \<Rightarrow> string" where
  "chomp line =
     (let line = (if line \<noteq> [] \<and> last line = CHR 0x0A then butlast line else line) in
      if line \<noteq> [] \<and> last line = CHR 0x0D then butlast line else line)"

definition line_length :: "bool \<Rightarrow> string \<Rightarrow> nat option" where
  "line_length eof buffer =
     (let index = length (takeWhile (\<lambda>c. c \<noteq> CHR 0x0A) buffer) in
      if index < length buffer then Some (index + 1)
      else if eof \<and> buffer \<noteq> [] then Some (length buffer)
      else None)"

lemma consume_line_buffer:
  "consume_line d line = Inr d' \<Longrightarrow> sse_buffer d' = sse_buffer d \<and> sse_total_bytes d' = sse_total_bytes d"
  by (auto simp: consume_line_def dispatch_def and_then_Inr_iff ok_or_def usize_checked_add_def Let_def
      split: if_splits prod.splits option.splits)

function consume_lines :: "bool \<Rightarrow> SseDecoder \<Rightarrow> ProviderError + SseDecoder" where
  "consume_lines eof d =
     (case line_length eof (sse_buffer d) of
        None \<Rightarrow> Inr d
      | Some n \<Rightarrow>
          (case consume_line (d\<lparr>sse_buffer := drop n (sse_buffer d)\<rparr>) (chomp (take n (sse_buffer d))) of
             Inl e \<Rightarrow> Inl e
           | Inr d' \<Rightarrow> consume_lines eof d'))"
  by pat_completeness auto

termination
  by (relation "measure (\<lambda>(_, d). length (sse_buffer d))")
     (auto dest!: consume_line_buffer simp: line_length_def Let_def split: if_splits)

declare consume_lines.simps [simp del]

definition push :: "SseDecoder \<Rightarrow> string \<Rightarrow> ProviderError + SseDecoder" where
  "push d bytes =
     and_then (ok_or (usize_checked_add (sse_total_bytes d) (length bytes)) too_large) (\<lambda>total.
     if total > MAX_STREAM_BYTES then Inl too_large
     else
       and_then (consume_lines False (d\<lparr>sse_total_bytes := total, sse_buffer := sse_buffer d @ bytes\<rparr>)) (\<lambda>d.
       if length (sse_buffer d) > MAX_SSE_EVENT_BYTES then Inl too_large else Inr d))"

definition sse_finish :: "SseDecoder \<Rightarrow> ProviderError + SseDecoder" where
  "sse_finish d =
     and_then (consume_lines True d) (\<lambda>d. if pending_event d then dispatch d else Inr d)"

definition pop_event :: "SseDecoder \<Rightarrow> SseEvent option \<times> SseDecoder" where
  "pop_event d =
     (case sse_ready d of [] \<Rightarrow> (None, d) | e # es \<Rightarrow> (Some e, d\<lparr>sse_ready := es\<rparr>))"

section \<open>Lines of a chunked stream\<close>

fun split_lines :: "string \<Rightarrow> string list \<times> string" where
  "split_lines [] = ([], [])"
| "split_lines (c # cs) =
     (let (ls, rest) = split_lines cs in
      if c = CHR 0x0A then ([] # ls, rest)
      else case ls of [] \<Rightarrow> ([], c # rest) | l # ls \<Rightarrow> ((c # l) # ls, rest))"

lemma split_lines_no_newline: "CHR 0x0A \<notin> set xs \<Longrightarrow> split_lines xs = ([], xs)"
  by (induction xs) auto

lemma split_lines_append:
  "split_lines (xs @ ys) =
     (let (ls, rest) = split_lines xs; (ls', rest') = split_lines (rest @ ys) in (ls @ ls', rest'))"
  by (induction xs) (auto simp: Let_def split: prod.splits list.splits)

lemma split_lines_first:
  "CHR 0x0A \<in> set xs \<Longrightarrow>
     split_lines xs =
       (let (ls, rest) = split_lines (tl (dropWhile (\<lambda>c. c \<noteq> CHR 0x0A) xs)) in
        (takeWhile (\<lambda>c. c \<noteq> CHR 0x0A) xs # ls, rest))"
  by (induction xs) (auto simp: Let_def split: prod.splits)

definition strip_cr :: "string \<Rightarrow> string" where
  "strip_cr line = (if line \<noteq> [] \<and> last line = CHR 0x0D then butlast line else line)"

text \<open>Parsing neither reads nor changes the buffer and the byte total.\<close>

lemma consume_line_frame:
  "consume_line (d\<lparr>sse_buffer := b\<rparr>) line = map_ok (\<lambda>d. d\<lparr>sse_buffer := b\<rparr>) (consume_line d line)"
  "consume_line (d\<lparr>sse_total_bytes := n\<rparr>) line = map_ok (\<lambda>d. d\<lparr>sse_total_bytes := n\<rparr>) (consume_line d line)"
  by (auto simp: consume_line_def dispatch_def pending_event_def and_then_def map_ok_def ok_or_def Let_def
      split: if_splits prod.splits option.splits sum.splits)

abbreviation consume_all :: "SseDecoder \<Rightarrow> string list \<Rightarrow> ProviderError + SseDecoder" where
  "consume_all \<equiv> fold_result (\<lambda>d line. consume_line d (strip_cr line))"

lemma consume_all_frame:
  "consume_all (d\<lparr>sse_buffer := b\<rparr>) ls = map_ok (\<lambda>d. d\<lparr>sse_buffer := b\<rparr>) (consume_all d ls)"
  "consume_all (d\<lparr>sse_total_bytes := n\<rparr>) ls = map_ok (\<lambda>d. d\<lparr>sse_total_bytes := n\<rparr>) (consume_all d ls)"
  by (induction ls arbitrary: d; simp add: consume_line_frame and_then_def map_ok_def split: sum.splits)+

lemma newline_split:
  "CHR 0x0A \<notin> set us \<Longrightarrow> takeWhile (\<lambda>c. c \<noteq> CHR 0x0A) (us @ CHR 0x0A # vs) = us"
  "CHR 0x0A \<notin> set us \<Longrightarrow> dropWhile (\<lambda>c. c \<noteq> CHR 0x0A) (us @ CHR 0x0A # vs) = CHR 0x0A # vs"
  by (induction us) auto

lemma first_line:
  assumes "CHR 0x0A \<in> set xs"
  shows "line_length eof xs = Some (length (takeWhile (\<lambda>c. c \<noteq> CHR 0x0A) xs) + 1)"
    and "chomp (take (length (takeWhile (\<lambda>c. c \<noteq> CHR 0x0A) xs) + 1) xs) = strip_cr (takeWhile (\<lambda>c. c \<noteq> CHR 0x0A) xs)"
    and "drop (length (takeWhile (\<lambda>c. c \<noteq> CHR 0x0A) xs) + 1) xs = tl (dropWhile (\<lambda>c. c \<noteq> CHR 0x0A) xs)"
proof -
  obtain us vs where xs: "xs = us @ CHR 0x0A # vs" and us: "CHR 0x0A \<notin> set us"
    using split_list_first [OF assms] by blast
  have tw: "takeWhile (\<lambda>c. c \<noteq> CHR 0x0A) xs = us" "dropWhile (\<lambda>c. c \<noteq> CHR 0x0A) xs = CHR 0x0A # vs"
    using newline_split [OF us] unfolding xs by blast+
  show "line_length eof xs = Some (length (takeWhile (\<lambda>c. c \<noteq> CHR 0x0A) xs) + 1)"
    unfolding line_length_def tw by (simp add: xs)
  show "chomp (take (length (takeWhile (\<lambda>c. c \<noteq> CHR 0x0A) xs) + 1) xs) = strip_cr (takeWhile (\<lambda>c. c \<noteq> CHR 0x0A) xs)"
    unfolding tw by (simp add: xs chomp_def strip_cr_def)
  show "drop (length (takeWhile (\<lambda>c. c \<noteq> CHR 0x0A) xs) + 1) xs = tl (dropWhile (\<lambda>c. c \<noteq> CHR 0x0A) xs)"
    unfolding tw by (simp add: xs)
qed

lemma consume_lines_split:
  "consume_lines False d =
     (let (ls, rest) = split_lines (sse_buffer d) in map_ok (\<lambda>d. d\<lparr>sse_buffer := rest\<rparr>) (consume_all d ls))"
proof (induction "length (sse_buffer d)" arbitrary: d rule: less_induct)
  case less
  show ?case
  proof (cases "CHR 0x0A \<in> set (sse_buffer d)")
    case False
    then have all: "takeWhile (\<lambda>c. c \<noteq> CHR 0x0A) (sse_buffer d) = sse_buffer d"
      by (auto simp: takeWhile_eq_all_conv)
    have "line_length False (sse_buffer d) = None" unfolding line_length_def Let_def all by simp
    with False show ?thesis by (simp add: consume_lines.simps [of False d] split_lines_no_newline)
  next
    case True
    let ?rest = "tl (dropWhile (\<lambda>c. c \<noteq> CHR 0x0A) (sse_buffer d))"
    let ?line = "strip_cr (takeWhile (\<lambda>c. c \<noteq> CHR 0x0A) (sse_buffer d))"
    have shorter: "length ?rest < length (sse_buffer d)"
      using True first_line(3) [OF True] by (metis Suc_eq_plus1 diff_less length_drop length_pos_if_in_set zero_less_Suc)
    have step: "consume_lines False d =
        (case consume_line (d\<lparr>sse_buffer := ?rest\<rparr>) ?line of Inl e \<Rightarrow> Inl e | Inr d' \<Rightarrow> consume_lines False d')"
      by (subst consume_lines.simps) (simp only: first_line [OF True] option.case)
    show ?thesis
    proof (cases "consume_line d ?line")
      case (Inl e)
      then show ?thesis
        by (simp add: step consume_line_frame split_lines_first [OF True] Let_def split: prod.splits)
    next
      case (Inr d')
      have "consume_lines False (d'\<lparr>sse_buffer := ?rest\<rparr>) =
          (let (ls, rest) = split_lines ?rest in map_ok (\<lambda>d. d\<lparr>sse_buffer := rest\<rparr>) (consume_all (d'\<lparr>sse_buffer := ?rest\<rparr>) ls))"
        using less [of "d'\<lparr>sse_buffer := ?rest\<rparr>"] shorter by simp
      with Inr show ?thesis
        by (cases "split_lines ?rest")
           (auto simp: step consume_line_frame consume_all_frame split_lines_first [OF True] map_ok_def split: sum.splits)
    qed
  qed
qed

section \<open>Independence from chunk boundaries\<close>

lemma push_iff:
  "push d bytes = Inr d' \<longleftrightarrow>
     sse_total_bytes d + length bytes \<le> MAX_STREAM_BYTES \<and>
     (\<exists>ls rest d1. split_lines (sse_buffer d @ bytes) = (ls, rest) \<and> consume_all d ls = Inr d1 \<and>
        length rest \<le> MAX_SSE_EVENT_BYTES \<and>
        d' = d1\<lparr>sse_total_bytes := sse_total_bytes d + length bytes, sse_buffer := rest\<rparr>)"
proof -
  obtain ls rest where split: "split_lines (sse_buffer d @ bytes) = (ls, rest)" by fastforce
  have run: "consume_lines False (d\<lparr>sse_total_bytes := n, sse_buffer := sse_buffer d @ bytes\<rparr>) =
      map_ok (\<lambda>e. e\<lparr>sse_total_bytes := n, sse_buffer := rest\<rparr>) (consume_all d ls)" for n
    by (cases "consume_all d ls") (simp_all add: consume_lines_split split consume_all_frame)
  show ?thesis
    by (cases "consume_all d ls")
       (auto simp: push_def run split usize_checked_add_def MAX_STREAM_BYTES_def ok_or_def)
qed

lemma push_append:
  assumes "push d xs = Inr d1" and "push d1 ys = Inr d2"
  shows "push d (xs @ ys) = Inr d2"
proof -
  obtain ls rest e where a: "split_lines (sse_buffer d @ xs) = (ls, rest)" "consume_all d ls = Inr e"
    "d1 = e\<lparr>sse_total_bytes := sse_total_bytes d + length xs, sse_buffer := rest\<rparr>"
    using assms(1) unfolding push_iff by blast
  obtain ls' rest' e' where b: "split_lines (rest @ ys) = (ls', rest')" "consume_all d1 ls' = Inr e'"
    "length rest' \<le> MAX_SSE_EVENT_BYTES" "sse_total_bytes d1 + length ys \<le> MAX_STREAM_BYTES"
    "d2 = e'\<lparr>sse_total_bytes := sse_total_bytes d1 + length ys, sse_buffer := rest'\<rparr>"
    using assms(2) a(3) unfolding push_iff by auto
  obtain e'' where e'': "consume_all e ls' = Inr e''"
    "e' = e''\<lparr>sse_total_bytes := sse_total_bytes d + length xs, sse_buffer := rest\<rparr>"
    using b(2) unfolding a(3) consume_all_frame by (auto simp: map_ok_Inr_iff)
  have "split_lines (sse_buffer d @ xs @ ys) = (ls @ ls', rest')"
    using split_lines_append [of "sse_buffer d @ xs" ys] a(1) b(1) by simp
  moreover have "consume_all d (ls @ ls') = Inr e''" by (simp add: fold_result_append a(2) e''(1))
  ultimately show ?thesis
    unfolding push_iff using b(3,4,5) a(3) e''(2) by auto
qed

lemma push_all:
  "fold_result push d chunks = Inr d' \<Longrightarrow> chunks \<noteq> [] \<Longrightarrow> push d (concat chunks) = Inr d'"
proof (induction chunks arbitrary: d)
  case (Cons chunk chunks)
  then obtain d1 where d1: "push d chunk = Inr d1" "fold_result push d1 chunks = Inr d'"
    by (auto simp: and_then_Inr_iff)
  then show ?case
  proof (cases "chunks = []")
    case True
    with d1 show ?thesis by simp
  next
    case False
    with Cons.IH d1 push_append show ?thesis by auto
  qed
qed simp

definition sse_bounded :: "SseDecoder \<Rightarrow> bool" where
  "sse_bounded d \<longleftrightarrow>
     sse_event_bytes d \<le> MAX_SSE_EVENT_BYTES \<and> sse_event_count d = length (sse_ready d) \<and>
     sse_event_count d \<le> MAX_SSE_EVENTS"

lemma consume_line_bounded: "consume_line d line = Inr d' \<Longrightarrow> sse_bounded d \<Longrightarrow> sse_bounded d'"
  by (auto simp: consume_line_def dispatch_def sse_bounded_def and_then_Inr_iff ok_or_def usize_checked_add_def
      Let_def split: if_splits prod.splits option.splits)

lemma push_bounded:
  assumes "push d bytes = Inr d'" and "sse_bounded d"
  shows "sse_bounded d'" "sse_total_bytes d' = sse_total_bytes d + length bytes"
    "sse_total_bytes d' \<le> MAX_STREAM_BYTES" "length (sse_buffer d') \<le> MAX_SSE_EVENT_BYTES"
proof -
  obtain ls rest d1 where d1: "consume_all d ls = Inr d1" "length rest \<le> MAX_SSE_EVENT_BYTES"
    "d' = d1\<lparr>sse_total_bytes := sse_total_bytes d + length bytes, sse_buffer := rest\<rparr>"
    "sse_total_bytes d + length bytes \<le> MAX_STREAM_BYTES"
    using assms(1) unfolding push_iff by blast
  have "sse_bounded d1"
    using fold_result_invariant [where P = sse_bounded, OF consume_line_bounded d1(1) assms(2)] .
  with d1 show "sse_bounded d'" "sse_total_bytes d' = sse_total_bytes d + length bytes"
    "sse_total_bytes d' \<le> MAX_STREAM_BYTES" "length (sse_buffer d') \<le> MAX_SSE_EVENT_BYTES"
    by (simp_all add: sse_bounded_def)
qed

lemma sse_new_bounded: "sse_bounded sse_new"
  by (simp add: sse_bounded_def sse_new_def)

lemma push_nothing: "push sse_new [] = Inr sse_new"
  by (simp add: push_iff sse_new_def MAX_STREAM_BYTES_def MAX_SSE_EVENT_BYTES_def)

text \<open>
  C28. Decoding does not depend on how the network cuts the stream: whenever a sequence of chunks is
  accepted, pushing their concatenation at once is accepted and leaves the same decoder, so the same
  events in the same order. The totals of an accepted stream stay within the three bounds.
\<close>

theorem sse_chunking:
  assumes "fold_result push sse_new chunks = Inr d"
  shows "push sse_new (concat chunks) = Inr d \<and> sse_total_bytes d = length (concat chunks) \<and>
    sse_total_bytes d \<le> MAX_STREAM_BYTES \<and> length (sse_buffer d) \<le> MAX_SSE_EVENT_BYTES \<and>
    length (sse_ready d) \<le> MAX_SSE_EVENTS"
proof -
  have "push sse_new (concat chunks) = Inr d"
    using assms push_all [OF assms] push_nothing by (cases "chunks = []") auto
  with push_bounded [OF this sse_new_bounded] show ?thesis
    by (simp add: sse_bounded_def sse_new_def [THEN arg_cong [of _ _ sse_total_bytes]])
qed

theorem sse_chunking_witness:
  "\<exists>d. push sse_new ([CHR ''d'', CHR ''a'', CHR ''t'', CHR ''a'', CHR '':'', CHR ''x'', CHR 0x0A] @ [CHR 0x0A]) = Inr d \<and>
     sse_ready d = [\<lparr>sev_event = None, sev_data = ''x''\<rparr>]"
proof -
  let ?chunks = "[[CHR ''d'', CHR ''a'', CHR ''t'', CHR ''a'', CHR '':'', CHR ''x'', CHR 0x0A], [CHR 0x0A]]"
  obtain d where d: "fold_result push sse_new ?chunks = Inr d" "sse_ready d = [\<lparr>sev_event = None, sev_data = ''x''\<rparr>]"
    by (simp add: push_def sse_new_def consume_lines_split consume_line_def strip_cr_def byte_in_def split_field_def
        usize_checked_add_def MAX_STREAM_BYTES_def MAX_SSE_EVENT_BYTES_def MAX_SSE_EVENTS_def pending_event_def
        dispatch_def join_lines_def)
  with sse_chunking [OF d(1)] show ?thesis by simp
qed

end
