(* ===== verification/Spec2Isabelle.thy ===== *)
theory Spec2Isabelle
  imports Lifecycle_Control Lifecycle_Recovery Lifecycle_Terminal Runtime_Instance Logical_Path Commands
    Delivery_Guarantees Gateway_Guarantees Gateway_Chain Agent_Guarantees Sse_Decoder
begin

text \<open>
  A verification library for the craxii backend: a Rust server (src/backend/src) that accepts commands over
  HTTP and chat channels, keeps every fact in an SQLite journal with projections, runs one work item at
  a time through a model provider and a workstation, and delivers the answers to the channels.

  \<^bold>\<open>How the parts interact.\<close> The pure domain (domain/) defines values, their validating
  constructors and the lifecycle decisions. The application layer composes them: the scheduler claims a queued work item and
  starts its runner; the runner asks the model gateway for responses; the gateway commits each
  attempt before it calls the provider and commits its outcome after; terminal answers are planned into
  delivery rows; the delivery worker dispatches the rows. Adapters implement the ports: the store over
  SQLite, the provider over HTTP with server-sent events.

  \<^bold>\<open>Shared vocabulary.\<close> \<open>Craxii_Prelude\<close> has results as sums, the question mark as \<open>and_then\<close>, runs of a fallible
  step as \<open>fold_result\<close>, and the locales \<open>guarded_machine\<close>, \<open>invariant_machine\<close>, \<open>ranked_machine\<close>,
  \<open>versioned_machine\<close> and \<open>stable_enum\<close>; the lifecycle theories interpret them on their own decision functions.
  \<open>Call_History\<close> has services that talk to ports: a state monad over the history of calls, an environment
  that answers each call by a function of the history, and the rules of \<open>ensures\<close>, which states what every
  run of a service returns and appends. \<open>committed_counter\<close> (\<open>Scalars\<close>), \<open>prefix_code\<close> (\<open>Canonical_Encoding\<close>) and
  \<open>transactional_store\<close> (\<open>Delivery_Invariant\<close>) are the interfaces of counters, of length-prefixed encodings and
  of a store whose transactions keep an invariant.

  \<^bold>\<open>Theories and sources.\<close>
  \<^item> \<open>Domain_Error\<close> (domain/error.rs), \<open>Scalars\<close> (sequence.rs, ids.rs, parts of entities.rs), \<open>Evidence\<close>
    (evidence.rs): values and validating constructors.
  \<^item> \<open>Lifecycle_Types\<close>, \<open>Lifecycle_Work\<close>, \<open>Lifecycle_Attempts\<close>, \<open>Lifecycle_Control\<close>, \<open>Lifecycle_Recovery\<close>,
    \<open>Lifecycle_Terminal\<close> (domain/lifecycle.rs): every decision function; the lemmas say which requests are
    accepted, that runs stay well-formed and follow the matrix, that stale guards are refused, that
    cancellation wins, how shutdown settles work and how recovery classifies what a former runtime left.
  \<^item> \<open>Runtime_Instance\<close> (domain/runtime.rs), \<open>Logical_Path\<close> (domain/path.rs).
  \<^item> \<open>Canonical_Encoding\<close> (digest.rs, content.rs), \<open>Commands\<close> (command.rs): digests and hashed byte strings, with
    their round trips and injectivity.
  \<^item> \<open>Delivery_Planner\<close> (domain/delivery.rs, application/delivery_planner.rs), \<open>Delivery_Store\<close>, \<open>Delivery_Dispatch\<close>,
    \<open>Delivery_Reconcile\<close> (adapters/sqlite/delivery.rs, parts of stage8.rs and channel_ingress.rs,
    migrations/0007), \<open>Delivery_Invariant\<close>, \<open>Delivery_Machine\<close>, \<open>Delivery_Guarantees\<close>: the delivery tables as lists of
    rows, each transaction a function, the code's own consistency verifier as the specification, and the guarantees
    of every run.
  \<^item> \<open>Model_Json\<close>, \<open>Model_Contract\<close>, \<open>Model_Stream\<close> (domain/model.rs), \<open>Model_Provider\<close> (ports/model_provider.rs,
    ports/clock.rs), \<open>Model_Selection\<close> (application/model_selection.rs): canonical JSON, requests and responses, the
    stream validator with a description of every accepted stream, retry policy and target selection.
  \<^item> \<open>Model_Gateway\<close>, \<open>Gateway_Attempt\<close>, \<open>Gateway_Invoke\<close>, \<open>Gateway_Guarantees\<close>
    (application/model_gateway.rs, requests of ports/state_store.rs): one invocation with its attempts, the event
    loop, the commits and the retries. The lemmas named \<open>_ensures\<close> hold in every environment; the guarantees
    are stated over the projections \<open>begins\<close>, \<open>finishes\<close>, \<open>received\<close> and \<open>exposed\<close> of the history.
    \<open>Gateway_Ledger\<close> and \<open>Gateway_Chain\<close> replay the accepted commits on the lifecycles of the domain.
  \<^item> \<open>Agent_Loop\<close>, \<open>Agent_Steps\<close>, \<open>Agent_Guarantees\<close> (application/agent_loop.rs, \<open>Message::try_new\<close> of entities.rs): the
    runner of a claimed work item, which calls the modelled gateway and delivery planner. The lemmas follow
    each part of a step to what it may write; the guarantees relate the exit and the committed answer to the
    history of calls, in every environment.
  \<^item> \<open>Scheduler\<close> (application/scheduler.rs): the select loop as a step relation, with its invariant.
  \<^item> \<open>Sse_Decoder\<close> (adapters/openai/sse.rs): the decoder and its independence of chunk boundaries.

  This theory holds the property that spans the gateway and the domain lifecycle.

  \<^bold>\<open>Representation.\<close> A struct is a record, an enum a datatype, a byte string or Rust string the list of its
  UTF-8 bytes, a UUID a 128-bit word, an instant its count of microseconds (wall clock) or nanoseconds
  (monotonic clock). Signed 64-bit values are integers with their range checks written out; \<open>u32\<close>, \<open>u64\<close> and
  \<open>usize\<close> values are natural numbers with saturating or checked additions written out. Maps whose order does
  not matter are association lists.

  \<^bold>\<open>Termination.\<close> No definition uses fuel. The event loop ends because the accumulator takes at most
  \<open>MAX_STREAM_EVENTS\<close> events, the retry loop because an attempt number never exceeds \<open>MAX_PROVIDER_ATTEMPTS\<close>,
  the agent loop because its step number is checked against the limit of steps,
  the line loop of the decoder because each line shortens the buffer. The scheduler loop need not end
  and is a relation.

  \<^bold>\<open>Parameters.\<close> The SHA-256 function, the UUID printer, the JSON reader and writer, calendar addition and every
  port are arguments or fields of an environment record. What a property needs of them (an injective printer of 36
  characters, a writer injective on canonical values, identities that do not repeat) is a hypothesis of that property, met by its witness.

  \<^bold>\<open>Not modelled.\<close>
  \<^item> The HTTP, Telegram and OpenAI wire adapters apart from the event decoder, the artifact store, telemetry and the
    workstation processes: input and output through third-party libraries.
  \<^item> The SQLite adapters apart from delivery: statements over tables whose behaviour is that of the
    database; their decisions are the lifecycle functions modelled here.
  \<^item> Context assembly and tool execution: ports of the agent loop, which takes their results and error
    kinds as answers; their decisions on attempts and cancellation are those of the lifecycle theories.
  \<^item> Configuration parsing, credentials, startup and the administration binaries.
  \<^item> Tracing, test failpoints, foreign keys, storage faults inside a transaction and parallel execution
    inside one scan of the scheduler.
\<close>

section \<open>Gateway and lifecycle\<close>

text \<open>
  C38. What the gateway commits is a retry chain of the domain: with validated limits, and an identity generator
  that does not repeat itself within the invocation, replaying the accepted begin, mark and finish calls on
  the domain lifecycles never fails. A begin is the first attempt or a candidate
  \<open>decide_next_model_attempt\<close> accepts against all attempts before it; a mark and a finish meet the newest
  attempt in the state they expect and are transitions \<open>decide_model_transition\<close> allows, a finish with the
  evidence of its own outcome. The lifecycles that result are those of the begun attempts, newest
  first, and form a chain of the domain; every attempt but the newest was finished as failed. After an
  invocation with an outcome, the states of the lifecycles are those the finishes committed.
\<close>

theorem gateway_attempts_refine:
  assumes "validate_limits l = Inr l"
    and "run_state (invoke env l invocation) history = (result, history @ calls)"
    and "distinct (map begin_id (accepted (begins calls)))"
  shows "\<exists>ls. fold_result commit_call [] calls = Inr ls \<and>
     map ml_reference ls = rev (map br_attempt (accepted (begins calls))) \<and>
     (ls \<noteq> [] \<longrightarrow> attempt_chain ls) \<and>
     (\<forall>attempt \<in> set (tl ls). ml_state attempt = ModelInvocationState.Failed) \<and>
     (\<forall>outcome. result = Inr outcome \<longrightarrow>
        map ml_state ls = rev (map (\<lambda>f. mo_state (fr_outcome f)) (accepted (finishes calls))))"
proof -
  have post: "invoke_post env l invocation (invoke_start invocation) result calls"
    using assms(2) by (rule invoke_runs) simp
  obtain p where p: "track None calls = Some p" "(\<forall>e. result \<noteq> Inl e) \<longrightarrow> p = None"
    using ensures_run [OF invoke_ledger assms(2)] by auto
  have "length (accepted (begins calls)) \<le> MAX_PROVIDER_ATTEMPTS"
    using invoke_post_start(1) [OF post assms(1)] limits_cap [OF assms(1)] by simp
  then have len: "int (length (accepted (begins calls))) \<le> i64_max"
    by (simp add: MAX_PROVIDER_ATTEMPTS_def i64_max_def)
  have chain: "attempts_chain env invocation 1 None (gi_work invocation)
      (accepted (begins calls)) (accepted (finishes calls))"
    using post by (simp add: invoke_post_def Let_def)
  obtain ls where ls: "replayed calls ls"
    using replay_calls [of calls "[]"] chain_fits [OF chain _ assms(3) len] p(1) by auto
  then have "result = Inr outcome \<Longrightarrow> settled_part ls = ls" for outcome
    using p by (auto simp: replayed_def settled_part_def)
  with ls settled_failed [OF ls chain] show ?thesis by (auto simp: replayed_def)
qed

theorem gateway_attempts_refine_witness:
  "\<exists>result calls ls. run_state (invoke sample_gateway sample_limits sample_invocation) [] = (result, [] @ calls) \<and>
     fold_result commit_call [] calls = Inr ls \<and> attempt_chain ls \<and>
     map ml_state ls = [ModelInvocationState.Failed, ModelInvocationState.Failed]"
proof -
  obtain b b' calls attempt where run: "run_state (invoke sample_gateway sample_limits sample_invocation) [] =
      (Inr (OutcomeFailed ProviderErrorKind.Authentication False False attempt), [] @ calls)"
    and bs: "accepted (begins calls) = [b, b']" "begin_id b \<noteq> begin_id b'"
    using gateway_sample_run by auto
  obtain ls where ls: "fold_result commit_call [] calls = Inr ls" "attempt_chain ls"
      "map ml_reference ls = [br_attempt b', br_attempt b]"
      "\<forall>attempt \<in> set (tl ls). ml_state attempt = ModelInvocationState.Failed"
      "map ml_state ls = rev (map (\<lambda>f. mo_state (fr_outcome f)) (accepted (finishes calls)))"
    using gateway_attempts_refine [OF sample_limits_valid run] bs by auto
  have "settled_by [b, b'] (accepted (finishes calls)) attempt ModelInvocationState.Failed"
    using ensures_run [OF invoke_ensures run] bs(1) by (auto simp: invoke_post_def Let_def)
  then have "ml_state (hd ls) = ModelInvocationState.Failed"
    using ls(3,5) by (cases ls; cases "accepted (finishes calls)" rule: rev_cases) (auto simp: settled_by_def)
  then have states: "map ml_state ls = [ModelInvocationState.Failed, ModelInvocationState.Failed]"
    using ls(3,4) by (cases ls; cases "tl ls") auto
  show ?thesis by (intro exI conjI) (rule run ls(1) ls(2) states)+
qed

end
